(* ===== verification/Prelude.thy ===== *)
theory Prelude
  imports Main "HOL-Library.Word" "HOL-Library.Multiset"
begin

text \<open>
  Shared vocabulary of the development: the machine integer types, the faults a C++ statement
  can end in, sequencing of fallible steps, byte-level reads and writes of little-endian
  integers (the library runs on Linux-x64), the ordered association list behind std::map and
  the swap-with-last removal both message lists of the program use.
\<close>

section \<open>Machine integers\<close>

type_synonym byte = "8 word"
type_synonym u8 = "8 word"
type_synonym u16 = "16 word"
type_synonym u32 = "32 word"
type_synonym u64 = "64 word"

named_theorems wire_simps \<open>lengths and reads of encoded messages\<close>
named_theorems ops_defs \<open>definitions of the operations that only pass state on\<close>

lemma unat_ucast_up:
  fixes x :: "'a::len word"
  assumes "LENGTH('a) \<le> LENGTH('b::len)"
  shows "unat (ucast x :: 'b word) = unat x"
proof -
  have "unat x < 2 ^ LENGTH('a)" by (rule unsigned_less)
  also have "\<dots> \<le> 2 ^ LENGTH('b)" using assms by simp
  finally show ?thesis by (simp add: unsigned_ucast_eq unsigned_take_bit_eq take_bit_nat_eq_self)
qed

section \<open>Faults and sequencing\<close>

text \<open>
  A statement with undefined behaviour, a failed assertion or a wait that never ends is a value
  of the model. Everything the program does after it is cut off.
\<close>

datatype fault =
    Out_Of_Bounds_Read
  | Buffer_Overflow
  | Use_After_Free
  | Null_Dereference
  | Uninitialised_Call
  | Signed_Overflow
  | Division_By_Zero
  | Assertion_Failed
  | Never_Returns

definition then_do :: "fault + 'a \<Rightarrow> ('a \<Rightarrow> fault + 'b) \<Rightarrow> fault + 'b" where
  "then_do r k = (case r of Inl e \<Rightarrow> Inl e | Inr x \<Rightarrow> k x)"

lemma then_do_Inl [simp]: "then_do (Inl e) k = Inl e"
  by (simp add: then_do_def)

lemma then_do_Inr [simp]: "then_do (Inr x) k = k x"
  by (simp add: then_do_def)

lemma then_do_eq_Inr_iff: "then_do r k = Inr y \<longleftrightarrow> (\<exists>x. r = Inr x \<and> k x = Inr y)"
  by (cases r) auto

lemma then_do_InrE [elim]:
  assumes "then_do r k = Inr y"
  obtains x where "r = Inr x" and "k x = Inr y"
  using assms by (auto simp: then_do_eq_Inr_iff)

lemma then_do_cong [fundef_cong]:
  "r = r' \<Longrightarrow> (\<And>x. r' = Inr x \<Longrightarrow> k x = k' x) \<Longrightarrow> then_do r k = then_do r' k'"
  by (cases r') auto

lemma then_do_assoc: "then_do (then_do r k) l = then_do r (\<lambda>x. then_do (k x) l)"
  by (cases r) auto

text \<open>\<open>ensures Q r\<close>: whenever the step \<open>r\<close> does not fault, its result satisfies \<open>Q\<close>.\<close>

definition ensures :: "('a \<Rightarrow> bool) \<Rightarrow> fault + 'a \<Rightarrow> bool" where
  "ensures Q r \<longleftrightarrow> (case r of Inl e \<Rightarrow> True | Inr x \<Rightarrow> Q x)"

lemma ensures_simps [simp]:
  "ensures Q (Inl e)" "ensures Q (Inr x) \<longleftrightarrow> Q x"
  by (simp_all add: ensures_def)

lemma ensuresD: "ensures Q r \<Longrightarrow> r = Inr x \<Longrightarrow> Q x"
  by (simp add: ensures_def)

lemma ensuresI: "(\<And>x. r = Inr x \<Longrightarrow> Q x) \<Longrightarrow> ensures Q r"
  by (cases r) auto

lemma ensures_then_do:
  "ensures Q r \<Longrightarrow> (\<And>x. r = Inr x \<Longrightarrow> Q x \<Longrightarrow> ensures R (k x)) \<Longrightarrow> ensures R (then_do r k)"
  by (cases r) auto

lemma ensures_mono: "ensures Q r \<Longrightarrow> (\<And>x. Q x \<Longrightarrow> R x) \<Longrightarrow> ensures R r"
  by (cases r) auto

section \<open>Little-endian integers in byte lists\<close>

primrec le_bytes :: "nat \<Rightarrow> nat \<Rightarrow> byte list" where
  "le_bytes 0 n = []"
| "le_bytes (Suc k) n = word_of_nat (n mod 256) # le_bytes k (n div 256)"

primrec le_nat :: "byte list \<Rightarrow> nat" where
  "le_nat [] = 0"
| "le_nat (b # bs) = unat b + 256 * le_nat bs"

lemma length_le_bytes [simp]: "length (le_bytes k n) = k"
  by (induction k arbitrary: n) auto

lemma unat_byte_of_mod: "unat (word_of_nat (n mod 256) :: byte) = n mod 256"
  by (simp add: unat_of_nat)

lemma le_nat_le_bytes: "le_nat (le_bytes k n) = n mod 256 ^ k"
proof (induction k arbitrary: n)
  case 0
  then show ?case by simp
next
  case (Suc k)
  have "n mod 256 ^ Suc k = n mod 256 + 256 * (n div 256 mod 256 ^ k)"
    by (simp add: mod_mult2_eq)
  then show ?case by (simp add: Suc.IH unat_byte_of_mod)
qed

lemma le_nat_bound: "le_nat bs < 256 ^ length bs"
proof (induction bs)
  case Nil
  then show ?case by simp
next
  case (Cons b bs)
  have "unat b < 256" using unsigned_less [where w = b] by simp
  with Cons.IH show ?case by simp
qed

lemma le_bytes_le_nat: "le_bytes (length bs) (le_nat bs) = bs"
proof (induction bs)
  case Nil
  then show ?case by simp
next
  case (Cons b bs)
  have b: "unat b < 256" using unsigned_less [where w = b] by simp
  then have "(unat b + 256 * le_nat bs) mod 256 = unat b"
    and "(unat b + 256 * le_nat bs) div 256 = le_nat bs"
    by simp_all
  with Cons.IH show ?case by simp
qed

text \<open>
  Reading through a pointer into a message: \<open>k\<close> bytes at offset \<open>off\<close> of the memory the
  pointer gives access to. A read past the end of that memory is a fault.
\<close>

definition read_bytes :: "nat \<Rightarrow> nat \<Rightarrow> byte list \<Rightarrow> fault + byte list" where
  "read_bytes off k raw =
     (if off + k \<le> length raw then Inr (take k (drop off raw)) else Inl Out_Of_Bounds_Read)"

definition read_word :: "nat \<Rightarrow> nat \<Rightarrow> byte list \<Rightarrow> fault + 'w::len word" where
  "read_word off k raw = then_do (read_bytes off k raw) (\<lambda>bs. Inr (word_of_nat (le_nat bs)))"

definition read_u8 :: "nat \<Rightarrow> byte list \<Rightarrow> fault + u8" where
  "read_u8 off raw = read_word off 1 raw"

definition read_u32 :: "nat \<Rightarrow> byte list \<Rightarrow> fault + u32" where
  "read_u32 off raw = read_word off 4 raw"

definition read_u64 :: "nat \<Rightarrow> byte list \<Rightarrow> fault + u64" where
  "read_u64 off raw = read_word off 8 raw"

definition put_u8 :: "u8 \<Rightarrow> byte list" where
  "put_u8 x = [x]"

definition put_u32 :: "u32 \<Rightarrow> byte list" where
  "put_u32 x = le_bytes 4 (unat x)"

definition put_u64 :: "u64 \<Rightarrow> byte list" where
  "put_u64 x = le_bytes 8 (unat x)"

lemma length_put [simp]:
  "length (put_u8 x) = 1" "length (put_u32 y) = 4" "length (put_u64 z) = 8"
  by (simp_all add: put_u8_def put_u32_def put_u64_def)

text \<open>
  Reads are pushed through appended fields by length alone: skip the fields before the offset,
  then the field at the head of the rest gives its value.
\<close>

lemma read_bytes_skip:
  "length xs \<le> off \<Longrightarrow> read_bytes off k (xs @ ys) = read_bytes (off - length xs) k ys"
  by (auto simp: read_bytes_def)

lemma read_bytes_SomeD: "read_bytes off k raw = Inr bs \<Longrightarrow> take k (drop off raw) = bs"
  by (simp add: read_bytes_def split: if_splits)

lemma read_bytes_head: "length xs = k \<Longrightarrow> read_bytes 0 k (xs @ ys) = Inr xs"
  by (simp add: read_bytes_def)

lemma read_bytes_whole: "length xs = k \<Longrightarrow> read_bytes 0 k xs = Inr xs"
  by (simp add: read_bytes_def)

lemma read_word_skip:
  "length xs \<le> off \<Longrightarrow> read_word off k (xs @ ys) = read_word (off - length xs) k ys"
  by (simp add: read_word_def read_bytes_skip)

lemma read_skip:
  "length xs \<le> off \<Longrightarrow> read_u8 off (xs @ ys) = read_u8 (off - length xs) ys"
  "length xs \<le> off \<Longrightarrow> read_u32 off (xs @ ys) = read_u32 (off - length xs) ys"
  "length xs \<le> off \<Longrightarrow> read_u64 off (xs @ ys) = read_u64 (off - length xs) ys"
  by (simp_all add: read_u8_def read_u32_def read_u64_def read_word_skip)

lemma read_put_head:
  "read_u8 0 (put_u8 x @ zs) = Inr x"
  "read_u32 0 (put_u32 y @ zs) = Inr y"
  "read_u64 0 (put_u64 z @ zs) = Inr z"
proof -
  have y: "unat y mod 256 ^ 4 = unat y"
    by (rule mod_less) (use unsigned_less [where w = y] in simp)
  have z: "unat z mod 256 ^ 8 = unat z"
    by (rule mod_less) (use unsigned_less [where w = z] in simp)
  show "read_u8 0 (put_u8 x @ zs) = Inr x"
    by (simp add: read_u8_def put_u8_def read_word_def read_bytes_def)
  show "read_u32 0 (put_u32 y @ zs) = Inr y"
    unfolding read_u32_def put_u32_def read_word_def
    by (simp only: read_bytes_head length_le_bytes then_do_Inr le_nat_le_bytes y of_nat_unat ucast_id)
  show "read_u64 0 (put_u64 z @ zs) = Inr z"
    unfolding read_u64_def put_u64_def read_word_def
    by (simp only: read_bytes_head length_le_bytes then_do_Inr le_nat_le_bytes z of_nat_unat ucast_id)
qed

lemma read_put_whole:
  "read_u8 0 (put_u8 x) = Inr x"
  "read_u32 0 (put_u32 y) = Inr y"
  "read_u64 0 (put_u64 z) = Inr z"
  using read_put_head [where zs = "[]"] by simp_all

lemmas read_simps = read_bytes_skip read_bytes_head read_bytes_whole read_skip read_put_head
  read_put_whole

lemma read_out_of_bounds:
  "length raw < off + k \<Longrightarrow> read_bytes off k raw = Inl Out_Of_Bounds_Read"
  "length raw < off + 1 \<Longrightarrow> read_u8 off raw = Inl Out_Of_Bounds_Read"
  "length raw < off + 4 \<Longrightarrow> read_u32 off raw = Inl Out_Of_Bounds_Read"
  "length raw < off + 8 \<Longrightarrow> read_u64 off raw = Inl Out_Of_Bounds_Read"
  by (simp_all add: read_bytes_def read_u8_def read_u32_def read_u64_def read_word_def)

lemma read_in_bounds:
  "off + 1 \<le> length raw \<Longrightarrow> \<exists>x. read_u8 off raw = Inr x"
  "off + 4 \<le> length raw \<Longrightarrow> \<exists>y. read_u32 off raw = Inr y"
  "off + 8 \<le> length raw \<Longrightarrow> \<exists>z. read_u64 off raw = Inr z"
  by (simp_all add: read_bytes_def read_u8_def read_u32_def read_u64_def read_word_def)

section \<open>Text\<close>

text \<open>A std::string is its bytes; \<open>to_string\<close> prints a non-negative integer in decimal.\<close>

definition ascii :: "string \<Rightarrow> byte list" where
  "ascii cs = map of_char cs"

fun to_string :: "nat \<Rightarrow> byte list" where
  "to_string n =
     (if n < 10 then [word_of_nat (48 + n)]
      else to_string (n div 10) @ [word_of_nat (48 + n mod 10)])"

declare to_string.simps [simp del]

end
