(* ===== verification/Message_Definitions.thy ===== *)
theory Message_Definitions
  imports Prelude
begin

text \<open>
  src/src/message_definitions.h: the protocol constants, the message types and sub-types, and the
  packed structs that travel over the socket. A struct is a record with the source's fields, its
  constructor is \<open>new_<Struct>\<close> (arrays the constructor leaves uninitialised are arguments),
  and \<open>encode_<Struct>\<close> is its memory image: fields in order, little-endian, without padding
  (the structs are packed). The lemmas give every image its size, show that each struct's constant
  \<open>totalMessageSize\<close> is that size, and that the fields are read back at the offsets the casts of
  the receiving side use.
\<close>

section \<open>Constants\<close>

definition PROTOCOL_IDENTIFIER :: u32 where
  "PROTOCOL_IDENTIFIER = 0x6e79616e"

definition MESSAGE_DELIMITER :: u32 where
  "MESSAGE_DELIMITER = 0x70617375"

definition MESSAGE_CACHE_SIZE :: nat where
  "MESSAGE_CACHE_SIZE = 1024 * 1024"

definition DEFAULT_MAX_SINGLE_MESSAGE_SIZE :: nat where
  "DEFAULT_MAX_SINGLE_MESSAGE_SIZE = 128 * 1024"

section \<open>Enumerations\<close>

text \<open>
  Each enumeration with the values of its enumerators (\<open>_val\<close>) and the enumerator a received
  byte stands for, if any (\<open>_of\<close>): the cases of the receiving side's switch statements, with
  \<open>None\<close> for their default.
\<close>

datatype types =
    UNDEFINED_TYPE
  | SESSION_TYPE
  | HEARTBEAT_TYPE
  | ERROR_TYPE
  | STREAM_DATA_TYPE
  | SINGLEBLOCK_DATA_TYPE
  | MULTIBLOCK_DATA_TYPE

fun types_val :: "types \<Rightarrow> u8" where
  "types_val UNDEFINED_TYPE = 0"
| "types_val SESSION_TYPE = 1"
| "types_val HEARTBEAT_TYPE = 2"
| "types_val ERROR_TYPE = 3"
| "types_val STREAM_DATA_TYPE = 4"
| "types_val SINGLEBLOCK_DATA_TYPE = 5"
| "types_val MULTIBLOCK_DATA_TYPE = 6"

definition types_of :: "u8 \<Rightarrow> types option" where
  "types_of v =
     (if v = 0 then Some UNDEFINED_TYPE else
      if v = 1 then Some SESSION_TYPE else
      if v = 2 then Some HEARTBEAT_TYPE else
      if v = 3 then Some ERROR_TYPE else
      if v = 4 then Some STREAM_DATA_TYPE else
      if v = 5 then Some SINGLEBLOCK_DATA_TYPE else
      if v = 6 then Some MULTIBLOCK_DATA_TYPE else None)"

lemma types_of_val [simp]: "types_of (types_val t) = Some t"
  by (cases t) (simp_all add: types_of_def)

datatype session_subTypes =
    SESSION_INIT_START_SUBTYPE
  | SESSION_INIT_REPLY_SUBTYPE
  | SESSION_CLOSE_START_SUBTYPE
  | SESSION_CLOSE_REPLY_SUBTYPE

fun session_subTypes_val :: "session_subTypes \<Rightarrow> u8" where
  "session_subTypes_val SESSION_INIT_START_SUBTYPE = 1"
| "session_subTypes_val SESSION_INIT_REPLY_SUBTYPE = 2"
| "session_subTypes_val SESSION_CLOSE_START_SUBTYPE = 3"
| "session_subTypes_val SESSION_CLOSE_REPLY_SUBTYPE = 4"

definition session_subTypes_of :: "u8 \<Rightarrow> session_subTypes option" where
  "session_subTypes_of v =
     (if v = 1 then Some SESSION_INIT_START_SUBTYPE else
      if v = 2 then Some SESSION_INIT_REPLY_SUBTYPE else
      if v = 3 then Some SESSION_CLOSE_START_SUBTYPE else
      if v = 4 then Some SESSION_CLOSE_REPLY_SUBTYPE else None)"

lemma session_subTypes_of_val [simp]: "session_subTypes_of (session_subTypes_val t) = Some t"
  by (cases t) (simp_all add: session_subTypes_of_def)

datatype heartbeat_subTypes =
    HEARTBEAT_START_SUBTYPE
  | HEARTBEAT_REPLY_SUBTYPE

fun heartbeat_subTypes_val :: "heartbeat_subTypes \<Rightarrow> u8" where
  "heartbeat_subTypes_val HEARTBEAT_START_SUBTYPE = 1"
| "heartbeat_subTypes_val HEARTBEAT_REPLY_SUBTYPE = 2"

definition heartbeat_subTypes_of :: "u8 \<Rightarrow> heartbeat_subTypes option" where
  "heartbeat_subTypes_of v =
     (if v = 1 then Some HEARTBEAT_START_SUBTYPE else
      if v = 2 then Some HEARTBEAT_REPLY_SUBTYPE else None)"

lemma heartbeat_subTypes_of_val [simp]: "heartbeat_subTypes_of (heartbeat_subTypes_val t) = Some t"
  by (cases t) (simp_all add: heartbeat_subTypes_of_def)

datatype error_subTypes =
    ERROR_FALSE_VERSION_SUBTYPE
  | ERROR_UNKNOWN_SESSION_SUBTYPE
  | ERROR_INVALID_MESSAGE_SUBTYPE

fun error_subTypes_val :: "error_subTypes \<Rightarrow> u8" where
  "error_subTypes_val ERROR_FALSE_VERSION_SUBTYPE = 1"
| "error_subTypes_val ERROR_UNKNOWN_SESSION_SUBTYPE = 2"
| "error_subTypes_val ERROR_INVALID_MESSAGE_SUBTYPE = 3"

definition error_subTypes_of :: "u8 \<Rightarrow> error_subTypes option" where
  "error_subTypes_of v =
     (if v = 1 then Some ERROR_FALSE_VERSION_SUBTYPE else
      if v = 2 then Some ERROR_UNKNOWN_SESSION_SUBTYPE else
      if v = 3 then Some ERROR_INVALID_MESSAGE_SUBTYPE else None)"

lemma error_subTypes_of_val [simp]: "error_subTypes_of (error_subTypes_val t) = Some t"
  by (cases t) (simp_all add: error_subTypes_of_def)

datatype stream_data_subTypes =
    DATA_STREAM_STATIC_SUBTYPE
  | DATA_STREAM_REPLY_SUBTYPE

fun stream_data_subTypes_val :: "stream_data_subTypes \<Rightarrow> u8" where
  "stream_data_subTypes_val DATA_STREAM_STATIC_SUBTYPE = 1"
| "stream_data_subTypes_val DATA_STREAM_REPLY_SUBTYPE = 2"

definition stream_data_subTypes_of :: "u8 \<Rightarrow> stream_data_subTypes option" where
  "stream_data_subTypes_of v =
     (if v = 1 then Some DATA_STREAM_STATIC_SUBTYPE else
      if v = 2 then Some DATA_STREAM_REPLY_SUBTYPE else None)"

lemma stream_data_subTypes_of_val [simp]: "stream_data_subTypes_of (stream_data_subTypes_val t) = Some t"
  by (cases t) (simp_all add: stream_data_subTypes_of_def)

datatype singleblock_data_subTypes =
    DATA_SINGLE_DATA_SUBTYPE
  | DATA_SINGLE_REPLY_SUBTYPE

fun singleblock_data_subTypes_val :: "singleblock_data_subTypes \<Rightarrow> u8" where
  "singleblock_data_subTypes_val DATA_SINGLE_DATA_SUBTYPE = 1"
| "singleblock_data_subTypes_val DATA_SINGLE_REPLY_SUBTYPE = 2"

definition singleblock_data_subTypes_of :: "u8 \<Rightarrow> singleblock_data_subTypes option" where
  "singleblock_data_subTypes_of v =
     (if v = 1 then Some DATA_SINGLE_DATA_SUBTYPE else
      if v = 2 then Some DATA_SINGLE_REPLY_SUBTYPE else None)"

lemma singleblock_data_subTypes_of_val [simp]: "singleblock_data_subTypes_of (singleblock_data_subTypes_val t) = Some t"
  by (cases t) (simp_all add: singleblock_data_subTypes_of_def)

datatype multiblock_data_subTypes =
    DATA_MULTI_STATIC_SUBTYPE
  | DATA_MULTI_FINISH_SUBTYPE

fun multiblock_data_subTypes_val :: "multiblock_data_subTypes \<Rightarrow> u8" where
  "multiblock_data_subTypes_val DATA_MULTI_STATIC_SUBTYPE = 1"
| "multiblock_data_subTypes_val DATA_MULTI_FINISH_SUBTYPE = 2"

definition multiblock_data_subTypes_of :: "u8 \<Rightarrow> multiblock_data_subTypes option" where
  "multiblock_data_subTypes_of v =
     (if v = 1 then Some DATA_MULTI_STATIC_SUBTYPE else
      if v = 2 then Some DATA_MULTI_FINISH_SUBTYPE else None)"

lemma multiblock_data_subTypes_of_val [simp]: "multiblock_data_subTypes_of (multiblock_data_subTypes_val t) = Some t"
  by (cases t) (simp_all add: multiblock_data_subTypes_of_def)

section \<open>Header and footer\<close>

record CommonMessageHeader =
  protocolIdentifier :: u32
  version :: u8
  mtype :: u8
  subType :: u8
  flags :: u8
  additionalValues :: u64
  sessionId :: u32
  messageId :: u32
  totalMessageSize :: u32
  payloadSize :: u32

definition new_CommonMessageHeader :: CommonMessageHeader where
  "new_CommonMessageHeader =
     \<lparr>protocolIdentifier = PROTOCOL_IDENTIFIER, version = 0x1, mtype = 0, subType = 0, flags = 0,
      additionalValues = 0, sessionId = 0, messageId = 0, totalMessageSize = 0, payloadSize = 0\<rparr>"

definition encode_CommonMessageHeader :: "CommonMessageHeader \<Rightarrow> byte list" where
  "encode_CommonMessageHeader h =
     put_u32 (protocolIdentifier h) @ put_u8 (version h) @ put_u8 (mtype h) @ put_u8 (subType h) @
     put_u8 (flags h) @ put_u64 (additionalValues h) @ put_u32 (sessionId h) @
     put_u32 (messageId h) @ put_u32 (totalMessageSize h) @ put_u32 (payloadSize h)"

definition sizeof_CommonMessageHeader :: nat where
  "sizeof_CommonMessageHeader = 32"

text \<open>The fields of the header as the receiving side reads them through its pointer.\<close>

definition decode_CommonMessageHeader :: "byte list \<Rightarrow> fault + CommonMessageHeader" where
  "decode_CommonMessageHeader raw =
     then_do (read_u32 0 raw) (\<lambda>pid. then_do (read_u8 4 raw) (\<lambda>ver.
     then_do (read_u8 5 raw) (\<lambda>ty. then_do (read_u8 6 raw) (\<lambda>sub.
     then_do (read_u8 7 raw) (\<lambda>fl. then_do (read_u64 8 raw) (\<lambda>add.
     then_do (read_u32 16 raw) (\<lambda>sid. then_do (read_u32 20 raw) (\<lambda>mid.
     then_do (read_u32 24 raw) (\<lambda>tot. then_do (read_u32 28 raw) (\<lambda>pay.
       Inr \<lparr>protocolIdentifier = pid, version = ver, mtype = ty, subType = sub, flags = fl,
            additionalValues = add, sessionId = sid, messageId = mid, totalMessageSize = tot,
            payloadSize = pay\<rparr>))))))))))"

record CommonMessageFooter =
  footer_additionalValues :: u32
  delimiter :: u32

definition new_CommonMessageFooter :: CommonMessageFooter where
  "new_CommonMessageFooter = \<lparr>footer_additionalValues = 0, delimiter = MESSAGE_DELIMITER\<rparr>"

definition encode_CommonMessageFooter :: "CommonMessageFooter \<Rightarrow> byte list" where
  "encode_CommonMessageFooter f = put_u32 (footer_additionalValues f) @ put_u32 (delimiter f)"

definition sizeof_CommonMessageFooter :: nat where
  "sizeof_CommonMessageFooter = 8"

lemma length_encode_header [simp, wire_simps]:
  "length (encode_CommonMessageHeader h) = sizeof_CommonMessageHeader"
  by (simp add: encode_CommonMessageHeader_def sizeof_CommonMessageHeader_def)

lemma length_encode_footer [simp, wire_simps]:
  "length (encode_CommonMessageFooter f) = sizeof_CommonMessageFooter"
  by (simp add: encode_CommonMessageFooter_def sizeof_CommonMessageFooter_def)

lemma decode_encode_header_append:
  "decode_CommonMessageHeader (encode_CommonMessageHeader h @ rest) = Inr h"
  by (simp add: decode_CommonMessageHeader_def encode_CommonMessageHeader_def read_simps)

lemma decode_encode_header:
  "decode_CommonMessageHeader (encode_CommonMessageHeader h) = Inr h"
  using decode_encode_header_append [of h "[]"] by simp

lemma decode_header_total:
  "sizeof_CommonMessageHeader \<le> length raw \<Longrightarrow> \<exists>h. decode_CommonMessageHeader raw = Inr h"
  by (simp add: decode_CommonMessageHeader_def sizeof_CommonMessageHeader_def read_bytes_def
      read_u8_def read_u32_def read_u64_def read_word_def)

section \<open>The messages\<close>

subsection \<open>Session_Init_Start_Message\<close>

record Session_Init_Start_Message =
  sis_commonHeader :: CommonMessageHeader
  sis_clientSessionId :: u32
  sis_sessionIdentifier :: "byte list"
  sis_sessionIdentifierSize :: u32
  sis_commonEnd :: CommonMessageFooter

definition sizeof_Session_Init_Start_Message :: nat where
  "sizeof_Session_Init_Start_Message = sizeof_CommonMessageHeader + 4 + 64000 + 4 + sizeof_CommonMessageFooter"

definition new_Session_Init_Start_Message :: "byte list \<Rightarrow> Session_Init_Start_Message" where
  "new_Session_Init_Start_Message sessionIdentifier_bytes =
     \<lparr>sis_commonHeader = new_CommonMessageHeader
        \<lparr>mtype := types_val SESSION_TYPE,
         subType := session_subTypes_val SESSION_INIT_START_SUBTYPE,
         flags := 1,
         totalMessageSize := word_of_nat sizeof_Session_Init_Start_Message\<rparr>,
      sis_clientSessionId = 0,
      sis_sessionIdentifier = sessionIdentifier_bytes,
      sis_sessionIdentifierSize = 0,
      sis_commonEnd = new_CommonMessageFooter\<rparr>"

definition encode_Session_Init_Start_Message :: "Session_Init_Start_Message \<Rightarrow> byte list" where
  "encode_Session_Init_Start_Message m =
     encode_CommonMessageHeader (sis_commonHeader m) @
     put_u32 (sis_clientSessionId m) @
     sis_sessionIdentifier m @
     put_u32 (sis_sessionIdentifierSize m) @
     encode_CommonMessageFooter (sis_commonEnd m)"

lemma length_encode_Session_Init_Start_Message [wire_simps]:
  "length (sis_sessionIdentifier m) = 64000 \<Longrightarrow> length (encode_Session_Init_Start_Message m) = sizeof_Session_Init_Start_Message"
  by (simp add: encode_Session_Init_Start_Message_def sizeof_Session_Init_Start_Message_def)

lemma sizeof_Session_Init_Start_Message_value: "sizeof_Session_Init_Start_Message = 64048"
  by (simp add: sizeof_Session_Init_Start_Message_def sizeof_CommonMessageHeader_def sizeof_CommonMessageFooter_def)

subsection \<open>Session_Init_Reply_Message\<close>

record Session_Init_Reply_Message =
  sir_commonHeader :: CommonMessageHeader
  sir_clientSessionId :: u32
  sir_completeSessionId :: u32
  sir_sessionIdentifier :: "byte list"
  sir_sessionIdentifierSize :: u32
  sir_padding :: "byte list"
  sir_commonEnd :: CommonMessageFooter

definition sizeof_Session_Init_Reply_Message :: nat where
  "sizeof_Session_Init_Reply_Message = sizeof_CommonMessageHeader + 4 + 4 + 64000 + 4 + 4 + sizeof_CommonMessageFooter"

definition new_Session_Init_Reply_Message :: "byte list \<Rightarrow> byte list \<Rightarrow> Session_Init_Reply_Message" where
  "new_Session_Init_Reply_Message sessionIdentifier_bytes padding_bytes =
     \<lparr>sir_commonHeader = new_CommonMessageHeader
        \<lparr>mtype := types_val SESSION_TYPE,
         subType := session_subTypes_val SESSION_INIT_REPLY_SUBTYPE,
         flags := 2,
         totalMessageSize := word_of_nat sizeof_Session_Init_Reply_Message\<rparr>,
      sir_clientSessionId = 0,
      sir_completeSessionId = 0,
      sir_sessionIdentifier = sessionIdentifier_bytes,
      sir_sessionIdentifierSize = 0,
      sir_padding = padding_bytes,
      sir_commonEnd = new_CommonMessageFooter\<rparr>"

definition encode_Session_Init_Reply_Message :: "Session_Init_Reply_Message \<Rightarrow> byte list" where
  "encode_Session_Init_Reply_Message m =
     encode_CommonMessageHeader (sir_commonHeader m) @
     put_u32 (sir_clientSessionId m) @
     put_u32 (sir_completeSessionId m) @
     sir_sessionIdentifier m @
     put_u32 (sir_sessionIdentifierSize m) @
     sir_padding m @
     encode_CommonMessageFooter (sir_commonEnd m)"

lemma length_encode_Session_Init_Reply_Message [wire_simps]:
  "length (sir_sessionIdentifier m) = 64000 \<Longrightarrow> length (sir_padding m) = 4 \<Longrightarrow> length (encode_Session_Init_Reply_Message m) = sizeof_Session_Init_Reply_Message"
  by (simp add: encode_Session_Init_Reply_Message_def sizeof_Session_Init_Reply_Message_def)

lemma sizeof_Session_Init_Reply_Message_value: "sizeof_Session_Init_Reply_Message = 64056"
  by (simp add: sizeof_Session_Init_Reply_Message_def sizeof_CommonMessageHeader_def sizeof_CommonMessageFooter_def)

subsection \<open>Session_Close_Start_Message\<close>

record Session_Close_Start_Message =
  scs_commonHeader :: CommonMessageHeader
  scs_sessionId :: u32
  scs_padding :: "byte list"
  scs_commonEnd :: CommonMessageFooter

definition sizeof_Session_Close_Start_Message :: nat where
  "sizeof_Session_Close_Start_Message = sizeof_CommonMessageHeader + 4 + 4 + sizeof_CommonMessageFooter"

definition new_Session_Close_Start_Message :: "byte list \<Rightarrow> Session_Close_Start_Message" where
  "new_Session_Close_Start_Message padding_bytes =
     \<lparr>scs_commonHeader = new_CommonMessageHeader
        \<lparr>mtype := types_val SESSION_TYPE,
         subType := session_subTypes_val SESSION_CLOSE_START_SUBTYPE,
         totalMessageSize := word_of_nat sizeof_Session_Close_Start_Message\<rparr>,
      scs_sessionId = 0,
      scs_padding = padding_bytes,
      scs_commonEnd = new_CommonMessageFooter\<rparr>"

definition encode_Session_Close_Start_Message :: "Session_Close_Start_Message \<Rightarrow> byte list" where
  "encode_Session_Close_Start_Message m =
     encode_CommonMessageHeader (scs_commonHeader m) @
     put_u32 (scs_sessionId m) @
     scs_padding m @
     encode_CommonMessageFooter (scs_commonEnd m)"

lemma length_encode_Session_Close_Start_Message [wire_simps]:
  "length (scs_padding m) = 4 \<Longrightarrow> length (encode_Session_Close_Start_Message m) = sizeof_Session_Close_Start_Message"
  by (simp add: encode_Session_Close_Start_Message_def sizeof_Session_Close_Start_Message_def)

lemma sizeof_Session_Close_Start_Message_value: "sizeof_Session_Close_Start_Message = 48"
  by (simp add: sizeof_Session_Close_Start_Message_def sizeof_CommonMessageHeader_def sizeof_CommonMessageFooter_def)

subsection \<open>Session_Close_Reply_Message\<close>

record Session_Close_Reply_Message =
  scr_commonHeader :: CommonMessageHeader
  scr_sessionId :: u32
  scr_padding :: "byte list"
  scr_commonEnd :: CommonMessageFooter

definition sizeof_Session_Close_Reply_Message :: nat where
  "sizeof_Session_Close_Reply_Message = sizeof_CommonMessageHeader + 4 + 4 + sizeof_CommonMessageFooter"

definition new_Session_Close_Reply_Message :: "byte list \<Rightarrow> Session_Close_Reply_Message" where
  "new_Session_Close_Reply_Message padding_bytes =
     \<lparr>scr_commonHeader = new_CommonMessageHeader
        \<lparr>mtype := types_val SESSION_TYPE,
         subType := session_subTypes_val SESSION_CLOSE_REPLY_SUBTYPE,
         flags := 2,
         totalMessageSize := word_of_nat sizeof_Session_Close_Reply_Message\<rparr>,
      scr_sessionId = 0,
      scr_padding = padding_bytes,
      scr_commonEnd = new_CommonMessageFooter\<rparr>"

definition encode_Session_Close_Reply_Message :: "Session_Close_Reply_Message \<Rightarrow> byte list" where
  "encode_Session_Close_Reply_Message m =
     encode_CommonMessageHeader (scr_commonHeader m) @
     put_u32 (scr_sessionId m) @
     scr_padding m @
     encode_CommonMessageFooter (scr_commonEnd m)"

lemma length_encode_Session_Close_Reply_Message [wire_simps]:
  "length (scr_padding m) = 4 \<Longrightarrow> length (encode_Session_Close_Reply_Message m) = sizeof_Session_Close_Reply_Message"
  by (simp add: encode_Session_Close_Reply_Message_def sizeof_Session_Close_Reply_Message_def)

lemma sizeof_Session_Close_Reply_Message_value: "sizeof_Session_Close_Reply_Message = 48"
  by (simp add: sizeof_Session_Close_Reply_Message_def sizeof_CommonMessageHeader_def sizeof_CommonMessageFooter_def)

subsection \<open>Heartbeat_Start_Message\<close>

record Heartbeat_Start_Message =
  hbs_commonHeader :: CommonMessageHeader
  hbs_commonEnd :: CommonMessageFooter

definition sizeof_Heartbeat_Start_Message :: nat where
  "sizeof_Heartbeat_Start_Message = sizeof_CommonMessageHeader + sizeof_CommonMessageFooter"

definition new_Heartbeat_Start_Message :: Heartbeat_Start_Message where
  "new_Heartbeat_Start_Message =
     \<lparr>hbs_commonHeader = new_CommonMessageHeader
        \<lparr>mtype := types_val HEARTBEAT_TYPE,
         subType := heartbeat_subTypes_val HEARTBEAT_START_SUBTYPE,
         flags := 1,
         totalMessageSize := word_of_nat sizeof_Heartbeat_Start_Message\<rparr>,
      hbs_commonEnd = new_CommonMessageFooter\<rparr>"

definition encode_Heartbeat_Start_Message :: "Heartbeat_Start_Message \<Rightarrow> byte list" where
  "encode_Heartbeat_Start_Message m =
     encode_CommonMessageHeader (hbs_commonHeader m) @
     encode_CommonMessageFooter (hbs_commonEnd m)"

lemma length_encode_Heartbeat_Start_Message [wire_simps]:
  "length (encode_Heartbeat_Start_Message m) = sizeof_Heartbeat_Start_Message"
  by (simp add: encode_Heartbeat_Start_Message_def sizeof_Heartbeat_Start_Message_def)

lemma sizeof_Heartbeat_Start_Message_value: "sizeof_Heartbeat_Start_Message = 40"
  by (simp add: sizeof_Heartbeat_Start_Message_def sizeof_CommonMessageHeader_def sizeof_CommonMessageFooter_def)

subsection \<open>Heartbeat_Reply_Message\<close>

record Heartbeat_Reply_Message =
  hbr_commonHeader :: CommonMessageHeader
  hbr_commonEnd :: CommonMessageFooter

definition sizeof_Heartbeat_Reply_Message :: nat where
  "sizeof_Heartbeat_Reply_Message = sizeof_CommonMessageHeader + sizeof_CommonMessageFooter"

definition new_Heartbeat_Reply_Message :: Heartbeat_Reply_Message where
  "new_Heartbeat_Reply_Message =
     \<lparr>hbr_commonHeader = new_CommonMessageHeader
        \<lparr>mtype := types_val HEARTBEAT_TYPE,
         subType := heartbeat_subTypes_val HEARTBEAT_REPLY_SUBTYPE,
         flags := 2,
         totalMessageSize := word_of_nat sizeof_Heartbeat_Reply_Message\<rparr>,
      hbr_commonEnd = new_CommonMessageFooter\<rparr>"

definition encode_Heartbeat_Reply_Message :: "Heartbeat_Reply_Message \<Rightarrow> byte list" where
  "encode_Heartbeat_Reply_Message m =
     encode_CommonMessageHeader (hbr_commonHeader m) @
     encode_CommonMessageFooter (hbr_commonEnd m)"

lemma length_encode_Heartbeat_Reply_Message [wire_simps]:
  "length (encode_Heartbeat_Reply_Message m) = sizeof_Heartbeat_Reply_Message"
  by (simp add: encode_Heartbeat_Reply_Message_def sizeof_Heartbeat_Reply_Message_def)

lemma sizeof_Heartbeat_Reply_Message_value: "sizeof_Heartbeat_Reply_Message = 40"
  by (simp add: sizeof_Heartbeat_Reply_Message_def sizeof_CommonMessageHeader_def sizeof_CommonMessageFooter_def)

subsection \<open>Error_FalseVersion_Message\<close>

record Error_FalseVersion_Message =
  efv_commonHeader :: CommonMessageHeader
  efv_messageSize :: u64
  efv_message :: "byte list"
  efv_commonEnd :: CommonMessageFooter

definition sizeof_Error_FalseVersion_Message :: nat where
  "sizeof_Error_FalseVersion_Message = sizeof_CommonMessageHeader + 8 + 1048576 + sizeof_CommonMessageFooter"

definition new_Error_FalseVersion_Message :: "byte list \<Rightarrow> Error_FalseVersion_Message" where
  "new_Error_FalseVersion_Message message_bytes =
     \<lparr>efv_commonHeader = new_CommonMessageHeader
        \<lparr>mtype := types_val ERROR_TYPE,
         subType := error_subTypes_val ERROR_FALSE_VERSION_SUBTYPE,
         totalMessageSize := word_of_nat sizeof_Error_FalseVersion_Message\<rparr>,
      efv_messageSize = 0,
      efv_message = message_bytes,
      efv_commonEnd = new_CommonMessageFooter\<rparr>"

definition encode_Error_FalseVersion_Message :: "Error_FalseVersion_Message \<Rightarrow> byte list" where
  "encode_Error_FalseVersion_Message m =
     encode_CommonMessageHeader (efv_commonHeader m) @
     put_u64 (efv_messageSize m) @
     efv_message m @
     encode_CommonMessageFooter (efv_commonEnd m)"

lemma length_encode_Error_FalseVersion_Message [wire_simps]:
  "length (efv_message m) = 1048576 \<Longrightarrow> length (encode_Error_FalseVersion_Message m) = sizeof_Error_FalseVersion_Message"
  by (simp add: encode_Error_FalseVersion_Message_def sizeof_Error_FalseVersion_Message_def)

lemma sizeof_Error_FalseVersion_Message_value: "sizeof_Error_FalseVersion_Message = 1048624"
  by (simp add: sizeof_Error_FalseVersion_Message_def sizeof_CommonMessageHeader_def sizeof_CommonMessageFooter_def)

subsection \<open>Error_UnknownSession_Message\<close>

record Error_UnknownSession_Message =
  eus_commonHeader :: CommonMessageHeader
  eus_messageSize :: u64
  eus_message :: "byte list"
  eus_commonEnd :: CommonMessageFooter

definition sizeof_Error_UnknownSession_Message :: nat where
  "sizeof_Error_UnknownSession_Message = sizeof_CommonMessageHeader + 8 + 1048576 + sizeof_CommonMessageFooter"

definition new_Error_UnknownSession_Message :: "byte list \<Rightarrow> Error_UnknownSession_Message" where
  "new_Error_UnknownSession_Message message_bytes =
     \<lparr>eus_commonHeader = new_CommonMessageHeader
        \<lparr>mtype := types_val ERROR_TYPE,
         subType := error_subTypes_val ERROR_UNKNOWN_SESSION_SUBTYPE,
         totalMessageSize := word_of_nat sizeof_Error_UnknownSession_Message\<rparr>,
      eus_messageSize = 0,
      eus_message = message_bytes,
      eus_commonEnd = new_CommonMessageFooter\<rparr>"

definition encode_Error_UnknownSession_Message :: "Error_UnknownSession_Message \<Rightarrow> byte list" where
  "encode_Error_UnknownSession_Message m =
     encode_CommonMessageHeader (eus_commonHeader m) @
     put_u64 (eus_messageSize m) @
     eus_message m @
     encode_CommonMessageFooter (eus_commonEnd m)"

lemma length_encode_Error_UnknownSession_Message [wire_simps]:
  "length (eus_message m) = 1048576 \<Longrightarrow> length (encode_Error_UnknownSession_Message m) = sizeof_Error_UnknownSession_Message"
  by (simp add: encode_Error_UnknownSession_Message_def sizeof_Error_UnknownSession_Message_def)

lemma sizeof_Error_UnknownSession_Message_value: "sizeof_Error_UnknownSession_Message = 1048624"
  by (simp add: sizeof_Error_UnknownSession_Message_def sizeof_CommonMessageHeader_def sizeof_CommonMessageFooter_def)

subsection \<open>Error_InvalidMessage_Message\<close>

record Error_InvalidMessage_Message =
  eim_commonHeader :: CommonMessageHeader
  eim_messageSize :: u64
  eim_message :: "byte list"
  eim_commonEnd :: CommonMessageFooter

definition sizeof_Error_InvalidMessage_Message :: nat where
  "sizeof_Error_InvalidMessage_Message = sizeof_CommonMessageHeader + 8 + 1048576 + sizeof_CommonMessageFooter"

definition new_Error_InvalidMessage_Message :: "byte list \<Rightarrow> Error_InvalidMessage_Message" where
  "new_Error_InvalidMessage_Message message_bytes =
     \<lparr>eim_commonHeader = new_CommonMessageHeader
        \<lparr>mtype := types_val ERROR_TYPE,
         subType := error_subTypes_val ERROR_INVALID_MESSAGE_SUBTYPE,
         totalMessageSize := word_of_nat sizeof_Error_InvalidMessage_Message\<rparr>,
      eim_messageSize = 0,
      eim_message = message_bytes,
      eim_commonEnd = new_CommonMessageFooter\<rparr>"

definition encode_Error_InvalidMessage_Message :: "Error_InvalidMessage_Message \<Rightarrow> byte list" where
  "encode_Error_InvalidMessage_Message m =
     encode_CommonMessageHeader (eim_commonHeader m) @
     put_u64 (eim_messageSize m) @
     eim_message m @
     encode_CommonMessageFooter (eim_commonEnd m)"

lemma length_encode_Error_InvalidMessage_Message [wire_simps]:
  "length (eim_message m) = 1048576 \<Longrightarrow> length (encode_Error_InvalidMessage_Message m) = sizeof_Error_InvalidMessage_Message"
  by (simp add: encode_Error_InvalidMessage_Message_def sizeof_Error_InvalidMessage_Message_def)

lemma sizeof_Error_InvalidMessage_Message_value: "sizeof_Error_InvalidMessage_Message = 1048624"
  by (simp add: sizeof_Error_InvalidMessage_Message_def sizeof_CommonMessageHeader_def sizeof_CommonMessageFooter_def)

subsection \<open>Data_Stream_Header\<close>

record Data_Stream_Header =
  dsh_commonHeader :: CommonMessageHeader

definition sizeof_Data_Stream_Header :: nat where
  "sizeof_Data_Stream_Header = sizeof_CommonMessageHeader"

definition new_Data_Stream_Header :: Data_Stream_Header where
  "new_Data_Stream_Header =
     \<lparr>dsh_commonHeader = new_CommonMessageHeader
        \<lparr>mtype := types_val STREAM_DATA_TYPE,
         subType := stream_data_subTypes_val DATA_STREAM_STATIC_SUBTYPE\<rparr>\<rparr>"

definition encode_Data_Stream_Header :: "Data_Stream_Header \<Rightarrow> byte list" where
  "encode_Data_Stream_Header m =
     encode_CommonMessageHeader (dsh_commonHeader m)"

lemma length_encode_Data_Stream_Header [wire_simps]:
  "length (encode_Data_Stream_Header m) = sizeof_Data_Stream_Header"
  by (simp add: encode_Data_Stream_Header_def sizeof_Data_Stream_Header_def)

lemma sizeof_Data_Stream_Header_value: "sizeof_Data_Stream_Header = 32"
  by (simp add: sizeof_Data_Stream_Header_def sizeof_CommonMessageHeader_def)

subsection \<open>Data_StreamReply_Message\<close>

record Data_StreamReply_Message =
  dsr_commonHeader :: CommonMessageHeader
  dsr_commonEnd :: CommonMessageFooter

definition sizeof_Data_StreamReply_Message :: nat where
  "sizeof_Data_StreamReply_Message = sizeof_CommonMessageHeader + sizeof_CommonMessageFooter"

definition new_Data_StreamReply_Message :: Data_StreamReply_Message where
  "new_Data_StreamReply_Message =
     \<lparr>dsr_commonHeader = new_CommonMessageHeader
        \<lparr>mtype := types_val STREAM_DATA_TYPE,
         subType := stream_data_subTypes_val DATA_STREAM_REPLY_SUBTYPE,
         flags := 2,
         totalMessageSize := word_of_nat sizeof_Data_StreamReply_Message\<rparr>,
      dsr_commonEnd = new_CommonMessageFooter\<rparr>"

definition encode_Data_StreamReply_Message :: "Data_StreamReply_Message \<Rightarrow> byte list" where
  "encode_Data_StreamReply_Message m =
     encode_CommonMessageHeader (dsr_commonHeader m) @
     encode_CommonMessageFooter (dsr_commonEnd m)"

lemma length_encode_Data_StreamReply_Message [wire_simps]:
  "length (encode_Data_StreamReply_Message m) = sizeof_Data_StreamReply_Message"
  by (simp add: encode_Data_StreamReply_Message_def sizeof_Data_StreamReply_Message_def)

lemma sizeof_Data_StreamReply_Message_value: "sizeof_Data_StreamReply_Message = 40"
  by (simp add: sizeof_Data_StreamReply_Message_def sizeof_CommonMessageHeader_def sizeof_CommonMessageFooter_def)

subsection \<open>Data_SingleBlock_Header\<close>

record Data_SingleBlock_Header =
  dbh_commonHeader :: CommonMessageHeader
  dbh_multiblockId :: u64
  dbh_blockerId :: u64
  dbh_padding :: "byte list"

definition sizeof_Data_SingleBlock_Header :: nat where
  "sizeof_Data_SingleBlock_Header = sizeof_CommonMessageHeader + 8 + 8 + 4"

definition new_Data_SingleBlock_Header :: "byte list \<Rightarrow> Data_SingleBlock_Header" where
  "new_Data_SingleBlock_Header padding_bytes =
     \<lparr>dbh_commonHeader = new_CommonMessageHeader
        \<lparr>mtype := types_val SINGLEBLOCK_DATA_TYPE,
         subType := singleblock_data_subTypes_val DATA_SINGLE_DATA_SUBTYPE,
         flags := 1\<rparr>,
      dbh_multiblockId = 0,
      dbh_blockerId = 0,
      dbh_padding = padding_bytes\<rparr>"

definition encode_Data_SingleBlock_Header :: "Data_SingleBlock_Header \<Rightarrow> byte list" where
  "encode_Data_SingleBlock_Header m =
     encode_CommonMessageHeader (dbh_commonHeader m) @
     put_u64 (dbh_multiblockId m) @
     put_u64 (dbh_blockerId m) @
     dbh_padding m"

lemma length_encode_Data_SingleBlock_Header [wire_simps]:
  "length (dbh_padding m) = 4 \<Longrightarrow> length (encode_Data_SingleBlock_Header m) = sizeof_Data_SingleBlock_Header"
  by (simp add: encode_Data_SingleBlock_Header_def sizeof_Data_SingleBlock_Header_def)

lemma sizeof_Data_SingleBlock_Header_value: "sizeof_Data_SingleBlock_Header = 52"
  by (simp add: sizeof_Data_SingleBlock_Header_def sizeof_CommonMessageHeader_def)

subsection \<open>Data_SingleBlockReply_Message\<close>

record Data_SingleBlockReply_Message =
  dbr_commonHeader :: CommonMessageHeader
  dbr_commonEnd :: CommonMessageFooter

definition sizeof_Data_SingleBlockReply_Message :: nat where
  "sizeof_Data_SingleBlockReply_Message = sizeof_CommonMessageHeader + sizeof_CommonMessageFooter"

definition new_Data_SingleBlockReply_Message :: Data_SingleBlockReply_Message where
  "new_Data_SingleBlockReply_Message =
     \<lparr>dbr_commonHeader = new_CommonMessageHeader
        \<lparr>mtype := types_val SINGLEBLOCK_DATA_TYPE,
         subType := singleblock_data_subTypes_val DATA_SINGLE_REPLY_SUBTYPE,
         flags := 2,
         totalMessageSize := word_of_nat sizeof_Data_SingleBlockReply_Message\<rparr>,
      dbr_commonEnd = new_CommonMessageFooter\<rparr>"

definition encode_Data_SingleBlockReply_Message :: "Data_SingleBlockReply_Message \<Rightarrow> byte list" where
  "encode_Data_SingleBlockReply_Message m =
     encode_CommonMessageHeader (dbr_commonHeader m) @
     encode_CommonMessageFooter (dbr_commonEnd m)"

lemma length_encode_Data_SingleBlockReply_Message [wire_simps]:
  "length (encode_Data_SingleBlockReply_Message m) = sizeof_Data_SingleBlockReply_Message"
  by (simp add: encode_Data_SingleBlockReply_Message_def sizeof_Data_SingleBlockReply_Message_def)

lemma sizeof_Data_SingleBlockReply_Message_value: "sizeof_Data_SingleBlockReply_Message = 40"
  by (simp add: sizeof_Data_SingleBlockReply_Message_def sizeof_CommonMessageHeader_def sizeof_CommonMessageFooter_def)

subsection \<open>Data_MultiBlock_Header\<close>

record Data_MultiBlock_Header =
  dmh_commonHeader :: CommonMessageHeader
  dmh_totalSize :: u64
  dmh_multiblockId :: u64
  dmh_totalPartNumber :: u32
  dmh_partId :: u32

definition sizeof_Data_MultiBlock_Header :: nat where
  "sizeof_Data_MultiBlock_Header = sizeof_CommonMessageHeader + 8 + 8 + 4 + 4"

definition new_Data_MultiBlock_Header :: Data_MultiBlock_Header where
  "new_Data_MultiBlock_Header =
     \<lparr>dmh_commonHeader = new_CommonMessageHeader
        \<lparr>mtype := types_val MULTIBLOCK_DATA_TYPE,
         subType := multiblock_data_subTypes_val DATA_MULTI_STATIC_SUBTYPE\<rparr>,
      dmh_totalSize = 0,
      dmh_multiblockId = 0,
      dmh_totalPartNumber = 0,
      dmh_partId = 0\<rparr>"

definition encode_Data_MultiBlock_Header :: "Data_MultiBlock_Header \<Rightarrow> byte list" where
  "encode_Data_MultiBlock_Header m =
     encode_CommonMessageHeader (dmh_commonHeader m) @
     put_u64 (dmh_totalSize m) @
     put_u64 (dmh_multiblockId m) @
     put_u32 (dmh_totalPartNumber m) @
     put_u32 (dmh_partId m)"

lemma length_encode_Data_MultiBlock_Header [wire_simps]:
  "length (encode_Data_MultiBlock_Header m) = sizeof_Data_MultiBlock_Header"
  by (simp add: encode_Data_MultiBlock_Header_def sizeof_Data_MultiBlock_Header_def)

lemma sizeof_Data_MultiBlock_Header_value: "sizeof_Data_MultiBlock_Header = 56"
  by (simp add: sizeof_Data_MultiBlock_Header_def sizeof_CommonMessageHeader_def)

subsection \<open>Data_MultiFinish_Message\<close>

record Data_MultiFinish_Message =
  dmf_commonHeader :: CommonMessageHeader
  dmf_multiblockId :: u64
  dmf_blockerId :: u64
  dmf_commonEnd :: CommonMessageFooter

definition sizeof_Data_MultiFinish_Message :: nat where
  "sizeof_Data_MultiFinish_Message = sizeof_CommonMessageHeader + 8 + 8 + sizeof_CommonMessageFooter"

definition new_Data_MultiFinish_Message :: Data_MultiFinish_Message where
  "new_Data_MultiFinish_Message =
     \<lparr>dmf_commonHeader = new_CommonMessageHeader
        \<lparr>mtype := types_val MULTIBLOCK_DATA_TYPE,
         subType := multiblock_data_subTypes_val DATA_MULTI_FINISH_SUBTYPE,
         totalMessageSize := word_of_nat sizeof_Data_MultiFinish_Message\<rparr>,
      dmf_multiblockId = 0,
      dmf_blockerId = 0,
      dmf_commonEnd = new_CommonMessageFooter\<rparr>"

definition encode_Data_MultiFinish_Message :: "Data_MultiFinish_Message \<Rightarrow> byte list" where
  "encode_Data_MultiFinish_Message m =
     encode_CommonMessageHeader (dmf_commonHeader m) @
     put_u64 (dmf_multiblockId m) @
     put_u64 (dmf_blockerId m) @
     encode_CommonMessageFooter (dmf_commonEnd m)"

lemma length_encode_Data_MultiFinish_Message [wire_simps]:
  "length (encode_Data_MultiFinish_Message m) = sizeof_Data_MultiFinish_Message"
  by (simp add: encode_Data_MultiFinish_Message_def sizeof_Data_MultiFinish_Message_def)

lemma sizeof_Data_MultiFinish_Message_value: "sizeof_Data_MultiFinish_Message = 56"
  by (simp add: sizeof_Data_MultiFinish_Message_def sizeof_CommonMessageHeader_def sizeof_CommonMessageFooter_def)

section \<open>Sizes\<close>

lemmas sizeof_values =
  sizeof_CommonMessageHeader_def sizeof_CommonMessageFooter_def
  sizeof_Session_Init_Start_Message_value
  sizeof_Session_Init_Reply_Message_value
  sizeof_Session_Close_Start_Message_value
  sizeof_Session_Close_Reply_Message_value
  sizeof_Heartbeat_Start_Message_value
  sizeof_Heartbeat_Reply_Message_value
  sizeof_Error_FalseVersion_Message_value
  sizeof_Error_UnknownSession_Message_value
  sizeof_Error_InvalidMessage_Message_value
  sizeof_Data_Stream_Header_value
  sizeof_Data_StreamReply_Message_value
  sizeof_Data_SingleBlock_Header_value
  sizeof_Data_SingleBlockReply_Message_value
  sizeof_Data_MultiBlock_Header_value
  sizeof_Data_MultiFinish_Message_value

lemmas new_message_defs =
  new_Session_Init_Start_Message_def
  new_Session_Init_Reply_Message_def
  new_Session_Close_Start_Message_def
  new_Session_Close_Reply_Message_def
  new_Heartbeat_Start_Message_def
  new_Heartbeat_Reply_Message_def
  new_Error_FalseVersion_Message_def
  new_Error_UnknownSession_Message_def
  new_Error_InvalidMessage_Message_def
  new_Data_Stream_Header_def
  new_Data_StreamReply_Message_def
  new_Data_SingleBlock_Header_def
  new_Data_SingleBlockReply_Message_def
  new_Data_MultiBlock_Header_def
  new_Data_MultiFinish_Message_def

lemmas encode_message_defs =
  encode_Session_Init_Start_Message_def
  encode_Session_Init_Reply_Message_def
  encode_Session_Close_Start_Message_def
  encode_Session_Close_Reply_Message_def
  encode_Heartbeat_Start_Message_def
  encode_Heartbeat_Reply_Message_def
  encode_Error_FalseVersion_Message_def
  encode_Error_UnknownSession_Message_def
  encode_Error_InvalidMessage_Message_def
  encode_Data_Stream_Header_def
  encode_Data_StreamReply_Message_def
  encode_Data_SingleBlock_Header_def
  encode_Data_SingleBlockReply_Message_def
  encode_Data_MultiBlock_Header_def
  encode_Data_MultiFinish_Message_def

lemmas message_constants = PROTOCOL_IDENTIFIER_def MESSAGE_DELIMITER_def


end
