(* ===== verification/Containers.thy ===== *)
theory Containers
  imports Prelude
begin

text \<open>
  The standard containers the program keeps its state in. A std::map is an association list
  ordered by key: iteration goes through it in order and insert leaves an existing entry alone.
  A std::vector is a list; the removal both message lists use swaps the found element with the
  last one and pops. The contracts are locales, so that the components prove their facts from
  the contract alone.
\<close>

section \<open>std::map\<close>

locale dictionary =
  fixes find :: "'k \<Rightarrow> 'm \<Rightarrow> 'v option"
    and put :: "'k \<Rightarrow> 'v \<Rightarrow> 'm \<Rightarrow> 'm"
    and erase :: "'k \<Rightarrow> 'm \<Rightarrow> 'm"
    and change :: "'k \<Rightarrow> ('v \<Rightarrow> 'v) \<Rightarrow> 'm \<Rightarrow> 'm"
    and ok :: "'m \<Rightarrow> bool"
  assumes find_put: "ok m \<Longrightarrow>
      find k' (put k v m) = (if k' = k \<and> find k m = None then Some v else find k' m)"
    and find_erase: "ok m \<Longrightarrow> find k' (erase k m) = (if k' = k then None else find k' m)"
    and find_change: "ok m \<Longrightarrow>
      find k' (change k f m) = (if k' = k then map_option f (find k m) else find k' m)"
    and ok_put: "ok m \<Longrightarrow> ok (put k v m)"
    and ok_erase: "ok m \<Longrightarrow> ok (erase k m)"
    and ok_change: "ok m \<Longrightarrow> ok (change k f m)"
begin

lemma put_new: "ok m \<Longrightarrow> find k m = None \<Longrightarrow> find k (put k v m) = Some v"
  by (simp add: find_put)

lemma put_keeps_old: "ok m \<Longrightarrow> find k m = Some old \<Longrightarrow> find k (put k v m) = Some old"
  by (simp add: find_put)

lemma put_other: "ok m \<Longrightarrow> k' \<noteq> k \<Longrightarrow> find k' (put k v m) = find k' m"
  by (simp add: find_put)

lemma put_present: "ok m \<Longrightarrow> find k (put k v m) \<noteq> None"
  by (cases "find k m") (simp_all add: find_put)

text \<open>Moving an entry to another key, as the client does when the server assigns its id.\<close>

lemma move_entry:
  assumes "ok m" and "find k' m = None \<or> k' = k"
  shows "find k' (put k' v (erase k m)) = Some v"
    and "k' \<noteq> k \<Longrightarrow> find k (put k' v (erase k m)) = None"
    and "k'' \<noteq> k \<Longrightarrow> k'' \<noteq> k' \<Longrightarrow> find k'' (put k' v (erase k m)) = find k'' m"
  using assms by (auto simp: find_put find_erase ok_erase)

text \<open>A series of changes of one entry acts on that entry only, one after the other.\<close>

lemma fold_change:
  "ok m \<Longrightarrow> ok (fold (\<lambda>x. change k (f x)) xs m) \<and>
     find k (fold (\<lambda>x. change k (f x)) xs m) = map_option (fold f xs) (find k m)"
proof (induction xs arbitrary: m)
  case Nil
  then show ?case by (simp add: option.map_ident)
next
  case (Cons x xs)
  have "ok (change k (f x) m)" by (simp add: Cons.prems ok_change)
  with Cons.IH show ?case
    by (simp add: find_change Cons.prems option.map_comp comp_def)
qed

end

definition std_find :: "'k \<Rightarrow> ('k \<times> 'v) list \<Rightarrow> 'v option" where
  "std_find k m = map_of m k"

fun std_insert :: "'k::linorder \<Rightarrow> 'v \<Rightarrow> ('k \<times> 'v) list \<Rightarrow> ('k \<times> 'v) list" where
  "std_insert k v [] = [(k, v)]"
| "std_insert k v ((k', v') # m) =
     (if k < k' then (k, v) # (k', v') # m
      else if k = k' then (k', v') # m
      else (k', v') # std_insert k v m)"

fun std_erase :: "'k \<Rightarrow> ('k \<times> 'v) list \<Rightarrow> ('k \<times> 'v) list" where
  "std_erase k [] = []"
| "std_erase k ((k', v') # m) = (if k' = k then m else (k', v') # std_erase k m)"

fun std_change :: "'k \<Rightarrow> ('v \<Rightarrow> 'v) \<Rightarrow> ('k \<times> 'v) list \<Rightarrow> ('k \<times> 'v) list" where
  "std_change k f [] = []"
| "std_change k f ((k', v') # m) =
     (if k' = k then (k', f v') # m else (k', v') # std_change k f m)"

definition std_ordered :: "('k::linorder \<times> 'v) list \<Rightarrow> bool" where
  "std_ordered m = sorted_wrt (<) (map fst m)"

lemma std_ordered_Nil [simp]: "std_ordered []"
  by (simp add: std_ordered_def)

lemma std_ordered_Cons:
  "std_ordered ((k, v) # m) \<longleftrightarrow> (\<forall>k' \<in> fst ` set m. k < k') \<and> std_ordered m"
  by (auto simp: std_ordered_def)

lemma std_find_simps [simp]:
  "std_find k [] = None"
  "std_find k ((k', v) # m) = (if k' = k then Some v else std_find k m)"
  by (simp_all add: std_find_def)

lemma std_find_None_iff: "std_find k m = None \<longleftrightarrow> k \<notin> fst ` set m"
  by (simp add: std_find_def map_of_eq_None_iff)

lemma keys_std_insert: "fst ` set (std_insert k v m) = insert k (fst ` set m)"
  by (induction k v m rule: std_insert.induct) auto

lemma keys_std_erase: "fst ` set (std_erase k m) \<subseteq> fst ` set m"
  by (induction k m rule: std_erase.induct) auto

lemma keys_std_change: "fst ` set (std_change k f m) = fst ` set m"
  by (induction k f m rule: std_change.induct) auto

lemma std_find_above:
  fixes k :: "'k::linorder"
  shows "\<forall>x \<in> set m. k < fst x \<Longrightarrow> std_find k m = None"
  by (force simp: std_find_None_iff)

lemma std_find_below:
  fixes k :: "'k::linorder"
  shows "\<forall>x \<in> set m. k < fst x \<Longrightarrow> k' < k \<Longrightarrow> std_find k' m = None"
  by (force simp: std_find_None_iff)

lemma std_find_insert:
  "std_ordered m \<Longrightarrow> std_find k' (std_insert k v m) =
     (if k' = k \<and> std_find k m = None then Some v else std_find k' m)"
  by (induction k v m rule: std_insert.induct)
    (auto simp: std_ordered_Cons dest: std_find_below)

lemma std_find_erase:
  "std_ordered m \<Longrightarrow> std_find k' (std_erase k m) = (if k' = k then None else std_find k' m)"
  by (induction k m rule: std_erase.induct) (auto simp: std_ordered_Cons std_find_above)

lemma std_find_change:
  "std_find k' (std_change k f m) =
     (if k' = k then map_option f (std_find k m) else std_find k' m)"
  by (induction k f m rule: std_change.induct) auto

lemma std_ordered_insert: "std_ordered m \<Longrightarrow> std_ordered (std_insert k v m)"
proof (induction k v m rule: std_insert.induct)
  case (1 k v)
  then show ?case by (simp add: std_ordered_Cons)
next
  case (2 k v k' v' m)
  then show ?case
    by (auto simp: std_ordered_Cons keys_std_insert)
qed

lemma std_ordered_erase: "std_ordered m \<Longrightarrow> std_ordered (std_erase k m)"
  by (induction k m rule: std_erase.induct)
    (use keys_std_erase in \<open>fastforce simp: std_ordered_Cons\<close>)+

lemma std_ordered_change: "std_ordered m \<Longrightarrow> std_ordered (std_change k f m)"
  by (induction k f m rule: std_change.induct)
    (auto simp: std_ordered_Cons keys_std_change)

interpretation stdmap: dictionary std_find std_insert std_erase std_change std_ordered
  by unfold_locales
    (auto simp: std_find_insert std_find_erase std_find_change std_ordered_insert
       std_ordered_erase std_ordered_change)

lemmas stdmap_rules = std_find_insert std_find_erase std_find_change std_ordered_insert
  std_ordered_erase std_ordered_change

section \<open>std::vector with swap-and-pop removal\<close>

fun find_first :: "('a \<Rightarrow> bool) \<Rightarrow> 'a list \<Rightarrow> nat option" where
  "find_first P [] = None"
| "find_first P (x # xs) = (if P x then Some 0 else map_option Suc (find_first P xs))"

lemma find_first_None_iff: "find_first P xs = None \<longleftrightarrow> (\<forall>x \<in> set xs. \<not> P x)"
  by (induction xs) auto

lemma find_first_SomeD:
  "find_first P xs = Some i \<Longrightarrow> i < length xs \<and> P (xs ! i) \<and> (\<forall>j < i. \<not> P (xs ! j))"
proof (induction xs arbitrary: i)
  case Nil
  then show ?case by simp
next
  case (Cons x xs)
  show ?case
  proof (cases "P x")
    case True
    with Cons.prems show ?thesis by simp
  next
    case False
    with Cons.prems obtain i' where i': "find_first P xs = Some i'" "i = Suc i'" by auto
    from Cons.IH [OF i'(1)] False i'(2) show ?thesis
      by (auto simp: less_Suc_eq_0_disj)
  qed
qed

lemma find_first_unique:
  assumes "i < length xs" and "P (xs ! i)" and "\<And>j. j < i \<Longrightarrow> \<not> P (xs ! j)"
  shows "find_first P xs = Some i"
proof (cases "find_first P xs")
  case None
  with assms show ?thesis by (auto simp: find_first_None_iff)
next
  case (Some k)
  from find_first_SomeD [OF Some] assms have "k = i"
    by (metis linorder_neqE_nat)
  with Some show ?thesis by simp
qed

text \<open>
  \<open>swap_last i xs\<close> is the memory of the vector after \<open>std::iter_swap(it, end() - 1)\<close>; the
  removal then pops the last slot, and a vector of one element is cleared.
\<close>

definition swap_last :: "nat \<Rightarrow> 'a list \<Rightarrow> 'a list" where
  "swap_last i xs = xs[i := last xs, length xs - 1 := xs ! i]"

definition swap_remove :: "nat \<Rightarrow> 'a list \<Rightarrow> 'a list" where
  "swap_remove i xs = (if 1 < length xs then butlast (swap_last i xs) else [])"

lemma length_swap_last [simp]: "length (swap_last i xs) = length xs"
  by (simp add: swap_last_def)

lemma length_swap_remove: "length (swap_remove i xs) = length xs - 1"
  by (cases xs) (auto simp: swap_remove_def)

lemma last_swap_last: "xs \<noteq> [] \<Longrightarrow> last (swap_last i xs) = xs ! i"
  by (subst last_conv_nth) (auto simp: swap_last_def nth_list_update)

lemma mset_swap_last: "i < length xs \<Longrightarrow> mset (swap_last i xs) = mset xs"
proof -
  assume i: "i < length xs"
  then have l: "last xs = xs ! (length xs - 1)" by (subst last_conv_nth) auto
  have "swap_last i xs = xs[i := xs ! (length xs - 1), length xs - 1 := xs ! i]"
    by (simp add: swap_last_def l)
  with i show ?thesis using mset_swap [of "length xs - 1" xs i] by (simp add: list_update_swap)
qed

lemma mset_swap_remove:
  assumes i: "i < length xs"
  shows "mset xs = add_mset (xs ! i) (mset (swap_remove i xs))"
proof (cases "1 < length xs")
  case True
  then have ne: "swap_last i xs \<noteq> []"
    using length_swap_last [of i xs] by (metis list.size(3) not_less_zero)
  then have "swap_last i xs = butlast (swap_last i xs) @ [last (swap_last i xs)]" by simp
  then have "mset (swap_last i xs) =
      add_mset (last (swap_last i xs)) (mset (butlast (swap_last i xs)))"
    by (metis add_mset_add_single mset.simps mset_append)
  moreover have "xs \<noteq> []" using True by auto
  ultimately show ?thesis
    using True i by (simp add: swap_remove_def mset_swap_last last_swap_last)
next
  case False
  with i obtain x where "xs = [x]" by (cases xs) auto
  with i show ?thesis by (simp add: swap_remove_def)
qed

lemma swap_remove_nth:
  assumes "i < length xs" and "j < length xs - 1"
  shows "swap_remove i xs ! j = (if j = i then last xs else xs ! j)"
  using assms by (auto simp: swap_remove_def swap_last_def nth_butlast nth_list_update)

lemma set_swap_remove_subset: "i < length xs \<Longrightarrow> set (swap_remove i xs) \<subseteq> set xs"
  using mset_swap_remove [of i xs] by (metis set_mset_add_mset_insert set_mset_mset subset_insertI)

end
