(* ===== verification/Statemachine.thy ===== *)
theory Statemachine
  imports Prelude
begin

text \<open>
  The state machine of a session. The class Kitsunemimi::Statemachine comes from
  libKitsunemimiCommon and is not part of this repository: it is a parameter, the record
  \<open>statemachine_api\<close> of its six member functions and its initial value. What the session code
  relies on is the hypothesis \<open>sm_refines api view\<close>: through an abstraction \<open>view\<close>, the member
  functions act like the operations of a hierarchical state chart (states with parents, initial
  children and transitions that a child inherits from its parent). \<open>initStatemachine\<close> of
  src/src/session.cpp then fixes the chart of a session, and the lemmas give its phases and its
  complete transition table.
\<close>

section \<open>The interface of Kitsunemimi::Statemachine\<close>

record 'sm statemachine_api =
  sm_new :: 'sm
  sm_createNewState :: "u32 \<Rightarrow> string \<Rightarrow> 'sm \<Rightarrow> bool \<times> 'sm"
  sm_addChildState :: "u32 \<Rightarrow> u32 \<Rightarrow> 'sm \<Rightarrow> bool \<times> 'sm"
  sm_setInitialChildState :: "u32 \<Rightarrow> u32 \<Rightarrow> 'sm \<Rightarrow> bool \<times> 'sm"
  sm_addTransition :: "u32 \<Rightarrow> u32 \<Rightarrow> u32 \<Rightarrow> 'sm \<Rightarrow> bool \<times> 'sm"
  sm_goToNextState :: "u32 \<Rightarrow> u32 option \<Rightarrow> 'sm \<Rightarrow> bool \<times> 'sm"
  sm_isInState :: "u32 \<Rightarrow> 'sm \<Rightarrow> bool"

text \<open>The second argument of \<open>sm_goToNextState\<close> is the required source state, if one is given.\<close>

section \<open>State charts\<close>

record chart =
  chart_states :: "u32 list"
  chart_parent :: "(u32 \<times> u32) list"
  chart_initial :: "(u32 \<times> u32) list"
  chart_next :: "((u32 \<times> u32) \<times> u32) list"
  chart_current :: "u32 option"

definition empty_chart :: chart where
  "empty_chart = \<lparr>chart_states = [], chart_parent = [], chart_initial = [], chart_next = [],
                  chart_current = None\<rparr>"

definition chart_createNewState :: "u32 \<Rightarrow> string \<Rightarrow> chart \<Rightarrow> bool \<times> chart" where
  "chart_createNewState s name c =
     (if s \<in> set (chart_states c) then (False, c)
      else (True, c\<lparr>chart_states := chart_states c @ [s],
                    chart_current := (case chart_current c of None \<Rightarrow> Some s | Some x \<Rightarrow> Some x)\<rparr>))"

definition chart_addChildState :: "u32 \<Rightarrow> u32 \<Rightarrow> chart \<Rightarrow> bool \<times> chart" where
  "chart_addChildState s child c =
     (if s \<in> set (chart_states c) \<and> child \<in> set (chart_states c)
      then (True, c\<lparr>chart_parent := chart_parent c @ [(child, s)]\<rparr>) else (False, c))"

definition chart_setInitialChildState :: "u32 \<Rightarrow> u32 \<Rightarrow> chart \<Rightarrow> bool \<times> chart" where
  "chart_setInitialChildState s child c =
     (if s \<in> set (chart_states c) \<and> child \<in> set (chart_states c)
      then (True, c\<lparr>chart_initial := chart_initial c @ [(s, child)]\<rparr>) else (False, c))"

definition chart_addTransition :: "u32 \<Rightarrow> u32 \<Rightarrow> u32 \<Rightarrow> chart \<Rightarrow> bool \<times> chart" where
  "chart_addTransition s t n c =
     (if s \<in> set (chart_states c) \<and> n \<in> set (chart_states c)
         \<and> map_of (chart_next c) (s, t) = None
      then (True, c\<lparr>chart_next := chart_next c @ [((s, t), n)]\<rparr>) else (False, c))"

text \<open>
  Climbing to the ancestors and descending to the initial children stop after as many steps as
  there are states.
\<close>

fun chart_ancestors :: "nat \<Rightarrow> chart \<Rightarrow> u32 \<Rightarrow> u32 list" where
  "chart_ancestors 0 c s = [s]"
| "chart_ancestors (Suc k) c s =
     s # (case map_of (chart_parent c) s of None \<Rightarrow> [] | Some p \<Rightarrow> chart_ancestors k c p)"

fun chart_descend :: "nat \<Rightarrow> chart \<Rightarrow> u32 \<Rightarrow> u32" where
  "chart_descend 0 c s = s"
| "chart_descend (Suc k) c s =
     (case map_of (chart_initial c) s of None \<Rightarrow> s | Some child \<Rightarrow> chart_descend k c child)"

fun first_transition :: "((u32 \<times> u32) \<times> u32) list \<Rightarrow> u32 \<Rightarrow> u32 list \<Rightarrow> u32 option" where
  "first_transition ts t [] = None"
| "first_transition ts t (s # ss) =
     (case map_of ts (s, t) of None \<Rightarrow> first_transition ts t ss | Some n \<Rightarrow> Some n)"

definition chart_goToNextState :: "u32 \<Rightarrow> u32 option \<Rightarrow> chart \<Rightarrow> bool \<times> chart" where
  "chart_goToNextState t required c =
     (case chart_current c of None \<Rightarrow> (False, c)
      | Some s \<Rightarrow>
          if required \<noteq> None \<and> required \<noteq> Some s then (False, c)
          else (case first_transition (chart_next c) t
                       (chart_ancestors (length (chart_states c)) c s) of
                  None \<Rightarrow> (False, c)
                | Some n \<Rightarrow>
                    (True, c\<lparr>chart_current :=
                               Some (chart_descend (length (chart_states c)) c n)\<rparr>)))"

definition chart_isInState :: "u32 \<Rightarrow> chart \<Rightarrow> bool" where
  "chart_isInState q c =
     (case chart_current c of None \<Rightarrow> False
      | Some s \<Rightarrow> q \<in> set (chart_ancestors (length (chart_states c)) c s))"

definition chart_api :: "chart statemachine_api" where
  "chart_api = \<lparr>sm_new = empty_chart, sm_createNewState = chart_createNewState,
     sm_addChildState = chart_addChildState,
     sm_setInitialChildState = chart_setInitialChildState,
     sm_addTransition = chart_addTransition, sm_goToNextState = chart_goToNextState,
     sm_isInState = chart_isInState\<rparr>"

text \<open>
  The documented behaviour: every member function does on the abstract chart what the chart
  operation does, with the same result.
\<close>

definition sm_refines :: "'sm statemachine_api \<Rightarrow> ('sm \<Rightarrow> chart) \<Rightarrow> bool" where
  "sm_refines api view \<longleftrightarrow>
     view (sm_new api) = empty_chart \<and>
     (\<forall>s name m. map_prod id view (sm_createNewState api s name m)
                  = chart_createNewState s name (view m)) \<and>
     (\<forall>s child m. map_prod id view (sm_addChildState api s child m)
                  = chart_addChildState s child (view m)) \<and>
     (\<forall>s child m. map_prod id view (sm_setInitialChildState api s child m)
                  = chart_setInitialChildState s child (view m)) \<and>
     (\<forall>s t n m. map_prod id view (sm_addTransition api s t n m)
                  = chart_addTransition s t n (view m)) \<and>
     (\<forall>t required m. map_prod id view (sm_goToNextState api t required m)
                  = chart_goToNextState t required (view m)) \<and>
     (\<forall>q m. sm_isInState api q m = chart_isInState q (view m))"

lemma chart_api_refines: "sm_refines chart_api (\<lambda>c. c)"
proof -
  have "map_prod id (\<lambda>c. c) = (\<lambda>p :: bool \<times> chart. p)" by (rule ext) (auto split: prod.split)
  then show ?thesis by (simp add: sm_refines_def chart_api_def)
qed

lemma sm_refinesD:
  assumes "sm_refines api view"
  shows "view (sm_new api) = empty_chart"
    and "map_prod id view (sm_createNewState api s name m) = chart_createNewState s name (view m)"
    and "map_prod id view (sm_addChildState api s child m) = chart_addChildState s child (view m)"
    and "map_prod id view (sm_setInitialChildState api s child m)
           = chart_setInitialChildState s child (view m)"
    and "map_prod id view (sm_addTransition api s t n m) = chart_addTransition s t n (view m)"
    and "map_prod id view (sm_goToNextState api t required m)
           = chart_goToNextState t required (view m)"
    and "sm_isInState api q m = chart_isInState q (view m)"
  using assms unfolding sm_refines_def by blast+

section \<open>The session's state machine\<close>

datatype statemachineItems =
    NOT_CONNECTED
  | CONNECTED
  | SESSION_NOT_READY
  | SESSION_READY
  | CONNECT
  | DISCONNECT
  | START_SESSION
  | STOP_SESSION

fun item_val :: "statemachineItems \<Rightarrow> u32" where
  "item_val NOT_CONNECTED = 1"
| "item_val CONNECTED = 2"
| "item_val SESSION_NOT_READY = 3"
| "item_val SESSION_READY = 4"
| "item_val CONNECT = 7"
| "item_val DISCONNECT = 8"
| "item_val START_SESSION = 9"
| "item_val STOP_SESSION = 10"

text \<open>
  \<open>assert(call)\<close>: with assertions compiled in, the call is made and a false result aborts; with
  NDEBUG defined, the call is not made at all.
\<close>

definition assert_call ::
    "bool \<Rightarrow> ('sm \<Rightarrow> bool \<times> 'sm) \<Rightarrow> 'sm \<Rightarrow> fault + 'sm" where
  "assert_call ndebug call m =
     (if ndebug then Inr m
      else (case call m of (True, m') \<Rightarrow> Inr m' | (False, m') \<Rightarrow> Inl Assertion_Failed))"

definition initStatemachine :: "'sm statemachine_api \<Rightarrow> bool \<Rightarrow> 'sm \<Rightarrow> fault + 'sm" where
  "initStatemachine api ndebug m =
     then_do (assert_call ndebug (sm_createNewState api (item_val NOT_CONNECTED) ''not connected'') m) (\<lambda>m.
     then_do (assert_call ndebug (sm_createNewState api (item_val CONNECTED) ''connected'') m) (\<lambda>m.
     then_do (assert_call ndebug (sm_createNewState api (item_val SESSION_NOT_READY) ''session not ready'') m) (\<lambda>m.
     then_do (assert_call ndebug (sm_createNewState api (item_val SESSION_READY) ''session ready'') m) (\<lambda>m.
     then_do (assert_call ndebug (sm_addChildState api (item_val CONNECTED) (item_val SESSION_NOT_READY)) m) (\<lambda>m.
     then_do (assert_call ndebug (sm_addChildState api (item_val CONNECTED) (item_val SESSION_READY)) m) (\<lambda>m.
     then_do (assert_call ndebug (sm_setInitialChildState api (item_val CONNECTED) (item_val SESSION_NOT_READY)) m) (\<lambda>m.
     then_do (assert_call ndebug (sm_addTransition api (item_val NOT_CONNECTED) (item_val CONNECT) (item_val CONNECTED)) m) (\<lambda>m.
     then_do (assert_call ndebug (sm_addTransition api (item_val CONNECTED) (item_val DISCONNECT) (item_val NOT_CONNECTED)) m) (\<lambda>m.
     then_do (assert_call ndebug (sm_addTransition api (item_val SESSION_NOT_READY) (item_val START_SESSION) (item_val SESSION_READY)) m) (\<lambda>m.
             assert_call ndebug (sm_addTransition api (item_val SESSION_READY) (item_val STOP_SESSION) (item_val SESSION_NOT_READY)) m))))))))))"

text \<open>
  The leaf states a session can be in, and the chart that \<open>initStatemachine\<close> builds with one of
  them as its current state.
\<close>

datatype phase = Disconnected | Not_Ready | Ready

fun phase_item :: "phase \<Rightarrow> statemachineItems" where
  "phase_item Disconnected = NOT_CONNECTED"
| "phase_item Not_Ready = SESSION_NOT_READY"
| "phase_item Ready = SESSION_READY"

definition session_chart :: "phase \<Rightarrow> chart" where
  "session_chart ph =
     \<lparr>chart_states = [1, 2, 3, 4],
      chart_parent = [(3, 2), (4, 2)],
      chart_initial = [(2, 3)],
      chart_next = [((1, 7), 2), ((2, 8), 1), ((3, 9), 4), ((4, 10), 3)],
      chart_current = Some (item_val (phase_item ph))\<rparr>"

text \<open>The transition table of a session, with the optional required source state.\<close>

fun phase_next :: "phase \<Rightarrow> statemachineItems \<Rightarrow> phase option" where
  "phase_next Disconnected CONNECT = Some Not_Ready"
| "phase_next Not_Ready START_SESSION = Some Ready"
| "phase_next Not_Ready DISCONNECT = Some Disconnected"
| "phase_next Ready STOP_SESSION = Some Not_Ready"
| "phase_next Ready DISCONNECT = Some Disconnected"
| "phase_next ph t = None"

fun phase_in :: "phase \<Rightarrow> statemachineItems \<Rightarrow> bool" where
  "phase_in ph CONNECTED = (ph \<noteq> Disconnected)"
| "phase_in ph q = (phase_item ph = q)"

text \<open>\<open>sm_phase api view m ph\<close>: the machine \<open>m\<close> behaves as the session's chart in phase \<open>ph\<close>.\<close>

definition sm_phase :: "'sm statemachine_api \<Rightarrow> ('sm \<Rightarrow> chart) \<Rightarrow> 'sm \<Rightarrow> phase \<Rightarrow> bool" where
  "sm_phase api view m ph \<longleftrightarrow> sm_refines api view \<and> view m = session_chart ph"

lemma chart_goToNextState_session:
  "chart_goToNextState (item_val t) None (session_chart ph) =
     (case phase_next ph t of None \<Rightarrow> (False, session_chart ph)
      | Some ph' \<Rightarrow> (True, session_chart ph'))"
  by (cases ph; cases t) (simp_all add: chart_goToNextState_def session_chart_def)

lemma chart_goToNextState_session_required:
  "chart_goToNextState (item_val t) (Some (item_val (phase_item ph'))) (session_chart ph) =
     (if ph = ph' then chart_goToNextState (item_val t) None (session_chart ph)
      else (False, session_chart ph))"
  by (cases ph; cases ph') (simp_all add: chart_goToNextState_def session_chart_def)

lemma chart_isInState_session:
  "chart_isInState (item_val q) (session_chart ph) = phase_in ph q"
  by (cases ph; cases q) (simp_all add: chart_isInState_def session_chart_def)

lemma assert_call_step:
  assumes "map_prod id view (call m) = (True, c)"
    and "\<And>m'. view m' = c \<Longrightarrow> \<exists>y. k m' = Inr y \<and> Q y"
  shows "\<exists>y. then_do (assert_call False call m) k = Inr y \<and> Q y"
  using assms by (cases "call m") (auto simp: assert_call_def)

lemma assert_call_last:
  assumes "map_prod id view (call m) = (True, c)" and "\<And>m'. view m' = c \<Longrightarrow> Q m'"
  shows "\<exists>y. assert_call False call m = Inr y \<and> Q y"
  using assms by (cases "call m") (auto simp: assert_call_def)

lemmas chart_ops = chart_createNewState_def chart_addChildState_def chart_setInitialChildState_def
  chart_addTransition_def

text \<open>
  With assertions compiled in, no assertion of \<open>initStatemachine\<close> fails and the machine becomes
  the session's chart in its initial phase. Each step runs one call on the chart reached so far.
\<close>

lemma initStatemachine_chart:
  assumes r: "sm_refines api view"
  shows "\<exists>m. initStatemachine api False (sm_new api) = Inr m \<and> view m = session_chart Disconnected"
  unfolding initStatemachine_def
  by (rule assert_call_step [where view = view] assert_call_last [where view = view],
      simp add: sm_refinesD [OF r] chart_ops empty_chart_def)+
    (simp add: session_chart_def)

lemma initStatemachine_ndebug: "initStatemachine api True m = Inr m"
  by (simp add: initStatemachine_def assert_call_def)

section \<open>Laws of a machine in a phase\<close>

lemma sm_phase_isInState:
  "sm_phase api view m ph \<Longrightarrow> sm_isInState api (item_val q) m = phase_in ph q"
  unfolding sm_phase_def by (metis chart_isInState_session sm_refinesD(7))

lemma sm_phase_step:
  assumes "sm_phase api view m ph" and "phase_next ph t = Some ph'"
  shows "\<exists>m'. sm_goToNextState api (item_val t) None m = (True, m') \<and> sm_phase api view m' ph'"
proof -
  from assms have "map_prod id view (sm_goToNextState api (item_val t) None m)
      = (True, session_chart ph')"
    using sm_refinesD(6) by (fastforce simp: sm_phase_def chart_goToNextState_session)
  with assms show ?thesis
    by (cases "sm_goToNextState api (item_val t) None m") (auto simp: sm_phase_def)
qed

lemma sm_phase_refuse:
  assumes "sm_phase api view m ph" and "phase_next ph t = None"
  shows "\<exists>m'. sm_goToNextState api (item_val t) None m = (False, m') \<and> sm_phase api view m' ph"
proof -
  from assms have "map_prod id view (sm_goToNextState api (item_val t) None m)
      = (False, session_chart ph)"
    using sm_refinesD(6) by (fastforce simp: sm_phase_def chart_goToNextState_session)
  with assms show ?thesis
    by (cases "sm_goToNextState api (item_val t) None m") (auto simp: sm_phase_def)
qed

lemma sm_phase_step_required:
  assumes "sm_phase api view m ph" and "phase_next ph t = Some ph'"
  shows "\<exists>m'. sm_goToNextState api (item_val t) (Some (item_val (phase_item ph))) m = (True, m')
              \<and> sm_phase api view m' ph'"
proof -
  from assms have "map_prod id view
        (sm_goToNextState api (item_val t) (Some (item_val (phase_item ph))) m)
      = (True, session_chart ph')"
    using sm_refinesD(6)
    by (fastforce simp: sm_phase_def chart_goToNextState_session
        chart_goToNextState_session_required)
  with assms show ?thesis
    by (cases "sm_goToNextState api (item_val t) (Some (item_val (phase_item ph))) m")
      (auto simp: sm_phase_def)
qed

lemma sm_phase_refuse_required:
  assumes "sm_phase api view m ph" and "ph \<noteq> ph'"
  shows "\<exists>m'. sm_goToNextState api (item_val t) (Some (item_val (phase_item ph'))) m = (False, m')
              \<and> sm_phase api view m' ph"
proof -
  from assms have "map_prod id view
        (sm_goToNextState api (item_val t) (Some (item_val (phase_item ph'))) m)
      = (False, session_chart ph)"
    using sm_refinesD(6)
    by (fastforce simp: sm_phase_def chart_goToNextState_session_required)
  with assms show ?thesis
    by (cases "sm_goToNextState api (item_val t) (Some (item_val (phase_item ph'))) m")
      (auto simp: sm_phase_def)
qed

lemma sm_phase_refuse_same:
  assumes "sm_phase api view m ph" and "phase_next ph t = None"
  shows "\<exists>m'. sm_goToNextState api (item_val t) (Some (item_val (phase_item ph))) m = (False, m')
              \<and> sm_phase api view m' ph"
proof -
  from assms have "map_prod id view
        (sm_goToNextState api (item_val t) (Some (item_val (phase_item ph))) m)
      = (False, session_chart ph)"
    using sm_refinesD(6)
    by (fastforce simp: sm_phase_def chart_goToNextState_session
        chart_goToNextState_session_required)
  with assms show ?thesis
    by (cases "sm_goToNextState api (item_val t) (Some (item_val (phase_item ph))) m")
      (auto simp: sm_phase_def)
qed

text \<open>
  C11: with assertions compiled in, the construction of the state machine succeeds and ends in the
  disconnected phase, and from then on the machine follows the table of phases: a transition the
  table has is taken, every other one is refused and changes nothing, and the machine is in exactly
  the states of its phase.
\<close>

theorem session_machine_follows_phases:
  assumes "sm_refines api view"
  shows "(\<exists>m. initStatemachine api False (sm_new api) = Inr m \<and> sm_phase api view m Disconnected)
    \<and> (\<forall>m ph t. sm_phase api view m ph \<longrightarrow>
        (\<exists>m'. sm_goToNextState api (item_val t) None m = (phase_next ph t \<noteq> None, m')
          \<and> sm_phase api view m' (case phase_next ph t of None \<Rightarrow> ph | Some ph' \<Rightarrow> ph')))
    \<and> (\<forall>m ph q. sm_phase api view m ph \<longrightarrow> sm_isInState api (item_val q) m = phase_in ph q)"
proof (intro conjI allI impI)
  show "\<exists>m. initStatemachine api False (sm_new api) = Inr m \<and> sm_phase api view m Disconnected"
    using initStatemachine_chart [OF assms] assms by (auto simp: sm_phase_def)
next
  fix m ph t assume "sm_phase api view m ph"
  then show "\<exists>m'. sm_goToNextState api (item_val t) None m = (phase_next ph t \<noteq> None, m')
      \<and> sm_phase api view m' (case phase_next ph t of None \<Rightarrow> ph | Some ph' \<Rightarrow> ph')"
    using sm_phase_step sm_phase_refuse by (cases "phase_next ph t") fastforce+
next
  fix m ph q assume "sm_phase api view m ph"
  then show "sm_isInState api (item_val q) m = phase_in ph q" by (rule sm_phase_isInState)
qed

theorem session_machine_follows_phases_witness:
  "\<exists>m. initStatemachine chart_api False (sm_new chart_api) = Inr m
    \<and> sm_phase chart_api (\<lambda>c. c) m Disconnected"
  using session_machine_follows_phases [OF chart_api_refines] by blast

end
