(* ===== verification/Session_State.thy ===== *)
theory Session_State
  imports Containers Statemachine
begin

text \<open>
  The state of the library: the objects of session.h, multiblock_io.h, reply_handler.h,
  message_blocker_handler.h and session_handler.h as records, all sessions in a heap of their
  own (\<open>Session*\<close> is an address), and the whole as the \<open>world\<close>.

  Code outside the repository is a parameter, the record \<open>env\<close>: the state machine and data
  buffer classes, \<open>rand()\<close>, the contents of uninitialised memory, the answers of sockets and
  servers, and the reaction of the application to a callback. Every call to a socket, a server
  or the application is appended to \<open>w_trace\<close>; a socket's answer may depend on the whole trace,
  and the application's reaction may change the world, as a callback that calls back into the
  library does.
\<close>

section \<open>Addresses, calls and events\<close>

type_synonym ptr = nat
type_synonym fn = nat
type_synonym receiver = nat
type_synonym sock = nat
type_synonym server = nat

datatype net_call =
    Init_Connection sock
  | Close_Socket sock
  | Send_Message sock "byte list"
  | Init_Server server
  | Close_Server server

text \<open>
  The arguments of the application's functions. The data pointer of a stream message is given as the bytes of
  the message behind it, as far as the claimed size reaches, and the claimed size; what the application
  reads of them is its own matter.
\<close>

datatype 'buf callback =
    Create_Session fn ptr "byte list"
  | Close_Session fn ptr "byte list"
  | Stream_Data fn receiver ptr "byte list" u64
  | Request_Data fn receiver ptr u64 "'buf option"
  | Process_Error fn ptr u8 "byte list"

datatype 'buf event =
    Net net_call bool
  | Start_Thread sock
  | Schedule_Deletion sock
  | Delete_Socket sock
  | Start_Server_Thread server
  | Schedule_Server_Deletion server
  | Client "'buf callback"

section \<open>Objects\<close>

record 'buf multiblock_buffer =
  blockerId :: u64
  multiblockId :: u64
  messageSize :: u64
  numberOfPackages :: u32
  courrentPackage :: u32
  incomingData :: "'buf option"

record 'buf multiblock_io =
  m_abort :: bool
  m_incomingBuffer :: "(u64 \<times> 'buf multiblock_buffer) list"

text \<open>
  The function pointers of a session are not initialised by its constructor: \<open>None\<close> until they
  are assigned.
\<close>

record ('sm, 'buf) session =
  m_statemachine :: 'sm
  m_socket :: "sock option"
  m_multiblockIo :: "'buf multiblock_io"
  m_sessionId :: u32
  m_sessionIdentifier :: "byte list"
  m_initState :: int
  m_processCreateSession :: "fn option"
  m_processCloseSession :: "fn option"
  m_processStreamData :: "fn option"
  m_processRequestData :: "fn option"
  m_processError :: "fn option"
  m_streamReceiver :: receiver
  m_standaloneReceiver :: receiver
  m_messageIdCounter :: u32

text \<open>The float \<open>timer\<close> only ever holds a number of added \<open>1.0f\<close>, which floats represent exactly.\<close>

record message_time =
  completeMessageId :: u64
  timer :: nat
  messageType :: u8
  message_session :: ptr
  ignoreResult :: bool

text \<open>
  The thread of a blocked request is between the insertion of its entry and the wait
  (\<open>Before_Wait\<close>), inside \<open>cv.wait\<close> (\<open>Waiting\<close>), or notified (\<open>Notified\<close>).
\<close>

datatype cv_state = Before_Wait | Waiting | Notified

record 'buf message_blocker =
  blocker_session :: ptr
  blocker_id :: u64
  blocker_timer :: u64
  blocker_cv :: cv_state
  responseData :: "'buf option"

record 'buf blocker_handler =
  blocker_list :: "ptr list"
  blocker_heap :: "ptr \<Rightarrow> 'buf message_blocker option"
  blocker_next :: ptr

record session_handler =
  m_sessions :: "(u32 \<times> ptr) list"
  m_servers :: "(u32 \<times> server) list"
  m_sessionIdCounter :: u16
  m_sessionMap_lock :: bool
  m_serverMap_lock :: bool
  handler_processCreateSession :: fn
  handler_processCloseSession :: fn
  handler_processError :: fn

record ('sm, 'buf) world =
  w_heap :: "ptr \<Rightarrow> ('sm, 'buf) session option"
  w_next :: ptr
  w_reply :: "message_time list"
  w_blocker :: "'buf blocker_handler"
  w_handler :: session_handler
  w_serverIdCounter :: u32
  w_rand :: nat
  w_trace :: "'buf event list"

section \<open>Code outside the repository\<close>

record 'buf databuffer_api =
  db_new :: "nat \<Rightarrow> 'buf"
  db_data_null :: "'buf \<Rightarrow> bool"
  db_add :: "'buf \<Rightarrow> byte list \<Rightarrow> bool \<times> 'buf"
  db_calcBytesToBlocks :: "nat \<Rightarrow> nat"

text \<open>
  \<open>e_max\<close> is the macro MAX_SINGLE_MESSAGE_SIZE, which a build may set; \<open>e_ndebug\<close> says whether
  NDEBUG is defined; \<open>e_rand i\<close> is the value of the i-th call of \<open>rand()\<close> (0 to RAND_MAX =
  \<open>2 ^ 31 - 1\<close>); \<open>e_junk t i\<close> is byte \<open>i\<close> of an uninitialised array when the trace has
  length \<open>t\<close>.
\<close>

record ('sm, 'buf) env =
  e_max :: nat
  e_ndebug :: bool
  e_sm :: "'sm statemachine_api"
  e_db :: "'buf databuffer_api"
  e_rand :: "nat \<Rightarrow> 31 word"
  e_junk :: "nat \<Rightarrow> nat \<Rightarrow> byte"
  e_isClientSide :: "sock \<Rightarrow> bool"
  e_net :: "'buf event list \<Rightarrow> net_call \<Rightarrow> bool"
  e_client :: "'buf callback \<Rightarrow> ('sm, 'buf) world \<Rightarrow> ('sm, 'buf) world"

text \<open>
  The documented behaviour of the data buffer: \<open>content\<close> gives the bytes it holds; a new buffer
  is allocated and empty, and adding data appends it.
\<close>

definition databuffer_ok :: "'buf databuffer_api \<Rightarrow> ('buf \<Rightarrow> byte list) \<Rightarrow> bool" where
  "databuffer_ok db content \<longleftrightarrow>
     (\<forall>n. \<not> db_data_null db (db_new db n) \<and> content (db_new db n) = []) \<and>
     (\<forall>b bs. fst (db_add db b bs) \<and> content (snd (db_add db b bs)) = content b @ bs)"

definition list_databuffer :: "byte list databuffer_api" where
  "list_databuffer = \<lparr>db_new = (\<lambda>n. []), db_data_null = (\<lambda>b. False),
     db_add = (\<lambda>b bs. (True, b @ bs)), db_calcBytesToBlocks = (\<lambda>n. n div 4096 + 1)\<rparr>"

lemma list_databuffer_ok: "databuffer_ok list_databuffer (\<lambda>b. b)"
  by (simp add: databuffer_ok_def list_databuffer_def)

section \<open>Access to the world\<close>

definition get_session :: "ptr \<Rightarrow> ('sm, 'buf) world \<Rightarrow> fault + ('sm, 'buf) session" where
  "get_session p w = (case w_heap w p of None \<Rightarrow> Inl Use_After_Free | Some s \<Rightarrow> Inr s)"

definition set_session ::
    "ptr \<Rightarrow> ('sm, 'buf) session \<Rightarrow> ('sm, 'buf) world \<Rightarrow> ('sm, 'buf) world" where
  "set_session p s w = w\<lparr>w_heap := (w_heap w)(p \<mapsto> s)\<rparr>"

definition log_event :: "'buf event \<Rightarrow> ('sm, 'buf) world \<Rightarrow> ('sm, 'buf) world" where
  "log_event ev w = w\<lparr>w_trace := w_trace w @ [ev]\<rparr>"

definition ask_net ::
    "('sm, 'buf) env \<Rightarrow> net_call \<Rightarrow> ('sm, 'buf) world \<Rightarrow> bool \<times> ('sm, 'buf) world" where
  "ask_net env c w = (e_net env (w_trace w) c, log_event (Net c (e_net env (w_trace w) c)) w)"

text \<open>A call through a function pointer of a session; an unassigned pointer is a fault.\<close>

definition call_client ::
    "('sm, 'buf) env \<Rightarrow> fn option \<Rightarrow> (fn \<Rightarrow> 'buf callback) \<Rightarrow> ('sm, 'buf) world
     \<Rightarrow> fault + ('sm, 'buf) world" where
  "call_client env f mk w =
     (case f of None \<Rightarrow> Inl Uninitialised_Call
      | Some g \<Rightarrow> Inr (e_client env (mk g) (log_event (Client (mk g)) w)))"

definition uninitialised :: "('sm, 'buf) env \<Rightarrow> nat \<Rightarrow> ('sm, 'buf) world \<Rightarrow> byte list" where
  "uninitialised env n w = map (e_junk env (length (w_trace w))) [0..<n]"

lemma length_uninitialised [simp]: "length (uninitialised env n w) = n"
  by (simp add: uninitialised_def)

lemma get_session_Some [simp]: "w_heap w p = Some s \<Longrightarrow> get_session p w = Inr s"
  by (simp add: get_session_def)

lemma get_session_None: "w_heap w p = None \<Longrightarrow> get_session p w = Inl Use_After_Free"
  by (simp add: get_session_def)

lemma get_session_eq_Inr: "get_session p w = Inr s \<longleftrightarrow> w_heap w p = Some s"
  by (auto simp: get_session_def split: option.splits)

lemma heap_set_session [simp]:
  "w_heap (set_session p s w) = (w_heap w)(p \<mapsto> s)"
  "w_next (set_session p s w) = w_next w"
  "w_reply (set_session p s w) = w_reply w"
  "w_blocker (set_session p s w) = w_blocker w"
  "w_handler (set_session p s w) = w_handler w"
  "w_serverIdCounter (set_session p s w) = w_serverIdCounter w"
  "w_rand (set_session p s w) = w_rand w"
  "w_trace (set_session p s w) = w_trace w"
  by (simp_all add: set_session_def)

lemma world_log_event [simp]:
  "w_heap (log_event ev w) = w_heap w"
  "w_next (log_event ev w) = w_next w"
  "w_reply (log_event ev w) = w_reply w"
  "w_blocker (log_event ev w) = w_blocker w"
  "w_handler (log_event ev w) = w_handler w"
  "w_serverIdCounter (log_event ev w) = w_serverIdCounter w"
  "w_rand (log_event ev w) = w_rand w"
  "w_trace (log_event ev w) = w_trace w @ [ev]"
  by (simp_all add: log_event_def)

lemma call_client_simps [simp]:
  "call_client env None mk w = Inl Uninitialised_Call"
  "call_client env (Some g) mk w = Inr (e_client env (mk g) (log_event (Client (mk g)) w))"
  by (simp_all add: call_client_def)

lemma ask_net_simps [simp]:
  "fst (ask_net env c w) = e_net env (w_trace w) c"
  "snd (ask_net env c w) = log_event (Net c (e_net env (w_trace w) c)) w"
  by (simp_all add: ask_net_def)

end
