(* ===== verification/Sample_Instance.thy ===== *)
theory Sample_Instance
  imports Session_State
begin

text \<open>
  A concrete instance of the parameters, on which the witnesses of the properties are evaluated:
  the state machine is the reference chart, a data buffer is the list of its bytes, every socket
  call succeeds, \<open>rand()\<close> counts up from 1, uninitialised memory is zero, the application only
  takes notice of callbacks, and a single message carries at most 8 bytes. The sample world has
  one session, at address 1, in a given phase.
\<close>

definition sample_env :: "(chart, byte list) env" where
  "sample_env = \<lparr>e_max = 8, e_ndebug = False, e_sm = chart_api, e_db = list_databuffer,
     e_rand = (\<lambda>i. word_of_nat (Suc i)), e_junk = (\<lambda>t i. 0), e_isClientSide = (\<lambda>s. True),
     e_net = (\<lambda>tr c. True), e_client = (\<lambda>cb w. w)\<rparr>"

definition sample_session :: "phase \<Rightarrow> (chart, byte list) session" where
  "sample_session ph = \<lparr>m_statemachine = session_chart ph, m_socket = Some 5,
     m_multiblockIo = \<lparr>m_abort = False, m_incomingBuffer = []\<rparr>, m_sessionId = 7,
     m_sessionIdentifier = [], m_initState = 0, m_processCreateSession = Some 21,
     m_processCloseSession = Some 22, m_processStreamData = Some 23,
     m_processRequestData = Some 24, m_processError = Some 25, m_streamReceiver = 31,
     m_standaloneReceiver = 32, m_messageIdCounter = 0\<rparr>"

definition sample_handler :: session_handler where
  "sample_handler = \<lparr>m_sessions = [(7, 1)], m_servers = [], m_sessionIdCounter = 7,
     m_sessionMap_lock = False, m_serverMap_lock = False, handler_processCreateSession = 21,
     handler_processCloseSession = 22, handler_processError = 25\<rparr>"

definition sample_world :: "phase \<Rightarrow> (chart, byte list) world" where
  "sample_world ph = \<lparr>w_heap = [1 \<mapsto> sample_session ph], w_next = 2, w_reply = [],
     w_blocker = \<lparr>blocker_list = [], blocker_heap = Map.empty, blocker_next = 0\<rparr>,
     w_handler = sample_handler, w_serverIdCounter = 0, w_rand = 0, w_trace = []\<rparr>"

lemmas sample_defs = sample_env_def sample_session_def sample_handler_def sample_world_def

lemma sample_phase: "sm_phase (e_sm sample_env) (\<lambda>c. c) (session_chart ph) ph"
  by (simp add: sm_phase_def sample_env_def chart_api_refines)

end
