(* ===== verification/Reply_Handler.thy ===== *)
theory Reply_Handler
  imports Sample_Instance
begin

text \<open>
  src/src/handler/reply_handler.cpp: the list of sent messages that await a reply, and its timer.
  \<open>m_messageList\<close> is \<open>w_reply\<close> of the world. The spin lock makes every operation one step; the
  timer releases it around the removal of an expired entry and keeps using its pointer into the
  vector, which is modelled by reading the same slot of the vector's memory after the removal.
  The contract \<open>pending_messages\<close> states the list as a multiset of identifiers.
\<close>

section \<open>The contract\<close>

locale pending_messages =
  fixes add :: "u64 \<Rightarrow> 'e \<Rightarrow> 'l \<Rightarrow> 'l"
    and remove :: "u64 \<Rightarrow> 'l \<Rightarrow> bool \<times> 'l"
    and pending :: "'l \<Rightarrow> u64 multiset"
  assumes pending_add: "pending (add i e l) = add_mset i (pending l)"
    and remove_found: "fst (remove i l) \<longleftrightarrow> i \<in># pending l"
    and pending_remove: "pending (snd (remove i l)) = pending l - {#i#}"
begin

lemma add_then_remove:
  "fst (remove i (add i e l))" "pending (snd (remove i (add i e l))) = pending l"
  by (simp_all add: remove_found pending_remove pending_add)

lemma remove_absent: "i \<notin># pending l \<Longrightarrow> \<not> fst (remove i l) \<and> pending (snd (remove i l)) = pending l"
  by (simp add: remove_found pending_remove diff_single_trivial)

lemma remove_other:
  "j \<noteq> i \<Longrightarrow> count (pending (snd (remove i l))) j = count (pending l) j"
  by (simp add: pending_remove)

lemma remove_twice_unique:
  assumes "count (pending l) i = 1"
  shows "fst (remove i l)" and "\<not> fst (remove i (snd (remove i l)))"
  using assms by (simp_all add: remove_found pending_remove not_in_iff flip: count_greater_zero_iff)

end

section \<open>Construction and destruction\<close>

definition new_ReplyHandler :: "message_time list" where
  "new_ReplyHandler = []"

definition delete_ReplyHandler :: "message_time list \<Rightarrow> message_time list" where
  "delete_ReplyHandler ms = []"

section \<open>Adding and removing\<close>

definition complete_message_id :: "u32 \<Rightarrow> u64 \<Rightarrow> u64" where
  "complete_message_id sid mid = push_bit 32 mid + ucast sid"

definition addMessage_complete :: "u8 \<Rightarrow> u64 \<Rightarrow> ptr \<Rightarrow> message_time list \<Rightarrow> message_time list" where
  "addMessage_complete ty cid p ms =
     ms @ [\<lparr>completeMessageId = cid, timer = 0, messageType = ty, message_session = p,
            ignoreResult = False\<rparr>]"

definition addMessage :: "u8 \<Rightarrow> u32 \<Rightarrow> u64 \<Rightarrow> ptr \<Rightarrow> message_time list \<Rightarrow> message_time list" where
  "addMessage ty sid mid p ms = addMessage_complete ty (complete_message_id sid mid) p ms"

definition removeMessageFromList :: "u64 \<Rightarrow> message_time list \<Rightarrow> bool \<times> message_time list" where
  "removeMessageFromList cid ms =
     (case find_first (\<lambda>m. completeMessageId m = cid) ms of
        None \<Rightarrow> (False, ms)
      | Some i \<Rightarrow> (True, swap_remove i ms))"

definition removeMessage_complete :: "u64 \<Rightarrow> message_time list \<Rightarrow> bool \<times> message_time list" where
  "removeMessage_complete cid ms = removeMessageFromList cid ms"

definition removeMessage :: "u32 \<Rightarrow> u64 \<Rightarrow> message_time list \<Rightarrow> bool \<times> message_time list" where
  "removeMessage sid mid ms = removeMessage_complete (complete_message_id sid mid) ms"

definition removeAllOfSession :: "u32 \<Rightarrow> message_time list \<Rightarrow> message_time list" where
  "removeAllOfSession sid ms =
     map (\<lambda>m. if and (completeMessageId m) 0xFFFFFFFF = ucast sid
              then m\<lparr>ignoreResult := True\<rparr> else m) ms"

definition pending_ids :: "message_time list \<Rightarrow> u64 multiset" where
  "pending_ids ms = image_mset completeMessageId (mset ms)"

lemma pending_ids_simps [simp]:
  "pending_ids [] = {#}"
  "pending_ids (m # ms) = add_mset (completeMessageId m) (pending_ids ms)"
  "pending_ids (ms @ ms') = pending_ids ms + pending_ids ms'"
  by (simp_all add: pending_ids_def)

lemma removeMessageFromList_cases:
  obtains (absent) "removeMessageFromList cid ms = (False, ms)" "\<forall>m \<in> set ms. completeMessageId m \<noteq> cid"
  | (found) xs m ys ms' where "removeMessageFromList cid ms = (True, ms')" "ms = xs @ m # ys"
      "completeMessageId m = cid" "\<forall>x \<in> set xs. completeMessageId x \<noteq> cid" "mset ms' = mset (xs @ ys)"
proof (cases "find_first (\<lambda>m. completeMessageId m = cid) ms")
  case None
  from None [unfolded find_first_None_iff] have "\<forall>m \<in> set ms. completeMessageId m \<noteq> cid" by simp
  moreover have "removeMessageFromList cid ms = (False, ms)" using None by (simp add: removeMessageFromList_def)
  ultimately show ?thesis using absent by blast
next
  case (Some i)
  from find_first_SomeD [OF Some] have i: "i < length ms" "completeMessageId (ms ! i) = cid"
    and before: "\<forall>j < i. completeMessageId (ms ! j) \<noteq> cid" by auto
  have split: "ms = take i ms @ ms ! i # drop (Suc i) ms" by (rule id_take_nth_drop [OF i(1)])
  have "mset ms = add_mset (ms ! i) (mset (take i ms @ drop (Suc i) ms))" by (subst split) simp
  with mset_swap_remove [OF i(1)] have "mset (swap_remove i ms) = mset (take i ms @ drop (Suc i) ms)" by simp
  moreover have "\<forall>x \<in> set (take i ms). completeMessageId x \<noteq> cid"
  proof
    fix x assume "x \<in> set (take i ms)"
    then obtain j where "j < i" "x = ms ! j" using i(1) by (auto simp: in_set_conv_nth)
    with before show "completeMessageId x \<noteq> cid" by blast
  qed
  moreover have "removeMessageFromList cid ms = (True, swap_remove i ms)"
    using Some by (simp add: removeMessageFromList_def)
  ultimately show ?thesis using found split i(2) by blast
qed

lemma removeMessageFromList_pending:
  "fst (removeMessageFromList cid ms) \<longleftrightarrow> cid \<in># pending_ids ms"
  "pending_ids (snd (removeMessageFromList cid ms)) = pending_ids ms - {#cid#}"
proof -
  have "(fst (removeMessageFromList cid ms) \<longleftrightarrow> cid \<in># pending_ids ms) \<and>
        pending_ids (snd (removeMessageFromList cid ms)) = pending_ids ms - {#cid#}"
  proof (cases "find_first (\<lambda>m. completeMessageId m = cid) ms")
    case None
    then have "cid \<notin># pending_ids ms"
      by (auto simp: find_first_None_iff pending_ids_def)
    with None show ?thesis
      by (simp add: removeMessageFromList_def diff_single_trivial)
  next
    case (Some i)
    from find_first_SomeD [OF Some] have i: "i < length ms" "completeMessageId (ms ! i) = cid"
      by auto
    from mset_swap_remove [OF i(1)] i(2)
    have "pending_ids ms = add_mset cid (pending_ids (swap_remove i ms))"
      by (simp add: pending_ids_def)
    with Some show ?thesis by (simp add: removeMessageFromList_def)
  qed
  then show "fst (removeMessageFromList cid ms) \<longleftrightarrow> cid \<in># pending_ids ms"
    and "pending_ids (snd (removeMessageFromList cid ms)) = pending_ids ms - {#cid#}" by auto
qed

interpretation reply_list: pending_messages
  "\<lambda>cid (ty, p). addMessage_complete ty cid p" removeMessageFromList pending_ids
  by unfold_locales
    (auto simp: addMessage_complete_def removeMessageFromList_pending)

text \<open>An identifier keeps the session in its low and the message in its high 32 bits.\<close>

lemma unat_complete_message_id:
  fixes sid mid :: u32
  shows "unat (complete_message_id sid (ucast mid)) = unat mid * 2 ^ 32 + unat sid"
proof -
  have m: "unat mid < 2 ^ 32" and s: "unat sid < 2 ^ 32"
    using unsigned_less [where w = mid] unsigned_less [where w = sid] by simp_all
  then have b: "unat mid * 2 ^ 32 + unat sid < 2 ^ 64" by simp
  have "unat (ucast mid * 4294967296 :: u64) = unat mid * 2 ^ 32"
    using m by (simp add: unat_word_ariths(2) unat_ucast_up)
  moreover have "unat (ucast sid :: u64) = unat sid"
    by (simp add: unat_ucast_up)
  ultimately show ?thesis
    using b by (simp add: complete_message_id_def push_bit_eq_mult unat_word_ariths(1))
qed

lemma complete_message_id_inject:
  fixes sid sid' mid mid' :: u32
  shows "complete_message_id sid (ucast mid) = complete_message_id sid' (ucast mid')
     \<longleftrightarrow> sid = sid' \<and> mid = mid'"
proof
  assume eq: "complete_message_id sid (ucast mid) = complete_message_id sid' (ucast mid')"
  have s: "unat sid < 2 ^ 32" "unat sid' < 2 ^ 32"
    using unsigned_less [where w = sid] unsigned_less [where w = sid'] by simp_all
  from eq have sum: "unat mid * 2 ^ 32 + unat sid = unat mid' * 2 ^ 32 + unat sid'"
    by (metis unat_complete_message_id)
  have "unat sid = (unat mid * 2 ^ 32 + unat sid) mod 2 ^ 32"
    and "unat sid' = (unat mid' * 2 ^ 32 + unat sid') mod 2 ^ 32"
    using s by simp_all
  with sum have "unat sid = unat sid'" by presburger
  with sum have "unat mid = unat mid'" by simp
  with \<open>unat sid = unat sid'\<close> show "sid = sid' \<and> mid = mid'" by (simp add: word_unat_eq_iff)
qed auto

lemma complete_message_id_session:
  fixes sid mid :: u32
  shows "and (complete_message_id sid (ucast mid)) 0xFFFFFFFF = ucast sid"
proof -
  have s: "unat sid < 2 ^ 32" using unsigned_less [where w = sid] by simp
  have "and (complete_message_id sid (ucast mid)) 0xFFFFFFFF
      = take_bit 32 (complete_message_id sid (ucast mid))"
    by (simp add: take_bit_eq_mask mask_eq_exp_minus_1)
  moreover have "unat (take_bit 32 (complete_message_id sid (ucast mid))) = unat sid"
    using s by (simp only: unsigned_take_bit_eq unat_complete_message_id take_bit_nat_def) simp
  moreover have "unat (ucast sid :: u64) = unat sid" by (simp add: unat_ucast_up)
  ultimately show ?thesis by (simp add: word_unat_eq_iff)
qed

section \<open>The timer\<close>

definition m_timeoutValue :: nat where
  "m_timeoutValue = 2"

text \<open>
  One pass of the loop: entries up to and including the first expired one are counted up, then
  the loop is left. The result is the list and the position of the expired entry.
\<close>

fun timer_scan :: "message_time list \<Rightarrow> message_time list \<times> nat option" where
  "timer_scan [] = ([], None)"
| "timer_scan (m # ms) =
     (let m' = m\<lparr>timer := timer m + 1\<rparr>
      in if m_timeoutValue \<le> timer m' then (m' # ms, Some 0)
         else (let (ms', r) = timer_scan ms in (m' # ms', map_option Suc r)))"

text \<open>
  The memory of the vector after the removal: the popped or cleared slot keeps its bytes (the
  elements have no destructor and the capacity is kept).
\<close>

definition removal_memory :: "u64 \<Rightarrow> message_time list \<Rightarrow> message_time list" where
  "removal_memory cid ms =
     (case find_first (\<lambda>m. completeMessageId m = cid) ms of
        None \<Rightarrow> ms
      | Some j \<Rightarrow> if 1 < length ms then swap_last j ms else ms)"

text \<open>
  The list after a timer step and, when an entry expired, the element that \<open>temp\<close>, the pointer
  to its slot, points to when the code goes on after the removal.
\<close>

definition timer_step :: "message_time list \<Rightarrow> message_time list \<times> message_time option" where
  "timer_step ms =
     (case timer_scan ms of
        (ms', None) \<Rightarrow> (ms', None)
      | (ms', Some i) \<Rightarrow>
          (snd (removeMessageFromList (completeMessageId (ms' ! i)) ms'),
           Some (removal_memory (completeMessageId (ms' ! i)) ms' ! i)))"

datatype errorCodes =
    UNDEFINED_ERROR
  | FALSE_VERSION
  | UNKNOWN_SESSION
  | INVALID_MESSAGE_SIZE
  | MESSAGE_TIMEOUT
  | MULTIBLOCK_FAILED

fun errorCodes_val :: "errorCodes \<Rightarrow> u8" where
  "errorCodes_val UNDEFINED_ERROR = 0"
| "errorCodes_val FALSE_VERSION = 1"
| "errorCodes_val UNKNOWN_SESSION = 2"
| "errorCodes_val INVALID_MESSAGE_SIZE = 3"
| "errorCodes_val MESSAGE_TIMEOUT = 4"
| "errorCodes_val MULTIBLOCK_FAILED = 5"

definition timeout_text :: "message_time \<Rightarrow> byte list" where
  "timeout_text m =
     ascii ''TIMEOUT of message: '' @ to_string (unat (completeMessageId m)) @
     ascii '' with type: '' @ to_string (unat (messageType m))"

definition makeTimerStep ::
    "('sm, 'buf) env \<Rightarrow> ('sm, 'buf) world \<Rightarrow> fault + ('sm, 'buf) world" where
  "makeTimerStep env w =
     (case timer_step (w_reply w) of
        (ms, None) \<Rightarrow> Inr (w\<lparr>w_reply := ms\<rparr>)
      | (ms, Some temp) \<Rightarrow>
          let w1 = w\<lparr>w_reply := ms\<rparr> in
          if ignoreResult temp then Inr w1
          else then_do (get_session (message_session temp) w1) (\<lambda>s.
                 call_client env (m_processError s)
                   (\<lambda>f. Process_Error f (message_session temp) (errorCodes_val MESSAGE_TIMEOUT)
                          (timeout_text temp))
                   (set_session (message_session temp) (s\<lparr>m_initState := -1\<rparr>) w1)))"

lemma timer_scan_length: "length (fst (timer_scan ms)) = length ms"
  by (induction ms rule: timer_scan.induct) (auto simp: Let_def split: prod.splits)

lemma timer_scan_ids:
  "map completeMessageId (fst (timer_scan ms)) = map completeMessageId ms"
  by (induction ms rule: timer_scan.induct) (auto simp: Let_def split: prod.splits)

lemma timer_scan_None:
  "timer_scan ms = (ms', None) \<Longrightarrow>
     ms' = map (\<lambda>m. m\<lparr>timer := timer m + 1\<rparr>) ms \<and> (\<forall>m \<in> set ms. timer m + 1 < m_timeoutValue)"
  by (induction ms arbitrary: ms' rule: timer_scan.induct)
    (auto simp: Let_def split: prod.splits if_splits)

lemma timer_scan_Some:
  "timer_scan ms = (ms', Some i) \<Longrightarrow>
     i < length ms \<and> m_timeoutValue \<le> timer (ms ! i) + 1 \<and>
     (\<forall>j < i. timer (ms ! j) + 1 < m_timeoutValue) \<and>
     ms' = map (\<lambda>m. m\<lparr>timer := timer m + 1\<rparr>) (take (Suc i) ms) @ drop (Suc i) ms"
proof (induction ms arbitrary: ms' i)
  case Nil
  then show ?case by simp
next
  case (Cons m ms)
  show ?case
  proof (cases "m_timeoutValue \<le> timer m + 1")
    case True
    with Cons.prems show ?thesis by (auto simp: Let_def)
  next
    case False
    with Cons.prems obtain i' ms'' where
      sc: "timer_scan ms = (ms'', Some i')" and eq: "i = Suc i'" "ms' = m\<lparr>timer := timer m + 1\<rparr> # ms''"
      by (auto simp: Let_def split: prod.splits)
    from Cons.IH [OF sc] False eq show ?thesis by (auto simp: less_Suc_eq_0_disj)
  qed
qed

section \<open>Every pending message is given up\<close>

definition timer_tick :: "message_time list \<Rightarrow> message_time list" where
  "timer_tick ms = fst (timer_step ms)"

lemma timer_tick_Nil [simp]: "timer_tick [] = []"
  by (simp add: timer_tick_def timer_step_def)

lemma funpow_timer_tick_Nil [simp]: "(timer_tick ^^ n) [] = []"
  by (induction n) (simp_all add: funpow_swap1)

lemma removeMessageFromList_length:
  assumes "i < length ms"
  shows "length (snd (removeMessageFromList (completeMessageId (ms ! i)) ms)) = length ms - 1"
proof -
  from assms obtain k where
    k: "find_first (\<lambda>m. completeMessageId m = completeMessageId (ms ! i)) ms = Some k"
    by (metis (mono_tags, lifting) find_first_None_iff not_Some_eq nth_mem)
  from assms have "ms \<noteq> []" by auto
  with k show ?thesis by (simp add: removeMessageFromList_def length_swap_remove)
qed

lemma removeMessageFromList_subset: "set (snd (removeMessageFromList cid ms)) \<subseteq> set ms"
  by (auto simp: removeMessageFromList_def split: option.splits
      dest!: find_first_SomeD dest: set_swap_remove_subset)

lemma timer_tick_expired:
  assumes "timer_scan ms = (ms', Some i)"
  shows "length (timer_tick ms) = length ms - 1"
proof -
  have "length ms' = length ms" using timer_scan_length [of ms] assms by simp
  with assms timer_scan_Some [OF assms] show ?thesis
    by (simp add: timer_tick_def timer_step_def removeMessageFromList_length)
qed

text \<open>Once every entry has been counted up, each further step removes one entry.\<close>

definition all_aged :: "message_time list \<Rightarrow> bool" where
  "all_aged ms \<longleftrightarrow> (\<forall>m \<in> set ms. 1 \<le> timer m)"

lemma timer_tick_aged:
  assumes "all_aged ms"
  shows "all_aged (timer_tick ms)" and "length (timer_tick ms) = length ms - 1"
proof -
  have "all_aged (timer_tick ms) \<and> length (timer_tick ms) = length ms - 1"
  proof (cases ms)
    case Nil
    then show ?thesis by (simp add: all_aged_def)
  next
    case (Cons m ms0)
    with assms have sc: "timer_scan ms = (m\<lparr>timer := timer m + 1\<rparr> # ms0, Some 0)"
      by (simp add: all_aged_def m_timeoutValue_def Let_def)
    have "set (timer_tick ms) \<subseteq> set (m\<lparr>timer := timer m + 1\<rparr> # ms0)"
      unfolding timer_tick_def timer_step_def sc
      by (simp add: removeMessageFromList_subset [where ms = "m\<lparr>timer := timer m + 1\<rparr> # ms0", simplified])
    with assms Cons have "all_aged (timer_tick ms)" by (auto simp: all_aged_def)
    with timer_tick_expired [OF sc] show ?thesis by simp
  qed
  then show "all_aged (timer_tick ms)" and "length (timer_tick ms) = length ms - 1" by auto
qed

lemma timer_ticks_aged: "all_aged ms \<Longrightarrow> (timer_tick ^^ length ms) ms = []"
proof (induction "length ms" arbitrary: ms)
  case 0
  then show ?case by simp
next
  case (Suc n)
  have "n = length (timer_tick ms)" and "all_aged (timer_tick ms)"
    using Suc.hyps(2) Suc.prems timer_tick_aged by auto
  from Suc.hyps(1) [OF this] Suc.hyps(2) show ?case
    by (metis funpow.simps(2) funpow_swap1 o_apply \<open>n = length (timer_tick ms)\<close>)
qed

text \<open>
  C16: if no further message is added, the reply timer empties a list of n entries within n + 1
  of its steps, whatever the age of the entries: no unanswered message is kept for ever.
\<close>

theorem reply_timer_empties: "(timer_tick ^^ Suc (length ms)) ms = []"
proof (induction "length ms" arbitrary: ms rule: less_induct)
  case less
  obtain ms' r where sc: "timer_scan ms = (ms', r)" by fastforce
  show ?case
  proof (cases r)
    case None
    with sc have sc: "timer_scan ms = (ms', None)" by simp
    from timer_scan_None [OF sc] have "all_aged ms'" and "length ms' = length ms"
      by (auto simp: all_aged_def)
    moreover have "timer_tick ms = ms'" by (simp add: timer_tick_def timer_step_def sc)
    ultimately show ?thesis
      using timer_ticks_aged [of ms'] by (simp add: funpow_swap1)
  next
    case (Some i)
    with sc have sc: "timer_scan ms = (ms', Some i)" by simp
    have "i < length ms" using timer_scan_Some [OF sc] by simp
    then have l: "length ms = Suc (length (timer_tick ms))"
      by (simp add: timer_tick_expired [OF sc])
    with less [of "timer_tick ms"] show ?thesis by (simp add: funpow_swap1)
  qed
qed

section \<open>What a timeout reports\<close>

lemma timer_scan_distinct_removal:
  assumes sc: "timer_scan ms = (ms', Some i)" and d: "distinct (map completeMessageId ms)"
  shows "find_first (\<lambda>m. completeMessageId m = completeMessageId (ms' ! i)) ms' = Some i"
proof (rule find_first_unique)
  have len: "length ms' = length ms" using timer_scan_length [of ms] sc by simp
  have ids: "distinct (map completeMessageId ms')" using timer_scan_ids [of ms] sc d by simp
  show i: "i < length ms'" using timer_scan_Some [OF sc] len by simp
  show "completeMessageId (ms' ! i) = completeMessageId (ms' ! i)" by simp
  fix j assume "j < i"
  with i ids have "map completeMessageId ms' ! j \<noteq> map completeMessageId ms' ! i"
    by (subst nth_eq_iff_index_eq) auto
  with i \<open>j < i\<close> show "completeMessageId (ms' ! j) \<noteq> completeMessageId (ms' ! i)" by simp
qed

lemma timer_step_slot:
  assumes sc: "timer_scan ms = (ms', Some i)" and d: "distinct (map completeMessageId ms)"
  shows "timer_step ms =
    (swap_remove i ms', Some (if i = length ms - 1 then ms' ! i else last ms'))"
proof -
  have i: "i < length ms'" and len: "length ms' = length ms"
    using timer_scan_Some [OF sc] timer_scan_length [of ms] sc by auto
  have "removal_memory (completeMessageId (ms' ! i)) ms' ! i
      = (if i = length ms - 1 then ms' ! i else last ms')"
    using i len
    by (auto simp: removal_memory_def timer_scan_distinct_removal [OF sc d] swap_last_def
        nth_list_update)
  then show ?thesis
    by (simp add: timer_step_def sc removeMessageFromList_def
        timer_scan_distinct_removal [OF sc d])
qed

lemma last_timer_scan:
  assumes "timer_scan ms = (ms', Some i)" and "Suc i < length ms"
  shows "last ms' = last ms"
  using timer_scan_Some [OF assms(1)] assms(2) by simp

text \<open>
  C26: when the expired message is the last of the list, the timeout reports that message: its
  session leaves the creating state with -1 and the application gets its error callback.
\<close>

theorem timeout_reports_last_entry:
  assumes "timer_scan (w_reply w) = (ms', Some i)" and "Suc i = length (w_reply w)"
    and "distinct (map completeMessageId (w_reply w))"
    and "\<not> ignoreResult (ms' ! i)"
    and "w_heap w (message_session (ms' ! i)) = Some s" and "m_processError s = Some f"
  shows "makeTimerStep env w =
    (let p = message_session (ms' ! i);
         err = Process_Error f p (errorCodes_val MESSAGE_TIMEOUT) (timeout_text (ms' ! i))
     in Inr (e_client env err (log_event (Client err)
          (set_session p (s\<lparr>m_initState := -1\<rparr>) (w\<lparr>w_reply := swap_remove i ms'\<rparr>)))))"
proof -
  have "i = length (w_reply w) - 1" using assms(2) by simp
  then have "timer_step (w_reply w) = (swap_remove i ms', Some (ms' ! i))"
    by (simp add: timer_step_slot [OF assms(1,3)])
  with assms(4-6) show ?thesis by (simp add: makeTimerStep_def Let_def)
qed

text \<open>
  C28: when the expired message is not the last of the list, the swap puts the last message into
  its slot before the slot is read again. The error is then reported for that other message,
  which stays pending, and it is that message's session whose creation is given up.
\<close>

theorem timeout_reports_wrong_entry:
  assumes "timer_scan (w_reply w) = (ms', Some i)" and "Suc i < length (w_reply w)"
    and "distinct (map completeMessageId (w_reply w))"
    and "\<not> ignoreResult (last (w_reply w))"
    and "w_heap w (message_session (last (w_reply w))) = Some s" and "m_processError s = Some f"
  shows "makeTimerStep env w =
      (let p = message_session (last (w_reply w));
           err = Process_Error f p (errorCodes_val MESSAGE_TIMEOUT)
                   (timeout_text (last (w_reply w)))
       in Inr (e_client env err (log_event (Client err)
            (set_session p (s\<lparr>m_initState := -1\<rparr>) (w\<lparr>w_reply := swap_remove i ms'\<rparr>)))))
    \<and> last (w_reply w) \<in> set (swap_remove i ms')
    \<and> completeMessageId (last (w_reply w)) \<noteq> completeMessageId (ms' ! i)"
proof -
  have i: "Suc i < length ms'" and last: "last ms' = last (w_reply w)"
    using assms(1,2) timer_scan_length [of "w_reply w"] last_timer_scan [OF assms(1,2)] by auto
  have "timer_step (w_reply w) = (swap_remove i ms', Some (last (w_reply w)))"
    using assms(2) by (simp add: timer_step_slot [OF assms(1,3)] last)
  then have "makeTimerStep env w =
      (let p = message_session (last (w_reply w));
           err = Process_Error f p (errorCodes_val MESSAGE_TIMEOUT)
                   (timeout_text (last (w_reply w)))
       in Inr (e_client env err (log_event (Client err)
            (set_session p (s\<lparr>m_initState := -1\<rparr>) (w\<lparr>w_reply := swap_remove i ms'\<rparr>)))))"
    using assms(4-6) by (simp add: makeTimerStep_def Let_def)
  moreover have "last (w_reply w) \<in> set (swap_remove i ms')"
  proof -
    have "swap_remove i ms' ! i = last ms'" and "i < length (swap_remove i ms')"
      using i by (auto simp: swap_remove_nth length_swap_remove)
    with last show ?thesis by (metis nth_mem)
  qed
  moreover have "completeMessageId (last (w_reply w)) \<noteq> completeMessageId (ms' ! i)"
  proof -
    have d: "distinct (map completeMessageId ms')"
      using timer_scan_ids [of "w_reply w"] assms(1,3) by simp
    have "map completeMessageId ms' ! (length ms' - 1) \<noteq> map completeMessageId ms' ! i"
      using d i by (subst nth_eq_iff_index_eq) auto
    moreover have "last ms' = ms' ! (length ms' - 1)" using i by (subst last_conv_nth) auto
    ultimately show ?thesis using i last by simp
  qed
  ultimately show ?thesis by blast
qed

definition sample_entry :: "u64 \<Rightarrow> nat \<Rightarrow> message_time" where
  "sample_entry cid t = \<lparr>completeMessageId = cid, timer = t, messageType = 2,
     message_session = 1, ignoreResult = False\<rparr>"

theorem timeout_reports_last_entry_witness:
  "let w = (sample_world Ready)\<lparr>w_reply := [sample_entry 11 0, sample_entry 12 1]\<rparr> in
     \<exists>w'. makeTimerStep sample_env w = Inr w' \<and>
       w_trace w' = [Client (Process_Error 25 1 4 (timeout_text (sample_entry 12 2)))]"
proof -
  let ?w = "(sample_world Ready)\<lparr>w_reply := [sample_entry 11 0, sample_entry 12 1]\<rparr>"
  have "timer_scan (w_reply ?w) = ([sample_entry 11 1, sample_entry 12 2], Some 1)"
    by (simp add: sample_entry_def m_timeoutValue_def)
  from timeout_reports_last_entry [OF this, of "sample_session Ready" 25 sample_env]
  show ?thesis
    by (simp add: sample_entry_def sample_world_def sample_env_def sample_session_def Let_def)
qed

theorem timeout_reports_wrong_entry_witness:
  "let w = (sample_world Ready)\<lparr>w_reply := [sample_entry 11 1, sample_entry 12 0]\<rparr> in
     \<exists>w'. makeTimerStep sample_env w = Inr w' \<and>
       w_trace w' = [Client (Process_Error 25 1 4 (timeout_text (sample_entry 12 0)))]"
proof -
  let ?w = "(sample_world Ready)\<lparr>w_reply := [sample_entry 11 1, sample_entry 12 0]\<rparr>"
  have "timer_scan (w_reply ?w) = ([sample_entry 11 2, sample_entry 12 0], Some 0)"
    by (simp add: sample_entry_def m_timeoutValue_def)
  from timeout_reports_wrong_entry [OF this, of "sample_session Ready" 25 sample_env]
  show ?thesis
    by (simp add: sample_entry_def sample_world_def sample_env_def sample_session_def Let_def)
qed

section \<open>Closing a session\<close>

text \<open>
  C17: a reply takes exactly one entry off the list, the first one with the identifier it answers, wherever
  it is, and leaves all others in the list with what they hold; without such an entry nothing changes. The
  identifier belongs to one session and one message only, and a message that is sent and answered leaves
  the pending identifiers as they were.
\<close>

theorem reply_removes_exactly_its_message:
  "(case removeMessage sid (ucast mid) ms of
      (found, ms') \<Rightarrow>
        if found
        then \<exists>xs m ys. ms = xs @ m # ys \<and> completeMessageId m = complete_message_id sid (ucast mid)
          \<and> (\<forall>x \<in> set xs. completeMessageId x \<noteq> complete_message_id sid (ucast mid))
          \<and> mset ms' = mset (xs @ ys)
        else ms' = ms \<and> (\<forall>m \<in> set ms. completeMessageId m \<noteq> complete_message_id sid (ucast mid)))
   \<and> fst (removeMessage sid (ucast mid) (addMessage ty sid (ucast mid) p ms))
   \<and> pending_ids (snd (removeMessage sid (ucast mid) (addMessage ty sid (ucast mid) p ms)))
       = pending_ids ms
   \<and> (complete_message_id sid (ucast (mid :: u32)) = complete_message_id sid' (ucast (mid' :: u32))
        \<longleftrightarrow> sid = sid' \<and> mid = mid')"
proof (intro conjI)
  let ?i = "complete_message_id sid (ucast mid)"
  show "case removeMessage sid (ucast mid) ms of
      (found, ms') \<Rightarrow>
        if found
        then \<exists>xs m ys. ms = xs @ m # ys \<and> completeMessageId m = ?i
          \<and> (\<forall>x \<in> set xs. completeMessageId x \<noteq> ?i) \<and> mset ms' = mset (xs @ ys)
        else ms' = ms \<and> (\<forall>m \<in> set ms. completeMessageId m \<noteq> ?i)"
    by (cases rule: removeMessageFromList_cases [of ?i ms])
      (auto simp: removeMessage_def removeMessage_complete_def)
qed (use reply_list.add_then_remove [where e = "(ty, p)"] in
    \<open>simp_all add: removeMessage_def removeMessage_complete_def addMessage_def complete_message_id_inject\<close>)

text \<open>The reply to the first of two messages leaves the second.\<close>

theorem reply_removes_exactly_its_message_witness:
  "\<exists>ms'. removeMessage 7 (ucast (1 :: u32)) [sample_entry 4294967303 0, sample_entry 8589934599 1] = (True, ms')
    \<and> mset ms' = {#sample_entry 8589934599 1#}"
proof -
  let ?a = "sample_entry 4294967303 0" and ?b = "sample_entry 8589934599 1"
  have id: "complete_message_id 7 (ucast (1 :: u32)) = 4294967303"
    by (simp add: complete_message_id_def push_bit_eq_mult)
  obtain found ms' where r: "removeMessage 7 (ucast (1 :: u32)) [?a, ?b] = (found, ms')" by fastforce
  from reply_removes_exactly_its_message [where sid = 7 and mid = 1 and ms = "[?a, ?b]"]
  have c: "if found
      then \<exists>xs m ys. [?a, ?b] = xs @ m # ys \<and> completeMessageId m = 4294967303
        \<and> (\<forall>x \<in> set xs. completeMessageId x \<noteq> 4294967303) \<and> mset ms' = mset (xs @ ys)
      else ms' = [?a, ?b] \<and> (\<forall>m \<in> set [?a, ?b]. completeMessageId m \<noteq> 4294967303)"
    unfolding id r prod.case by blast
  then have found by (simp add: sample_entry_def split: if_splits)
  with c obtain xs m ys where xs: "[?a, ?b] = xs @ m # ys"
    "\<forall>x \<in> set xs. completeMessageId x \<noteq> 4294967303" "mset ms' = mset (xs @ ys)" by auto
  have "xs = []" using xs(1,2) by (cases xs) (auto simp: sample_entry_def)
  with xs r \<open>found\<close> show ?thesis by auto
qed

text \<open>
  removeAllOfSession silences the entries of the session whose id it is given and changes
  nothing else: the same entries stay in the same order with the same timers, those of the
  session have their result ignored, and those of every other session are untouched.
\<close>

lemma removeAllOfSession_silences:
  "length (removeAllOfSession sid ms) = length ms \<and>
   map completeMessageId (removeAllOfSession sid ms) = map completeMessageId ms \<and>
   map timer (removeAllOfSession sid ms) = map timer ms \<and>
   filter (\<lambda>m. and (completeMessageId m) 0xFFFFFFFF \<noteq> ucast sid) (removeAllOfSession sid ms)
     = filter (\<lambda>m. and (completeMessageId m) 0xFFFFFFFF \<noteq> ucast sid) ms \<and>
   list_all ignoreResult
     (filter (\<lambda>m. and (completeMessageId m) 0xFFFFFFFF = ucast sid) (removeAllOfSession sid ms))"
  by (induction ms) (auto simp: removeAllOfSession_def)

end
