(* ===== verification/Message_Blocker_Handler.thy ===== *)
theory Message_Blocker_Handler
  imports Reply_Handler
begin

text \<open>
  src/src/handler/message_blocker_handler.cpp: the threads that wait for the response to a request.
  \<open>m_messageList\<close> is a vector of pointers, so the entries live in a heap of their own and a use
  of a deleted entry is the fault \<open>Use_After_Free\<close>. \<open>blockMessage\<close> is several steps, because other
  threads run between the insertion of the entry, the wait, its end, the removal and the unlocking of the
  entry's mutex. A notification
  reaches a thread only while it waits.
\<close>

section \<open>Entries\<close>

definition get_blocker :: "ptr \<Rightarrow> 'buf blocker_handler \<Rightarrow> fault + 'buf message_blocker" where
  "get_blocker p h = (case blocker_heap h p of None \<Rightarrow> Inl Use_After_Free | Some b \<Rightarrow> Inr b)"

definition set_blocker ::
    "ptr \<Rightarrow> 'buf message_blocker \<Rightarrow> 'buf blocker_handler \<Rightarrow> 'buf blocker_handler" where
  "set_blocker p b h = h\<lparr>blocker_heap := (blocker_heap h)(p \<mapsto> b)\<rparr>"

fun notify_one :: "cv_state \<Rightarrow> cv_state" where
  "notify_one Waiting = Notified"
| "notify_one Before_Wait = Before_Wait"
| "notify_one Notified = Notified"

section \<open>Operations\<close>

text \<open>blockMessage: the new entry is inserted, \<dots>\<close>

definition blockMessage_enter ::
    "u64 \<Rightarrow> u64 \<Rightarrow> ptr \<Rightarrow> 'buf blocker_handler \<Rightarrow> ptr \<times> 'buf blocker_handler" where
  "blockMessage_enter bid timeout session h =
     (let p = blocker_next h in
      (p, h\<lparr>blocker_next := Suc p, blocker_list := blocker_list h @ [p],
            blocker_heap := (blocker_heap h)(p \<mapsto>
              \<lparr>blocker_session = session, blocker_id = bid, blocker_timer = timeout,
               blocker_cv = Before_Wait, responseData = None\<rparr>)\<rparr>))"

text \<open>\<dots> the thread goes to sleep on the entry's condition variable, \<dots>\<close>

definition blockMessage_wait :: "ptr \<Rightarrow> 'buf blocker_handler \<Rightarrow> fault + 'buf blocker_handler" where
  "blockMessage_wait p h =
     then_do (get_blocker p h) (\<lambda>b. Inr (set_blocker p (b\<lparr>blocker_cv := Waiting\<rparr>) h))"

fun find_blocker ::
    "(ptr \<Rightarrow> 'buf message_blocker option) \<Rightarrow> u64 \<Rightarrow> ptr list \<Rightarrow> fault + nat option" where
  "find_blocker heap bid [] = Inr None"
| "find_blocker heap bid (p # ps) =
     (case heap p of
        None \<Rightarrow> Inl Use_After_Free
      | Some b \<Rightarrow> if blocker_id b = bid then Inr (Some 0)
                 else then_do (find_blocker heap bid ps) (\<lambda>r. Inr (map_option Suc r)))"

definition blocker_removeMessageFromList ::
    "u64 \<Rightarrow> 'buf blocker_handler \<Rightarrow> fault + 'buf option \<times> 'buf blocker_handler" where
  "blocker_removeMessageFromList bid h =
     then_do (find_blocker (blocker_heap h) bid (blocker_list h)) (\<lambda>r.
       case r of
         None \<Rightarrow> Inr (None, h)
       | Some i \<Rightarrow>
           then_do (get_blocker (blocker_list h ! i) h) (\<lambda>b.
             Inr (responseData b,
                  h\<lparr>blocker_list := swap_remove i (blocker_list h),
                    blocker_heap := (blocker_heap h)(blocker_list h ! i := None)\<rparr>)))"

text \<open>\<dots> and when it runs again it takes its entry out and returns the data.\<close>

definition blockMessage_resume ::
    "u64 \<Rightarrow> 'buf blocker_handler \<Rightarrow> fault + 'buf option \<times> 'buf blocker_handler" where
  "blockMessage_resume bid h = blocker_removeMessageFromList bid h"

text \<open>
  Before the wait returns it locks the mutex of the entry \<open>p\<close> again; a thread that was notified does so after
  the thread that notified it has gone on.
\<close>

definition blockMessage_woken :: "ptr \<Rightarrow> 'buf blocker_handler \<Rightarrow> fault + 'buf blocker_handler" where
  "blockMessage_woken p h = then_do (get_blocker p h) (\<lambda>b. Inr h)"

text \<open>
  The condition variable waits with the mutex of the entry, which the thread holds until it returns: the
  destructor of \<open>lock\<close> unlocks it through the reference to the entry \<open>p\<close>, after the value that is returned
  has been computed.
\<close>

definition blockMessage_unlock :: "ptr \<Rightarrow> 'buf blocker_handler \<Rightarrow> fault + 'buf blocker_handler" where
  "blockMessage_unlock p h = then_do (get_blocker p h) (\<lambda>b. Inr h)"

definition releaseMessageInList ::
    "u64 \<Rightarrow> 'buf option \<Rightarrow> 'buf blocker_handler \<Rightarrow> fault + bool \<times> 'buf blocker_handler" where
  "releaseMessageInList bid data h =
     then_do (find_blocker (blocker_heap h) bid (blocker_list h)) (\<lambda>r.
       case r of
         None \<Rightarrow> Inr (False, h)
       | Some i \<Rightarrow>
           then_do (get_blocker (blocker_list h ! i) h) (\<lambda>b.
             Inr (True, set_blocker (blocker_list h ! i)
                          (b\<lparr>responseData := data, blocker_cv := notify_one (blocker_cv b)\<rparr>) h)))"

definition releaseMessage ::
    "u64 \<Rightarrow> 'buf option \<Rightarrow> 'buf blocker_handler \<Rightarrow> fault + bool \<times> 'buf blocker_handler" where
  "releaseMessage bid data h = releaseMessageInList bid data h"

fun clear_entries ::
    "ptr list \<Rightarrow> (ptr \<Rightarrow> 'buf message_blocker option)
     \<Rightarrow> fault + (ptr \<Rightarrow> 'buf message_blocker option)" where
  "clear_entries [] heap = Inr heap"
| "clear_entries (p # ps) heap =
     (case heap p of None \<Rightarrow> Inl Use_After_Free
      | Some b \<Rightarrow> clear_entries ps (heap(p := None)))"

text \<open>
  C++ lets a condition variable be destroyed whose thread has been notified; but that thread then finds the
  mutex of its entry deleted (\<open>blockMessage_woken\<close>).
\<close>

definition clearList :: "'buf blocker_handler \<Rightarrow> fault + 'buf blocker_handler" where
  "clearList h =
     then_do (clear_entries (blocker_list h) (blocker_heap h)) (\<lambda>heap.
       Inr (h\<lparr>blocker_heap := heap, blocker_list := []\<rparr>))"

text \<open>Constructor and destructor.\<close>

definition new_MessageBlockerHandler :: "'buf blocker_handler" where
  "new_MessageBlockerHandler = \<lparr>blocker_list = [], blocker_heap = Map.empty, blocker_next = 0\<rparr>"

definition delete_MessageBlockerHandler :: "'buf blocker_handler \<Rightarrow> fault + 'buf blocker_handler" where
  "delete_MessageBlockerHandler h = clearList h"

section \<open>The timer\<close>

definition request_timeout_text :: "u64 \<Rightarrow> byte list" where
  "request_timeout_text bid = ascii ''TIMEOUT of request: '' @ to_string (unat bid)"

text \<open>
  The body of the timer loop for position \<open>i\<close>. Every \<open>temp->\<close> of the source is a read through
  the pointer, also after the removal, which deletes the entry it finds.
\<close>

definition blocker_timer_body ::
    "('sm, 'buf) env \<Rightarrow> nat \<Rightarrow> ('sm, 'buf) world \<Rightarrow> fault + ('sm, 'buf) world" where
  "blocker_timer_body env i w =
     (let h = w_blocker w; p = blocker_list h ! i in
      then_do (get_blocker p h) (\<lambda>b.
        let b' = b\<lparr>blocker_timer := blocker_timer b - 1\<rparr>; h1 = set_blocker p b' h in
        if blocker_timer b' \<noteq> 0 then Inr (w\<lparr>w_blocker := h1\<rparr>)
        else
          then_do (blocker_removeMessageFromList (blocker_id b') h1) (\<lambda>(_, h2).
          then_do (get_blocker p h2) (\<lambda>b2.
          then_do (releaseMessageInList (blocker_id b2) None h2) (\<lambda>(_, h3).
          then_do (get_blocker p h3) (\<lambda>b3.
            let w3 = w\<lparr>w_blocker := h3\<rparr> in
            then_do (get_session (blocker_session b3) w3) (\<lambda>s.
              call_client env (m_processError s)
                (\<lambda>f. Process_Error f (blocker_session b3) (errorCodes_val MESSAGE_TIMEOUT)
                       (request_timeout_text (blocker_id b3))) w3)))))))"

text \<open>
  The loop runs with the list locked, so the list does not grow under it and as many rounds as
  the list has entries are enough.
\<close>

fun blocker_timer_loop ::
    "nat \<Rightarrow> ('sm, 'buf) env \<Rightarrow> nat \<Rightarrow> ('sm, 'buf) world \<Rightarrow> fault + ('sm, 'buf) world" where
  "blocker_timer_loop 0 env i w = Inl Never_Returns"
| "blocker_timer_loop (Suc n) env i w =
     (if i < length (blocker_list (w_blocker w))
      then then_do (blocker_timer_body env i w) (blocker_timer_loop n env (Suc i))
      else Inr w)"

definition blocker_makeTimerStep ::
    "('sm, 'buf) env \<Rightarrow> ('sm, 'buf) world \<Rightarrow> fault + ('sm, 'buf) world" where
  "blocker_makeTimerStep env w =
     blocker_timer_loop (Suc (length (blocker_list (w_blocker w)))) env 0 w"

section \<open>The invariant\<close>

text \<open>The list names every live entry once, and new addresses are fresh.\<close>

definition blockers_ok :: "'buf blocker_handler \<Rightarrow> bool" where
  "blockers_ok h \<longleftrightarrow> distinct (blocker_list h) \<and> dom (blocker_heap h) = set (blocker_list h)
     \<and> (\<forall>p \<in> set (blocker_list h). p < blocker_next h)"

definition id_at :: "'buf blocker_handler \<Rightarrow> ptr \<Rightarrow> u64" where
  "id_at h p = blocker_id (the (blocker_heap h p))"

lemma find_blocker_live:
  assumes "set ps \<subseteq> dom heap"
  shows "find_blocker heap bid ps = Inr (find_first (\<lambda>p. blocker_id (the (heap p)) = bid) ps)"
  using assms by (induction ps) auto

lemma find_blocker_ok:
  "blockers_ok h \<Longrightarrow> find_blocker (blocker_heap h) bid (blocker_list h)
     = Inr (find_first (\<lambda>p. id_at h p = bid) (blocker_list h))"
  by (simp add: find_blocker_live blockers_ok_def id_at_def)

lemma blockers_ok_live:
  assumes "blockers_ok h" and "p \<in> set (blocker_list h)"
  obtains b where "blocker_heap h p = Some b"
  using assms by (auto simp: blockers_ok_def)

lemma get_blocker_Some [simp]: "blocker_heap h p = Some b \<Longrightarrow> get_blocker p h = Inr b"
  by (simp add: get_blocker_def)

lemma blockers_ok_set:
  "blockers_ok h \<Longrightarrow> p \<in> set (blocker_list h) \<Longrightarrow> blockers_ok (set_blocker p b h)"
  by (auto simp: blockers_ok_def set_blocker_def)

lemma blockers_ok_enter: "blockers_ok h \<Longrightarrow> blockers_ok (snd (blockMessage_enter bid t s h))"
  by (auto simp: blockers_ok_def blockMessage_enter_def Let_def less_Suc_eq)

lemma swap_remove_set:
  assumes "distinct xs" and "i < length xs"
  shows "set (swap_remove i xs) = set xs - {xs ! i}" and "distinct (swap_remove i xs)"
proof -
  have m: "mset xs = add_mset (xs ! i) (mset (swap_remove i xs))"
    by (rule mset_swap_remove [OF assms(2)])
  then have "distinct (xs ! i # swap_remove i xs)"
    using assms(1) by (metis mset.simps(2) mset_eq_imp_distinct_iff)
  then show "distinct (swap_remove i xs)" by simp
  from m have "set xs = insert (xs ! i) (set (swap_remove i xs))"
    by (metis set_mset_add_mset_insert set_mset_mset)
  with \<open>distinct (xs ! i # swap_remove i xs)\<close>
  show "set (swap_remove i xs) = set xs - {xs ! i}" by auto
qed

lemma blocker_remove_cases:
  assumes ok: "blockers_ok h"
  obtains (absent) "\<forall>p \<in> set (blocker_list h). id_at h p \<noteq> bid"
      "blocker_removeMessageFromList bid h = Inr (None, h)"
  | (found) i b where "find_first (\<lambda>p. id_at h p = bid) (blocker_list h) = Some i"
      "i < length (blocker_list h)"
      "blocker_heap h (blocker_list h ! i) = Some b" "blocker_id b = bid"
      "blocker_removeMessageFromList bid h = Inr (responseData b,
         h\<lparr>blocker_list := swap_remove i (blocker_list h),
           blocker_heap := (blocker_heap h)(blocker_list h ! i := None)\<rparr>)"
proof (cases "find_first (\<lambda>p. id_at h p = bid) (blocker_list h)")
  case None
  from None [unfolded find_first_None_iff]
  have "\<forall>p \<in> set (blocker_list h). id_at h p \<noteq> bid" by simp
  then show ?thesis
    by (rule absent) (simp add: blocker_removeMessageFromList_def find_blocker_ok [OF ok] None)
next
  case (Some i)
  from find_first_SomeD [OF Some] have i: "i < length (blocker_list h)"
    and id: "id_at h (blocker_list h ! i) = bid" by auto
  obtain b where b: "blocker_heap h (blocker_list h ! i) = Some b"
    using blockers_ok_live [OF ok nth_mem [OF i]] by blast
  show ?thesis
    by (rule found [OF Some i b])
      (use id b Some in \<open>simp_all add: id_at_def blocker_removeMessageFromList_def
        find_blocker_ok [OF ok]\<close>)
qed

lemma blocker_release_cases:
  assumes ok: "blockers_ok h"
  obtains (absent) "\<forall>p \<in> set (blocker_list h). id_at h p \<noteq> bid"
      "releaseMessageInList bid data h = Inr (False, h)"
  | (found) i b where "find_first (\<lambda>p. id_at h p = bid) (blocker_list h) = Some i"
      "i < length (blocker_list h)"
      "blocker_heap h (blocker_list h ! i) = Some b" "blocker_id b = bid"
      "releaseMessageInList bid data h = Inr (True, set_blocker (blocker_list h ! i)
         (b\<lparr>responseData := data, blocker_cv := notify_one (blocker_cv b)\<rparr>) h)"
proof (cases "find_first (\<lambda>p. id_at h p = bid) (blocker_list h)")
  case None
  from None [unfolded find_first_None_iff]
  have "\<forall>p \<in> set (blocker_list h). id_at h p \<noteq> bid" by simp
  then show ?thesis
    by (rule absent) (simp add: releaseMessageInList_def find_blocker_ok [OF ok] None)
next
  case (Some i)
  from find_first_SomeD [OF Some] have i: "i < length (blocker_list h)"
    and id: "id_at h (blocker_list h ! i) = bid" by auto
  obtain b where b: "blocker_heap h (blocker_list h ! i) = Some b"
    using blockers_ok_live [OF ok nth_mem [OF i]] by blast
  show ?thesis
    by (rule found [OF Some i b])
      (use id b Some in \<open>simp_all add: id_at_def releaseMessageInList_def find_blocker_ok [OF ok]\<close>)
qed

lemma blockers_ok_remove:
  assumes ok: "blockers_ok h"
  shows "\<exists>r h'. blocker_removeMessageFromList bid h = Inr (r, h') \<and> blockers_ok h'"
  using ok
proof (cases rule: blocker_remove_cases [where bid = bid])
  case absent
  with ok show ?thesis by simp
next
  case (found i b)
  from ok have d: "distinct (blocker_list h)" by (simp add: blockers_ok_def)
  from ok found show ?thesis
    by (auto simp: blockers_ok_def swap_remove_set [OF d found(2)])
qed

lemma blockers_ok_release:
  assumes ok: "blockers_ok h"
  shows "\<exists>r h'. releaseMessageInList bid data h = Inr (r, h') \<and> blockers_ok h'"
  using ok
proof (cases rule: blocker_release_cases [where bid = bid and data = data])
  case absent
  with ok show ?thesis by blast
next
  case (found i b)
  then have "blockers_ok (set_blocker (blocker_list h ! i)
      (b\<lparr>responseData := data, blocker_cv := notify_one (blocker_cv b)\<rparr>) h)"
    using ok by (simp add: blockers_ok_set)
  with found(5) show ?thesis by blast
qed

lemma blockers_ok_wait:
  assumes ok: "blockers_ok h" and r: "blockMessage_wait p h = Inr h'"
  shows "blockers_ok h'"
proof -
  from r obtain b where "blocker_heap h p = Some b" and h': "h' = set_blocker p (b\<lparr>blocker_cv := Waiting\<rparr>) h"
    by (auto simp: blockMessage_wait_def get_blocker_def split: option.splits)
  then have "p \<in> set (blocker_list h)" using ok by (auto simp: blockers_ok_def)
  with ok h' show ?thesis by (simp add: blockers_ok_set)
qed

lemma clear_entries_live:
  "distinct ps \<Longrightarrow> set ps \<subseteq> dom heap \<Longrightarrow>
     clear_entries ps heap = Inr (\<lambda>p. if p \<in> set ps then None else heap p)"
proof (induction ps arbitrary: heap)
  case Nil
  then show ?case by (simp add: fun_eq_iff)
next
  case (Cons p ps)
  then obtain b where "heap p = Some b" by auto
  moreover have "set ps \<subseteq> dom (heap(p := None))" using Cons.prems by auto
  ultimately show ?case using Cons by (auto simp: fun_eq_iff)
qed

lemma blockers_ok_clear:
  assumes "blockers_ok h"
  shows "\<exists>h'. clearList h = Inr h' \<and> blockers_ok h' \<and> blocker_list h' = [] \<and> dom (blocker_heap h') = {}"
proof -
  from assms have "(\<lambda>p. if p \<in> set (blocker_list h) then None else blocker_heap h p) = Map.empty"
    by (auto simp: fun_eq_iff blockers_ok_def)
  with assms show ?thesis by (simp add: clearList_def blockers_ok_def clear_entries_live)
qed

definition sample_blockers :: "byte list blocker_handler" where
  "sample_blockers = snd (blockMessage_enter 6 1 1 (snd (blockMessage_enter 5 3 1
     \<lparr>blocker_list = [], blocker_heap = Map.empty, blocker_next = 0\<rparr>)))"

section \<open>Requests and their responses\<close>

lemma find_first_snoc_new:
  "\<forall>x \<in> set xs. \<not> P x \<Longrightarrow> P y \<Longrightarrow> find_first P (xs @ [y]) = Some (length xs)"
  by (induction xs) auto

lemma swap_remove_snoc [simp]: "swap_remove (length xs) (xs @ [y]) = xs"
  by (simp add: swap_remove_def swap_last_def list_update_append)

text \<open>
  The state after an entry was appended: \<open>with_entry h p b\<close>. Every step of one request keeps
  this form.
\<close>

definition with_entry ::
    "'buf blocker_handler \<Rightarrow> 'buf message_blocker \<Rightarrow> 'buf blocker_handler" where
  "with_entry h b = h\<lparr>blocker_next := Suc (blocker_next h),
     blocker_list := blocker_list h @ [blocker_next h],
     blocker_heap := (blocker_heap h)(blocker_next h \<mapsto> b)\<rparr>"

lemma with_entry_sel [simp]:
  "blocker_list (with_entry h b) = blocker_list h @ [blocker_next h]"
  "blocker_heap (with_entry h b) = (blocker_heap h)(blocker_next h \<mapsto> b)"
  "set_blocker (blocker_next h) b' (with_entry h b) = with_entry h b'"
  by (simp_all add: with_entry_def set_blocker_def)

lemma enter_with_entry:
  "blockMessage_enter bid t s h = (blocker_next h, with_entry h
     \<lparr>blocker_session = s, blocker_id = bid, blocker_timer = t, blocker_cv = Before_Wait,
      responseData = None\<rparr>)"
  by (simp add: blockMessage_enter_def with_entry_def Let_def)

lemma wait_with_entry:
  "blockMessage_wait (blocker_next h) (with_entry h b) = Inr (with_entry h (b\<lparr>blocker_cv := Waiting\<rparr>))"
  by (simp add: blockMessage_wait_def get_blocker_def)

lemma find_with_entry:
  assumes ok: "blockers_ok h" and new: "bid \<notin> id_at h ` set (blocker_list h)"
    and b: "blocker_id b = bid"
  shows "find_blocker (blocker_heap (with_entry h b)) bid (blocker_list (with_entry h b))
    = Inr (Some (length (blocker_list h)))"
proof -
  let ?g = "blocker_heap (with_entry h b)"
  have ne: "p \<noteq> blocker_next h" if "p \<in> set (blocker_list h)" for p
    using ok that by (auto simp: blockers_ok_def)
  have "set (blocker_list h @ [blocker_next h]) \<subseteq> dom ?g" using ok by (auto simp: blockers_ok_def)
  then have "find_blocker ?g bid (blocker_list h @ [blocker_next h])
      = Inr (find_first (\<lambda>p. blocker_id (the (?g p)) = bid) (blocker_list h @ [blocker_next h]))"
    by (rule find_blocker_live)
  moreover have "find_first (\<lambda>p. blocker_id (the (?g p)) = bid) (blocker_list h @ [blocker_next h])
      = Some (length (blocker_list h))"
  proof (rule find_first_snoc_new)
    show "\<forall>x \<in> set (blocker_list h). blocker_id (the (?g x)) \<noteq> bid"
      using new ne by (metis fun_upd_other id_at_def imageI with_entry_sel(2))
  qed (simp add: b)
  ultimately show ?thesis by simp
qed

lemma release_with_entry:
  assumes "blockers_ok h" and "bid \<notin> id_at h ` set (blocker_list h)" and "blocker_id b = bid"
  shows "releaseMessage bid d (with_entry h b) = Inr (True, with_entry h
    (b\<lparr>responseData := d, blocker_cv := notify_one (blocker_cv b)\<rparr>))"
  using find_with_entry [OF assms]
  by (simp add: releaseMessage_def releaseMessageInList_def get_blocker_def)

lemma resume_with_entry:
  assumes "blockers_ok h" and "bid \<notin> id_at h ` set (blocker_list h)" and "blocker_id b = bid"
  shows "blockMessage_resume bid (with_entry h b)
    = Inr (responseData b, h\<lparr>blocker_next := Suc (blocker_next h)\<rparr>)"
proof -
  have "blocker_heap h (blocker_next h) = None" using assms(1) by (auto simp: blockers_ok_def domIff)
  then have "(blocker_heap h)(blocker_next h := None) = blocker_heap h" by (simp add: fun_upd_idem)
  then show ?thesis
    using find_with_entry [OF assms]
    by (simp add: blockMessage_resume_def blocker_removeMessageFromList_def get_blocker_def
      with_entry_def)
qed

text \<open>
  A request that is waiting when its response arrives is woken, returns exactly the data of
  the response, and leaves the list and the entries of all other requests as they were.
\<close>

lemma waiting_request_gets_its_response:
  assumes "blockers_ok h" and "bid \<notin> id_at h ` set (blocker_list h)"
    and "blockMessage_enter bid t s h = (p, h1)" and "blockMessage_wait p h1 = Inr h2"
  shows "\<exists>h3 h4. releaseMessage bid d h2 = Inr (True, h3)
    \<and> map_option blocker_cv (blocker_heap h3 p) = Some Notified
    \<and> blockMessage_resume bid h3 = Inr (d, h4)
    \<and> blocker_list h4 = blocker_list h \<and> blocker_heap h4 = blocker_heap h"
  using assms(3,4)
  by (auto simp: enter_with_entry wait_with_entry release_with_entry [OF assms(1,2)]
    resume_with_entry [OF assms(1,2)])

lemma sample_blockers_ok: "blockers_ok sample_blockers"
  unfolding sample_blockers_def
  by (intro blockers_ok_enter) (simp add: blockers_ok_def)

lemma release_absent:
  assumes "blockers_ok h" and "bid \<notin> id_at h ` set (blocker_list h)"
  shows "releaseMessage bid d h = Inr (False, h)"
  using assms(1)
proof (cases rule: blocker_release_cases [where bid = bid and data = d])
  case absent
  then show ?thesis by (simp add: releaseMessage_def)
next
  case (found i b)
  then have "id_at h (blocker_list h ! i) = bid" by (simp add: id_at_def)
  with assms(2) found(2) show ?thesis by (metis imageI nth_mem)
qed

text \<open>
  C30: a response that arrives before the request has registered its entry is dropped, and one
  that arrives after the registration but before the thread waits is stored without a
  notification, so the thread goes to sleep although its answer is there. The wait has no condition
  either: a thread that wakes up without a notification, as a condition variable may, returns without
  data, and its response is dropped when it comes.
\<close>

theorem early_response_never_wakes_the_request:
  assumes "blockers_ok h" and "bid \<notin> id_at h ` set (blocker_list h)"
    and "blockMessage_enter bid t s h = (p, h1)"
  shows "releaseMessage bid d h = Inr (False, h)
    \<and> (\<exists>h2 h3. releaseMessage bid d h1 = Inr (True, h2) \<and> blockMessage_wait p h2 = Inr h3
      \<and> map_option blocker_cv (blocker_heap h3 p) = Some Waiting
      \<and> map_option responseData (blocker_heap h3 p) = Some d)
    \<and> (\<exists>h2 h3. blockMessage_wait p h1 = Inr h2 \<and> blockMessage_resume bid h2 = Inr (None, h3)
      \<and> releaseMessage bid d h3 = Inr (False, h3))"
proof (intro conjI)
  show "releaseMessage bid d h = Inr (False, h)" by (rule release_absent [OF assms(1,2)])
  show "\<exists>h2 h3. releaseMessage bid d h1 = Inr (True, h2) \<and> blockMessage_wait p h2 = Inr h3
      \<and> map_option blocker_cv (blocker_heap h3 p) = Some Waiting
      \<and> map_option responseData (blocker_heap h3 p) = Some d"
    using assms(3)
    by (auto simp: enter_with_entry wait_with_entry release_with_entry [OF assms(1,2)])
  let ?h = "h\<lparr>blocker_next := Suc (blocker_next h)\<rparr>"
  have "blockers_ok ?h" using assms(1) by (auto simp: blockers_ok_def less_Suc_eq)
  moreover have "bid \<notin> id_at ?h ` set (blocker_list ?h)" using assms(2) by (simp add: id_at_def)
  ultimately have "releaseMessage bid d ?h = Inr (False, ?h)" by (rule release_absent)
  then show "\<exists>h2 h3. blockMessage_wait p h1 = Inr h2 \<and> blockMessage_resume bid h2 = Inr (None, h3)
      \<and> releaseMessage bid d h3 = Inr (False, h3)"
    using assms(3) by (auto simp: enter_with_entry wait_with_entry resume_with_entry [OF assms(1,2)])
qed

theorem early_response_never_wakes_the_request_witness:
  "releaseMessage 9 (Some [1]) sample_blockers = Inr (False, sample_blockers)"
proof -
  have "9 \<notin> id_at sample_blockers ` set (blocker_list sample_blockers)"
    by (simp add: sample_blockers_def blockMessage_enter_def id_at_def)
  from early_response_never_wakes_the_request [OF sample_blockers_ok this surjective_pairing]
  show ?thesis by blast
qed

text \<open>
  C31: every request that returns, with or without its response, has deleted its entry while it holds
  the entry's mutex, and unlocks the deleted mutex on its way out.
\<close>

theorem returning_request_unlocks_a_deleted_mutex:
  assumes ok: "blockers_ok h" and p: "p \<in> set (blocker_list h)" and id: "id_at h p = bid"
    and unique: "\<forall>p' \<in> set (blocker_list h). id_at h p' = bid \<longrightarrow> p' = p"
    and ret: "blockMessage_resume bid h = Inr (d, h1)"
  shows "blockMessage_unlock p h1 = Inl Use_After_Free"
  using ok
proof (cases rule: blocker_remove_cases [where bid = bid])
  case absent
  with p id show ?thesis by simp
next
  case (found i b)
  then have "blocker_list h ! i = p" using unique by (simp add: id_at_def)
  with found(5) ret show ?thesis
    by (auto simp: blockMessage_resume_def blockMessage_unlock_def get_blocker_def)
qed

theorem returning_request_unlocks_a_deleted_mutex_witness:
  "\<exists>d h1. blockMessage_resume 6 sample_blockers = Inr (d, h1) \<and> blockMessage_unlock 1 h1 = Inl Use_After_Free"
proof -
  have "1 \<in> set (blocker_list sample_blockers)" "id_at sample_blockers 1 = 6"
    "\<forall>p' \<in> set (blocker_list sample_blockers). id_at sample_blockers p' = 6 \<longrightarrow> p' = 1"
    by (simp_all add: sample_blockers_def blockMessage_enter_def id_at_def)
  moreover obtain d h1 where "blockMessage_resume 6 sample_blockers = Inr (d, h1)"
    using blockers_ok_remove [OF sample_blockers_ok, of 6] by (auto simp: blockMessage_resume_def)
  ultimately show ?thesis
    using returning_request_unlocks_a_deleted_mutex [OF sample_blockers_ok] by blast
qed

section \<open>The timer\<close>

text \<open>The handler after the loop has passed the first \<open>i\<close> entries without a timeout.\<close>

definition tick_first :: "nat \<Rightarrow> 'buf blocker_handler \<Rightarrow> 'buf blocker_handler" where
  "tick_first i h = h\<lparr>blocker_heap := (\<lambda>p.
     if p \<in> set (take i (blocker_list h))
     then map_option (\<lambda>b. b\<lparr>blocker_timer := blocker_timer b - 1\<rparr>) (blocker_heap h p)
     else blocker_heap h p)\<rparr>"

definition timer_at :: "'buf blocker_handler \<Rightarrow> nat \<Rightarrow> u64" where
  "timer_at h i = blocker_timer (the (blocker_heap h (blocker_list h ! i)))"

lemma tick_first_sel [simp]:
  "blocker_list (tick_first i h) = blocker_list h" "blocker_next (tick_first i h) = blocker_next h"
  by (simp_all add: tick_first_def)

lemma tick_first_0 [simp]: "tick_first 0 h = h"
  by (simp add: tick_first_def)

lemma blockers_ok_tick: "blockers_ok h \<Longrightarrow> blockers_ok (tick_first i h)"
  by (auto simp: blockers_ok_def tick_first_def dom_def)

lemma id_at_tick:
  assumes "blockers_ok h" and "p \<in> set (blocker_list h)"
  shows "id_at (tick_first i h) p = id_at h p"
proof -
  obtain b where "blocker_heap h p = Some b" using blockers_ok_live [OF assms] .
  then show ?thesis by (simp add: id_at_def tick_first_def)
qed

lemma tick_first_entry:
  assumes ok: "blockers_ok h" and i: "i < length (blocker_list h)"
  obtains b where "blocker_heap h (blocker_list h ! i) = Some b"
    and "blocker_heap (tick_first i h) (blocker_list h ! i) = Some b"
    and "set_blocker (blocker_list h ! i) (b\<lparr>blocker_timer := blocker_timer b - 1\<rparr>) (tick_first i h)
      = tick_first (Suc i) h"
    and "timer_at h i = blocker_timer b"
proof -
  from ok have d: "distinct (blocker_list h)" by (simp add: blockers_ok_def)
  obtain b where b: "blocker_heap h (blocker_list h ! i) = Some b"
    using blockers_ok_live [OF ok nth_mem [OF i]] by blast
  have "blocker_list h ! i \<notin> set (take i (blocker_list h))"
    using d i by (auto simp: in_set_conv_nth nth_eq_iff_index_eq)
  then have n: "blocker_heap (tick_first i h) (blocker_list h ! i) = Some b"
    by (simp add: tick_first_def b)
  have s: "set_blocker (blocker_list h ! i) (b\<lparr>blocker_timer := blocker_timer b - 1\<rparr>) (tick_first i h)
      = tick_first (Suc i) h"
    using b by (auto simp: set_blocker_def tick_first_def fun_eq_iff take_Suc_conv_app_nth [OF i])
  show ?thesis by (rule that [OF b n s]) (simp add: timer_at_def b)
qed

lemma timer_body_no_timeout:
  assumes ok: "blockers_ok h" and i: "i < length (blocker_list h)" and t: "timer_at h i \<noteq> 1"
  shows "blocker_timer_body env i (w\<lparr>w_blocker := tick_first i h\<rparr>)
    = Inr (w\<lparr>w_blocker := tick_first (Suc i) h\<rparr>)"
proof -
  obtain b where b: "blocker_heap (tick_first i h) (blocker_list h ! i) = Some b"
      "set_blocker (blocker_list h ! i) (b\<lparr>blocker_timer := blocker_timer b - 1\<rparr>) (tick_first i h)
        = tick_first (Suc i) h"
      "timer_at h i = blocker_timer b"
    using tick_first_entry [OF ok i] by metis
  with t show ?thesis by (simp add: blocker_timer_body_def Let_def)
qed

lemma timer_body_timeout:
  assumes ok: "blockers_ok h" and ids: "inj_on (id_at h) (set (blocker_list h))"
    and i: "i < length (blocker_list h)" and t: "timer_at h i = 1"
  shows "blocker_timer_body env i (w\<lparr>w_blocker := tick_first i h\<rparr>) = Inl Use_After_Free"
proof -
  let ?p = "blocker_list h ! i"
  obtain b where b: "blocker_heap h ?p = Some b" "blocker_heap (tick_first i h) ?p = Some b"
      "set_blocker ?p (b\<lparr>blocker_timer := blocker_timer b - 1\<rparr>) (tick_first i h)
        = tick_first (Suc i) h"
      "timer_at h i = blocker_timer b"
    using tick_first_entry [OF ok i] by metis
  from b(1) have id: "id_at h ?p = blocker_id b" by (simp add: id_at_def)
  have p: "?p \<in> set (blocker_list h)" using i by simp
  have "\<exists>d h2. blocker_removeMessageFromList (blocker_id b) (tick_first (Suc i) h) = Inr (d, h2)
      \<and> blocker_heap h2 ?p = None"
    using blockers_ok_tick [OF ok, of "Suc i"]
  proof (cases rule: blocker_remove_cases [where bid = "blocker_id b"])
    case absent
    with p id id_at_tick [OF ok p] show ?thesis by auto
  next
    case (found j c)
    then have q: "blocker_list h ! j \<in> set (blocker_list h)" by simp
    from found have "id_at (tick_first (Suc i) h) (blocker_list h ! j) = blocker_id b"
      by (simp add: id_at_def)
    with id_at_tick [OF ok q] id have "id_at h (blocker_list h ! j) = id_at h ?p" by simp
    with ids p q have "blocker_list h ! j = ?p" by (auto dest: inj_onD)
    with found(5) show ?thesis by simp
  qed
  then obtain d h2 where r: "blocker_removeMessageFromList (blocker_id b) (tick_first (Suc i) h) = Inr (d, h2)"
    and none: "blocker_heap h2 ?p = None" by blast
  from none have "get_blocker ?p h2 = Inl Use_After_Free" by (simp add: get_blocker_def)
  with b t r show ?thesis by (simp add: blocker_timer_body_def Let_def)
qed

lemma timer_loop_passes:
  assumes ok: "blockers_ok h" and t: "\<forall>j. i \<le> j \<and> j < k \<longrightarrow> timer_at h j \<noteq> 1"
    and k: "i \<le> k" "k \<le> length (blocker_list h)"
  shows "blocker_timer_loop (k - i + n) env i (w\<lparr>w_blocker := tick_first i h\<rparr>)
    = blocker_timer_loop n env k (w\<lparr>w_blocker := tick_first k h\<rparr>)"
  using k t
proof (induction "k - i" arbitrary: i)
  case 0
  then show ?case by simp
next
  case (Suc m)
  then have i: "i < length (blocker_list h)" and s: "k - i = Suc (k - Suc i)" and le: "Suc i \<le> k"
    by auto
  from Suc.prems Suc.hyps have "timer_at h i \<noteq> 1" by auto
  note body = timer_body_no_timeout [OF ok i this, of env w]
  have "blocker_timer_loop (k - i + n) env i (w\<lparr>w_blocker := tick_first i h\<rparr>)
      = blocker_timer_loop (k - Suc i + n) env (Suc i) (w\<lparr>w_blocker := tick_first (Suc i) h\<rparr>)"
    unfolding s add_Suc by (simp add: i body)
  with Suc.hyps(1) [of "Suc i"] Suc.hyps(2) Suc.prems le show ?case by simp
qed

text \<open>
  As long as no waiting request is in its last second, one step of the timer takes one second
  off every entry, calls nobody and removes nothing. The count is modulo \<open>2 ^ 64\<close>: a request made
  with a timeout of 0 seconds gets the largest timeout there is.
\<close>

lemma blocker_tick_counts_down:
  assumes "blockers_ok (w_blocker w)"
    and "\<forall>i < length (blocker_list (w_blocker w)). timer_at (w_blocker w) i \<noteq> 1"
  shows "\<exists>h'. blocker_makeTimerStep env w = Inr (w\<lparr>w_blocker := h'\<rparr>)
    \<and> blocker_list h' = blocker_list (w_blocker w)
    \<and> (\<forall>i < length (blocker_list h'). timer_at h' i = timer_at (w_blocker w) i - 1
        \<and> (timer_at (w_blocker w) i = 0 \<longrightarrow> unat (timer_at h' i) = 2 ^ 64 - 1))"
proof -
  let ?h = "w_blocker w"
  let ?n = "length (blocker_list ?h)"
  have "blocker_makeTimerStep env w = Inr (w\<lparr>w_blocker := tick_first ?n ?h\<rparr>)"
    using timer_loop_passes [OF assms(1), of 0 ?n 1 env w] assms(2)
    by (simp add: blocker_makeTimerStep_def)
  moreover have "timer_at (tick_first ?n ?h) i = timer_at ?h i - 1" if i: "i < ?n" for i
  proof -
    obtain b where "blocker_heap ?h (blocker_list ?h ! i) = Some b"
      using blockers_ok_live [OF assms(1) nth_mem [OF i]] .
    with i show ?thesis by (simp add: timer_at_def tick_first_def)
  qed
  moreover have "unat (0 - 1 :: u64) = 2 ^ 64 - 1" by (simp add: unsigned_minus_1_eq_mask mask_eq_exp_minus_1)
  ultimately show ?thesis
    by (intro exI [of _ "tick_first ?n ?h"] conjI allI impI) simp_all
qed

definition sample_blocked :: "u64 \<Rightarrow> (chart, byte list) world" where
  "sample_blocked t = (sample_world Ready)\<lparr>w_blocker := snd (blockMessage_enter 5 t 1
     \<lparr>blocker_list = [], blocker_heap = Map.empty, blocker_next = 0\<rparr>)\<rparr>"

lemma sample_blocked_ok: "blockers_ok (w_blocker (sample_blocked t))"
  by (simp add: sample_blocked_def blockers_ok_enter) (simp add: blockers_ok_def blockMessage_enter_def)

lemma sample_blocked_list: "blocker_list (w_blocker (sample_blocked t)) = [0]"
  by (simp add: sample_blocked_def blockMessage_enter_def)

lemma sample_blocked_at:
  "timer_at (w_blocker (sample_blocked t)) 0 = t" "id_at (w_blocker (sample_blocked t)) 0 = 5"
  by (simp_all add: sample_blocked_def blockMessage_enter_def timer_at_def id_at_def)

lemma zero_timeout_wraps:
  "\<exists>h'. blocker_makeTimerStep sample_env (sample_blocked 0) = Inr ((sample_blocked 0)\<lparr>w_blocker := h'\<rparr>)
    \<and> unat (timer_at h' 0) = 2 ^ 64 - 1"
proof -
  have "\<exists>h'. blocker_makeTimerStep sample_env (sample_blocked 0) = Inr ((sample_blocked 0)\<lparr>w_blocker := h'\<rparr>)
    \<and> blocker_list h' = blocker_list (w_blocker (sample_blocked 0))
    \<and> (\<forall>i < length (blocker_list h'). timer_at h' i = timer_at (w_blocker (sample_blocked 0)) i - 1
        \<and> (timer_at (w_blocker (sample_blocked 0)) i = 0 \<longrightarrow> unat (timer_at h' i) = 2 ^ 64 - 1))"
    by (rule blocker_tick_counts_down [OF sample_blocked_ok])
      (simp add: sample_blocked_list sample_blocked_at)
  then show ?thesis by (auto simp: sample_blocked_list sample_blocked_at)
qed

text \<open>
  C32: in the step in which the first request runs out of time, the timer deletes its entry and
  then reads the identifier through the deleted pointer, so the timeout is never delivered to
  the thread or to the application. Only distinct identifiers of the waiting requests are assumed.
\<close>

theorem blocker_timeout_uses_deleted_entry:
  assumes ok: "blockers_ok (w_blocker w)"
    and ids: "inj_on (id_at (w_blocker w)) (set (blocker_list (w_blocker w)))"
    and k: "k < length (blocker_list (w_blocker w))" "timer_at (w_blocker w) k = 1"
  shows "blocker_makeTimerStep env w = Inl Use_After_Free"
proof -
  let ?h = "w_blocker w"
  define m where "m = (LEAST j. timer_at ?h j = 1)"
  have m1: "timer_at ?h m = 1" unfolding m_def using k(2) by (rule LeastI)
  have mk: "m \<le> k" unfolding m_def using k(2) by (rule Least_le)
  have before: "\<forall>j. 0 \<le> j \<and> j < m \<longrightarrow> timer_at ?h j \<noteq> 1"
    unfolding m_def using not_less_Least by blast
  from mk k(1) have m: "m < length (blocker_list ?h)" by simp
  let ?n = "length (blocker_list ?h) - m"
  have run: "blocker_makeTimerStep env w
      = blocker_timer_loop (Suc ?n) env m (w\<lparr>w_blocker := tick_first m ?h\<rparr>)"
    using timer_loop_passes [OF ok before, of "Suc ?n" env w] m
    by (simp add: blocker_makeTimerStep_def)
  have "blocker_timer_body env m (w\<lparr>w_blocker := tick_first m ?h\<rparr>) = Inl Use_After_Free"
    by (rule timer_body_timeout [OF ok ids m m1])
  with m show ?thesis unfolding run by simp
qed

theorem blocker_timeout_uses_deleted_entry_witness:
  "blocker_makeTimerStep sample_env (sample_blocked 1) = Inl Use_After_Free"
  by (rule blocker_timeout_uses_deleted_entry [OF sample_blocked_ok, where k = 0])
    (simp_all add: sample_blocked_list sample_blocked_at)

section \<open>Reachable states\<close>

text \<open>
  The timer holds the lock of the list while it calls the application, so a callback cannot use the list;
  it would wait for the lock for ever.
\<close>

definition leaves_requests :: "('sm, 'buf) env \<Rightarrow> bool" where
  "leaves_requests env \<longleftrightarrow> (\<forall>cb w. w_blocker (e_client env cb w) = w_blocker w)"

lemma call_client_blocker:
  "leaves_requests env \<Longrightarrow> call_client env f mk w = Inr w' \<Longrightarrow> w_blocker w' = w_blocker w"
  by (auto simp: call_client_def leaves_requests_def split: option.splits)

text \<open>Also with identifiers that are used twice, where the timer removes another entry than its own.\<close>

lemma blockers_ok_timer_body:
  assumes ok: "blockers_ok (w_blocker w)" and i: "i < length (blocker_list (w_blocker w))"
    and client: "leaves_requests env" and run: "blocker_timer_body env i w = Inr w'"
  shows "blockers_ok (w_blocker w')"
proof -
  let ?h = "w_blocker w" and ?p = "blocker_list (w_blocker w) ! i"
  obtain b where b: "blocker_heap ?h ?p = Some b" using blockers_ok_live [OF ok nth_mem [OF i]] by blast
  define b' where "b' = b\<lparr>blocker_timer := blocker_timer b - 1\<rparr>"
  have ok1: "blockers_ok (set_blocker ?p b' ?h)" using ok i by (simp add: blockers_ok_set)
  show ?thesis
  proof (cases "blocker_timer b' = 0")
    case False
    with run b ok1 show ?thesis by (auto simp: blocker_timer_body_def Let_def b'_def)
  next
    case True
    from blockers_ok_remove [OF ok1] obtain r h2 where
      h2: "blocker_removeMessageFromList (blocker_id b') (set_blocker ?p b' ?h) = Inr (r, h2)" "blockers_ok h2" by blast
    then obtain b2 where b2: "get_blocker ?p h2 = Inr b2"
      using run b True by (cases "get_blocker ?p h2") (simp_all add: blocker_timer_body_def Let_def b'_def)
    from blockers_ok_release [OF h2(2)] obtain r' h3 where
      h3: "releaseMessageInList (blocker_id b2) None h2 = Inr (r', h3)" "blockers_ok h3" by blast
    from run b True h2(1) b2 h3(1) have "\<exists>f mk. call_client env f mk (w\<lparr>w_blocker := h3\<rparr>) = Inr w'"
      by (auto simp: blocker_timer_body_def Let_def b'_def then_do_eq_Inr_iff simp del: call_client_simps)
    then obtain f mk where "call_client env f mk (w\<lparr>w_blocker := h3\<rparr>) = Inr w'" by blast
    from call_client_blocker [OF client this] h3(2) show ?thesis by simp
  qed
qed

lemma blockers_ok_timer_loop:
  "blockers_ok (w_blocker w) \<Longrightarrow> leaves_requests env \<Longrightarrow> blocker_timer_loop n env i w = Inr w' \<Longrightarrow>
   blockers_ok (w_blocker w')"
proof (induction n arbitrary: i w)
  case (Suc n)
  show ?case
  proof (cases "i < length (blocker_list (w_blocker w))")
    case True
    with Suc.prems(3) obtain w1 where w1: "blocker_timer_body env i w = Inr w1"
      "blocker_timer_loop n env (Suc i) w1 = Inr w'" by (auto simp: then_do_eq_Inr_iff)
    from blockers_ok_timer_body [OF Suc.prems(1) True Suc.prems(2) w1(1)] Suc.IH Suc.prems(2) w1(2)
    show ?thesis by blast
  qed (use Suc.prems in simp)
qed simp

text \<open>
  The states the list can get into: threads enter, wait and resume, responses are delivered, the timer
  makes its steps, and the list is cleared, in any order and with any identifiers.
\<close>

inductive blocker_reachable :: "('sm, 'buf) env \<Rightarrow> 'buf blocker_handler \<Rightarrow> bool" for env where
  start: "blocker_reachable env new_MessageBlockerHandler"
| enter: "blocker_reachable env h \<Longrightarrow> blocker_reachable env (snd (blockMessage_enter bid t s h))"
| wait: "blocker_reachable env h \<Longrightarrow> blockMessage_wait p h = Inr h' \<Longrightarrow> blocker_reachable env h'"
| release: "blocker_reachable env h \<Longrightarrow> releaseMessage bid data h = Inr (r, h') \<Longrightarrow> blocker_reachable env h'"
| resume: "blocker_reachable env h \<Longrightarrow> blockMessage_resume bid h = Inr (d, h') \<Longrightarrow> blocker_reachable env h'"
| clear: "blocker_reachable env h \<Longrightarrow> clearList h = Inr h' \<Longrightarrow> blocker_reachable env h'"
| timer: "blocker_reachable env (w_blocker w) \<Longrightarrow> blocker_makeTimerStep env w = Inr w' \<Longrightarrow>
    blocker_reachable env (w_blocker w')"

lemma blocker_reachable_ok: "blocker_reachable env h \<Longrightarrow> leaves_requests env \<Longrightarrow> blockers_ok h"
proof (induction rule: blocker_reachable.induct)
  case start
  show ?case by (simp add: new_MessageBlockerHandler_def blockers_ok_def)
next
  case (enter h bid t s)
  then show ?case by (simp add: blockers_ok_enter)
next
  case (wait h p h')
  then show ?case using blockers_ok_wait by blast
next
  case (release h bid data r h')
  then show ?case using blockers_ok_release [of h bid data] by (simp add: releaseMessage_def)
next
  case (resume h bid d h')
  then show ?case using blockers_ok_remove [of h bid] by (simp add: blockMessage_resume_def)
next
  case (clear h h')
  then show ?case using blockers_ok_clear [of h] by auto
next
  case (timer w w')
  then show ?case using blockers_ok_timer_loop unfolding blocker_makeTimerStep_def by blast
qed

text \<open>
  C9: in every reachable state, the timer's steps included, the list names each live entry exactly once;
  delivering a response, taking an entry out or clearing the list never touches a deleted entry, and a
  step of the timer does not as long as no request is in its last second. After the list has been cleared, every
  thread that still waits finds the mutex of its entry deleted.
\<close>

theorem blocker_reachable_safe:
  assumes "blocker_reachable env h" and "leaves_requests env"
  shows "distinct (blocker_list h) \<and> dom (blocker_heap h) = set (blocker_list h)
    \<and> (\<exists>r h'. releaseMessage bid data h = Inr (r, h'))
    \<and> (\<exists>d h'. blockMessage_resume bid h = Inr (d, h'))
    \<and> (w_blocker w = h \<and> (\<forall>i < length (blocker_list h). timer_at h i \<noteq> 1) \<longrightarrow>
        (\<exists>w'. blocker_makeTimerStep env w = Inr w'))
    \<and> (\<exists>h'. clearList h = Inr h' \<and> (\<forall>p \<in> set (blocker_list h). blockMessage_woken p h' = Inl Use_After_Free))"
proof (intro conjI impI)
  have ok: "blockers_ok h" by (rule blocker_reachable_ok [OF assms])
  then show "distinct (blocker_list h)" and "dom (blocker_heap h) = set (blocker_list h)"
    by (simp_all add: blockers_ok_def)
  from ok show "\<exists>r h'. releaseMessage bid data h = Inr (r, h')"
    using blockers_ok_release by (fastforce simp: releaseMessage_def)
  from ok show "\<exists>d h'. blockMessage_resume bid h = Inr (d, h')"
    using blockers_ok_remove by (fastforce simp: blockMessage_resume_def)
  show "\<exists>w'. blocker_makeTimerStep env w = Inr w'"
    if "w_blocker w = h \<and> (\<forall>i < length (blocker_list h). timer_at h i \<noteq> 1)"
    using blocker_tick_counts_down [of w env] ok that by blast
  from blockers_ok_clear [OF ok] obtain h' where "clearList h = Inr h'" "dom (blocker_heap h') = {}" by blast
  then show "\<exists>h'. clearList h = Inr h' \<and> (\<forall>p \<in> set (blocker_list h). blockMessage_woken p h' = Inl Use_After_Free)"
    by (simp add: blockMessage_woken_def get_blocker_def)
qed

text \<open>A request with 2 seconds left, after one step of the timer.\<close>

theorem blocker_reachable_safe_witness:
  "\<exists>w d h'. blocker_makeTimerStep sample_env (sample_blocked 2) = Inr w
    \<and> blockMessage_resume 5 (w_blocker w) = Inr (d, h') \<and> (\<exists>h''. clearList (w_blocker w) = Inr h'')"
proof -
  have start: "\<lparr>blocker_list = [], blocker_heap = Map.empty, blocker_next = 0\<rparr> = new_MessageBlockerHandler"
    by (simp add: new_MessageBlockerHandler_def)
  have r: "blocker_reachable sample_env (w_blocker (sample_blocked 2))"
    by (simp add: sample_blocked_def start) (intro blocker_reachable.intros)
  have keeps: "leaves_requests sample_env" by (simp add: leaves_requests_def sample_env_def)
  have "\<forall>i < length (blocker_list (w_blocker (sample_blocked 2))). timer_at (w_blocker (sample_blocked 2)) i \<noteq> 1"
    by (simp add: sample_blocked_list sample_blocked_at)
  with blocker_reachable_safe [OF r keeps, where w = "sample_blocked 2"] obtain w where
    w: "blocker_makeTimerStep sample_env (sample_blocked 2) = Inr w" by blast
  from blocker_reachable_safe [OF blocker_reachable.timer [OF r w] keeps, where bid = 5] w show ?thesis by blast
qed

end
