(* ===== verification/Session_Handler.thy ===== *)
theory Session_Handler
  imports Message_Definitions Reply_Handler Message_Blocker_Handler
begin

text \<open>
  src/src/handler/session_handler.cpp: the map of all sessions, the map of all servers, their spin
  locks and the session counter. \<open>test_and_set\<close> spins while the flag is set; between two operations
  the flag of the model is set only if an operation has left it set, and then the loop never ends.
  The contract of the session map is the locale \<open>dictionary\<close>, interpreted for std::map.
\<close>

section \<open>Locks\<close>

definition lockSessionMap :: "session_handler \<Rightarrow> fault + session_handler" where
  "lockSessionMap h =
     (if m_sessionMap_lock h then Inl Never_Returns else Inr (h\<lparr>m_sessionMap_lock := True\<rparr>))"

definition unlockSessionMap :: "session_handler \<Rightarrow> session_handler" where
  "unlockSessionMap h = h\<lparr>m_sessionMap_lock := False\<rparr>"

definition lockServerMap :: "session_handler \<Rightarrow> fault + session_handler" where
  "lockServerMap h =
     (if m_serverMap_lock h then Inl Never_Returns else Inr (h\<lparr>m_serverMap_lock := True\<rparr>))"

definition unlockServerMap :: "session_handler \<Rightarrow> session_handler" where
  "unlockServerMap h = h\<lparr>m_serverMap_lock := False\<rparr>"

section \<open>Construction\<close>

text \<open>The sizes the constructor asserts to be multiples of 8, in the order of the assertions.\<close>

definition asserted_sizes :: "nat list" where
  "asserted_sizes =
     [sizeof_CommonMessageHeader,
      sizeof_CommonMessageFooter,
      sizeof_Session_Init_Start_Message,
      sizeof_Session_Init_Reply_Message,
      sizeof_Session_Close_Start_Message,
      sizeof_Session_Close_Reply_Message,
      sizeof_Heartbeat_Start_Message,
      sizeof_Heartbeat_Reply_Message,
      sizeof_Error_FalseVersion_Message,
      sizeof_Error_UnknownSession_Message,
      sizeof_Error_InvalidMessage_Message,
      sizeof_Data_StreamReply_Message,
      sizeof_Data_SingleBlockReply_Message,
      sizeof_Data_MultiFinish_Message]"

definition new_SessionHandler :: "bool \<Rightarrow> fn \<Rightarrow> fn \<Rightarrow> fn \<Rightarrow> fault + session_handler" where
  "new_SessionHandler ndebug processCreateSession processCloseSession processError =
     (if ndebug \<or> (\<forall>n \<in> set asserted_sizes. n mod 8 = 0)
      then Inr \<lparr>m_sessions = [], m_servers = [], m_sessionIdCounter = 0, m_sessionMap_lock = False,
                m_serverMap_lock = False, handler_processCreateSession = processCreateSession,
                handler_processCloseSession = processCloseSession,
                handler_processError = processError\<rparr>
      else Inl Assertion_Failed)"

section \<open>Sessions\<close>

definition addSession ::
    "u32 \<Rightarrow> ptr \<Rightarrow> ('sm, 'buf) world \<Rightarrow> fault + ('sm, 'buf) world" where
  "addSession sid p w =
     (let h = w_handler w in
      then_do (get_session p w) (\<lambda>s.
        let w1 = set_session p (s\<lparr>m_processCreateSession := Some (handler_processCreateSession h),
                                  m_processCloseSession := Some (handler_processCloseSession h),
                                  m_processError := Some (handler_processError h)\<rparr>) w in
        then_do (lockSessionMap h) (\<lambda>h1.
          Inr (w1\<lparr>w_handler := unlockSessionMap
                     (h1\<lparr>m_sessions := std_insert sid p (m_sessions h1)\<rparr>)\<rparr>))))"

definition removeSession :: "u32 \<Rightarrow> session_handler \<Rightarrow> fault + ptr option \<times> session_handler" where
  "removeSession sid h =
     then_do (lockSessionMap h) (\<lambda>h1.
       Inr (std_find sid (m_sessions h1),
            unlockSessionMap (h1\<lparr>m_sessions := std_erase sid (m_sessions h1)\<rparr>)))"

definition increaseSessionIdCounter :: "session_handler \<Rightarrow> u16 \<times> session_handler" where
  "increaseSessionIdCounter h =
     (m_sessionIdCounter h + 1, h\<lparr>m_sessionIdCounter := m_sessionIdCounter h + 1\<rparr>)"

lemma unlock_lock:
  assumes "\<not> m_sessionMap_lock h"
  shows "unlockSessionMap (h\<lparr>m_sessionMap_lock := True, m_sessions := ms\<rparr>) = h\<lparr>m_sessions := ms\<rparr>"
  using assms by (cases h) (simp add: unlockSessionMap_def)

lemma addSession_free:
  assumes "w_heap w p = Some s" and "\<not> m_sessionMap_lock (w_handler w)"
  shows "addSession sid p w = Inr ((set_session p
      (s\<lparr>m_processCreateSession := Some (handler_processCreateSession (w_handler w)),
         m_processCloseSession := Some (handler_processCloseSession (w_handler w)),
         m_processError := Some (handler_processError (w_handler w))\<rparr>) w)
      \<lparr>w_handler := (w_handler w)\<lparr>m_sessions := std_insert sid p (m_sessions (w_handler w))\<rparr>\<rparr>)"
  using assms unlock_lock [OF assms(2)] by (simp add: addSession_def lockSessionMap_def Let_def)

lemma removeSession_free:
  assumes "\<not> m_sessionMap_lock h"
  shows "removeSession sid h
    = Inr (std_find sid (m_sessions h), h\<lparr>m_sessions := std_erase sid (m_sessions h)\<rparr>)"
  using assms unlock_lock [OF assms] by (simp add: removeSession_def lockSessionMap_def)

text \<open>All message sizes the constructor asserts are multiples of 8, so it never aborts.\<close>

lemma new_SessionHandler_succeeds:
  "\<exists>h. new_SessionHandler ndebug pc pcl pe = Inr h \<and> m_sessions h = [] \<and> m_servers h = []
    \<and> \<not> m_sessionMap_lock h \<and> \<not> m_serverMap_lock h"
  by (simp add: new_SessionHandler_def asserted_sizes_def sizeof_values)

text \<open>
  C23: a session stored under an identifier that is not in use is found under it and taken out by
  removeSession, which gives back the map as it was; other sessions are not touched, and an
  identifier in use keeps its old session.
\<close>

theorem session_map_round_trip:
  assumes "w_heap w p = Some s" and "\<not> m_sessionMap_lock (w_handler w)"
    and "std_ordered (m_sessions (w_handler w))"
  shows "\<exists>w1. addSession sid p w = Inr w1
    \<and> std_find sid (m_sessions (w_handler w1))
        = (case std_find sid (m_sessions (w_handler w)) of None \<Rightarrow> Some p | Some q \<Rightarrow> Some q)
    \<and> (\<forall>k. k \<noteq> sid \<longrightarrow> std_find k (m_sessions (w_handler w1)) = std_find k (m_sessions (w_handler w)))
    \<and> (\<exists>h2. removeSession sid (w_handler w1) = Inr (std_find sid (m_sessions (w_handler w1)), h2)
        \<and> std_find sid (m_sessions h2) = None \<and> std_ordered (m_sessions h2)
        \<and> (\<forall>k. k \<noteq> sid \<longrightarrow> std_find k (m_sessions h2) = std_find k (m_sessions (w_handler w))))"
  by (intro exI [of _ "(set_session p
      (s\<lparr>m_processCreateSession := Some (handler_processCreateSession (w_handler w)),
         m_processCloseSession := Some (handler_processCloseSession (w_handler w)),
         m_processError := Some (handler_processError (w_handler w))\<rparr>) w)
      \<lparr>w_handler := (w_handler w)\<lparr>m_sessions := std_insert sid p (m_sessions (w_handler w))\<rparr>\<rparr>"])
    (auto simp: addSession_free [OF assms(1,2)] removeSession_free assms stdmap.find_put
      stdmap.find_erase stdmap.ok_put stdmap.ok_erase split: option.splits)

theorem session_map_round_trip_witness:
  "\<exists>w1. addSession 9 1 (sample_world Ready) = Inr w1
    \<and> std_find 9 (m_sessions (w_handler w1)) = Some 1"
proof -
  have "std_find 9 (m_sessions (w_handler (sample_world Ready))) = None"
    by (simp add: sample_defs)
  with session_map_round_trip [of "sample_world Ready" 1 "sample_session Ready" 9]
  show ?thesis by (auto simp: sample_world_def sample_handler_def std_ordered_Cons)
qed

end
