(* ===== verification/Session_Core.thy ===== *)
theory Session_Core
  imports Session_Handler
begin

text \<open>
  The parts of src/src/session.cpp the message builders use: sendMessage, the message counter and
  the random identifiers.
\<close>

section \<open>Sending\<close>

text \<open>
  A message whose header asks for a reply is noted in the list of the reply handler before it is
  given to the socket.
\<close>

definition expect_reply ::
    "ptr \<Rightarrow> CommonMessageHeader \<Rightarrow> ('sm, 'buf) world \<Rightarrow> ('sm, 'buf) world" where
  "expect_reply p h w =
     (if and (flags h) 0x1 \<noteq> 0
      then w\<lparr>w_reply := addMessage (mtype h) (sessionId h) (ucast (messageId h)) p (w_reply w)\<rparr>
      else w)"

definition sendMessage ::
    "('sm, 'buf) env \<Rightarrow> ptr \<Rightarrow> CommonMessageHeader \<Rightarrow> byte list \<Rightarrow> ('sm, 'buf) world
     \<Rightarrow> fault + bool \<times> ('sm, 'buf) world" where
  "sendMessage env p h data w =
     then_do (get_session p w) (\<lambda>s.
       case m_socket s of
         None \<Rightarrow> Inr (False, w)
       | Some sk \<Rightarrow> Inr (ask_net env (Send_Message sk data) (expect_reply p h w)))"

definition increaseMessageIdCounter ::
    "ptr \<Rightarrow> ('sm, 'buf) world \<Rightarrow> fault + u32 \<times> ('sm, 'buf) world" where
  "increaseMessageIdCounter p w =
     then_do (get_session p w) (\<lambda>s.
       Inr (m_messageIdCounter s + 1,
            set_session p (s\<lparr>m_messageIdCounter := m_messageIdCounter s + 1\<rparr>) w))"

section \<open>Random identifiers\<close>

text \<open>
  The loop may run forever, so it is a partial function; \<open>i\<close> is the number of calls of
  \<open>rand()\<close> so far. The left operand of \<open>|\<close> is taken to be evaluated first.
\<close>

definition rand_id :: "(nat \<Rightarrow> 31 word) \<Rightarrow> nat \<Rightarrow> u64" where
  "rand_id rnd i = or (push_bit 32 (ucast (rnd i))) (ucast (rnd (Suc i)))"

partial_function (option) getRandId_loop :: "(nat \<Rightarrow> 31 word) \<Rightarrow> nat \<Rightarrow> (u64 \<times> nat) option" where
  "getRandId_loop rnd i =
     (if rand_id rnd i = 0 then getRandId_loop rnd (i + 2) else Some (rand_id rnd i, i + 2))"

definition getRandId ::
    "('sm, 'buf) env \<Rightarrow> ('sm, 'buf) world \<Rightarrow> fault + u64 \<times> ('sm, 'buf) world" where
  "getRandId env w =
     (case getRandId_loop (e_rand env) (w_rand w) of
        None \<Rightarrow> Inl Never_Returns
      | Some (newId, i) \<Rightarrow> Inr (newId, w\<lparr>w_rand := i\<rparr>))"

lemma unat_rand_id: "unat (rand_id rnd i) = unat (rnd i) * 2 ^ 32 + unat (rnd (Suc i))"
proof -
  let ?a = "ucast (rnd i) :: u64" and ?b = "ucast (rnd (Suc i)) :: u64"
  have a: "unat ?a = unat (rnd i)" and b: "unat ?b = unat (rnd (Suc i))"
    by (simp_all add: unat_ucast_up)
  have la: "unat (rnd i) < 2 ^ 31" and lb: "unat (rnd (Suc i)) < 2 ^ 31"
    using unsigned_less [where w = "rnd i"] unsigned_less [where w = "rnd (Suc i)"] by simp_all
  have "and (push_bit 32 ?a) ?b = 0"
  proof (rule bit_eqI)
    fix n
    show "bit (and (push_bit 32 ?a) ?b) n = bit (0 :: u64) n"
      by (auto simp: bit_simps dest: bit_imp_le_length)
  qed
  then have "rand_id rnd i = push_bit 32 ?a + ?b"
    unfolding rand_id_def by (simp add: disjunctive_add_eq_or)
  moreover have "unat (push_bit 32 ?a) = unat (rnd i) * 2 ^ 32"
  proof -
    have "unat (rnd i) * 2 ^ 32 < 2 ^ 64" using la by simp
    then show ?thesis
      by (simp add: push_bit_eq_mult unat_mult_lem a unat_word_ariths)
  qed
  moreover have "unat (rnd i) * 2 ^ 32 + unat (rnd (Suc i)) < 2 ^ 64" using la lb by simp
  ultimately show ?thesis by (simp add: b unat_word_ariths)
qed

lemma rand_id_0: "rand_id rnd i = 0 \<Longrightarrow> rnd i = 0 \<and> rnd (i + 1) = 0"
  using unat_rand_id [of rnd i] by (simp add: unat_eq_0)

lemma rand_id_bound: "unat (rand_id rnd i) < 2 ^ 63"
proof -
  have "unat (rnd i) < 2 ^ 31" and "unat (rnd (Suc i)) < 2 ^ 31"
    using unsigned_less [where w = "rnd i"] unsigned_less [where w = "rnd (Suc i)"] by simp_all
  then show ?thesis by (simp add: unat_rand_id)
qed

lemma getRandId_loop_zeros:
  "\<forall>j < k. rand_id rnd (i + 2 * j) = 0 \<Longrightarrow> getRandId_loop rnd i = getRandId_loop rnd (i + 2 * k)"
proof (induction k arbitrary: i)
  case 0
  then show ?case by simp
next
  case (Suc k)
  then have "rand_id rnd i = 0" by force
  then have "getRandId_loop rnd i = getRandId_loop rnd (i + 2)"
    by (subst getRandId_loop.simps) simp
  moreover have "\<forall>j < k. rand_id rnd (i + 2 + 2 * j) = 0"
  proof (intro allI impI)
    fix j assume "j < k"
    with Suc.prems have "rand_id rnd (i + 2 * Suc j) = 0" by blast
    then show "rand_id rnd (i + 2 + 2 * j) = 0" by (simp add: algebra_simps)
  qed
  ultimately show ?case using Suc.IH [of "i + 2"] by (simp add: algebra_simps)
qed

lemma getRandId_loop_hit:
  assumes "rand_id rnd (i + 2 * k) \<noteq> 0" and "\<forall>j < k. rand_id rnd (i + 2 * j) = 0"
  shows "getRandId_loop rnd i = Some (rand_id rnd (i + 2 * k), i + 2 * k + 2)"
  unfolding getRandId_loop_zeros [OF assms(2)]
  by (subst getRandId_loop.simps) (simp add: assms(1))

lemma getRandId_loop_Some:
  "getRandId_loop rnd i = Some r \<Longrightarrow> \<exists>k. rand_id rnd (i + 2 * k) \<noteq> 0 \<and>
     (\<forall>j < k. rand_id rnd (i + 2 * j) = 0) \<and> r = (rand_id rnd (i + 2 * k), i + 2 * k + 2)"
proof (induction rule: getRandId_loop.raw_induct [rotated, consumes 1, case_names step])
  case (step loop rnd i r)
  show ?case
  proof (cases "rand_id rnd i = 0")
    case True
    with step(2) have "loop rnd (i + 2) = Some r" by simp
    from step(1) [OF this] obtain k where k: "rand_id rnd (i + 2 + 2 * k) \<noteq> 0"
        "\<forall>j < k. rand_id rnd (i + 2 + 2 * j) = 0" "r = (rand_id rnd (i + 2 + 2 * k), i + 2 + 2 * k + 2)" by blast
    have "rand_id rnd (i + 2 * j) = 0" if "j < Suc k" for j
      using that True k(2) by (cases j) (simp_all add: algebra_simps)
    with k(1,3) show ?thesis by (intro exI [of _ "Suc k"]) (simp add: algebra_simps)
  next
    case False
    with step show ?thesis by (intro exI [of _ 0]) simp
  qed
qed

lemma getRandId_Some:
  assumes "getRandId env w = Inr (i, w')"
  shows "i \<noteq> 0" and "unat i < 2 ^ 63" and "\<exists>n. w' = w\<lparr>w_rand := n\<rparr>"
  using assms rand_id_bound
  by (auto simp: getRandId_def split: option.splits dest!: getRandId_loop_Some)

text \<open>
  C22: a random identifier is never 0 and never uses the highest bit; the loop ends exactly if
  some later pair of \<open>rand()\<close> values is not (0, 0), and then the first such pair is taken.
\<close>

theorem getRandId_nonzero:
  "case getRandId env w of
     Inl e \<Rightarrow> e = Never_Returns \<and> (\<forall>k. e_rand env (w_rand w + 2 * k) = 0
                                      \<and> e_rand env (w_rand w + 2 * k + 1) = 0)
   | Inr (i, w') \<Rightarrow> i \<noteq> 0 \<and> unat i < 2 ^ 63
       \<and> (\<exists>k. (\<forall>j < k. e_rand env (w_rand w + 2 * j) = 0 \<and> e_rand env (w_rand w + 2 * j + 1) = 0)
            \<and> unat i = unat (e_rand env (w_rand w + 2 * k)) * 2 ^ 32
                        + unat (e_rand env (w_rand w + 2 * k + 1))
            \<and> w' = w\<lparr>w_rand := w_rand w + 2 * k + 2\<rparr>)"
proof (cases "getRandId_loop (e_rand env) (w_rand w)")
  case None
  have none: "rand_id (e_rand env) (w_rand w + 2 * k) = 0" for k
  proof (rule ccontr)
    assume ne: "rand_id (e_rand env) (w_rand w + 2 * k) \<noteq> 0"
    define m where "m = (LEAST k. rand_id (e_rand env) (w_rand w + 2 * k) \<noteq> 0)"
    have "rand_id (e_rand env) (w_rand w + 2 * m) \<noteq> 0" unfolding m_def using ne by (rule LeastI)
    moreover have "\<forall>j < m. rand_id (e_rand env) (w_rand w + 2 * j) = 0"
      unfolding m_def using not_less_Least by blast
    ultimately show False using getRandId_loop_hit None by fastforce
  qed
  have "e_rand env (w_rand w + 2 * k) = 0 \<and> e_rand env (w_rand w + 2 * k + 1) = 0" for k
    using rand_id_0 [OF none] by simp
  with None show ?thesis by (simp add: getRandId_def)
next
  case (Some r)
  then obtain k where k: "rand_id (e_rand env) (w_rand w + 2 * k) \<noteq> 0"
      "\<forall>j < k. rand_id (e_rand env) (w_rand w + 2 * j) = 0"
      "r = (rand_id (e_rand env) (w_rand w + 2 * k), w_rand w + 2 * k + 2)"
    using getRandId_loop_Some by blast
  then have "\<forall>j < k. e_rand env (w_rand w + 2 * j) = 0 \<and> e_rand env (w_rand w + 2 * j + 1) = 0"
    using rand_id_0 by simp
  with Some k(1,3) show ?thesis
    using rand_id_bound by (auto simp: getRandId_def unat_rand_id)
qed

text \<open>Numbers that start with a pair of zeros: the second pair is taken.\<close>

theorem getRandId_nonzero_witness:
  "\<exists>i w'. getRandId (sample_env\<lparr>e_rand := \<lambda>n. if n < 2 then 0 else 5\<rparr>) (sample_world Ready) = Inr (i, w')
    \<and> unat i = 5 * 2 ^ 32 + 5 \<and> w_rand w' = 4"
proof -
  let ?env = "sample_env\<lparr>e_rand := \<lambda>n. if n < 2 then 0 else 5\<rparr>" and ?w = "sample_world Ready"
  have w: "w_rand ?w = 0" by (simp add: sample_world_def)
  note t = getRandId_nonzero [of ?env ?w, unfolded w]
  show ?thesis
  proof (cases "getRandId ?env ?w")
    case (Inl e)
    with t have "e_rand ?env (0 + 2 * 1) = 0" by (auto dest: spec [of _ 1])
    then show ?thesis by simp
  next
    case (Inr r)
    obtain i w' where r: "r = (i, w')" by fastforce
    with t Inr obtain k where k: "\<forall>j < k. e_rand ?env (0 + 2 * j) = 0 \<and> e_rand ?env (0 + 2 * j + 1) = 0"
      "unat i = unat (e_rand ?env (0 + 2 * k)) * 2 ^ 32 + unat (e_rand ?env (0 + 2 * k + 1))"
      "w' = ?w\<lparr>w_rand := 0 + 2 * k + 2\<rparr>" "i \<noteq> 0" by (auto simp only: sum.case prod.case)
    have "\<not> 1 < k"
    proof
      assume "1 < k"
      with k(1) have "e_rand ?env (0 + 2 * 1) = 0" by blast
      then show False by simp
    qed
    moreover have "k \<noteq> 0"
    proof
      assume "k = 0"
      with k(2) have "unat i = 0" by simp
      with k(4) show False by (simp add: unat_eq_0)
    qed
    ultimately have "k = 1" by simp
    with k(2,3) Inr r show ?thesis by simp
  qed
qed

section \<open>Laws\<close>

lemma expect_reply_sel [simp]:
  "w_heap (expect_reply p h w) = w_heap w"
  "w_next (expect_reply p h w) = w_next w"
  "w_blocker (expect_reply p h w) = w_blocker w"
  "w_handler (expect_reply p h w) = w_handler w"
  "w_serverIdCounter (expect_reply p h w) = w_serverIdCounter w"
  "w_rand (expect_reply p h w) = w_rand w"
  "w_trace (expect_reply p h w) = w_trace w"
  by (simp_all add: expect_reply_def)

lemma sendMessage_socket:
  assumes "w_heap w p = Some s" and "m_socket s = Some sk"
  shows "sendMessage env p h data w
    = Inr (e_net env (w_trace w) (Send_Message sk data),
           log_event (Net (Send_Message sk data) (e_net env (w_trace w) (Send_Message sk data)))
             (expect_reply p h w))"
  using assms by (simp add: sendMessage_def ask_net_def)

lemma sendMessage_no_socket:
  assumes "w_heap w p = Some s" and "m_socket s = None"
  shows "sendMessage env p h data w = Inr (False, w)"
  using assms by (simp add: sendMessage_def)

lemma increaseMessageIdCounter_live:
  assumes "w_heap w p = Some s"
  shows "increaseMessageIdCounter p w = Inr (m_messageIdCounter s + 1,
    set_session p (s\<lparr>m_messageIdCounter := m_messageIdCounter s + 1\<rparr>) w)"
  using assms by (simp add: increaseMessageIdCounter_def)

end
