(* ===== verification/Framing.thy ===== *)
theory Framing
  imports Message_Definitions
begin

text \<open>
  The contract between the builders of messages and the receiving side: a frame starts with a
  header of the protocol whose \<open>totalMessageSize\<close> is the length of the whole, its length is a
  multiple of 4, and it ends with the delimiter. Every fixed-size message meets the contract
  \<open>wire_message\<close>, from which its image is a frame; the messages with payload are built by
  \<open>payload_frame\<close>.
\<close>

definition frame :: "CommonMessageHeader \<Rightarrow> byte list \<Rightarrow> bool" where
  "frame h bs \<longleftrightarrow> decode_CommonMessageHeader bs = Inr h
     \<and> protocolIdentifier h = PROTOCOL_IDENTIFIER \<and> version h = 0x1
     \<and> unat (totalMessageSize h) = length bs \<and> 4 dvd length bs \<and> 40 \<le> length bs
     \<and> read_u32 (length bs - 4) bs = Inr MESSAGE_DELIMITER"

definition own_header :: "CommonMessageHeader \<Rightarrow> bool" where
  "own_header h \<longleftrightarrow> protocolIdentifier h = PROTOCOL_IDENTIFIER \<and> version h = 0x1"

lemma own_header_new [simp]: "own_header new_CommonMessageHeader"
  by (simp add: own_header_def new_CommonMessageHeader_def)

lemma own_header_update [simp]:
  "own_header (h\<lparr>mtype := a\<rparr>) = own_header h" "own_header (h\<lparr>subType := a\<rparr>) = own_header h"
  "own_header (h\<lparr>flags := a\<rparr>) = own_header h" "own_header (h\<lparr>sessionId := b\<rparr>) = own_header h"
  "own_header (h\<lparr>messageId := b\<rparr>) = own_header h"
  "own_header (h\<lparr>totalMessageSize := b\<rparr>) = own_header h"
  "own_header (h\<lparr>payloadSize := b\<rparr>) = own_header h"
  by (simp_all add: own_header_def)

lemma read_u32_append:
  "read_u32 (length xs + k) (xs @ ys) = read_u32 k ys"
  by (simp add: read_skip)

lemma read_footer: "read_u32 4 (encode_CommonMessageFooter f) = Inr (delimiter f)"
  by (simp add: encode_CommonMessageFooter_def read_simps)

lemma frameI:
  assumes bs: "bs = encode_CommonMessageHeader h @ mid @ encode_CommonMessageFooter f"
    and own: "own_header h" and total: "unat (totalMessageSize h) = length bs"
    and div: "4 dvd length bs" and f: "delimiter f = MESSAGE_DELIMITER"
  shows "frame h bs"
proof -
  let ?pre = "encode_CommonMessageHeader h @ mid"
  have len: "length bs = length ?pre + 8"
    by (simp add: bs sizeof_CommonMessageFooter_def ac_simps)
  then have "read_u32 (length bs - 4) bs = read_u32 (length ?pre + 4) (?pre @ encode_CommonMessageFooter f)"
    by (simp add: bs sizeof_CommonMessageFooter_def ac_simps)
  also have "\<dots> = Inr MESSAGE_DELIMITER" by (simp only: read_u32_append read_footer f)
  finally have "read_u32 (length bs - 4) bs = Inr MESSAGE_DELIMITER" .
  moreover have "decode_CommonMessageHeader bs = Inr h" by (simp add: bs decode_encode_header_append)
  moreover have "40 \<le> length bs" using len by (simp add: sizeof_CommonMessageHeader_def)
  ultimately show ?thesis using own total div by (simp add: frame_def own_header_def)
qed

lemma delimiter_new [simp]: "delimiter new_CommonMessageFooter = MESSAGE_DELIMITER"
  by (simp add: new_CommonMessageFooter_def)

section \<open>Fixed-size messages\<close>

locale wire_message =
  fixes header :: "'m \<Rightarrow> CommonMessageHeader" and footer :: "'m \<Rightarrow> CommonMessageFooter"
    and body :: "'m \<Rightarrow> byte list" and encode :: "'m \<Rightarrow> byte list" and wf :: "'m \<Rightarrow> bool"
    and size_of :: nat
  assumes encode_shape: "encode m =
      encode_CommonMessageHeader (header m) @ body m @ encode_CommonMessageFooter (footer m)"
    and encode_length: "wf m \<Longrightarrow> length (encode m) = size_of"
    and size_div: "4 dvd size_of" and size_bound: "size_of < 2 ^ 32"
begin

lemma encode_frame:
  assumes "wf m" and "header m = h" and "own_header h" and "footer m = new_CommonMessageFooter"
    and "totalMessageSize h = word_of_nat size_of"
  shows "frame h (encode m)"
proof (rule frameI [OF encode_shape [of m, unfolded assms(2)]])
  show "unat (totalMessageSize h) = length (encode m)"
    using size_bound by (simp add: assms encode_length unat_of_nat)
  show "4 dvd length (encode m)" using size_div by (simp add: assms encode_length)
qed (simp_all add: assms)

lemma decode_header: "decode_CommonMessageHeader (encode m) = Inr (header m)"
  by (simp add: encode_shape decode_encode_header_append)

end

interpretation init_start: wire_message sis_commonHeader sis_commonEnd
  "\<lambda>m. put_u32 (sis_clientSessionId m) @ sis_sessionIdentifier m @ put_u32 (sis_sessionIdentifierSize m)"
  encode_Session_Init_Start_Message "\<lambda>m. length (sis_sessionIdentifier m) = 64000"
  sizeof_Session_Init_Start_Message
  by unfold_locales (simp_all add: wire_simps encode_message_defs sizeof_values)

interpretation init_reply: wire_message sir_commonHeader sir_commonEnd
  "\<lambda>m. put_u32 (sir_clientSessionId m) @ put_u32 (sir_completeSessionId m) @
     sir_sessionIdentifier m @ put_u32 (sir_sessionIdentifierSize m) @ sir_padding m"
  encode_Session_Init_Reply_Message
  "\<lambda>m. length (sir_sessionIdentifier m) = 64000 \<and> length (sir_padding m) = 4"
  sizeof_Session_Init_Reply_Message
  by unfold_locales (simp_all add: wire_simps encode_message_defs sizeof_values)

interpretation close_start: wire_message scs_commonHeader scs_commonEnd
  "\<lambda>m. put_u32 (scs_sessionId m) @ scs_padding m"
  encode_Session_Close_Start_Message "\<lambda>m. length (scs_padding m) = 4"
  sizeof_Session_Close_Start_Message
  by unfold_locales (simp_all add: wire_simps encode_message_defs sizeof_values)

interpretation close_reply: wire_message scr_commonHeader scr_commonEnd
  "\<lambda>m. put_u32 (scr_sessionId m) @ scr_padding m"
  encode_Session_Close_Reply_Message "\<lambda>m. length (scr_padding m) = 4"
  sizeof_Session_Close_Reply_Message
  by unfold_locales (simp_all add: wire_simps encode_message_defs sizeof_values)

interpretation heartbeat_start: wire_message hbs_commonHeader hbs_commonEnd "\<lambda>m. []"
  encode_Heartbeat_Start_Message "\<lambda>m. True" sizeof_Heartbeat_Start_Message
  by unfold_locales (simp_all add: wire_simps encode_message_defs sizeof_values)

interpretation heartbeat_reply: wire_message hbr_commonHeader hbr_commonEnd "\<lambda>m. []"
  encode_Heartbeat_Reply_Message "\<lambda>m. True" sizeof_Heartbeat_Reply_Message
  by unfold_locales (simp_all add: wire_simps encode_message_defs sizeof_values)

interpretation false_version: wire_message efv_commonHeader efv_commonEnd
  "\<lambda>m. put_u64 (efv_messageSize m) @ efv_message m"
  encode_Error_FalseVersion_Message "\<lambda>m. length (efv_message m) = MESSAGE_CACHE_SIZE"
  sizeof_Error_FalseVersion_Message
  by unfold_locales
    (simp_all add: wire_simps encode_message_defs sizeof_values MESSAGE_CACHE_SIZE_def)

interpretation unknown_session: wire_message eus_commonHeader eus_commonEnd
  "\<lambda>m. put_u64 (eus_messageSize m) @ eus_message m"
  encode_Error_UnknownSession_Message "\<lambda>m. length (eus_message m) = MESSAGE_CACHE_SIZE"
  sizeof_Error_UnknownSession_Message
  by unfold_locales
    (simp_all add: wire_simps encode_message_defs sizeof_values MESSAGE_CACHE_SIZE_def)

interpretation invalid_message: wire_message eim_commonHeader eim_commonEnd
  "\<lambda>m. put_u64 (eim_messageSize m) @ eim_message m"
  encode_Error_InvalidMessage_Message "\<lambda>m. length (eim_message m) = MESSAGE_CACHE_SIZE"
  sizeof_Error_InvalidMessage_Message
  by unfold_locales
    (simp_all add: wire_simps encode_message_defs sizeof_values MESSAGE_CACHE_SIZE_def)

interpretation stream_reply: wire_message dsr_commonHeader dsr_commonEnd "\<lambda>m. []"
  encode_Data_StreamReply_Message "\<lambda>m. True" sizeof_Data_StreamReply_Message
  by unfold_locales (simp_all add: wire_simps encode_message_defs sizeof_values)

interpretation single_reply: wire_message dbr_commonHeader dbr_commonEnd "\<lambda>m. []"
  encode_Data_SingleBlockReply_Message "\<lambda>m. True" sizeof_Data_SingleBlockReply_Message
  by unfold_locales (simp_all add: wire_simps encode_message_defs sizeof_values)

interpretation multi_finish: wire_message dmf_commonHeader dmf_commonEnd
  "\<lambda>m. put_u64 (dmf_multiblockId m) @ put_u64 (dmf_blockerId m)"
  encode_Data_MultiFinish_Message "\<lambda>m. True" sizeof_Data_MultiFinish_Message
  by unfold_locales (simp_all add: wire_simps encode_message_defs sizeof_values)

lemmas message_frames =
  init_start.encode_frame init_reply.encode_frame close_start.encode_frame close_reply.encode_frame
  heartbeat_start.encode_frame heartbeat_reply.encode_frame false_version.encode_frame
  unknown_session.encode_frame invalid_message.encode_frame stream_reply.encode_frame
  single_reply.encode_frame multi_finish.encode_frame

end
