(* ===== verification/Send_Messages.thy ===== *)
theory Send_Messages
  imports Session_Core Framing
begin

text \<open>
  The sending halves of src/src/messages_processing/*.h. Each builder creates its struct, fills
  the fields the source assigns and gives the image to sendMessage. Memory the source does not
  initialise (struct padding, identifier and error arrays, the rest of \<open>messageBuffer\<close>) is
  \<open>uninitialised\<close>. A \<open>memcpy\<close> past the end of its target is the fault \<open>Buffer_Overflow\<close>. The
  lemmas at the end give the frame each builder sends.
\<close>

section \<open>Helpers\<close>

definition get_sessionId :: "ptr \<Rightarrow> ('sm, 'buf) world \<Rightarrow> fault + u32" where
  "get_sessionId p w = then_do (get_session p w) (\<lambda>s. Inr (m_sessionId s))"

text \<open>\<open>memcpy\<close> of \<open>bs\<close> to the start of an array.\<close>

definition memcpy_start :: "byte list \<Rightarrow> byte list \<Rightarrow> fault + byte list" where
  "memcpy_start target bs =
     (if length bs \<le> length target then Inr (bs @ drop (length bs) target) else Inl Buffer_Overflow)"

text \<open>
  \<open>messageBuffer\<close> with the header at its start, \<open>size\<close> bytes of \<open>data\<close> behind it and the footer
  before \<open>msize\<close>: the \<open>msize\<close> bytes which are sent. The bytes between payload and footer are
  never written.
\<close>

definition message_buffer ::
    "('sm, 'buf) env \<Rightarrow> ('sm, 'buf) world \<Rightarrow> byte list \<Rightarrow> byte list \<Rightarrow> u32 \<Rightarrow> u32 \<Rightarrow> fault + byte list" where
  "message_buffer env w hdr data psize msize =
     then_do (read_bytes 0 (unat psize) data) (\<lambda>payload.
       if MESSAGE_CACHE_SIZE < length hdr + unat psize \<or> MESSAGE_CACHE_SIZE < unat msize
       then Inl Buffer_Overflow
       else Inr (hdr @ payload @
                 map (e_junk env (length (w_trace w)))
                   [length hdr + unat psize..<unat msize - sizeof_CommonMessageFooter] @
                 encode_CommonMessageFooter new_CommonMessageFooter))"

text \<open>\<open>sizeof(Header) + size + (8 - (size % 8)) % 8 + sizeof(CommonMessageFooter)\<close> as uint32_t.\<close>

definition total_message_size :: "nat \<Rightarrow> u32 \<Rightarrow> u32" where
  "total_message_size header_size psize =
     word_of_nat (header_size + unat psize + (8 - unat psize mod 8) mod 8 + sizeof_CommonMessageFooter)"

text \<open>\<open>strncpy\<close> of \<open>n\<close> bytes: stops at a zero byte and fills up with zeros.\<close>

definition strncpy_bytes :: "nat \<Rightarrow> byte list \<Rightarrow> byte list" where
  "strncpy_bytes n s = take n (takeWhile (\<lambda>c. c \<noteq> 0) s @ replicate n 0)"

section \<open>session_processing.h\<close>

definition send_Session_Init_Start ::
    "('sm, 'buf) env \<Rightarrow> ptr \<Rightarrow> byte list \<Rightarrow> ('sm, 'buf) world \<Rightarrow> fault + bool \<times> ('sm, 'buf) world" where
  "send_Session_Init_Start env p ident w =
     (let m = new_Session_Init_Start_Message (uninitialised env 64000 w) in
      then_do (get_sessionId p w) (\<lambda>sid.
      then_do (increaseMessageIdCounter p w) (\<lambda>(mid, w1).
      then_do (memcpy_start (sis_sessionIdentifier m) ident) (\<lambda>bytes.
        let h = (sis_commonHeader m)\<lparr>sessionId := sid, messageId := mid\<rparr> in
        sendMessage env p h
          (encode_Session_Init_Start_Message
             (m\<lparr>sis_commonHeader := h, sis_clientSessionId := sid,
                sis_sessionIdentifierSize := word_of_nat (length ident),
                sis_sessionIdentifier := bytes\<rparr>)) w1))))"

definition send_Session_Init_Reply ::
    "('sm, 'buf) env \<Rightarrow> ptr \<Rightarrow> u32 \<Rightarrow> u32 \<Rightarrow> u32 \<Rightarrow> byte list \<Rightarrow> ('sm, 'buf) world
     \<Rightarrow> fault + bool \<times> ('sm, 'buf) world" where
  "send_Session_Init_Reply env p initialSessionId mid completeId ident w =
     (let m = new_Session_Init_Reply_Message (uninitialised env 64000 w) (uninitialised env 4 w);
          h = (sir_commonHeader m)\<lparr>sessionId := initialSessionId, messageId := mid\<rparr> in
      then_do (memcpy_start (sir_sessionIdentifier m) ident) (\<lambda>bytes.
        sendMessage env p h
          (encode_Session_Init_Reply_Message
             (m\<lparr>sir_commonHeader := h, sir_completeSessionId := completeId,
                sir_clientSessionId := initialSessionId,
                sir_sessionIdentifierSize := word_of_nat (length ident),
                sir_sessionIdentifier := bytes\<rparr>)) w))"

definition send_Session_Close_Start ::
    "('sm, 'buf) env \<Rightarrow> ptr \<Rightarrow> bool \<Rightarrow> ('sm, 'buf) world \<Rightarrow> fault + bool \<times> ('sm, 'buf) world" where
  "send_Session_Close_Start env p replyExpected w =
     (let m = new_Session_Close_Start_Message (uninitialised env 4 w) in
      then_do (get_sessionId p w) (\<lambda>sid.
      then_do (increaseMessageIdCounter p w) (\<lambda>(mid, w1).
        let h0 = (scs_commonHeader m)\<lparr>sessionId := sid, messageId := mid\<rparr>;
            h = (if replyExpected then h0\<lparr>flags := 0x1\<rparr> else h0) in
        sendMessage env p h (encode_Session_Close_Start_Message (m\<lparr>scs_commonHeader := h\<rparr>)) w1)))"

definition send_Session_Close_Reply ::
    "('sm, 'buf) env \<Rightarrow> ptr \<Rightarrow> u32 \<Rightarrow> ('sm, 'buf) world \<Rightarrow> fault + bool \<times> ('sm, 'buf) world" where
  "send_Session_Close_Reply env p mid w =
     (let m = new_Session_Close_Reply_Message (uninitialised env 4 w) in
      then_do (get_sessionId p w) (\<lambda>sid.
        let h = (scr_commonHeader m)\<lparr>sessionId := sid, messageId := mid\<rparr> in
        sendMessage env p h (encode_Session_Close_Reply_Message (m\<lparr>scr_commonHeader := h\<rparr>)) w))"

section \<open>heartbeat_processing.h\<close>

definition send_Heartbeat_Start ::
    "('sm, 'buf) env \<Rightarrow> ptr \<Rightarrow> ('sm, 'buf) world \<Rightarrow> fault + bool \<times> ('sm, 'buf) world" where
  "send_Heartbeat_Start env p w =
     (let m = new_Heartbeat_Start_Message in
      then_do (get_sessionId p w) (\<lambda>sid.
      then_do (increaseMessageIdCounter p w) (\<lambda>(mid, w1).
        let h = (hbs_commonHeader m)\<lparr>sessionId := sid, messageId := mid\<rparr> in
        sendMessage env p h (encode_Heartbeat_Start_Message (m\<lparr>hbs_commonHeader := h\<rparr>)) w1)))"

definition send_Heartbeat_Reply ::
    "('sm, 'buf) env \<Rightarrow> ptr \<Rightarrow> u32 \<Rightarrow> ('sm, 'buf) world \<Rightarrow> fault + bool \<times> ('sm, 'buf) world" where
  "send_Heartbeat_Reply env p mid w =
     (let m = new_Heartbeat_Reply_Message in
      then_do (get_sessionId p w) (\<lambda>sid.
        let h = (hbr_commonHeader m)\<lparr>sessionId := sid, messageId := mid\<rparr> in
        sendMessage env p h (encode_Heartbeat_Reply_Message (m\<lparr>hbr_commonHeader := h\<rparr>)) w))"

section \<open>error_processing.h\<close>

text \<open>
  \<open>messageSize\<close> is the length of the text, cut off at one below MAX_SINGLE_MESSAGE_SIZE,
  which is positive.
\<close>

definition error_message_size :: "('sm, 'buf) env \<Rightarrow> byte list \<Rightarrow> nat" where
  "error_message_size env errorMessage =
     (if e_max env - 1 < length errorMessage then e_max env - 1 else length errorMessage)"

definition send_ErrorMessage ::
    "('sm, 'buf) env \<Rightarrow> ptr \<Rightarrow> u8 \<Rightarrow> byte list \<Rightarrow> ('sm, 'buf) world
     \<Rightarrow> fault + bool \<times> ('sm, 'buf) world" where
  "send_ErrorMessage env p errorCode errorMessage w =
     (let junk = uninitialised env MESSAGE_CACHE_SIZE w; n = error_message_size env errorMessage in
      if errorCode = errorCodes_val FALSE_VERSION then
        then_do (get_sessionId p w) (\<lambda>sid.
        then_do (increaseMessageIdCounter p w) (\<lambda>(mid, w1).
        then_do (memcpy_start junk (strncpy_bytes n errorMessage)) (\<lambda>bytes.
          let m = new_Error_FalseVersion_Message bytes;
              h = (efv_commonHeader m)\<lparr>sessionId := sid, messageId := mid\<rparr> in
          sendMessage env p h
            (encode_Error_FalseVersion_Message
               (m\<lparr>efv_commonHeader := h, efv_messageSize := word_of_nat n\<rparr>)) w1)))
      else if errorCode = errorCodes_val UNKNOWN_SESSION then
        then_do (get_sessionId p w) (\<lambda>sid.
        then_do (increaseMessageIdCounter p w) (\<lambda>(mid, w1).
        then_do (memcpy_start junk (strncpy_bytes n errorMessage)) (\<lambda>bytes.
          let m = new_Error_UnknownSession_Message bytes;
              h = (eus_commonHeader m)\<lparr>sessionId := sid, messageId := mid\<rparr> in
          sendMessage env p h
            (encode_Error_UnknownSession_Message
               (m\<lparr>eus_commonHeader := h, eus_messageSize := word_of_nat n\<rparr>)) w1)))
      else if errorCode = errorCodes_val INVALID_MESSAGE_SIZE then
        then_do (get_sessionId p w) (\<lambda>sid.
        then_do (increaseMessageIdCounter p w) (\<lambda>(mid, w1).
        then_do (memcpy_start junk (strncpy_bytes n errorMessage)) (\<lambda>bytes.
          let m = new_Error_InvalidMessage_Message bytes;
              h = (eim_commonHeader m)\<lparr>sessionId := sid, messageId := mid\<rparr> in
          sendMessage env p h
            (encode_Error_InvalidMessage_Message
               (m\<lparr>eim_commonHeader := h, eim_messageSize := word_of_nat n\<rparr>)) w1)))
      else Inr (True, w))"

section \<open>stream_data_processing.h\<close>

text \<open>
  The variant that builds the message inside a data buffer: \<open>mem\<close> is the memory of the buffer and
  \<open>used\<close> its usedBufferSize. The whole of header, payload and footer is sent from that memory.
\<close>

definition send_Data_Stream_buffer ::
    "('sm, 'buf) env \<Rightarrow> ptr \<Rightarrow> byte list \<Rightarrow> u64 \<Rightarrow> bool \<Rightarrow> ('sm, 'buf) world
     \<Rightarrow> fault + bool \<times> ('sm, 'buf) world" where
  "send_Data_Stream_buffer env p mem used replyExpected w =
     (if unat used < sizeof_CommonMessageFooter + sizeof_Data_Stream_Header then Inr (False, w)
      else
        let psize = ucast used - word_of_nat sizeof_CommonMessageFooter
                              - word_of_nat sizeof_Data_Stream_Header :: u32;
            msize = total_message_size sizeof_Data_Stream_Header psize;
            m = new_Data_Stream_Header in
        then_do (get_sessionId p w) (\<lambda>sid.
        then_do (increaseMessageIdCounter p w) (\<lambda>(mid, w1).
          let h = (dsh_commonHeader m)\<lparr>sessionId := sid, messageId := mid,
                    totalMessageSize := msize, payloadSize := psize,
                    flags := (if replyExpected then 1 else 0) * 0x1\<rparr> in
          if length mem < sizeof_Data_Stream_Header \<or> length mem < unat msize
             \<or> unat msize < sizeof_CommonMessageFooter
          then Inl Buffer_Overflow
          else
            let mem1 = encode_Data_Stream_Header (m\<lparr>dsh_commonHeader := h\<rparr>)
                       @ drop sizeof_Data_Stream_Header mem;
                msg = take (unat msize - sizeof_CommonMessageFooter) mem1
                      @ encode_CommonMessageFooter new_CommonMessageFooter in
            sendMessage env p h msg w1)))"

definition send_Data_Stream ::
    "('sm, 'buf) env \<Rightarrow> ptr \<Rightarrow> byte list \<Rightarrow> u32 \<Rightarrow> bool \<Rightarrow> ('sm, 'buf) world
     \<Rightarrow> fault + bool \<times> ('sm, 'buf) world" where
  "send_Data_Stream env p data psize replyExpected w =
     (let msize = total_message_size sizeof_Data_Stream_Header psize; m = new_Data_Stream_Header in
      then_do (get_sessionId p w) (\<lambda>sid.
      then_do (increaseMessageIdCounter p w) (\<lambda>(mid, w1).
        let h = (dsh_commonHeader m)\<lparr>sessionId := sid, messageId := mid,
                  totalMessageSize := msize, payloadSize := psize,
                  flags := (if replyExpected then 1 else 0) * 0x1\<rparr> in
        then_do (message_buffer env w1 (encode_Data_Stream_Header (m\<lparr>dsh_commonHeader := h\<rparr>))
                   data psize msize) (\<lambda>msg.
          sendMessage env p h msg w1))))"

definition send_Data_Stream_Reply ::
    "('sm, 'buf) env \<Rightarrow> ptr \<Rightarrow> u32 \<Rightarrow> ('sm, 'buf) world \<Rightarrow> fault + bool \<times> ('sm, 'buf) world" where
  "send_Data_Stream_Reply env p mid w =
     (let m = new_Data_StreamReply_Message in
      then_do (get_sessionId p w) (\<lambda>sid.
        let h = (dsr_commonHeader m)\<lparr>sessionId := sid, messageId := mid\<rparr> in
        sendMessage env p h (encode_Data_StreamReply_Message (m\<lparr>dsr_commonHeader := h\<rparr>)) w))"

section \<open>singleblock_data_processing.h\<close>

definition send_Data_SingleBlock ::
    "('sm, 'buf) env \<Rightarrow> ptr \<Rightarrow> u64 \<Rightarrow> byte list \<Rightarrow> u32 \<Rightarrow> u64 \<Rightarrow> ('sm, 'buf) world
     \<Rightarrow> fault + bool \<times> ('sm, 'buf) world" where
  "send_Data_SingleBlock env p mbid data psize bid w =
     (let msize = total_message_size sizeof_Data_SingleBlock_Header psize;
          m = new_Data_SingleBlock_Header (uninitialised env 4 w) in
      then_do (get_sessionId p w) (\<lambda>sid.
      then_do (increaseMessageIdCounter p w) (\<lambda>(mid, w1).
        let h0 = (dbh_commonHeader m)\<lparr>sessionId := sid, messageId := mid,
                  totalMessageSize := msize, payloadSize := psize\<rparr>;
            h = (if bid \<noteq> 0 then h0\<lparr>flags := or (flags h0) 0x8\<rparr> else h0);
            m' = m\<lparr>dbh_commonHeader := h, dbh_blockerId := bid, dbh_multiblockId := mbid\<rparr> in
        then_do (message_buffer env w1 (encode_Data_SingleBlock_Header m') data psize msize) (\<lambda>msg.
          sendMessage env p h msg w1))))"

definition send_Data_SingleBlock_Reply ::
    "('sm, 'buf) env \<Rightarrow> ptr \<Rightarrow> u32 \<Rightarrow> ('sm, 'buf) world \<Rightarrow> fault + bool \<times> ('sm, 'buf) world" where
  "send_Data_SingleBlock_Reply env p mid w =
     (let m = new_Data_SingleBlockReply_Message in
      then_do (get_sessionId p w) (\<lambda>sid.
        let h = (dbr_commonHeader m)\<lparr>sessionId := sid, messageId := mid\<rparr> in
        sendMessage env p h (encode_Data_SingleBlockReply_Message (m\<lparr>dbr_commonHeader := h\<rparr>)) w))"

section \<open>multiblock_data_processing.h\<close>

definition send_Data_Multi_Static ::
    "('sm, 'buf) env \<Rightarrow> ptr \<Rightarrow> u64 \<Rightarrow> u64 \<Rightarrow> u32 \<Rightarrow> u32 \<Rightarrow> byte list \<Rightarrow> u32 \<Rightarrow> u64
     \<Rightarrow> ('sm, 'buf) world \<Rightarrow> fault + bool \<times> ('sm, 'buf) world" where
  "send_Data_Multi_Static env p totalSize mbid totalPartNumber partId data psize bid w =
     (let msize = total_message_size sizeof_Data_MultiBlock_Header psize;
          m = new_Data_MultiBlock_Header in
      then_do (get_sessionId p w) (\<lambda>sid.
      then_do (increaseMessageIdCounter p w) (\<lambda>(mid, w1).
        let h0 = (dmh_commonHeader m)\<lparr>sessionId := sid, messageId := mid,
                  totalMessageSize := msize, payloadSize := psize\<rparr>;
            h = (if bid \<noteq> 0 then h0\<lparr>flags := or (flags h0) 0x8\<rparr> else h0);
            m' = m\<lparr>dmh_commonHeader := h, dmh_multiblockId := mbid,
                   dmh_totalPartNumber := totalPartNumber, dmh_partId := partId,
                   dmh_totalSize := totalSize\<rparr> in
        then_do (message_buffer env w1 (encode_Data_MultiBlock_Header m') data psize msize) (\<lambda>msg.
          sendMessage env p h msg w1))))"

definition send_Data_Multi_Finish ::
    "('sm, 'buf) env \<Rightarrow> ptr \<Rightarrow> u64 \<Rightarrow> u64 \<Rightarrow> ('sm, 'buf) world \<Rightarrow> fault + bool \<times> ('sm, 'buf) world" where
  "send_Data_Multi_Finish env p mbid bid w =
     (let m = new_Data_MultiFinish_Message in
      then_do (get_sessionId p w) (\<lambda>sid.
      then_do (increaseMessageIdCounter p w) (\<lambda>(mid, w1).
        let h0 = (dmf_commonHeader m)\<lparr>sessionId := sid, messageId := mid\<rparr>;
            h = (if bid \<noteq> 0 then h0\<lparr>flags := or (flags h0) 0x8\<rparr> else h0) in
        sendMessage env p h
          (encode_Data_MultiFinish_Message
             (m\<lparr>dmf_commonHeader := h, dmf_multiblockId := mbid, dmf_blockerId := bid\<rparr>)) w1)))"

section \<open>Sizes and frames\<close>

definition padding_size :: "nat \<Rightarrow> nat" where
  "padding_size n = (8 - n mod 8) mod 8"

definition fits_buffer :: "nat \<Rightarrow> nat \<Rightarrow> bool" where
  "fits_buffer header_size n \<longleftrightarrow>
     header_size + n + padding_size n + sizeof_CommonMessageFooter \<le> MESSAGE_CACHE_SIZE"

lemma padding_size_bound: "padding_size n < 8" and padding_size_div: "8 dvd n + padding_size n"
proof -
  show "padding_size n < 8" by (simp add: padding_size_def)
  have split: "m + (8 - r) = 8 * (q + 1)" if "m = 8 * q + r" and "r < 8" for m q r :: nat
    using that by simp
  have "n + padding_size n = 8 * (n div 8 + (if n mod 8 = 0 then 0 else 1))"
  proof (cases "n mod 8 = 0")
    case False
    then have "padding_size n = 8 - n mod 8" by (simp add: padding_size_def)
    then show ?thesis using split [of n "n div 8" "n mod 8"] False by simp
  qed (auto simp: padding_size_def)
  then show "8 dvd n + padding_size n" by simp
qed

lemma unat_total_message_size:
  assumes "hs + unat n + 16 < 2 ^ 32"
  shows "unat (total_message_size hs n)
    = hs + unat n + padding_size (unat n) + sizeof_CommonMessageFooter"
proof -
  have "hs + unat n + padding_size (unat n) + sizeof_CommonMessageFooter < 2 ^ 32"
    using assms padding_size_bound [of "unat n"] by (simp add: sizeof_CommonMessageFooter_def)
  then show ?thesis
    unfolding total_message_size_def padding_size_def [symmetric] unat_of_nat by simp
qed

text \<open>
  A message buffer is filled exactly if the message fits into it, and then it holds header,
  payload, padding and footer.
\<close>

definition buffer_padding ::
    "('sm, 'buf) env \<Rightarrow> ('sm, 'buf) world \<Rightarrow> nat \<Rightarrow> nat \<Rightarrow> byte list" where
  "buffer_padding env w hs n =
     map (e_junk env (length (w_trace w))) [hs + n..<hs + n + padding_size n]"

lemma length_buffer_padding [simp]: "length (buffer_padding env w hs n) = padding_size n"
  by (simp add: buffer_padding_def)

lemma message_buffer_ok:
  assumes "unat n \<le> length data" and "length hdr = hs" and "fits_buffer hs (unat n)"
  shows "message_buffer env w hdr data n (total_message_size hs n)
    = Inr (hdr @ take (unat n) data @ buffer_padding env w hs (unat n)
           @ encode_CommonMessageFooter new_CommonMessageFooter)"
proof -
  have "hs + unat n + 16 < 2 ^ 32"
    using assms(3) by (simp add: fits_buffer_def MESSAGE_CACHE_SIZE_def sizeof_CommonMessageFooter_def)
  from unat_total_message_size [OF this] assms show ?thesis
    by (simp add: message_buffer_def read_bytes_def fits_buffer_def buffer_padding_def
      sizeof_CommonMessageFooter_def)
qed

lemma message_buffer_overflow:
  assumes "unat n \<le> length data" and "length hdr = hs" and "hs \<le> 56" and "\<not> fits_buffer hs (unat n)"
  shows "message_buffer env w hdr data n (total_message_size hs n) = Inl Buffer_Overflow"
proof (cases "MESSAGE_CACHE_SIZE < hs + unat n")
  case True
  with assms show ?thesis by (simp add: message_buffer_def read_bytes_def)
next
  case False
  then have "hs + unat n + 16 < 2 ^ 32" by (simp add: MESSAGE_CACHE_SIZE_def)
  from unat_total_message_size [OF this] assms show ?thesis
    by (simp add: message_buffer_def read_bytes_def fits_buffer_def)
qed

lemma message_buffer_InrD:
  assumes "message_buffer env w hdr data n (total_message_size hs n) = Inr msg"
    and "length hdr = hs" and "hs \<le> 56"
  shows "unat n \<le> length data" and "fits_buffer hs (unat n)"
    and "msg = hdr @ take (unat n) data @ buffer_padding env w hs (unat n)
           @ encode_CommonMessageFooter new_CommonMessageFooter"
proof -
  show n: "unat n \<le> length data"
    using assms by (simp add: message_buffer_def read_bytes_def split: if_splits)
  show f: "fits_buffer hs (unat n)"
  proof (rule ccontr)
    assume "\<not> fits_buffer hs (unat n)"
    from message_buffer_overflow [OF n assms(2,3) this, of env w] assms(1) show False by simp
  qed
  show "msg = hdr @ take (unat n) data @ buffer_padding env w hs (unat n)
           @ encode_CommonMessageFooter new_CommonMessageFooter"
    using assms(1) message_buffer_ok [OF n assms(2) f, of env w] by simp
qed

lemma payload_frame:
  assumes msg: "msg = encode_CommonMessageHeader h @ extra @ payload @ pad
      @ encode_CommonMessageFooter new_CommonMessageFooter"
    and hs: "hs = sizeof_CommonMessageHeader + length extra" "4 dvd hs"
    and n: "length payload = unat n" "length pad = padding_size (unat n)" "fits_buffer hs (unat n)"
    and h: "own_header h" "totalMessageSize h = total_message_size hs n"
  shows "frame h msg" and "length msg = hs + unat n + padding_size (unat n) + 8"
proof -
  have "hs + unat n + 16 < 2 ^ 32"
    using n(3) by (simp add: fits_buffer_def MESSAGE_CACHE_SIZE_def sizeof_CommonMessageFooter_def)
  note tot = unat_total_message_size [OF this]
  show len: "length msg = hs + unat n + padding_size (unat n) + 8"
    by (simp add: msg hs(1) n sizeof_CommonMessageFooter_def)
  have "4 dvd unat n + padding_size (unat n)" using padding_size_div [of "unat n"]
    by presburger
  with hs(2) have "4 dvd length msg" unfolding len by presburger
  with h tot len show "frame h msg"
    by (intro frameI [where mid = "extra @ payload @ pad" and f = new_CommonMessageFooter])
      (simp_all add: msg sizeof_CommonMessageFooter_def)
qed

section \<open>What is sent\<close>

text \<open>
  Most operations only send frames and change a session's counters and buffers. \<open>calm w w'\<close>: on
  the way from \<open>w\<close> to \<open>w'\<close> only frames were sent, the application was told neither of a new nor of
  a closed session, every session is still there with its state machine and its socket, and the
  maps of the session handler are the same. Every builder is calm, whatever the data are.
\<close>

definition quiet_event :: "'buf event \<Rightarrow> bool" where
  "quiet_event ev \<longleftrightarrow> (case ev of
       Net (Send_Message sk bs) r \<Rightarrow> (\<exists>h. frame h bs)
     | Client (Create_Session f p ident) \<Rightarrow> False
     | Client (Close_Session f p ident) \<Rightarrow> False
     | _ \<Rightarrow> True)"

definition calm :: "('sm, 'buf) world \<Rightarrow> ('sm, 'buf) world \<Rightarrow> bool" where
  "calm w w' \<longleftrightarrow>
     (\<exists>evs. w_trace w' = w_trace w @ evs \<and> (\<forall>ev \<in> set evs. quiet_event ev)) \<and>
     (\<forall>p. map_option (\<lambda>s. (m_statemachine s, m_socket s)) (w_heap w' p)
          = map_option (\<lambda>s. (m_statemachine s, m_socket s)) (w_heap w p)) \<and>
     w_handler w' = w_handler w \<and> w_next w' = w_next w"

definition calm_step :: "('sm, 'buf) world \<Rightarrow> fault + 'a \<times> ('sm, 'buf) world \<Rightarrow> bool" where
  "calm_step w r \<longleftrightarrow> ensures (\<lambda>(x, w'). calm w w') r"

lemma calm_refl [simp, intro]: "calm w w"
  by (simp add: calm_def)

lemma calm_trans: "calm w w1 \<Longrightarrow> calm w1 w2 \<Longrightarrow> calm w w2"
  unfolding calm_def by (elim conjE exE) (auto simp: ball_Un)

lemma calm_reply: "calm w w' \<Longrightarrow> calm w (w'\<lparr>w_reply := r\<rparr>)"
  and calm_blocker: "calm w w' \<Longrightarrow> calm w (w'\<lparr>w_blocker := b\<rparr>)"
  and calm_rand: "calm w w' \<Longrightarrow> calm w (w'\<lparr>w_rand := n\<rparr>)"
  by (simp_all add: calm_def)

lemma calm_expect_reply: "calm w w' \<Longrightarrow> calm w (expect_reply p h w')"
  by (simp add: calm_def)

lemma calm_set_session:
  assumes "calm w w'" and "w_heap w' p = Some s" and "m_statemachine s' = m_statemachine s"
    and "m_socket s' = m_socket s"
  shows "calm w (set_session p s' w')"
proof -
  have "map_option (\<lambda>s. (m_statemachine s, m_socket s)) (w_heap (set_session p s' w') q)
      = map_option (\<lambda>s. (m_statemachine s, m_socket s)) (w_heap w' q)" for q
    using assms(2-4) by simp
  with assms(1) show ?thesis unfolding calm_def by (simp del: heap_set_session(1))
qed

lemma calm_log: "calm w w' \<Longrightarrow> quiet_event ev \<Longrightarrow> calm w (log_event ev w')"
  unfolding calm_def by (elim conjE exE) (auto intro!: exI [of _ "_ @ [ev]"])

lemma sendMessage_calm:
  assumes "frame h bs" and "calm w0 w"
  shows "calm_step w0 (sendMessage env p h bs w)"
proof -
  have "quiet_event (Net (Send_Message sk bs) r)" for sk r
    using assms(1) by (auto simp: quiet_event_def)
  with assms(2) show ?thesis
    by (auto simp: calm_step_def sendMessage_def get_session_def ask_net_def
        intro: calm_log calm_expect_reply split: option.splits)
qed

lemma get_sessionId_InrE:
  assumes "get_sessionId p w = Inr sid"
  obtains s where "w_heap w p = Some s" and "sid = m_sessionId s"
  using assms by (auto simp: get_sessionId_def get_session_def split: option.splits)

lemma increaseMessageIdCounter_InrE:
  assumes "increaseMessageIdCounter p w = Inr (mid, w1)"
  obtains s where "w_heap w p = Some s" and "mid = m_messageIdCounter s + 1"
    and "w1 = set_session p (s\<lparr>m_messageIdCounter := m_messageIdCounter s + 1\<rparr>) w"
  using assms by (auto simp: increaseMessageIdCounter_def get_session_def split: option.splits)

lemma memcpy_start_length: "memcpy_start target bs = Inr out \<Longrightarrow> length out = length target"
  by (auto simp: memcpy_start_def split: if_splits)

text \<open>Builders of a frame, with or without taking a new message identifier.\<close>

lemma increaseMessageIdCounter_calm:
  assumes "calm w0 w" and "increaseMessageIdCounter p w = Inr (mid, w1)"
  shows "calm w0 w1"
  using assms by (auto elim!: increaseMessageIdCounter_InrE intro: calm_set_session)

lemma numbered_calm:
  assumes "calm w0 w" and "\<And>sid mid w1. calm w0 w1 \<Longrightarrow> calm_step w0 (k sid mid w1)"
  shows "calm_step w0 (then_do (get_sessionId p w) (\<lambda>sid.
      then_do (increaseMessageIdCounter p w) (\<lambda>(mid, w1). k sid mid w1)))"
  unfolding calm_step_def
proof (rule ensures_then_do [where Q = "\<lambda>_. True"])
  show "ensures (\<lambda>_. True) (get_sessionId p w)" by (simp add: ensures_def split: sum.splits)
  fix sid
  show "ensures (\<lambda>(x, w'). calm w0 w')
      (then_do (increaseMessageIdCounter p w) (\<lambda>(mid, w1). k sid mid w1))"
  proof (rule ensures_then_do [where Q = "\<lambda>(mid, w1). calm w0 w1"])
    show "ensures (\<lambda>(mid, w1). calm w0 w1) (increaseMessageIdCounter p w)"
      using increaseMessageIdCounter_calm [OF assms(1)] by (auto intro: ensuresI)
  qed (use assms(2) in \<open>auto simp: calm_step_def\<close>)
qed

lemma named_calm:
  assumes "\<And>sid. calm_step w0 (k sid)"
  shows "calm_step w0 (then_do (get_sessionId p w) k)"
  using assms
  by (auto simp: calm_step_def then_do_def split: sum.splits)

lemma calm_then_do:
  assumes "\<And>x. r = Inr x \<Longrightarrow> calm_step w0 (k x)"
  shows "calm_step w0 (then_do r k)"
  using assms by (auto simp: calm_step_def then_do_def split: sum.splits)

lemma send_Session_Init_Start_calm:
  assumes "calm w0 w"
  shows "calm_step w0 (send_Session_Init_Start env p ident w)"
  unfolding send_Session_Init_Start_def Let_def
  by (rule numbered_calm [OF assms], rule calm_then_do, rule sendMessage_calm
      , rule init_start.encode_frame) 
    (use assms in \<open>auto simp: new_message_defs dest: memcpy_start_length\<close>)

lemma send_Session_Init_Reply_calm:
  assumes "calm w0 w"
  shows "calm_step w0 (send_Session_Init_Reply env p sid mid csid ident w)"
  unfolding send_Session_Init_Reply_def Let_def
  by (rule calm_then_do, rule sendMessage_calm, rule init_reply.encode_frame)
    (use assms in \<open>auto simp: new_message_defs dest: memcpy_start_length\<close>)

lemma send_Session_Close_Start_calm:
  assumes "calm w0 w"
  shows "calm_step w0 (send_Session_Close_Start env p re w)"
  unfolding send_Session_Close_Start_def Let_def
  by (rule numbered_calm [OF assms], rule sendMessage_calm, rule close_start.encode_frame)
    (use assms in \<open>auto simp: new_message_defs\<close>)

lemma send_Session_Close_Reply_calm:
  assumes "calm w0 w"
  shows "calm_step w0 (send_Session_Close_Reply env p mid w)"
  unfolding send_Session_Close_Reply_def Let_def
  by (rule named_calm, rule sendMessage_calm, rule close_reply.encode_frame)
    (use assms in \<open>auto simp: new_message_defs\<close>)

lemma send_Heartbeat_Start_calm:
  assumes "calm w0 w"
  shows "calm_step w0 (send_Heartbeat_Start env p w)"
  unfolding send_Heartbeat_Start_def Let_def
  by (rule numbered_calm [OF assms], rule sendMessage_calm, rule heartbeat_start.encode_frame)
    (use assms in \<open>auto simp: new_message_defs\<close>)

lemma send_Heartbeat_Reply_calm:
  assumes "calm w0 w"
  shows "calm_step w0 (send_Heartbeat_Reply env p mid w)"
  unfolding send_Heartbeat_Reply_def Let_def
  by (rule named_calm, rule sendMessage_calm, rule heartbeat_reply.encode_frame)
    (use assms in \<open>auto simp: new_message_defs\<close>)

lemma send_Data_Stream_Reply_calm:
  assumes "calm w0 w"
  shows "calm_step w0 (send_Data_Stream_Reply env p mid w)"
  unfolding send_Data_Stream_Reply_def Let_def
  by (rule named_calm, rule sendMessage_calm, rule stream_reply.encode_frame)
    (use assms in \<open>auto simp: new_message_defs\<close>)

lemma send_Data_SingleBlock_Reply_calm:
  assumes "calm w0 w"
  shows "calm_step w0 (send_Data_SingleBlock_Reply env p mid w)"
  unfolding send_Data_SingleBlock_Reply_def Let_def
  by (rule named_calm, rule sendMessage_calm, rule single_reply.encode_frame)
    (use assms in \<open>auto simp: new_message_defs\<close>)

lemma send_Data_Multi_Finish_calm:
  assumes "calm w0 w"
  shows "calm_step w0 (send_Data_Multi_Finish env p mbid bid w)"
  unfolding send_Data_Multi_Finish_def Let_def
  by (rule numbered_calm [OF assms], rule sendMessage_calm, rule multi_finish.encode_frame)
    (use assms in \<open>auto simp: new_message_defs\<close>)

lemma calm_if:
  "(c \<Longrightarrow> calm_step w0 a) \<Longrightarrow> (\<not> c \<Longrightarrow> calm_step w0 b) \<Longrightarrow> calm_step w0 (if c then a else b)"
  by simp

lemma send_ErrorMessage_calm:
  assumes "calm w0 w"
  shows "calm_step w0 (send_ErrorMessage env p code text w)"
  unfolding send_ErrorMessage_def Let_def
proof (intro calm_if)
  note frames = numbered_calm [OF assms] calm_then_do sendMessage_calm
  show "calm_step w0 (then_do (get_sessionId p w) (\<lambda>sid.
      then_do (increaseMessageIdCounter p w) (\<lambda>(mid, w1).
        then_do (memcpy_start (uninitialised env MESSAGE_CACHE_SIZE w)
            (strncpy_bytes (error_message_size env text) text)) (\<lambda>bytes.
          sendMessage env p (efv_commonHeader (new_Error_FalseVersion_Message bytes)\<lparr>sessionId := sid, messageId := mid\<rparr>)
            (encode_Error_FalseVersion_Message (new_Error_FalseVersion_Message bytes
              \<lparr>efv_commonHeader := efv_commonHeader (new_Error_FalseVersion_Message bytes)\<lparr>sessionId := sid, messageId := mid\<rparr>,
               efv_messageSize := word_of_nat (error_message_size env text)\<rparr>)) w1))))"
    by (rule frames(1), rule frames(2), rule frames(3), rule false_version.encode_frame)
      (use assms in \<open>auto simp: new_message_defs dest: memcpy_start_length\<close>)
  show "calm_step w0 (then_do (get_sessionId p w) (\<lambda>sid.
      then_do (increaseMessageIdCounter p w) (\<lambda>(mid, w1).
        then_do (memcpy_start (uninitialised env MESSAGE_CACHE_SIZE w)
            (strncpy_bytes (error_message_size env text) text)) (\<lambda>bytes.
          sendMessage env p (eus_commonHeader (new_Error_UnknownSession_Message bytes)\<lparr>sessionId := sid, messageId := mid\<rparr>)
            (encode_Error_UnknownSession_Message (new_Error_UnknownSession_Message bytes
              \<lparr>eus_commonHeader := eus_commonHeader (new_Error_UnknownSession_Message bytes)\<lparr>sessionId := sid, messageId := mid\<rparr>,
               eus_messageSize := word_of_nat (error_message_size env text)\<rparr>)) w1))))"
    by (rule frames(1), rule frames(2), rule frames(3), rule unknown_session.encode_frame)
      (use assms in \<open>auto simp: new_message_defs dest: memcpy_start_length\<close>)
  show "calm_step w0 (then_do (get_sessionId p w) (\<lambda>sid.
      then_do (increaseMessageIdCounter p w) (\<lambda>(mid, w1).
        then_do (memcpy_start (uninitialised env MESSAGE_CACHE_SIZE w)
            (strncpy_bytes (error_message_size env text) text)) (\<lambda>bytes.
          sendMessage env p (eim_commonHeader (new_Error_InvalidMessage_Message bytes)\<lparr>sessionId := sid, messageId := mid\<rparr>)
            (encode_Error_InvalidMessage_Message (new_Error_InvalidMessage_Message bytes
              \<lparr>eim_commonHeader := eim_commonHeader (new_Error_InvalidMessage_Message bytes)\<lparr>sessionId := sid, messageId := mid\<rparr>,
               eim_messageSize := word_of_nat (error_message_size env text)\<rparr>)) w1))))"
    by (rule frames(1), rule frames(2), rule frames(3), rule invalid_message.encode_frame)
      (use assms in \<open>auto simp: new_message_defs dest: memcpy_start_length\<close>)
qed (use assms in \<open>simp add: calm_step_def\<close>)

text \<open>The builders with payload: the frame follows from the shape of the message buffer.\<close>

lemma message_buffer_calm:
  assumes "calm w0 w" and "hdr = encode_CommonMessageHeader h @ extra"
    and "length hdr = hs" and "4 dvd hs" and "hs \<le> 56"
    and "own_header h" and "totalMessageSize h = total_message_size hs n"
  shows "calm_step w0 (then_do (message_buffer env w hdr data n (total_message_size hs n)) (\<lambda>msg.
      sendMessage env p h msg w))"
proof (rule calm_then_do)
  fix msg
  assume m: "message_buffer env w hdr data n (total_message_size hs n) = Inr msg"
  note d = message_buffer_InrD [OF m assms(3,5)]
  have "frame h msg"
    by (rule payload_frame(1) [where extra = extra and payload = "take (unat n) data"
          and pad = "buffer_padding env w hs (unat n)" and hs = hs and n = n])
      (use d assms in auto)
  then show "calm_step w0 (sendMessage env p h msg w)"
    using assms(1) by (rule sendMessage_calm)
qed

lemma send_Data_Stream_calm:
  assumes "calm w0 w"
  shows "calm_step w0 (send_Data_Stream env p data n re w)"
  unfolding send_Data_Stream_def Let_def
  by (rule numbered_calm [OF assms], rule message_buffer_calm)
    (use assms in \<open>auto simp: new_message_defs encode_message_defs sizeof_values\<close>)

lemma send_Data_SingleBlock_calm:
  assumes "calm w0 w"
  shows "calm_step w0 (send_Data_SingleBlock env p mbid data n bid w)"
  unfolding send_Data_SingleBlock_def Let_def
  by (rule numbered_calm [OF assms], rule message_buffer_calm)
    (use assms in \<open>auto simp: new_message_defs encode_message_defs sizeof_values\<close>)

lemma send_Data_Multi_Static_calm:
  assumes "calm w0 w"
  shows "calm_step w0 (send_Data_Multi_Static env p ts mbid tp part data n bid w)"
  unfolding send_Data_Multi_Static_def Let_def
  by (rule numbered_calm [OF assms], rule message_buffer_calm)
    (use assms in \<open>auto simp: new_message_defs encode_message_defs sizeof_values\<close>)

section \<open>The messages of a connected session\<close>

text \<open>
  With a live session that has a socket, each builder hands exactly one message to the socket.
  The messages are named here, so that the receiving side can be related to them.
\<close>

definition delivered ::
    "('sm, 'buf) env \<Rightarrow> ptr \<Rightarrow> sock \<Rightarrow> CommonMessageHeader \<Rightarrow> byte list \<Rightarrow> ('sm, 'buf) world
     \<Rightarrow> bool \<times> ('sm, 'buf) world" where
  "delivered env p sk h msg w =
     (e_net env (w_trace w) (Send_Message sk msg),
      log_event (Net (Send_Message sk msg) (e_net env (w_trace w) (Send_Message sk msg)))
        (expect_reply p h w))"

definition counted :: "ptr \<Rightarrow> ('sm, 'buf) session \<Rightarrow> ('sm, 'buf) world \<Rightarrow> ('sm, 'buf) world" where
  "counted p s w = set_session p (s\<lparr>m_messageIdCounter := m_messageIdCounter s + 1\<rparr>) w"

lemma counted_sel [simp]:
  "w_heap (counted p s w) = (w_heap w)(p \<mapsto> s\<lparr>m_messageIdCounter := m_messageIdCounter s + 1\<rparr>)"
  "w_next (counted p s w) = w_next w" "w_reply (counted p s w) = w_reply w"
  "w_blocker (counted p s w) = w_blocker w" "w_handler (counted p s w) = w_handler w"
  "w_serverIdCounter (counted p s w) = w_serverIdCounter w" "w_rand (counted p s w) = w_rand w"
  "w_trace (counted p s w) = w_trace w"
  by (simp_all add: counted_def)

lemma delivered_sel [simp]:
  "w_heap (snd (delivered env p sk h msg w)) = w_heap w"
  "w_next (snd (delivered env p sk h msg w)) = w_next w"
  "w_reply (snd (delivered env p sk h msg w)) = w_reply (expect_reply p h w)"
  "w_blocker (snd (delivered env p sk h msg w)) = w_blocker w"
  "w_handler (snd (delivered env p sk h msg w)) = w_handler w"
  "w_serverIdCounter (snd (delivered env p sk h msg w)) = w_serverIdCounter w"
  "w_rand (snd (delivered env p sk h msg w)) = w_rand w"
  "w_trace (snd (delivered env p sk h msg w))
     = w_trace w @ [Net (Send_Message sk msg) (e_net env (w_trace w) (Send_Message sk msg))]"
  "fst (delivered env p sk h msg w) = e_net env (w_trace w) (Send_Message sk msg)"
  by (simp_all add: delivered_def)

definition stream_header :: "u32 \<Rightarrow> u32 \<Rightarrow> bool \<Rightarrow> u32 \<Rightarrow> CommonMessageHeader" where
  "stream_header sid mid reply n = (dsh_commonHeader new_Data_Stream_Header)
     \<lparr>sessionId := sid, messageId := mid,
      totalMessageSize := total_message_size sizeof_Data_Stream_Header n, payloadSize := n,
      flags := (if reply then 1 else 0)\<rparr>"

definition single_header :: "u32 \<Rightarrow> u32 \<Rightarrow> u64 \<Rightarrow> u32 \<Rightarrow> CommonMessageHeader" where
  "single_header sid mid bid n = (dbh_commonHeader (new_Data_SingleBlock_Header []))
     \<lparr>sessionId := sid, messageId := mid,
      totalMessageSize := total_message_size sizeof_Data_SingleBlock_Header n, payloadSize := n,
      flags := (if bid = 0 then 0x1 else 0x9)\<rparr>"

definition multi_header :: "u32 \<Rightarrow> u32 \<Rightarrow> u64 \<Rightarrow> u32 \<Rightarrow> CommonMessageHeader" where
  "multi_header sid mid bid n = (dmh_commonHeader new_Data_MultiBlock_Header)
     \<lparr>sessionId := sid, messageId := mid,
      totalMessageSize := total_message_size sizeof_Data_MultiBlock_Header n, payloadSize := n,
      flags := (if bid = 0 then 0 else 0x8)\<rparr>"

definition payload_message ::
    "CommonMessageHeader \<Rightarrow> byte list \<Rightarrow> byte list \<Rightarrow> byte list \<Rightarrow> byte list" where
  "payload_message h extra payload pad = encode_CommonMessageHeader h @ extra @ payload @ pad
     @ encode_CommonMessageFooter new_CommonMessageFooter"

definition init_start_msg :: "u32 \<Rightarrow> u32 \<Rightarrow> byte list \<Rightarrow> byte list \<Rightarrow> Session_Init_Start_Message" where
  "init_start_msg sid mid ident rest = (new_Session_Init_Start_Message (ident @ rest))
     \<lparr>sis_commonHeader := (sis_commonHeader (new_Session_Init_Start_Message []))
        \<lparr>sessionId := sid, messageId := mid\<rparr>,
      sis_clientSessionId := sid, sis_sessionIdentifierSize := word_of_nat (length ident)\<rparr>"

definition init_reply_msg ::
    "u32 \<Rightarrow> u32 \<Rightarrow> u32 \<Rightarrow> byte list \<Rightarrow> byte list \<Rightarrow> byte list \<Rightarrow> Session_Init_Reply_Message" where
  "init_reply_msg sid mid csid ident rest pad = (new_Session_Init_Reply_Message (ident @ rest) pad)
     \<lparr>sir_commonHeader := (sir_commonHeader (new_Session_Init_Reply_Message [] []))
        \<lparr>sessionId := sid, messageId := mid\<rparr>,
      sir_completeSessionId := csid, sir_clientSessionId := sid,
      sir_sessionIdentifierSize := word_of_nat (length ident)\<rparr>"

definition close_start_msg :: "u32 \<Rightarrow> u32 \<Rightarrow> bool \<Rightarrow> byte list \<Rightarrow> Session_Close_Start_Message" where
  "close_start_msg sid mid reply pad = (new_Session_Close_Start_Message pad)
     \<lparr>scs_commonHeader := (scs_commonHeader (new_Session_Close_Start_Message []))
        \<lparr>sessionId := sid, messageId := mid, flags := (if reply then 1 else 0)\<rparr>\<rparr>"

definition close_reply_msg :: "u32 \<Rightarrow> u32 \<Rightarrow> byte list \<Rightarrow> Session_Close_Reply_Message" where
  "close_reply_msg sid mid pad = (new_Session_Close_Reply_Message pad)
     \<lparr>scr_commonHeader := (scr_commonHeader (new_Session_Close_Reply_Message []))
        \<lparr>sessionId := sid, messageId := mid\<rparr>\<rparr>"

definition heartbeat_start_msg :: "u32 \<Rightarrow> u32 \<Rightarrow> Heartbeat_Start_Message" where
  "heartbeat_start_msg sid mid = new_Heartbeat_Start_Message
     \<lparr>hbs_commonHeader := (hbs_commonHeader new_Heartbeat_Start_Message)
        \<lparr>sessionId := sid, messageId := mid\<rparr>\<rparr>"

definition heartbeat_reply_msg :: "u32 \<Rightarrow> u32 \<Rightarrow> Heartbeat_Reply_Message" where
  "heartbeat_reply_msg sid mid = new_Heartbeat_Reply_Message
     \<lparr>hbr_commonHeader := (hbr_commonHeader new_Heartbeat_Reply_Message)
        \<lparr>sessionId := sid, messageId := mid\<rparr>\<rparr>"

definition stream_reply_msg :: "u32 \<Rightarrow> u32 \<Rightarrow> Data_StreamReply_Message" where
  "stream_reply_msg sid mid = new_Data_StreamReply_Message
     \<lparr>dsr_commonHeader := (dsr_commonHeader new_Data_StreamReply_Message)
        \<lparr>sessionId := sid, messageId := mid\<rparr>\<rparr>"

definition single_reply_msg :: "u32 \<Rightarrow> u32 \<Rightarrow> Data_SingleBlockReply_Message" where
  "single_reply_msg sid mid = new_Data_SingleBlockReply_Message
     \<lparr>dbr_commonHeader := (dbr_commonHeader new_Data_SingleBlockReply_Message)
        \<lparr>sessionId := sid, messageId := mid\<rparr>\<rparr>"

definition multi_finish_msg :: "u32 \<Rightarrow> u32 \<Rightarrow> u64 \<Rightarrow> u64 \<Rightarrow> Data_MultiFinish_Message" where
  "multi_finish_msg sid mid mbid bid = new_Data_MultiFinish_Message
     \<lparr>dmf_commonHeader := (dmf_commonHeader new_Data_MultiFinish_Message)
        \<lparr>sessionId := sid, messageId := mid, flags := (if bid = 0 then 0 else 0x8)\<rparr>,
      dmf_multiblockId := mbid, dmf_blockerId := bid\<rparr>"

lemmas named_message_defs = init_start_msg_def init_reply_msg_def close_start_msg_def
  close_reply_msg_def heartbeat_start_msg_def heartbeat_reply_msg_def stream_reply_msg_def
  single_reply_msg_def multi_finish_msg_def

lemma sendMessage_delivered:
  "w_heap w p = Some s \<Longrightarrow> m_socket s = Some sk \<Longrightarrow>
     sendMessage env p h msg w = Inr (delivered env p sk h msg w)"
  by (simp add: sendMessage_socket delivered_def)

lemma get_sessionId_live: "w_heap w p = Some s \<Longrightarrow> get_sessionId p w = Inr (m_sessionId s)"
  by (simp add: get_sessionId_def)

lemma count_live:
  "w_heap w p = Some s \<Longrightarrow> increaseMessageIdCounter p w = Inr (m_messageIdCounter s + 1, counted p s w)"
  by (simp add: increaseMessageIdCounter_live counted_def)

lemmas send_rules = sendMessage_delivered get_sessionId_live count_live Let_def

lemma send_Session_Close_Start_delivered:
  assumes "w_heap w p = Some s" and "m_socket s = Some sk"
  shows "send_Session_Close_Start env p reply w = Inr (delivered env p sk (scs_commonHeader (close_start_msg (m_sessionId s) (m_messageIdCounter s + 1) reply (uninitialised env 4 w)))
    (encode_Session_Close_Start_Message (close_start_msg (m_sessionId s) (m_messageIdCounter s + 1) reply (uninitialised env 4 w))) (counted p s w))"
  using assms by (simp add: send_Session_Close_Start_def send_rules named_message_defs new_message_defs new_CommonMessageHeader_def)

lemma send_Session_Close_Reply_delivered:
  assumes "w_heap w p = Some s" and "m_socket s = Some sk"
  shows "send_Session_Close_Reply env p mid w = Inr (delivered env p sk (scr_commonHeader (close_reply_msg (m_sessionId s) mid (uninitialised env 4 w)))
    (encode_Session_Close_Reply_Message (close_reply_msg (m_sessionId s) mid (uninitialised env 4 w))) w)"
  using assms by (simp add: send_Session_Close_Reply_def send_rules named_message_defs new_message_defs)

lemma send_Heartbeat_Start_delivered:
  assumes "w_heap w p = Some s" and "m_socket s = Some sk"
  shows "send_Heartbeat_Start env p w = Inr (delivered env p sk (hbs_commonHeader (heartbeat_start_msg (m_sessionId s) (m_messageIdCounter s + 1)))
    (encode_Heartbeat_Start_Message (heartbeat_start_msg (m_sessionId s) (m_messageIdCounter s + 1))) (counted p s w))"
  using assms by (simp add: send_Heartbeat_Start_def send_rules named_message_defs new_message_defs)

lemma send_Heartbeat_Reply_delivered:
  assumes "w_heap w p = Some s" and "m_socket s = Some sk"
  shows "send_Heartbeat_Reply env p mid w = Inr (delivered env p sk (hbr_commonHeader (heartbeat_reply_msg (m_sessionId s) mid))
    (encode_Heartbeat_Reply_Message (heartbeat_reply_msg (m_sessionId s) mid)) w)"
  using assms by (simp add: send_Heartbeat_Reply_def send_rules named_message_defs new_message_defs)

lemma send_Data_Stream_Reply_delivered:
  assumes "w_heap w p = Some s" and "m_socket s = Some sk"
  shows "send_Data_Stream_Reply env p mid w = Inr (delivered env p sk (dsr_commonHeader (stream_reply_msg (m_sessionId s) mid))
    (encode_Data_StreamReply_Message (stream_reply_msg (m_sessionId s) mid)) w)"
  using assms by (simp add: send_Data_Stream_Reply_def send_rules named_message_defs new_message_defs)

lemma send_Data_SingleBlock_Reply_delivered:
  assumes "w_heap w p = Some s" and "m_socket s = Some sk"
  shows "send_Data_SingleBlock_Reply env p mid w = Inr (delivered env p sk (dbr_commonHeader (single_reply_msg (m_sessionId s) mid))
    (encode_Data_SingleBlockReply_Message (single_reply_msg (m_sessionId s) mid)) w)"
  using assms by (simp add: send_Data_SingleBlock_Reply_def send_rules named_message_defs new_message_defs)

lemma send_Data_Multi_Finish_delivered:
  assumes "w_heap w p = Some s" and "m_socket s = Some sk"
  shows "send_Data_Multi_Finish env p mbid bid w = Inr (delivered env p sk (dmf_commonHeader (multi_finish_msg (m_sessionId s) (m_messageIdCounter s + 1) mbid bid))
    (encode_Data_MultiFinish_Message (multi_finish_msg (m_sessionId s) (m_messageIdCounter s + 1) mbid bid)) (counted p s w))"
  using assms by (simp add: send_Data_Multi_Finish_def send_rules named_message_defs new_message_defs new_CommonMessageHeader_def)

definition identifier_rest :: "('sm, 'buf) env \<Rightarrow> byte list \<Rightarrow> ('sm, 'buf) world \<Rightarrow> byte list" where
  "identifier_rest env ident w = drop (length ident) (uninitialised env 64000 w)"

lemma length_identifier_rest:
  "length ident \<le> 64000 \<Longrightarrow> length (ident @ identifier_rest env ident w) = 64000"
  by (simp add: identifier_rest_def)

lemma send_Session_Init_Start_delivered:
  assumes "w_heap w p = Some s" and "m_socket s = Some sk" and "length ident \<le> 64000"
  shows "send_Session_Init_Start env p ident w = Inr (delivered env p sk
    (sis_commonHeader (init_start_msg (m_sessionId s) (m_messageIdCounter s + 1) ident
       (identifier_rest env ident w)))
    (encode_Session_Init_Start_Message (init_start_msg (m_sessionId s) (m_messageIdCounter s + 1)
       ident (identifier_rest env ident w))) (counted p s w))"
  using assms
  by (simp add: send_Session_Init_Start_def send_rules named_message_defs new_message_defs
      memcpy_start_def identifier_rest_def)

lemma send_Session_Init_Start_overflow:
  assumes "w_heap w p = Some s" and "64000 < length ident"
  shows "send_Session_Init_Start env p ident w = Inl Buffer_Overflow"
  using assms
  by (simp add: send_Session_Init_Start_def send_rules new_message_defs memcpy_start_def)

lemma send_Session_Init_Reply_delivered:
  assumes "w_heap w p = Some s" and "m_socket s = Some sk" and "length ident \<le> 64000"
  shows "send_Session_Init_Reply env p sid mid csid ident w = Inr (delivered env p sk
    (sir_commonHeader (init_reply_msg sid mid csid ident (identifier_rest env ident w)
       (uninitialised env 4 w)))
    (encode_Session_Init_Reply_Message (init_reply_msg sid mid csid ident
       (identifier_rest env ident w) (uninitialised env 4 w))) w)"
  using assms
  by (simp add: send_Session_Init_Reply_def send_rules named_message_defs new_message_defs
      memcpy_start_def identifier_rest_def)

lemma send_Session_Init_Reply_overflow:
  "64000 < length ident \<Longrightarrow> send_Session_Init_Reply env p sid mid csid ident w = Inl Buffer_Overflow"
  by (simp add: send_Session_Init_Reply_def new_message_defs memcpy_start_def Let_def)

definition single_extra :: "u64 \<Rightarrow> u64 \<Rightarrow> byte list \<Rightarrow> byte list" where
  "single_extra mbid bid pad = put_u64 mbid @ put_u64 bid @ pad"

definition multi_extra :: "u64 \<Rightarrow> u64 \<Rightarrow> u32 \<Rightarrow> u32 \<Rightarrow> byte list" where
  "multi_extra totalSize mbid parts partId =
     put_u64 totalSize @ put_u64 mbid @ put_u32 parts @ put_u32 partId"

lemmas data_message_defs = stream_header_def single_header_def multi_header_def
  payload_message_def single_extra_def multi_extra_def

lemma send_Data_Stream_delivered:
  assumes "w_heap w p = Some s" and "m_socket s = Some sk"
    and "unat n \<le> length data" and "fits_buffer sizeof_Data_Stream_Header (unat n)"
  shows "send_Data_Stream env p data n reply w = Inr (delivered env p sk
    (stream_header (m_sessionId s) (m_messageIdCounter s + 1) reply n)
    (payload_message (stream_header (m_sessionId s) (m_messageIdCounter s + 1) reply n) []
       (take (unat n) data) (buffer_padding env w sizeof_Data_Stream_Header (unat n)))
    (counted p s w))"
  using assms
  by (simp add: send_Data_Stream_def send_rules message_buffer_ok wire_simps)
    (simp add: data_message_defs encode_message_defs new_message_defs buffer_padding_def)

lemma send_Data_SingleBlock_delivered:
  assumes "w_heap w p = Some s" and "m_socket s = Some sk"
    and "unat n \<le> length data" and "fits_buffer sizeof_Data_SingleBlock_Header (unat n)"
  shows "send_Data_SingleBlock env p mbid data n bid w = Inr (delivered env p sk
    (single_header (m_sessionId s) (m_messageIdCounter s + 1) bid n)
    (payload_message (single_header (m_sessionId s) (m_messageIdCounter s + 1) bid n)
       (single_extra mbid bid (uninitialised env 4 w)) (take (unat n) data)
       (buffer_padding env w sizeof_Data_SingleBlock_Header (unat n)))
    (counted p s w))"
  using assms
  by (simp add: send_Data_SingleBlock_def send_rules message_buffer_ok wire_simps new_message_defs)
    (simp add: data_message_defs encode_message_defs new_message_defs buffer_padding_def
      new_CommonMessageHeader_def)

lemma send_Data_Multi_Static_delivered:
  assumes "w_heap w p = Some s" and "m_socket s = Some sk"
    and "unat n \<le> length data" and "fits_buffer sizeof_Data_MultiBlock_Header (unat n)"
  shows "send_Data_Multi_Static env p totalSize mbid parts partId data n bid w
    = Inr (delivered env p sk
    (multi_header (m_sessionId s) (m_messageIdCounter s + 1) bid n)
    (payload_message (multi_header (m_sessionId s) (m_messageIdCounter s + 1) bid n)
       (multi_extra totalSize mbid parts partId) (take (unat n) data)
       (buffer_padding env w sizeof_Data_MultiBlock_Header (unat n)))
    (counted p s w))"
  using assms
  by (simp add: send_Data_Multi_Static_def send_rules message_buffer_ok wire_simps new_message_defs)
    (simp add: data_message_defs encode_message_defs new_message_defs buffer_padding_def
      new_CommonMessageHeader_def)

end
