(* ===== verification/Multiblock_IO.thy ===== *)
theory Multiblock_IO
  imports Send_Messages
begin

text \<open>
  src/src/multiblock_io.cpp: messages larger than one block. The sending side cuts the data into
  parts of MAX_SINGLE_MESSAGE_SIZE bytes and ends with a finish message; the receiving side keeps
  one buffer for every multiblock identifier. The contract of the receiving side is the locale
  \<open>reassembly\<close>; it follows from the documented behaviour of the data buffer.
\<close>

section \<open>The incoming buffers\<close>

definition empty_MultiblockBuffer :: "'buf multiblock_buffer" where
  "empty_MultiblockBuffer = \<lparr>blockerId = 0, multiblockId = 0, messageSize = 0, numberOfPackages = 0,
     courrentPackage = 0, incomingData = None\<rparr>"

definition new_MultiblockIO :: "'buf multiblock_io" where
  "new_MultiblockIO = \<lparr>m_abort = False, m_incomingBuffer = []\<rparr>"

definition createIncomingBuffer ::
    "'buf databuffer_api \<Rightarrow> u64 \<Rightarrow> u64 \<Rightarrow> 'buf multiblock_io \<Rightarrow> bool \<times> 'buf multiblock_io" where
  "createIncomingBuffer db mbid psize io =
     (let data = db_new db (db_calcBytesToBlocks db (unat psize));
          newMessage = empty_MultiblockBuffer\<lparr>incomingData := Some data, messageSize := psize,
                         multiblockId := mbid\<rparr> in
      if db_data_null db data then (False, io)
      else (True, io\<lparr>m_incomingBuffer := std_insert mbid newMessage (m_incomingBuffer io)\<rparr>))"

definition getIncomingBuffer :: "u64 \<Rightarrow> 'buf multiblock_io \<Rightarrow> 'buf multiblock_buffer" where
  "getIncomingBuffer mbid io =
     (case std_find mbid (m_incomingBuffer io) of
        Some b \<Rightarrow> b
      | None \<Rightarrow> empty_MultiblockBuffer)"

text \<open>\<open>data\<close> is the memory the data pointer gives access to; it is read only if there is a buffer.\<close>

definition writeIntoIncomingBuffer ::
    "'buf databuffer_api \<Rightarrow> u64 \<Rightarrow> byte list \<Rightarrow> u64 \<Rightarrow> 'buf multiblock_io
     \<Rightarrow> fault + bool \<times> 'buf multiblock_io" where
  "writeIntoIncomingBuffer db mbid data psize io =
     (case std_find mbid (m_incomingBuffer io) of
        None \<Rightarrow> Inr (False, io)
      | Some b \<Rightarrow>
          (case incomingData b of
             None \<Rightarrow> Inl Null_Dereference
           | Some buf \<Rightarrow>
               then_do (read_bytes 0 (unat psize) data) (\<lambda>bs.
                 Inr (fst (db_add db buf bs),
                      io\<lparr>m_incomingBuffer := std_change mbid
                           (\<lambda>b. b\<lparr>incomingData := Some (snd (db_add db buf bs))\<rparr>)
                           (m_incomingBuffer io)\<rparr>))))"

definition removeMultiblockBuffer :: "u64 \<Rightarrow> 'buf multiblock_io \<Rightarrow> bool \<times> 'buf multiblock_io" where
  "removeMultiblockBuffer mbid io =
     (if std_find mbid (m_incomingBuffer io) \<noteq> None
      then (True, io\<lparr>m_incomingBuffer := std_erase mbid (m_incomingBuffer io)\<rparr>)
      else (False, io))"

text \<open>
  The destructor raises the flag that ends a transfer and deletes the buffers that are still in the map,
  here as their list; a null pointer is nothing to delete. The object itself goes with its session.
\<close>

definition delete_MultiblockIO :: "'buf multiblock_io \<Rightarrow> 'buf list \<times> 'buf multiblock_io" where
  "delete_MultiblockIO io =
     (List.map_filter (\<lambda>(i, b). incomingData b) (m_incomingBuffer io), io\<lparr>m_abort := True\<rparr>)"

section \<open>The contract of the incoming buffers\<close>

locale reassembly =
  fixes create :: "'id \<Rightarrow> 's \<Rightarrow> 's" and append :: "'id \<Rightarrow> byte list \<Rightarrow> 's \<Rightarrow> 's"
    and remove :: "'id \<Rightarrow> 's \<Rightarrow> 's" and bytes_of :: "'id \<Rightarrow> 's \<Rightarrow> byte list option"
    and ok :: "'s \<Rightarrow> bool" and part :: "byte list \<Rightarrow> bool"
  assumes bytes_create: "ok s \<Longrightarrow>
      bytes_of i (create j s) = (if i = j \<and> bytes_of j s = None then Some [] else bytes_of i s)"
    and bytes_append: "ok s \<Longrightarrow> part bs \<Longrightarrow>
      bytes_of i (append j bs s) = (if i = j then map_option (\<lambda>xs. xs @ bs) (bytes_of j s) else bytes_of i s)"
    and bytes_remove: "ok s \<Longrightarrow> bytes_of i (remove j s) = (if i = j then None else bytes_of i s)"
    and ok_create: "ok s \<Longrightarrow> ok (create i s)"
    and ok_append: "ok s \<Longrightarrow> part bs \<Longrightarrow> ok (append i bs s)"
    and ok_remove: "ok s \<Longrightarrow> ok (remove i s)"
begin

text \<open>
  Parts of several messages may arrive in any order relative to each other: \<open>ps\<close> is the sequence of
  (identifier, bytes). The buffer of \<open>i\<close> holds exactly the parts for \<open>i\<close>, in their order.
\<close>

lemma interleaved_parts:
  "ok s \<Longrightarrow> bytes_of i s = Some xs \<Longrightarrow> \<forall>(j, bs) \<in> set ps. part bs \<Longrightarrow>
     ok (fold (\<lambda>(j, bs). append j bs) ps s) \<and>
     bytes_of i (fold (\<lambda>(j, bs). append j bs) ps s)
       = Some (xs @ concat (map snd (filter (\<lambda>(j, bs). j = i) ps)))"
proof (induction ps arbitrary: s xs)
  case Nil
  then show ?case by simp
next
  case (Cons a ps)
  obtain j bs where a: "a = (j, bs)" by (cases a)
  have "ok (append j bs s)" using Cons.prems by (simp add: ok_append a)
  moreover have "bytes_of i (append j bs s) = Some (if j = i then xs @ bs else xs)"
    using Cons.prems by (auto simp: bytes_append a)
  ultimately show ?case using Cons.IH [of "append j bs s"] Cons.prems by (auto simp: a)
qed

lemma create_parts_remove:
  assumes "ok s" and "bytes_of i s = None" and parts: "\<forall>bs \<in> set cs. part bs"
  shows "bytes_of i (fold (append i) cs (create i s)) = Some (concat cs)"
    and "bytes_of i (remove i (fold (append i) cs (create i s))) = None"
    and "j \<noteq> i \<Longrightarrow> bytes_of j (remove i (fold (append i) cs (create i s))) = bytes_of j s"
proof -
  have c: "ok (create i s)" "bytes_of i (create i s) = Some []"
    using assms by (simp_all add: ok_create bytes_create)
  have "ok (fold (append i) cs s') \<and> (\<forall>xs. bytes_of i s' = Some xs \<longrightarrow>
      bytes_of i (fold (append i) cs s') = Some (xs @ concat cs))
      \<and> (\<forall>j. j \<noteq> i \<longrightarrow> bytes_of j (fold (append i) cs s') = bytes_of j s')" if "ok s'" for s'
    using that parts by (induction cs arbitrary: s') (simp_all add: ok_append bytes_append)
  with c assms show "bytes_of i (fold (append i) cs (create i s)) = Some (concat cs)"
    and "bytes_of i (remove i (fold (append i) cs (create i s))) = None"
    and "j \<noteq> i \<Longrightarrow> bytes_of j (remove i (fold (append i) cs (create i s))) = bytes_of j s"
    by (simp_all add: bytes_remove bytes_create)
qed

end

text \<open>
  The buffers of the model: \<open>io_ok\<close> holds if the map is ordered and every entry has a data buffer,
  which is what \<open>createIncomingBuffer\<close> establishes.
\<close>

definition io_ok :: "'buf multiblock_io \<Rightarrow> bool" where
  "io_ok io \<longleftrightarrow> std_ordered (m_incomingBuffer io)
     \<and> (\<forall>(i, b) \<in> set (m_incomingBuffer io). incomingData b \<noteq> None)"

definition io_bytes :: "('buf \<Rightarrow> byte list) \<Rightarrow> u64 \<Rightarrow> 'buf multiblock_io \<Rightarrow> byte list option" where
  "io_bytes content i io = (case std_find i (m_incomingBuffer io) of None \<Rightarrow> None
     | Some b \<Rightarrow> map_option content (incomingData b))"

definition io_append :: "'buf databuffer_api \<Rightarrow> u64 \<Rightarrow> byte list \<Rightarrow> 'buf multiblock_io \<Rightarrow> 'buf multiblock_io" where
  "io_append db i bs io = (case writeIntoIncomingBuffer db i bs (word_of_nat (length bs)) io of
     Inl e \<Rightarrow> io | Inr (r, io') \<Rightarrow> io')"

definition io_create :: "'buf databuffer_api \<Rightarrow> u64 \<Rightarrow> 'buf multiblock_io \<Rightarrow> 'buf multiblock_io" where
  "io_create db i io = snd (createIncomingBuffer db i 0 io)"

lemma io_ok_find:
  "io_ok io \<Longrightarrow> std_find i (m_incomingBuffer io) = Some b \<Longrightarrow> \<exists>buf. incomingData b = Some buf"
  by (auto simp: io_ok_def std_find_def dest!: map_of_SomeD)

lemma set_std_insert: "set (std_insert k v m) \<subseteq> insert (k, v) (set m)"
  by (induction k v m rule: std_insert.induct) auto

lemma set_std_erase: "set (std_erase k m) \<subseteq> set m"
  by (induction k m rule: std_erase.induct) auto

lemma set_std_change: "set (std_change k f m) \<subseteq> set m \<union> {(k, f v) |v. True}"
  by (induction k f m rule: std_change.induct) auto

lemma createIncomingBuffer_ok:
  "databuffer_ok db content \<Longrightarrow> io_ok io \<Longrightarrow> io_ok (snd (createIncomingBuffer db i n io))"
  using set_std_insert by (fastforce simp: io_ok_def createIncomingBuffer_def Let_def stdmap_rules)

lemma createIncomingBuffer_bytes:
  assumes "databuffer_ok db content" and "io_ok io"
  shows "fst (createIncomingBuffer db j n io)"
    and "io_bytes content i (snd (createIncomingBuffer db j n io))
      = (if i = j \<and> io_bytes content j io = None then Some [] else io_bytes content i io)"
  using assms io_ok_find [OF assms(2)]
  by (auto simp: createIncomingBuffer_def Let_def databuffer_ok_def io_bytes_def io_ok_def
      stdmap_rules split: option.splits)

lemma writeIntoIncomingBuffer_found:
  assumes db: "databuffer_ok db content" and io: "io_ok io"
    and xs: "io_bytes content i io = Some xs" and n: "unat n \<le> length data"
  shows "\<exists>io'. writeIntoIncomingBuffer db i data n io = Inr (True, io') \<and> io_ok io'
    \<and> m_abort io' = m_abort io
    \<and> (\<forall>j. io_bytes content j io' = (if j = i then Some (xs @ take (unat n) data) else io_bytes content j io))"
proof -
  from xs obtain b buf where b: "std_find i (m_incomingBuffer io) = Some b" "incomingData b = Some buf"
      "content buf = xs"
    by (auto simp: io_bytes_def split: option.splits)
  let ?f = "\<lambda>b. b\<lparr>incomingData := Some (snd (db_add db buf (take (unat n) data)))\<rparr>"
  have "writeIntoIncomingBuffer db i data n io
      = Inr (True, io\<lparr>m_incomingBuffer := std_change i ?f (m_incomingBuffer io)\<rparr>)"
    using b n db by (simp add: writeIntoIncomingBuffer_def read_bytes_def databuffer_ok_def)
  moreover have "io_ok (io\<lparr>m_incomingBuffer := std_change i ?f (m_incomingBuffer io)\<rparr>)"
    using io set_std_change [of i ?f "m_incomingBuffer io"]
    by (fastforce simp: io_ok_def stdmap_rules)
  moreover have "content (snd (db_add db buf (take (unat n) data))) = xs @ take (unat n) data"
    using db b(3) by (simp add: databuffer_ok_def)
  ultimately show ?thesis
    using b by (auto simp: io_bytes_def stdmap_rules)
qed

lemma writeIntoIncomingBuffer_absent:
  assumes "io_ok io" and "io_bytes content i io = None"
  shows "writeIntoIncomingBuffer db i data n io = Inr (False, io)"
proof -
  have "std_find i (m_incomingBuffer io) = None"
    using assms io_ok_find [OF assms(1)] by (fastforce simp: io_bytes_def split: option.splits)
  then show ?thesis by (simp add: writeIntoIncomingBuffer_def)
qed

lemma io_append_cases:
  assumes "databuffer_ok db content" and "io_ok io" and "length bs < 2 ^ 64"
  shows "io_ok (io_append db i bs io) \<and> (\<forall>j. io_bytes content j (io_append db i bs io) =
    (if j = i then map_option (\<lambda>xs. xs @ bs) (io_bytes content i io) else io_bytes content j io))"
proof (cases "io_bytes content i io")
  case None
  then show ?thesis
    using writeIntoIncomingBuffer_absent [OF assms(2) None, of db bs] assms(2)
    by (simp add: io_append_def)
next
  case (Some xs)
  have "unat (word_of_nat (length bs) :: u64) = length bs"
    using assms(3) by (simp add: unat_of_nat)
  then show ?thesis
    using writeIntoIncomingBuffer_found [OF assms(1,2) Some, of "word_of_nat (length bs)" bs]
    by (auto simp: io_append_def Some)
qed

lemma set_filtered: "set (List.map_filter g xs) = {y. \<exists>x \<in> set xs. g x = Some y}"
  by (induction xs) (auto simp: map_filter_simps split: option.splits)

text \<open>What the destructor deletes are the messages that have not been finished, and nothing the application has got.\<close>

lemma destructor_frees_unfinished_messages:
  assumes "io_ok io"
  shows "content ` set (fst (delete_MultiblockIO io)) = {xs. \<exists>i. io_bytes content i io = Some xs}"
    and "m_abort (snd (delete_MultiblockIO io))"
proof -
  have "distinct (map fst (m_incomingBuffer io))"
    using assms by (simp add: io_ok_def std_ordered_def strict_sorted_iff)
  then have find: "std_find i (m_incomingBuffer io) = Some b \<longleftrightarrow> (i, b) \<in> set (m_incomingBuffer io)" for i b
    by (simp add: std_find_def)
  have bytes: "io_bytes content i io = Some xs \<longleftrightarrow>
      (\<exists>b buf. (i, b) \<in> set (m_incomingBuffer io) \<and> incomingData b = Some buf \<and> content buf = xs)" for i xs
    unfolding find [symmetric] by (auto simp: io_bytes_def split: option.splits)
  have freed: "buf \<in> set (fst (delete_MultiblockIO io)) \<longleftrightarrow>
      (\<exists>i b. (i, b) \<in> set (m_incomingBuffer io) \<and> incomingData b = Some buf)" for buf
    by (force simp: delete_MultiblockIO_def set_filtered)
  show "content ` set (fst (delete_MultiblockIO io)) = {xs. \<exists>i. io_bytes content i io = Some xs}"
  proof (rule set_eqI)
    fix xs
    have "xs \<in> content ` set (fst (delete_MultiblockIO io))
        \<longleftrightarrow> (\<exists>buf. buf \<in> set (fst (delete_MultiblockIO io)) \<and> content buf = xs)" by auto
    also have "\<dots> \<longleftrightarrow> (\<exists>i. io_bytes content i io = Some xs)"
      unfolding freed bytes by (rule iffI; elim exE conjE; intro exI conjI)
    finally show "xs \<in> content ` set (fst (delete_MultiblockIO io)) \<longleftrightarrow> xs \<in> {xs. \<exists>i. io_bytes content i io = Some xs}"
      by simp
  qed
qed (simp add: delete_MultiblockIO_def)

lemma multiblock_abort_flag:
  "m_abort (snd (createIncomingBuffer db mbid psize io)) = m_abort io"
  "m_abort (snd (removeMultiblockBuffer mbid io)) = m_abort io"
  "writeIntoIncomingBuffer db mbid data psize io = Inr (r, io') \<Longrightarrow> m_abort io' = m_abort io"
  by (auto simp: createIncomingBuffer_def removeMultiblockBuffer_def writeIntoIncomingBuffer_def then_do_def Let_def
      split: option.splits sum.splits)

lemma removeMultiblockBuffer_bytes:
  assumes "io_ok io"
  shows "io_ok (snd (removeMultiblockBuffer j io))"
    and "io_bytes content i (snd (removeMultiblockBuffer j io))
      = (if i = j then None else io_bytes content i io)"
  using assms set_std_erase
  by (fastforce simp: removeMultiblockBuffer_def io_bytes_def io_ok_def stdmap_rules)+

locale databuffer =
  fixes db :: "'buf databuffer_api" and content :: "'buf \<Rightarrow> byte list"
  assumes contract: "databuffer_ok db content"

sublocale databuffer \<subseteq> incoming: reassembly "io_create db" "io_append db"
  "\<lambda>i io. snd (removeMultiblockBuffer i io)" "io_bytes content" io_ok "\<lambda>bs. length bs < 2 ^ 64"
  by unfold_locales
    (simp_all add: io_create_def createIncomingBuffer_bytes createIncomingBuffer_ok
      io_append_cases removeMultiblockBuffer_bytes contract
      createIncomingBuffer_bytes [OF contract] createIncomingBuffer_ok [OF contract]
      io_append_cases [OF contract])

context databuffer
begin

lemmas buffer_parts = incoming.interleaved_parts
lemmas buffer_life = incoming.create_parts_remove

end

interpretation list_buffers: databuffer list_databuffer "\<lambda>b. b"
  by unfold_locales (rule list_databuffer_ok)

text \<open>
  C15: the parts of several multi-block messages may arrive interleaved in any way: each buffer ends
  up with exactly the parts of its own message, in the order of their arrival.
\<close>

theorem interleaved_messages_stay_apart:
  assumes "databuffer_ok db content" and "io_ok io"
    and "io_bytes content i io = Some xs" and "\<forall>(j, bs) \<in> set ps. length bs < 2 ^ 64"
  shows "io_bytes content i (fold (\<lambda>(j, bs). io_append db j bs) ps io)
    = Some (xs @ concat (map snd (filter (\<lambda>(j, bs). j = i) ps)))"
  by (rule conjunct2 [OF databuffer.buffer_parts [OF databuffer.intro [OF assms(1)] assms(2-4)]])

theorem interleaved_messages_stay_apart_witness:
  "io_bytes (\<lambda>b. b) 4 (fold (\<lambda>(j, bs). io_append list_databuffer j bs)
      [(4, [1, 2]), (5, [9]), (4, [3])]
      (io_create list_databuffer 5 (io_create list_databuffer 4 new_MultiblockIO)))
    = Some [1, 2, 3]"
proof -
  let ?io = "io_create list_databuffer 5 (io_create list_databuffer 4 new_MultiblockIO)"
  have n: "io_ok (new_MultiblockIO :: byte list multiblock_io)"
    by (simp add: io_ok_def new_MultiblockIO_def)
  have n4: "io_ok (io_create list_databuffer 4 new_MultiblockIO)"
    by (simp add: list_buffers.incoming.ok_create n)
  have "io_bytes (\<lambda>b. b) 4 (fold (\<lambda>(j, bs). io_append list_databuffer j bs)
      [(4, [1, 2]), (5, [9]), (4, [3])] ?io) = Some ([] @ concat (map snd (filter (\<lambda>(j :: u64, bs). j = 4)
        [(4, [1, 2]), (5, [9]), (4, [3])])))"
  proof (rule interleaved_messages_stay_apart [OF list_databuffer_ok])
    show "io_ok ?io" by (simp add: list_buffers.incoming.ok_create n4)
    show "io_bytes (\<lambda>b. b) 4 ?io = Some []"
      by (simp add: list_buffers.incoming.bytes_create n4 n)
        (simp add: io_bytes_def new_MultiblockIO_def)
  qed simp
  then show ?thesis by simp
qed

section \<open>Sending\<close>

text \<open>
  The loop over the parts; \<open>rest\<close> is the source's \<open>totalSize\<close>. The offset
  \<open>MAX_SINGLE_MESSAGE_SIZE * partCounter\<close> is computed in 32 bits. With a maximum of 0 the loop
  would take no data at all from the rest.
\<close>

fun outgoing_loop ::
    "('sm, 'buf) env \<Rightarrow> ptr \<Rightarrow> byte list \<Rightarrow> u64 \<Rightarrow> u64 \<Rightarrow> u32 \<Rightarrow> nat \<Rightarrow> u32 \<Rightarrow> ('sm, 'buf) world
     \<Rightarrow> fault + bool \<times> ('sm, 'buf) world" where
  "outgoing_loop env p data psize newId parts rest partCounter w =
     then_do (get_session p w) (\<lambda>s.
       if rest = 0 \<or> m_abort (m_multiblockIo s) then Inr (True, w)
       else if e_max env = 0 then Inl Never_Returns
       else
         let currentMessageSize = (if rest \<le> e_max env then rest else e_max env);
             offset = unat (word_of_nat (e_max env) * partCounter :: u32) in
         then_do (send_Data_Multi_Static env p psize newId parts partCounter (drop offset data)
                    (word_of_nat currentMessageSize) 0 w) (\<lambda>(sent, w1).
           if sent
           then outgoing_loop env p data psize newId parts (rest - currentMessageSize)
                  (partCounter + 1) w1
           else Inr (False, w1)))"

declare outgoing_loop.simps [simp del]

definition sendOutgoingData ::
    "('sm, 'buf) env \<Rightarrow> ptr \<Rightarrow> byte list \<Rightarrow> u64 \<Rightarrow> u64 \<Rightarrow> ('sm, 'buf) world
     \<Rightarrow> fault + u64 \<times> ('sm, 'buf) world" where
  "sendOutgoingData env p data psize bid w =
     then_do (getRandId env w) (\<lambda>(newMultiblockId, w1).
       if e_max env = 0 then Inl Division_By_Zero
       else let totalPartNumber = word_of_nat (unat psize div e_max env) + 1 :: u32 in
       then_do (outgoing_loop env p data psize newMultiblockId totalPartNumber (unat psize) 0 w1)
         (\<lambda>(sent, w2).
           if \<not> sent then Inr (0, w2)
           else
             then_do (get_session p w2) (\<lambda>s.
               if m_abort (m_multiblockIo s) then Inr (0, w2)
               else
                 then_do (send_Data_Multi_Finish env p newMultiblockId bid w2) (\<lambda>(sent, w3).
                   Inr (if sent then newMultiblockId else 0, w3)))))"

lemma calm_Inr [simp]: "calm_step w0 (Inr (x, w)) \<longleftrightarrow> calm w0 w"
  by (simp add: calm_step_def)

lemma calm_bind:
  assumes "calm_step w0 r" and "\<And>x w. calm w0 w \<Longrightarrow> calm_step w0 (k (x, w))"
  shows "calm_step w0 (then_do r k)"
  using assms by (cases r) (auto simp: calm_step_def)

lemma outgoing_loop_calm:
  fixes w w0 :: "('a, 'b) world"
  shows "calm w0 w \<Longrightarrow>
     calm_step w0 (outgoing_loop env p data psize newId parts rest part w)"
proof (induction rest arbitrary: part w rule: less_induct)
  case (less rest)
  show ?case
    unfolding outgoing_loop.simps [of env p data psize newId parts rest part w] Let_def
  proof (rule calm_then_do, intro calm_if)
    fix s :: "('a, 'b) session"
    assume r: "\<not> (rest = 0 \<or> m_abort (m_multiblockIo s))" "e_max env \<noteq> 0"
    show "calm_step w0 (then_do (send_Data_Multi_Static env p psize newId parts part
          (drop (unat (word_of_nat (e_max env) * part)) data)
          (word_of_nat (if rest \<le> e_max env then rest else e_max env)) 0 w)
        (\<lambda>(sent, w1). if sent
           then outgoing_loop env p data psize newId parts
                  (rest - (if rest \<le> e_max env then rest else e_max env)) (part + 1) w1
           else Inr (False, w1)))"
      by (rule calm_bind [OF send_Data_Multi_Static_calm [OF less.prems]])
        (use less.IH r in auto)
  qed (use less.prems in \<open>auto simp: calm_step_def\<close>)
qed

lemma sendOutgoingData_calm:
  fixes w w0 :: "('a, 'b) world"
  assumes "calm w0 w"
  shows "calm_step w0 (sendOutgoingData env p data psize bid w)"
  unfolding sendOutgoingData_def Let_def
proof (rule calm_bind)
  show "calm_step w0 (getRandId env w)"
    using assms by (auto simp: getRandId_def calm_step_def intro: calm_rand split: option.splits)
  fix newId and w1 :: "('a, 'b) world"
  assume "calm w0 w1"
  then show "calm_step w0 (case (newId, w1) of (newMultiblockId, w1) \<Rightarrow>
      if e_max env = 0 then Inl Division_By_Zero
      else then_do (outgoing_loop env p data psize newMultiblockId
                 (word_of_nat (unat psize div e_max env) + 1) (unat psize) 0 w1)
        (\<lambda>(sent, w2). if \<not> sent then Inr (0, w2)
           else then_do (get_session p w2) (\<lambda>s.
                  if m_abort (m_multiblockIo s) then Inr (0, w2)
                  else then_do (send_Data_Multi_Finish env p newMultiblockId bid w2)
                         (\<lambda>(sent, w3). Inr (if sent then newMultiblockId else 0, w3)))))"
    unfolding prod.case
    by (intro calm_if calm_bind [OF outgoing_loop_calm])
      (simp_all add: calm_if calm_then_do calm_bind [OF send_Data_Multi_Finish_calm] split: prod.split,
        simp add: calm_step_def)
qed

section \<open>The parts of a message\<close>

fun chunks :: "nat \<Rightarrow> byte list \<Rightarrow> byte list list" where
  "chunks n xs = (if n = 0 \<or> xs = [] then [] else take n xs # chunks n (drop n xs))"

declare chunks.simps [simp del]

lemma chunks_Nil [simp]: "chunks n [] = []"
  by (simp add: chunks.simps)

lemma chunks_step: "0 < n \<Longrightarrow> xs \<noteq> [] \<Longrightarrow> chunks n xs = take n xs # chunks n (drop n xs)"
  by (subst chunks.simps) simp

lemma concat_chunks: "0 < n \<Longrightarrow> concat (chunks n xs) = xs"
proof (induction n xs rule: chunks.induct)
  case (1 n xs)
  then show ?case by (cases "xs = []") (simp_all add: chunks_step)
qed

lemma length_in_chunks: "c \<in> set (chunks n xs) \<Longrightarrow> length c \<le> n \<and> c \<noteq> []"
proof (induction n xs rule: chunks.induct)
  case (1 n xs)
  then show ?case by (cases "n = 0 \<or> xs = []") (auto simp: chunks.simps [of n xs])
qed

lemma ceiling_step:
  fixes n l :: nat
  assumes "0 < n" and "0 < l"
  shows "Suc ((l - n + n - 1) div n) = (l + n - 1) div n"
proof (cases "n \<le> l")
  case True
  have "(l - 1 + n) div n = Suc ((l - 1) div n)" using assms div_add_self2 [of n "l - 1"] by simp
  moreover have "l - 1 + n = l + n - 1" using assms by simp
  ultimately show ?thesis using True by simp
next
  case False
  then have "(l + n - 1) div n = 1" using assms by (intro div_nat_eqI) simp_all
  with False assms show ?thesis by simp
qed

lemma length_chunks:
  assumes "0 < n"
  shows "length (chunks n xs) = (length xs + n - 1) div n"
proof (induction "length xs" arbitrary: xs rule: less_induct)
  case less
  show ?case
  proof (cases "xs = []")
    case False
    then have "length (chunks n (drop n xs)) = (length (drop n xs) + n - 1) div n"
      using assms by (intro less) simp
    with False assms ceiling_step [of n "length xs"] show ?thesis by (simp add: chunks_step)
  qed (use assms in simp)
qed

text \<open>The message that carries part \<open>k\<close> with the bytes \<open>c\<close>, up to its padding bytes.\<close>

definition is_part ::
    "u32 \<Rightarrow> u32 \<Rightarrow> u64 \<Rightarrow> u64 \<Rightarrow> u32 \<Rightarrow> u32 \<Rightarrow> byte list \<Rightarrow> byte list \<Rightarrow> bool" where
  "is_part sid mid psize mbid parts k c msg \<longleftrightarrow>
     (\<exists>pad. length pad = padding_size (length c) \<and>
        msg = payload_message (multi_header sid mid 0 (word_of_nat (length c)))
                (multi_extra psize mbid parts k) c pad)"

fun are_parts ::
    "u32 \<Rightarrow> u64 \<Rightarrow> u64 \<Rightarrow> u32 \<Rightarrow> u32 \<Rightarrow> u32 \<Rightarrow> byte list list \<Rightarrow> byte list list \<Rightarrow> bool" where
  "are_parts sid psize mbid parts mid k [] ms \<longleftrightarrow> ms = []"
| "are_parts sid psize mbid parts mid k (c # cs) [] \<longleftrightarrow> False"
| "are_parts sid psize mbid parts mid k (c # cs) (m # ms) \<longleftrightarrow>
     is_part sid (mid + 1) psize mbid parts k c m
     \<and> are_parts sid psize mbid parts (mid + 1) (k + 1) cs ms"

lemma length_are_parts: "are_parts sid psize mbid parts mid k cs ms \<Longrightarrow> length ms = length cs"
  by (induction sid psize mbid parts mid k cs ms rule: are_parts.induct) auto

definition sent_events :: "sock \<Rightarrow> byte list list \<Rightarrow> 'buf event list" where
  "sent_events sk ms = map (\<lambda>m. Net (Send_Message sk m) True) ms"

lemma sent_events_simps [simp]:
  "sent_events sk [] = []" "sent_events sk (m # ms) = Net (Send_Message sk m) True # sent_events sk ms"
  "sent_events sk (ms @ ms') = sent_events sk ms @ sent_events sk ms'"
  by (simp_all add: sent_events_def)

definition advanced ::
    "ptr \<Rightarrow> ('sm, 'buf) session \<Rightarrow> u32 \<Rightarrow> 'buf event list \<Rightarrow> ('sm, 'buf) world \<Rightarrow> ('sm, 'buf) world" where
  "advanced p s k evs w = (set_session p (s\<lparr>m_messageIdCounter := m_messageIdCounter s + k\<rparr>) w)
     \<lparr>w_trace := w_trace w @ evs\<rparr>"

lemma advanced_sel [simp]:
  "w_heap (advanced p s k evs w) p = Some (s\<lparr>m_messageIdCounter := m_messageIdCounter s + k\<rparr>)"
  "w_trace (advanced p s k evs w) = w_trace w @ evs"
  by (simp_all add: advanced_def)

lemma advanced_advanced:
  "advanced p (s\<lparr>m_messageIdCounter := m_messageIdCounter s + k\<rparr>) l evs' (advanced p s k evs w)
     = advanced p s (k + l) (evs @ evs') w"
  by (simp add: advanced_def set_session_def algebra_simps)

lemma delivered_unanswered:
  assumes "\<And>tr m. e_net env tr (Send_Message sk m)" and "and (flags h) 1 = 0"
  shows "delivered env p sk h msg (counted p s w) = (True, advanced p s 1 (sent_events sk [msg]) w)"
  using assms by (simp add: delivered_def counted_def advanced_def expect_reply_def log_event_def
      set_session_def sent_events_def)

lemma padding_mono: "n < m \<Longrightarrow> n + padding_size n \<le> m + padding_size m"
proof -
  assume "n < m"
  obtain a b where a: "n + padding_size n = 8 * a" and b: "m + padding_size m = 8 * b"
    using padding_size_div [of n] padding_size_div [of m] by (auto elim!: dvdE)
  with \<open>n < m\<close> padding_size_bound [of n] have "8 * a < 8 * b + 8" by linarith
  with a b show ?thesis by simp
qed

lemma next_part:
  fixes part :: u32
  assumes "off = unat part * m" and "off + rest = length data"
    and "n = (if rest \<le> m then rest else m)" and "length data < 2 ^ 32" and "0 < m"
  shows "unat (part + 1) * m + (rest - n) = length data \<or> rest - n = 0"
proof (cases "rest \<le> m")
  case False
  then have n: "n = m" using assms(3) by simp
  have "unat part \<le> unat part * m" using assms(5) by simp
  then have "unat part + 1 < 2 ^ 32" using assms(1,2,4,5) False by linarith
  then have "unat (part + 1) = unat part + 1" by (simp add: unat_word_ariths)
  with assms(1,2) n False show ?thesis by simp
qed (use assms(3) in simp)

lemma outgoing_loop_sends:
  assumes net: "\<And>tr m. e_net env tr (Send_Message sk m)" and max: "0 < e_max env"
    and fits: "fits_buffer sizeof_Data_MultiBlock_Header (e_max env)"
    and small: "length data < 2 ^ 32"
  shows "w_heap w p = Some s \<Longrightarrow> m_socket s = Some sk \<Longrightarrow> \<not> m_abort (m_multiblockIo s) \<Longrightarrow>
    unat part * e_max env + rest = length data \<or> rest = 0 \<Longrightarrow>
    \<exists>ms. outgoing_loop env p data psize mbid parts rest part w
        = Inr (True, advanced p s (word_of_nat (length ms)) (sent_events sk ms) w)
      \<and> are_parts (m_sessionId s) psize mbid parts (m_messageIdCounter s) part
          (chunks (e_max env) (drop (length data - rest) data)) ms"
proof (induction rest arbitrary: part w s rule: less_induct)
  case (less rest)
  note step = outgoing_loop.simps [of env p data psize mbid parts rest part w]
  show ?case
  proof (cases "rest = 0")
    case True
    have "advanced p s 0 [] w = w"
      using less.prems(1) by (simp add: advanced_def set_session_def fun_upd_idem)
    with True less.prems show ?thesis by (intro exI [of _ "[]"]) (simp add: step [unfolded True])
  next
    case False
    define n where "n = (if rest \<le> e_max env then rest else e_max env)"
    define off where "off = unat part * e_max env"
    have off: "off + rest = length data" using less.prems(4) False by (simp add: off_def)
    have n: "0 < n" "n \<le> rest" "n \<le> e_max env" using False max by (auto simp: n_def)
    have n32: "unat (word_of_nat n :: u32) = n"
      using n(2) off small by (simp add: unat_of_nat)
    have offset: "unat (word_of_nat (e_max env) * part :: u32) = off"
    proof -
      have "off < 2 ^ 32" using off small by simp
      moreover have "word_of_nat (e_max env) * part = (word_of_nat off :: u32)"
        by (simp add: off_def mult.commute)
      ultimately show ?thesis by (simp add: unat_of_nat)
    qed
    have nfit: "fits_buffer sizeof_Data_MultiBlock_Header n"
    proof (cases "n = e_max env")
      case True
      then show ?thesis using fits by simp
    next
      case False
      then have "n < e_max env" using n(3) by simp
      then have "n + padding_size n \<le> e_max env + padding_size (e_max env)"
        by (rule padding_mono)
      with fits show ?thesis by (simp add: fits_buffer_def)
    qed
    obtain msg where send: "send_Data_Multi_Static env p psize mbid parts part (drop off data)
          (word_of_nat n) 0 w = Inr (True, advanced p s 1 (sent_events sk [msg]) w)"
      and part: "is_part (m_sessionId s) (m_messageIdCounter s + 1) psize mbid parts part
          (take n (drop off data)) msg"
    proof -
      have len: "length (take n (drop off data)) = n" using off n(2) by simp
      let ?h = "multi_header (m_sessionId s) (m_messageIdCounter s + 1) 0 (word_of_nat n)"
      let ?msg = "payload_message ?h (multi_extra psize mbid parts part) (take n (drop off data))
          (buffer_padding env w sizeof_Data_MultiBlock_Header n)"
      have "and (flags ?h) 1 = 0" by (simp add: multi_header_def)
      then have "send_Data_Multi_Static env p psize mbid parts part (drop off data)
          (word_of_nat n) 0 w = Inr (True, advanced p s 1 (sent_events sk [?msg]) w)"
        using send_Data_Multi_Static_delivered [OF less.prems(1,2), of "word_of_nat n" "drop off data"]
          n32 nfit off n(2) net by (simp add: delivered_unanswered)
      moreover have "is_part (m_sessionId s) (m_messageIdCounter s + 1) psize mbid parts part
          (take n (drop off data)) ?msg"
        unfolding is_part_def len
        by (intro exI [of _ "buffer_padding env w sizeof_Data_MultiBlock_Header n"]) simp
      ultimately show ?thesis by (rule that)
    qed
    let ?s1 = "s\<lparr>m_messageIdCounter := m_messageIdCounter s + 1\<rparr>"
    let ?w1 = "advanced p s 1 (sent_events sk [msg]) w"
    have "\<exists>ms. outgoing_loop env p data psize mbid parts (rest - n) (part + 1) ?w1
        = Inr (True, advanced p ?s1 (word_of_nat (length ms)) (sent_events sk ms) ?w1)
      \<and> are_parts (m_sessionId ?s1) psize mbid parts (m_messageIdCounter ?s1) (part + 1)
          (chunks (e_max env) (drop (length data - (rest - n)) data)) ms"
    proof (rule less.IH)
      show "rest - n < rest" using n by simp
      show "unat (part + 1) * e_max env + (rest - n) = length data \<or> rest - n = 0"
        by (rule next_part [OF off_def off n_def small max])
    qed (use less.prems in simp_all)
    then obtain ms where loop: "outgoing_loop env p data psize mbid parts (rest - n) (part + 1) ?w1
        = Inr (True, advanced p ?s1 (word_of_nat (length ms)) (sent_events sk ms) ?w1)"
      and rest_parts: "are_parts (m_sessionId s) psize mbid parts (m_messageIdCounter s + 1) (part + 1)
          (chunks (e_max env) (drop (length data - (rest - n)) data)) ms" by auto
    have c: "chunks (e_max env) (drop off data) = take n (drop off data) #
        chunks (e_max env) (drop (length data - (rest - n)) data)"
    proof -
      have "length data - (rest - n) = off + n" using off n(2) by simp
      moreover have "take (e_max env) (drop off data) = take n (drop off data)"
        and "drop (e_max env) (drop off data) = drop n (drop off data)"
        using off by (auto simp: n_def)
      moreover have "drop off data \<noteq> []" using off False by auto
      ultimately show ?thesis using max by (simp add: chunks_step add.commute)
    qed
    have "outgoing_loop env p data psize mbid parts rest part w
        = Inr (True, advanced p s (word_of_nat (length (msg # ms))) (sent_events sk (msg # ms)) w)"
      unfolding step n_def [symmetric] Let_def offset
      using less.prems False max send loop by (simp add: advanced_advanced)
    moreover have "length data - rest = off" using off by simp
    ultimately show ?thesis
      using part rest_parts c by (intro exI [of _ "msg # ms"]) simp
  qed
qed

definition part_count :: "('sm, 'buf) env \<Rightarrow> u64 \<Rightarrow> u32" where
  "part_count env psize = word_of_nat (unat psize div e_max env) + 1"

lemma sendOutgoingData_sends:
  assumes net: "\<And>tr m. e_net env tr (Send_Message sk m)" and max: "0 < e_max env"
    and fits: "fits_buffer sizeof_Data_MultiBlock_Header (e_max env)"
    and psize: "unat psize = length data" "length data < 2 ^ 32"
    and s: "w_heap w p = Some s" "m_socket s = Some sk" "\<not> m_abort (m_multiblockIo s)"
    and rand: "getRandId env w = Inr (mbid, w1)"
  shows "\<exists>ms. sendOutgoingData env p data psize bid w = Inr (mbid, advanced p s
          (word_of_nat (length ms) + 1)
          (sent_events sk (ms @ [encode_Data_MultiFinish_Message
             (multi_finish_msg (m_sessionId s)
               (m_messageIdCounter s + word_of_nat (length ms) + 1) mbid bid)])) w1)
      \<and> are_parts (m_sessionId s) psize mbid (part_count env psize) (m_messageIdCounter s) 0
          (chunks (e_max env) data) ms"
proof -
  from rand have w1: "w_heap w1 p = Some s" using getRandId_Some(3) s(1) by fastforce
  have "\<exists>ms. outgoing_loop env p data psize mbid (part_count env psize) (length data) 0 w1
        = Inr (True, advanced p s (word_of_nat (length ms)) (sent_events sk ms) w1)
      \<and> are_parts (m_sessionId s) psize mbid (part_count env psize) (m_messageIdCounter s) 0
          (chunks (e_max env) (drop (length data - length data) data)) ms"
    by (rule outgoing_loop_sends [OF net max fits psize(2) w1 s(2,3)]) simp
  then obtain ms where loop: "outgoing_loop env p data psize mbid (part_count env psize) (length data) 0 w1
        = Inr (True, advanced p s (word_of_nat (length ms)) (sent_events sk ms) w1)"
    and parts: "are_parts (m_sessionId s) psize mbid (part_count env psize) (m_messageIdCounter s) 0
          (chunks (e_max env) data) ms" by auto
  let ?w2 = "advanced p s (word_of_nat (length ms)) (sent_events sk ms) w1"
  let ?s2 = "s\<lparr>m_messageIdCounter := m_messageIdCounter s + word_of_nat (length ms)\<rparr>"
  let ?fin = "multi_finish_msg (m_sessionId s)
      (m_messageIdCounter s + word_of_nat (length ms) + 1) mbid bid"
  have "and (flags (dmf_commonHeader ?fin)) 1 = 0" by (simp add: multi_finish_msg_def)
  then have "send_Data_Multi_Finish env p mbid bid ?w2
      = Inr (True, advanced p ?s2 1 (sent_events sk [encode_Data_MultiFinish_Message ?fin]) ?w2)"
    using send_Data_Multi_Finish_delivered [of ?w2 p ?s2 sk env mbid bid] s(2) net
    by (simp add: delivered_unanswered)
  then have "sendOutgoingData env p data psize bid w = Inr (mbid, advanced p s
          (word_of_nat (length ms) + 1)
          (sent_events sk (ms @ [encode_Data_MultiFinish_Message ?fin])) w1)"
    unfolding sendOutgoingData_def rand then_do_Inr prod.case Let_def psize(1)
    using max by (simp add: loop [unfolded part_count_def psize(1)] s advanced_advanced)
  with parts show ?thesis by blast
qed

text \<open>
  The announced number of parts is the number of parts sent, except that it is one too many
  when the size is a multiple of the maximum.
\<close>

lemma announced_part_number:
  assumes "0 < e_max env" and "unat psize = length data" and "length data div e_max env + 1 < 2 ^ 32"
  shows "unat (part_count env psize) = length (chunks (e_max env) data)
    + (if length data mod e_max env = 0 then 1 else 0)"
proof -
  let ?m = "e_max env" and ?q = "length data div e_max env" and ?r = "length data mod e_max env"
  have count: "unat (part_count env psize) = ?q + 1"
  proof -
    have "part_count env psize = (word_of_nat (?q + 1) :: u32)"
      by (simp add: part_count_def assms(2) add.commute)
    then show ?thesis using assms(3) by (simp only: unat_of_nat) simp
  qed
  have parts: "(length data + ?m - 1) div ?m = ?q + (if ?r = 0 then 0 else 1)"
  proof -
    have "length data + ?m - 1 = ?q * ?m + (?r + ?m - 1)"
      using assms(1) by (metis Nat.add_diff_assoc One_nat_def Suc_leI add.assoc div_mult_mod_eq trans_le_add2)
    then have "(length data + ?m - 1) div ?m = ?q + (?r + ?m - 1) div ?m"
      using assms(1) by (simp only: div_mult_self3)
    moreover have "(?r + ?m - 1) div ?m = (if ?r = 0 then 0 else 1)"
    proof (cases "?r = 0")
      case False
      moreover have "?r < ?m" using assms(1) by simp
      ultimately show ?thesis by (auto intro!: div_nat_eqI)
    qed (use assms(1) in simp)
    ultimately show ?thesis by simp
  qed
  show ?thesis unfolding count length_chunks [OF assms(1)] parts by simp
qed

end
