(* ===== verification/Session.thy ===== *)
theory Session
  imports Multiblock_IO
begin

text \<open>
  src/src/session.cpp: the operations of a session. Each takes the address of the session and the
  world; a use of a deleted session is the fault \<open>Use_After_Free\<close>. After a callback the session is
  read again, because the application may have changed it.
\<close>

section \<open>Access\<close>

definition change_session ::
    "ptr \<Rightarrow> (('sm, 'buf) session \<Rightarrow> ('sm, 'buf) session) \<Rightarrow> ('sm, 'buf) world
     \<Rightarrow> fault + ('sm, 'buf) world" where
  "change_session p f w = then_do (get_session p w) (\<lambda>s. Inr (set_session p (f s) w))"

definition isInState ::
    "('sm, 'buf) env \<Rightarrow> ptr \<Rightarrow> statemachineItems \<Rightarrow> ('sm, 'buf) world \<Rightarrow> fault + bool" where
  "isInState env p q w =
     then_do (get_session p w) (\<lambda>s. Inr (sm_isInState (e_sm env) (item_val q) (m_statemachine s)))"

definition goToNextState ::
    "('sm, 'buf) env \<Rightarrow> ptr \<Rightarrow> statemachineItems \<Rightarrow> statemachineItems option \<Rightarrow> ('sm, 'buf) world
     \<Rightarrow> fault + bool \<times> ('sm, 'buf) world" where
  "goToNextState env p t required w =
     then_do (get_session p w) (\<lambda>s.
       case sm_goToNextState (e_sm env) (item_val t) (map_option item_val required)
              (m_statemachine s) of
         (r, m) \<Rightarrow> Inr (r, set_session p (s\<lparr>m_statemachine := m\<rparr>) w))"

section \<open>Construction\<close>

definition new_session_fields :: "'sm \<Rightarrow> sock \<Rightarrow> ('sm, 'buf) session" where
  "new_session_fields m sk = \<lparr>m_statemachine = m, m_socket = Some sk,
     m_multiblockIo = new_MultiblockIO, m_sessionId = 0, m_sessionIdentifier = [], m_initState = 0,
     m_processCreateSession = None, m_processCloseSession = None, m_processStreamData = None,
     m_processRequestData = None, m_processError = None, m_streamReceiver = 0,
     m_standaloneReceiver = 0, m_messageIdCounter = 0\<rparr>"

definition new_Session ::
    "('sm, 'buf) env \<Rightarrow> sock \<Rightarrow> ('sm, 'buf) world \<Rightarrow> fault + ptr \<times> ('sm, 'buf) world" where
  "new_Session env sk w =
     then_do (initStatemachine (e_sm env) (e_ndebug env) (sm_new (e_sm env))) (\<lambda>m.
       Inr (w_next w, (set_session (w_next w) (new_session_fields m sk) w)\<lparr>w_next := Suc (w_next w)\<rparr>))"

section \<open>Setters and getters\<close>

definition setStreamCallback ::
    "ptr \<Rightarrow> receiver \<Rightarrow> fn \<Rightarrow> ('sm, 'buf) world \<Rightarrow> fault + ('sm, 'buf) world" where
  "setStreamCallback p r f =
     change_session p (\<lambda>s. s\<lparr>m_streamReceiver := r, m_processStreamData := Some f\<rparr>)"

definition setRequestCallback ::
    "ptr \<Rightarrow> receiver \<Rightarrow> fn \<Rightarrow> ('sm, 'buf) world \<Rightarrow> fault + ('sm, 'buf) world" where
  "setRequestCallback p r f =
     change_session p (\<lambda>s. s\<lparr>m_standaloneReceiver := r, m_processRequestData := Some f\<rparr>)"

definition setErrorCallback :: "ptr \<Rightarrow> fn \<Rightarrow> ('sm, 'buf) world \<Rightarrow> fault + ('sm, 'buf) world" where
  "setErrorCallback p f = change_session p (\<lambda>s. s\<lparr>m_processError := Some f\<rparr>)"

definition getMaximumSingleSize :: "('sm, 'buf) env \<Rightarrow> u32" where
  "getMaximumSingleSize env = word_of_nat (e_max env)"

definition isClientSide :: "('sm, 'buf) env \<Rightarrow> ptr \<Rightarrow> ('sm, 'buf) world \<Rightarrow> fault + bool" where
  "isClientSide env p w = then_do (get_session p w) (\<lambda>s.
     case m_socket s of None \<Rightarrow> Inr False | Some sk \<Rightarrow> Inr (e_isClientSide env sk))"

section \<open>Sending data\<close>

definition sendStreamData ::
    "('sm, 'buf) env \<Rightarrow> ptr \<Rightarrow> byte list \<Rightarrow> u64 \<Rightarrow> bool \<Rightarrow> ('sm, 'buf) world
     \<Rightarrow> fault + bool \<times> ('sm, 'buf) world" where
  "sendStreamData env p data psize replyExpected w =
     (if e_max env < unat psize then Inr (False, w)
      else then_do (isInState env p SESSION_READY w) (\<lambda>ready.
        if ready then send_Data_Stream env p data (ucast psize) replyExpected w
        else Inr (False, w)))"

definition sendNormalMessage ::
    "('sm, 'buf) env \<Rightarrow> ptr \<Rightarrow> byte list \<Rightarrow> u64 \<Rightarrow> ('sm, 'buf) world
     \<Rightarrow> fault + bool \<times> ('sm, 'buf) world" where
  "sendNormalMessage env p data psize w =
     then_do (isInState env p SESSION_READY w) (\<lambda>ready.
       if \<not> ready then Inr (False, w)
       else if unat psize \<le> e_max env then
         then_do (getRandId env w) (\<lambda>(newId, w1).
           send_Data_SingleBlock env p newId data (ucast psize) 0 w1)
       else
         then_do (sendOutgoingData env p data psize 0 w) (\<lambda>(newId, w1). Inr (newId \<noteq> 0, w1)))"

text \<open>
  sendRequest up to the point where the calling thread blocks: \<open>Some e\<close> means that it has entered
  blockMessage with the entry \<open>e\<close> under the returned identifier; \<open>None\<close> that it has returned a
  null pointer.
\<close>

definition sendRequest ::
    "('sm, 'buf) env \<Rightarrow> ptr \<Rightarrow> byte list \<Rightarrow> u64 \<Rightarrow> u64 \<Rightarrow> ('sm, 'buf) world
     \<Rightarrow> fault + (u64 \<times> ptr) option \<times> ('sm, 'buf) world" where
  "sendRequest env p data psize timeout w =
     then_do (isInState env p SESSION_READY w) (\<lambda>ready.
       if \<not> ready then Inr (None, w)
       else
         then_do
           (if unat psize \<le> e_max env then
              then_do (getRandId env w) (\<lambda>(newId, w1).
                then_do (send_Data_SingleBlock env p newId data (ucast psize) 0 w1) (\<lambda>(sent, w2).
                  Inr (if sent then Some newId else None, w2)))
            else
              then_do (sendOutgoingData env p data psize 0 w) (\<lambda>(newId, w1).
                Inr (if newId = 0 then None else Some newId, w1)))
           (\<lambda>(r, w3).
              case r of
                None \<Rightarrow> Inr (None, w3)
              | Some newId \<Rightarrow>
                  (case blockMessage_enter newId timeout p (w_blocker w3) of
                     (e, b) \<Rightarrow> Inr (Some (newId, e), w3\<lparr>w_blocker := b\<rparr>))))"

definition sendResponse ::
    "('sm, 'buf) env \<Rightarrow> ptr \<Rightarrow> byte list \<Rightarrow> u64 \<Rightarrow> u64 \<Rightarrow> ('sm, 'buf) world
     \<Rightarrow> fault + u64 \<times> ('sm, 'buf) world" where
  "sendResponse env p data psize bid w =
     then_do (isInState env p SESSION_READY w) (\<lambda>ready.
       if \<not> ready then Inr (0, w)
       else if unat psize < e_max env then
         then_do (getRandId env w) (\<lambda>(singleblockId, w1).
           then_do (send_Data_SingleBlock env p singleblockId data (ucast psize) bid w1) (\<lambda>(sent, w2).
             Inr (singleblockId, w2)))
       else sendOutgoingData env p data psize bid w)"

definition sendHeartbeat ::
    "('sm, 'buf) env \<Rightarrow> ptr \<Rightarrow> ('sm, 'buf) world \<Rightarrow> fault + bool \<times> ('sm, 'buf) world" where
  "sendHeartbeat env p w =
     then_do (get_session p w) (\<lambda>s.
       if m_socket s = None then Inr (False, w)
       else then_do (isInState env p SESSION_READY w) (\<lambda>ready.
         if ready then send_Heartbeat_Start env p w else Inr (False, w)))"

section \<open>Opening and closing\<close>

definition connectiSession ::
    "('sm, 'buf) env \<Rightarrow> ptr \<Rightarrow> u32 \<Rightarrow> ('sm, 'buf) world \<Rightarrow> fault + bool \<times> ('sm, 'buf) world" where
  "connectiSession env p sid w =
     (let failed = (\<lambda>w. then_do (change_session p (\<lambda>s. s\<lparr>m_initState := -1\<rparr>) w)
                          (\<lambda>w. Inr (False, w))) in
      then_do (isInState env p NOT_CONNECTED w) (\<lambda>idle.
        if \<not> idle then failed w
        else then_do (get_session p w) (\<lambda>s.
          case m_socket s of
            None \<Rightarrow> Inr (False, w)
          | Some sk \<Rightarrow>
              (case ask_net env (Init_Connection sk) w of
                 (connected, w1) \<Rightarrow>
                   if \<not> connected then failed w1
                   else then_do (goToNextState env p CONNECT None w1) (\<lambda>(entered, w2).
                     if \<not> entered then failed w2
                     else then_do (change_session p (\<lambda>s. s\<lparr>m_sessionId := sid\<rparr>) w2) (\<lambda>w3.
                       Inr (True, log_event (Start_Thread sk) w3)))))))"

definition makeSessionReady ::
    "('sm, 'buf) env \<Rightarrow> ptr \<Rightarrow> u32 \<Rightarrow> byte list \<Rightarrow> ('sm, 'buf) world
     \<Rightarrow> fault + bool \<times> ('sm, 'buf) world" where
  "makeSessionReady env p sid ident w =
     then_do (goToNextState env p START_SESSION (Some SESSION_NOT_READY) w) (\<lambda>(entered, w1).
       if entered then
         then_do (change_session p (\<lambda>s. s\<lparr>m_sessionId := sid, m_sessionIdentifier := ident\<rparr>) w1) (\<lambda>w2.
         then_do (get_session p w2) (\<lambda>s.
         then_do (call_client env (m_processCreateSession s)
                    (\<lambda>f. Create_Session f p (m_sessionIdentifier s)) w2) (\<lambda>w3.
         then_do (change_session p (\<lambda>s. s\<lparr>m_initState := 1\<rparr>) w3) (\<lambda>w4.
           Inr (True, w4)))))
       else
         then_do (change_session p (\<lambda>s. s\<lparr>m_initState := -1\<rparr>) w1) (\<lambda>w2. Inr (False, w2)))"

definition disconnectSession ::
    "('sm, 'buf) env \<Rightarrow> ptr \<Rightarrow> ('sm, 'buf) world \<Rightarrow> fault + bool \<times> ('sm, 'buf) world" where
  "disconnectSession env p w =
     then_do (goToNextState env p DISCONNECT None w) (\<lambda>(left, w1).
       if left then
         then_do (get_session p w1) (\<lambda>s.
           case m_socket s of
             None \<Rightarrow> Inr (False, w1)
           | Some sk \<Rightarrow> Inr (ask_net env (Close_Socket sk) w1))
       else Inr (False, w1))"

definition endSession ::
    "('sm, 'buf) env \<Rightarrow> ptr \<Rightarrow> ('sm, 'buf) world \<Rightarrow> fault + bool \<times> ('sm, 'buf) world" where
  "endSession env p w =
     then_do (goToNextState env p STOP_SESSION None w) (\<lambda>(stopped, w1).
       if stopped then
         then_do (get_session p w1) (\<lambda>s.
         then_do (call_client env (m_processCloseSession s)
                    (\<lambda>f. Close_Session f p (m_sessionIdentifier s)) w1) (\<lambda>w2.
         then_do (get_session p w2) (\<lambda>s2.
         then_do (removeSession (m_sessionId s2) (w_handler w2)) (\<lambda>(removed, h).
           disconnectSession env p (w2\<lparr>w_handler := h\<rparr>)))))
       else Inr (False, w1))"

definition closeSession ::
    "('sm, 'buf) env \<Rightarrow> ptr \<Rightarrow> bool \<Rightarrow> ('sm, 'buf) world \<Rightarrow> fault + bool \<times> ('sm, 'buf) world" where
  "closeSession env p replyExpected w =
     then_do (isInState env p SESSION_READY w) (\<lambda>ready.
       if \<not> ready then Inr (False, w)
       else then_do (get_session p w) (\<lambda>s.
         let w1 = w\<lparr>w_reply := removeAllOfSession (m_sessionId s) (w_reply w)\<rparr> in
         then_do (change_session p
                    (\<lambda>s. s\<lparr>m_multiblockIo := snd (removeMultiblockBuffer 0 (m_multiblockIo s))\<rparr>) w1) (\<lambda>w2.
           if replyExpected then send_Session_Close_Start env p True w2
           else then_do (send_Session_Close_Start env p False w2) (\<lambda>(sent, w3).
                  endSession env p w3))))"

text \<open>The destructor; the address is not used again.\<close>

definition delete_Session ::
    "('sm, 'buf) env \<Rightarrow> ptr \<Rightarrow> ('sm, 'buf) world \<Rightarrow> fault + ('sm, 'buf) world" where
  "delete_Session env p w =
     then_do (change_session p (\<lambda>s. s\<lparr>m_initState := -1\<rparr>) w) (\<lambda>w1.
     then_do (get_session p w1) (\<lambda>s.
     then_do (removeSession (m_sessionId s) (w_handler w1)) (\<lambda>(removed, h).
     then_do (closeSession env p False (w1\<lparr>w_handler := h\<rparr>)) (\<lambda>(closed, w2).
     then_do (get_session p w2) (\<lambda>s2.
       let w3 = (case m_socket s2 of
                   None \<Rightarrow> w2
                 | Some sk \<Rightarrow> log_event (Schedule_Deletion sk) (set_session p (s2\<lparr>m_socket := None\<rparr>) w2)) in
       Inr (w3\<lparr>w_heap := (w_heap w3)(p := None)\<rparr>))))))"

end
