(* ===== verification/Session_Life.thy ===== *)
theory Session_Life
  imports Session
begin

text \<open>
  What the operations of a session do in each phase of its state machine. Phases are those of
  \<open>sm_phase\<close>: the class Statemachine is only known through its documented behaviour. The
  application is taken to be passive in the theorems that follow a callback: it takes notice of
  it and changes nothing.
\<close>

definition passive_client :: "('sm, 'buf) env \<Rightarrow> bool" where
  "passive_client env \<longleftrightarrow> (\<forall>cb w. e_client env cb w = w)"

section \<open>Phases\<close>

lemma isInState_phase:
  assumes "w_heap w p = Some s" and "sm_phase (e_sm env) view (m_statemachine s) ph"
  shows "isInState env p q w = Inr (phase_in ph q)"
  using assms by (simp add: isInState_def sm_phase_isInState)

lemma goToNextState_step:
  assumes "w_heap w p = Some s" and "sm_phase (e_sm env) view (m_statemachine s) ph"
    and "phase_next ph t = Some ph'" and "required = None \<or> required = Some (phase_item ph)"
  shows "\<exists>m. goToNextState env p t required w = Inr (True, set_session p (s\<lparr>m_statemachine := m\<rparr>) w)
    \<and> sm_phase (e_sm env) view m ph'"
  using sm_phase_step [OF assms(2,3)] sm_phase_step_required [OF assms(2,3)] assms(1,4)
  by (auto simp: goToNextState_def)

lemma goToNextState_refuse:
  assumes "w_heap w p = Some s" and "sm_phase (e_sm env) view (m_statemachine s) ph"
    and "phase_next ph t = None \<and> required = None \<or> (\<exists>ph'. ph' \<noteq> ph \<and> required = Some (phase_item ph'))"
  shows "\<exists>m. goToNextState env p t required w = Inr (False, set_session p (s\<lparr>m_statemachine := m\<rparr>) w)
    \<and> sm_phase (e_sm env) view m ph"
  using sm_phase_refuse [OF assms(2), of t] sm_phase_refuse_required [OF assms(2), of _ t] assms(1,3)
  by (fastforce simp: goToNextState_def)

lemma phase_item_ready [simp]: "phase_item ph = SESSION_READY \<longleftrightarrow> ph = Ready"
  by (cases ph) simp_all

lemma phase_item_idle [simp]: "phase_item ph = NOT_CONNECTED \<longleftrightarrow> ph = Disconnected"
  by (cases ph) simp_all

section \<open>Sending is calm\<close>

lemma calm_change:
  assumes "calm w0 w" and "\<And>s. m_statemachine (f s) = m_statemachine s \<and> m_socket (f s) = m_socket s"
  shows "ensures (calm w0) (change_session p f w)"
  using assms by (auto simp: change_session_def get_session_def intro: calm_set_session split: option.splits)

lemma sendStreamData_calm:
  assumes "calm w0 w"
  shows "calm_step w0 (sendStreamData env p data n re w)"
  unfolding sendStreamData_def
  by (intro calm_if calm_then_do send_Data_Stream_calm [OF assms]) (simp_all add: assms)

lemma getRandId_calm:
  assumes "calm w0 w"
  shows "calm_step w0 (getRandId env w)"
  using assms by (auto simp: getRandId_def calm_step_def intro: calm_rand split: option.splits)

lemma calm_pair: "calm_step w0 (k x w) \<Longrightarrow> calm_step w0 (case (x, w) of (x, w) \<Rightarrow> k x w)"
  by simp

lemma sendNormalMessage_calm:
  assumes "calm w0 w"
  shows "calm_step w0 (sendNormalMessage env p data n w)"
  unfolding sendNormalMessage_def
  by (intro calm_if calm_then_do calm_bind [OF getRandId_calm [OF assms]] calm_pair
      calm_bind [OF sendOutgoingData_calm [OF assms]] send_Data_SingleBlock_calm)
    (simp_all add: assms)

lemma sendResponse_calm:
  assumes "calm w0 w"
  shows "calm_step w0 (sendResponse env p data n bid w)"
  unfolding sendResponse_def
  by (intro calm_if calm_then_do calm_bind [OF getRandId_calm [OF assms]] calm_pair
      sendOutgoingData_calm [OF assms] calm_bind [OF send_Data_SingleBlock_calm])
    (simp_all add: assms)

lemma sendRequest_calm:
  assumes "calm w0 w"
  shows "calm_step w0 (sendRequest env p data n timeout w)"
proof -
  have sent: "calm_step w0 (if unat n \<le> e_max env then
      then_do (getRandId env w) (\<lambda>(newId, w1).
        then_do (send_Data_SingleBlock env p newId data (ucast n) 0 w1) (\<lambda>(sent, w2).
          Inr (if sent then Some newId else None, w2)))
    else then_do (sendOutgoingData env p data n 0 w) (\<lambda>(newId, w1).
        Inr (if newId = 0 then None else Some newId, w1)))"
    by (intro calm_if calm_bind [OF getRandId_calm [OF assms]] calm_pair
        calm_bind [OF sendOutgoingData_calm [OF assms]] calm_bind [OF send_Data_SingleBlock_calm])
      simp_all
  have blocked: "calm_step w0 (case r of None \<Rightarrow> Inr (None, w3)
      | Some newId \<Rightarrow> (case blockMessage_enter newId timeout p (w_blocker w3) of
          (e, b) \<Rightarrow> Inr (Some (newId, e), w3\<lparr>w_blocker := b\<rparr>)))" if "calm w0 w3" for r w3
    using that by (auto intro: calm_blocker split: option.splits prod.splits)
  show ?thesis
    unfolding sendRequest_def
  proof (rule calm_then_do, rule calm_if)
    show "calm_step w0 (Inr (None, w))" using assms by simp
  next
    show "calm_step w0 (then_do (if unat n \<le> e_max env then
      then_do (getRandId env w) (\<lambda>(newId, w1).
        then_do (send_Data_SingleBlock env p newId data (ucast n) 0 w1) (\<lambda>(sent, w2).
          Inr (if sent then Some newId else None, w2)))
      else then_do (sendOutgoingData env p data n 0 w) (\<lambda>(newId, w1).
        Inr (if newId = 0 then None else Some newId, w1)))
      (\<lambda>(r, w3). case r of None \<Rightarrow> Inr (None, w3)
      | Some newId \<Rightarrow> (case blockMessage_enter newId timeout p (w_blocker w3) of
          (e, b) \<Rightarrow> Inr (Some (newId, e), w3\<lparr>w_blocker := b\<rparr>))))"
      by (rule calm_bind [OF sent]) (simp add: blocked)
  qed
qed

lemma sendHeartbeat_calm:
  assumes "calm w0 w"
  shows "calm_step w0 (sendHeartbeat env p w)"
  unfolding sendHeartbeat_def
  by (intro calm_if calm_then_do send_Heartbeat_Start_calm [OF assms]) (simp_all add: assms)

section \<open>Only ready sessions send\<close>

text \<open>
  C14: unless the session is in the ready state, no data, no request, no response, no heartbeat and
  no close message is sent: each of these operations fails and changes nothing.
\<close>

theorem only_ready_sessions_send:
  assumes "w_heap w p = Some s" and "sm_phase (e_sm env) view (m_statemachine s) ph" and "ph \<noteq> Ready"
  shows "sendStreamData env p data n reply w = Inr (False, w)
    \<and> sendNormalMessage env p data n w = Inr (False, w)
    \<and> sendRequest env p data n timeout w = Inr (None, w)
    \<and> sendResponse env p data n bid w = Inr (0, w)
    \<and> sendHeartbeat env p w = Inr (False, w)
    \<and> closeSession env p reply w = Inr (False, w)"
proof -
  have "isInState env p SESSION_READY w = Inr False"
    using isInState_phase [OF assms(1,2)] assms(3) by simp
  with assms(1) show ?thesis
  by (simp add: sendStreamData_def sendNormalMessage_def sendRequest_def sendResponse_def
      sendHeartbeat_def closeSession_def)
qed

theorem only_ready_sessions_send_witness:
  "sendStreamData sample_env 1 [1, 2] 2 True (sample_world Not_Ready) = Inr (False, sample_world Not_Ready)"
  using only_ready_sessions_send [of "sample_world Not_Ready" 1 "sample_session Not_Ready" sample_env
    "\<lambda>c. c" Not_Ready]
  by (simp add: sample_world_def sample_session_def sample_phase)

section \<open>Normal form of worlds\<close>

text \<open>Changes of the same session collapse, and logged events and handlers move inside.\<close>

lemma world_norm:
  "set_session p a (set_session p b w) = set_session p a w"
  "log_event ev (set_session p a w) = set_session p a (log_event ev w)"
  "(set_session p a w)\<lparr>w_handler := h\<rparr> = set_session p a (w\<lparr>w_handler := h\<rparr>)"
  "(set_session p a w)\<lparr>w_reply := r\<rparr> = set_session p a (w\<lparr>w_reply := r\<rparr>)"
  "(set_session p a w)\<lparr>w_blocker := b'\<rparr> = set_session p a (w\<lparr>w_blocker := b'\<rparr>)"
  "(log_event ev w)\<lparr>w_handler := h\<rparr> = log_event ev (w\<lparr>w_handler := h\<rparr>)"
  "(log_event ev w)\<lparr>w_reply := r\<rparr> = log_event ev (w\<lparr>w_reply := r\<rparr>)"
  "(log_event ev w)\<lparr>w_blocker := b'\<rparr> = log_event ev (w\<lparr>w_blocker := b'\<rparr>)"
  by (simp_all add: set_session_def log_event_def)

lemma change_session_live:
  "w_heap w p = Some s \<Longrightarrow> change_session p f w = Inr (set_session p (f s) w)"
  by (simp add: change_session_def)

lemma call_client_passive:
  "passive_client env \<Longrightarrow> call_client env (Some f) mk w = Inr (log_event (Client (mk f)) w)"
  by (simp add: passive_client_def)

section \<open>Opening and closing in each phase\<close>

definition session_at ::
    "('sm, 'buf) env \<Rightarrow> ('sm \<Rightarrow> chart) \<Rightarrow> ptr \<Rightarrow> ('sm, 'buf) session \<Rightarrow> phase \<Rightarrow> ('sm, 'buf) world \<Rightarrow> bool"
where
  "session_at env view p s ph w \<longleftrightarrow>
     w_heap w p = Some s \<and> sm_phase (e_sm env) view (m_statemachine s) ph"

lemma session_atD:
  assumes "session_at env view p s ph w"
  shows "w_heap w p = Some s" and "sm_phase (e_sm env) view (m_statemachine s) ph"
  using assms by (simp_all add: session_at_def)

lemma goToNextState_set:
  assumes "w_heap w p = Some s" and "sm_phase (e_sm env) view (m_statemachine s) ph"
  shows "phase_next ph t = Some ph' \<Longrightarrow>
      \<exists>m. goToNextState env p t None w = Inr (True, set_session p (s\<lparr>m_statemachine := m\<rparr>) w)
        \<and> sm_phase (e_sm env) view m ph'"
    and "phase_next ph t = None \<Longrightarrow>
      \<exists>m. goToNextState env p t None w = Inr (False, set_session p (s\<lparr>m_statemachine := m\<rparr>) w)
        \<and> sm_phase (e_sm env) view m ph"
  using goToNextState_step [OF assms, of t ph' None] goToNextState_refuse [OF assms, of t None]
  by auto

text \<open>
  Connecting works only from the disconnected phase and only if the socket connects; then the
  session has the given identifier, is connected but not ready, and its thread runs. In every other
  case it fails, the phase stays, and a waiting creator is told so through \<open>m_initState\<close>.
\<close>

lemma connectiSession_outcome:
  assumes "session_at env view p s ph w" and "m_socket s = Some sk"
  shows "\<exists>m. sm_phase (e_sm env) view m (if ph = Disconnected \<and> e_net env (w_trace w) (Init_Connection sk)
                                         then Not_Ready else ph) \<and>
    connectiSession env p sid w =
      (if ph \<noteq> Disconnected then Inr (False, set_session p (s\<lparr>m_initState := -1\<rparr>) w)
       else if e_net env (w_trace w) (Init_Connection sk)
       then Inr (True, set_session p (s\<lparr>m_statemachine := m, m_sessionId := sid\<rparr>)
              (log_event (Start_Thread sk) (log_event (Net (Init_Connection sk) True) w)))
       else Inr (False, set_session p (s\<lparr>m_initState := -1\<rparr>)
              (log_event (Net (Init_Connection sk) False) w)))"
proof -
  note s = session_atD [OF assms(1)]
  note idle = isInState_phase [OF s, of NOT_CONNECTED]
  show ?thesis
  proof (cases "ph = Disconnected \<and> e_net env (w_trace w) (Init_Connection sk)")
    case True
    let ?w1 = "log_event (Net (Init_Connection sk) True) w"
    have s1: "w_heap ?w1 p = Some s" using s by simp
    from True goToNextState_set(1) [OF s1 s(2), of CONNECT Not_Ready] obtain m where
      m: "goToNextState env p CONNECT None ?w1 = Inr (True, set_session p (s\<lparr>m_statemachine := m\<rparr>) ?w1)"
         "sm_phase (e_sm env) view m Not_Ready" by auto
    with True s idle assms(2) show ?thesis
      by (intro exI [of _ m])
        (simp add: connectiSession_def ask_net_def change_session_def world_norm)
  next
    case False
    with s idle assms(2) show ?thesis
      by (intro exI [of _ "m_statemachine s"])
        (auto simp: connectiSession_def ask_net_def change_session_def world_norm)
  qed
qed

text \<open>
  A session becomes ready exactly from the connected, not ready phase. The application is then
  told once of the new session, with the identifier of the init message, and a waiting creator is
  released. In every other phase nothing happens except that the creator is told of a failure.
\<close>

lemma makeSessionReady_outcome:
  assumes "session_at env view p s ph w" and "passive_client env" and "m_processCreateSession s = Some f"
  shows "\<exists>m. sm_phase (e_sm env) view m (if ph = Not_Ready then Ready else ph) \<and>
    makeSessionReady env p sid ident w =
      (if ph = Not_Ready
       then Inr (True, set_session p (s\<lparr>m_statemachine := m, m_sessionId := sid,
              m_sessionIdentifier := ident, m_initState := 1\<rparr>)
              (log_event (Client (Create_Session f p ident)) w))
       else Inr (False, set_session p (s\<lparr>m_statemachine := m, m_initState := -1\<rparr>) w))"
proof -
  note s = session_atD [OF assms(1)]
  show ?thesis
  proof (cases "ph = Not_Ready")
    case True
    from True goToNextState_step [OF s, of START_SESSION Ready "Some SESSION_NOT_READY"] obtain m where
      "goToNextState env p START_SESSION (Some SESSION_NOT_READY) w
         = Inr (True, set_session p (s\<lparr>m_statemachine := m\<rparr>) w)"
      "sm_phase (e_sm env) view m Ready" by auto
    with True assms show ?thesis
      by (intro exI [of _ m]) (simp add: makeSessionReady_def change_session_def world_norm
          call_client_passive del: call_client_simps)
  next
    case False
    have "\<exists>ph'. ph' \<noteq> ph \<and> Some SESSION_NOT_READY = Some (phase_item ph')"
      using False by (intro exI [of _ Not_Ready]) simp
    with goToNextState_refuse [OF s, of START_SESSION "Some SESSION_NOT_READY"] obtain m where
      "goToNextState env p START_SESSION (Some SESSION_NOT_READY) w
         = Inr (False, set_session p (s\<lparr>m_statemachine := m\<rparr>) w)"
      "sm_phase (e_sm env) view m ph" by blast
    with False show ?thesis
      by (intro exI [of _ m]) (simp add: makeSessionReady_def change_session_def world_norm)
  qed
qed

lemma disconnectSession_outcome:
  assumes "session_at env view p s ph w" and "m_socket s = Some sk"
  shows "\<exists>m. sm_phase (e_sm env) view m Disconnected \<and>
    disconnectSession env p w =
      (if ph = Disconnected then Inr (False, set_session p (s\<lparr>m_statemachine := m\<rparr>) w)
       else Inr (e_net env (w_trace w) (Close_Socket sk), set_session p (s\<lparr>m_statemachine := m\<rparr>)
              (log_event (Net (Close_Socket sk) (e_net env (w_trace w) (Close_Socket sk))) w)))"
proof -
  note s = session_atD [OF assms(1)]
  show ?thesis
  proof (cases "ph = Disconnected")
    case True
    with goToNextState_set(2) [OF s, of DISCONNECT] show ?thesis
      by (auto simp: disconnectSession_def)
  next
    case False
    then have "phase_next ph DISCONNECT = Some Disconnected" by (cases ph) simp_all
    with goToNextState_set(1) [OF s] obtain m where
      "goToNextState env p DISCONNECT None w = Inr (True, set_session p (s\<lparr>m_statemachine := m\<rparr>) w)"
      "sm_phase (e_sm env) view m Disconnected" by blast
    with False assms(2) show ?thesis
      by (intro exI [of _ m]) (simp add: disconnectSession_def ask_net_def world_norm)
  qed
qed

definition handler_without :: "u32 \<Rightarrow> ('sm, 'buf) world \<Rightarrow> ('sm, 'buf) world" where
  "handler_without sid w = w\<lparr>w_handler := (w_handler w)
     \<lparr>m_sessions := std_erase sid (m_sessions (w_handler w))\<rparr>\<rparr>"

lemma handler_without_sel [simp]:
  "w_heap (handler_without sid w) = w_heap w" "w_trace (handler_without sid w) = w_trace w"
  "w_reply (handler_without sid w) = w_reply w" "w_blocker (handler_without sid w) = w_blocker w"
  "m_sessions (w_handler (handler_without sid w)) = std_erase sid (m_sessions (w_handler w))"
  "m_sessionMap_lock (w_handler (handler_without sid w)) = m_sessionMap_lock (w_handler w)"
  by (simp_all add: handler_without_def)

lemma handler_without_norm:
  "handler_without sid (set_session p a w) = set_session p a (handler_without sid w)"
  "handler_without sid (log_event ev w) = log_event ev (handler_without sid w)"
  by (simp_all add: handler_without_def set_session_def log_event_def)

text \<open>
  Ending a ready session tells the application once, takes the session out of the map under
  its identifier, closes the socket and leaves the session disconnected. In every other phase
  nothing happens.
\<close>

lemma endSession_outcome:
  assumes "session_at env view p s ph w" and "m_socket s = Some sk" and "passive_client env"
    and "m_processCloseSession s = Some f" and "\<not> m_sessionMap_lock (w_handler w)"
  shows "\<exists>m. sm_phase (e_sm env) view m (if ph = Ready then Disconnected else ph) \<and>
    endSession env p w =
      (if ph = Ready
       then (let w1 = handler_without (m_sessionId s)
                        (log_event (Client (Close_Session f p (m_sessionIdentifier s))) w);
                 closed = e_net env (w_trace w1) (Close_Socket sk) in
             Inr (closed, set_session p (s\<lparr>m_statemachine := m\<rparr>)
                            (log_event (Net (Close_Socket sk) closed) w1)))
       else Inr (False, set_session p (s\<lparr>m_statemachine := m\<rparr>) w))"
proof -
  note s = session_atD [OF assms(1)]
  show ?thesis
  proof (cases "ph = Ready")
    case True
    from True goToNextState_set(1) [OF s, of STOP_SESSION Not_Ready] obtain m where
      m: "goToNextState env p STOP_SESSION None w = Inr (True, set_session p (s\<lparr>m_statemachine := m\<rparr>) w)"
      "sm_phase (e_sm env) view m Not_Ready" by auto
    let ?s = "s\<lparr>m_statemachine := m\<rparr>"
    let ?w1 = "handler_without (m_sessionId s)
        (log_event (Client (Close_Session f p (m_sessionIdentifier s))) w)"
    have "session_at env view p ?s Not_Ready (set_session p ?s ?w1)"
      using m(2) by (simp add: session_at_def)
    from disconnectSession_outcome [OF this, of sk] assms(2) obtain m' where
      m': "sm_phase (e_sm env) view m' Disconnected"
        "disconnectSession env p (set_session p ?s ?w1) =
          Inr (e_net env (w_trace ?w1) (Close_Socket sk), set_session p (s\<lparr>m_statemachine := m'\<rparr>)
            (log_event (Net (Close_Socket sk) (e_net env (w_trace ?w1) (Close_Socket sk))) ?w1))"
      by (auto simp: world_norm)
    have "endSession env p w = disconnectSession env p (set_session p ?s ?w1)"
      using assms m(1) by (simp add: endSession_def call_client_passive removeSession_free
          handler_without_def world_norm del: call_client_simps)
    with True m' show ?thesis by (intro exI [of _ m']) (simp add: Let_def)
  next
    case False
    then have "phase_next ph STOP_SESSION = None" by (cases ph) simp_all
    with goToNextState_set(2) [OF s] obtain m where
      "goToNextState env p STOP_SESSION None w = Inr (False, set_session p (s\<lparr>m_statemachine := m\<rparr>) w)"
      "sm_phase (e_sm env) view m ph" by blast
    with False show ?thesis by (intro exI [of _ m]) (simp add: endSession_def)
  qed
qed

text \<open>The world after the parts of closeSession that come before the message to the other side.\<close>

definition closing :: "ptr \<Rightarrow> ('sm, 'buf) session \<Rightarrow> ('sm, 'buf) world \<Rightarrow> ('sm, 'buf) world" where
  "closing p s w = set_session p
     (s\<lparr>m_multiblockIo := snd (removeMultiblockBuffer 0 (m_multiblockIo s))\<rparr>)
     (w\<lparr>w_reply := removeAllOfSession (m_sessionId s) (w_reply w)\<rparr>)"

lemma closeSession_ready:
  assumes "session_at env view p s Ready w"
  shows "closeSession env p reply w =
    (if reply then send_Session_Close_Start env p True (closing p s w)
     else then_do (send_Session_Close_Start env p False (closing p s w)) (\<lambda>(sent, w3). endSession env p w3))"
proof -
  note s = session_atD [OF assms]
  have "isInState env p SESSION_READY w = Inr True" using isInState_phase [OF s] by simp
  with s show ?thesis
    by (simp add: closeSession_def closing_def change_session_def Let_def set_session_def)
qed

text \<open>The session after closeSession has changed its buffers and taken a message identifier.\<close>

definition closing_fields :: "('sm, 'buf) session \<Rightarrow> ('sm, 'buf) session" where
  "closing_fields s = s\<lparr>m_multiblockIo := snd (removeMultiblockBuffer 0 (m_multiblockIo s)),
     m_messageIdCounter := m_messageIdCounter s + 1\<rparr>"

lemma closing_fields_sel [simp]:
  "m_statemachine (closing_fields s) = m_statemachine s" "m_socket (closing_fields s) = m_socket s"
  "m_sessionId (closing_fields s) = m_sessionId s"
  "m_sessionIdentifier (closing_fields s) = m_sessionIdentifier s"
  "m_processCloseSession (closing_fields s) = m_processCloseSession s"
  by (simp_all add: closing_fields_def)

definition close_message :: "('sm, 'buf) env \<Rightarrow> ('sm, 'buf) session \<Rightarrow> bool \<Rightarrow> ('sm, 'buf) world \<Rightarrow> byte list" where
  "close_message env s reply w = encode_Session_Close_Start_Message
     (close_start_msg (m_sessionId s) (m_messageIdCounter s + 1) reply (uninitialised env 4 w))"

lemma uninitialised_trace: "w_trace w' = w_trace w \<Longrightarrow> uninitialised env n w' = uninitialised env n w"
  by (simp add: uninitialised_def)

lemma close_message_sent:
  assumes "w_heap w p = Some s" and "m_socket s = Some sk"
  shows "\<exists>w2. send_Session_Close_Start env p reply (closing p s w)
      = Inr (e_net env (w_trace w) (Send_Message sk (close_message env s reply w)), w2)
    \<and> w_heap w2 = (w_heap w)(p \<mapsto> closing_fields s)
    \<and> w_trace w2 = w_trace w @ [Net (Send_Message sk (close_message env s reply w))
        (e_net env (w_trace w) (Send_Message sk (close_message env s reply w)))]
    \<and> w_handler w2 = w_handler w \<and> w_blocker w2 = w_blocker w
    \<and> w_reply w2 = (if reply then addMessage (types_val SESSION_TYPE) (m_sessionId s)
          (ucast (m_messageIdCounter s + 1)) p (removeAllOfSession (m_sessionId s) (w_reply w))
        else removeAllOfSession (m_sessionId s) (w_reply w))"
proof -
  let ?s1 = "s\<lparr>m_multiblockIo := snd (removeMultiblockBuffer 0 (m_multiblockIo s))\<rparr>"
  have "w_heap (closing p s w) p = Some ?s1" by (simp add: closing_def)
  from send_Session_Close_Start_delivered [OF this, of sk env reply] assms(2)
  have "send_Session_Close_Start env p reply (closing p s w) = Inr (delivered env p sk
      (scs_commonHeader (close_start_msg (m_sessionId s) (m_messageIdCounter s + 1) reply
         (uninitialised env 4 w)))
      (close_message env s reply w) (counted p ?s1 (closing p s w)))"
    using uninitialised_trace [of "closing p s w" w env 4]
    by (simp add: close_message_def closing_def)
  then show ?thesis
    by (intro exI [of _ "snd (delivered env p sk (scs_commonHeader
          (close_start_msg (m_sessionId s) (m_messageIdCounter s + 1) reply (uninitialised env 4 w)))
        (close_message env s reply w) (counted p ?s1 (closing p s w)))"] conjI)
      (simp_all add: prod_eq_iff closing_def closing_fields_def expect_reply_def close_start_msg_def
        new_message_defs new_CommonMessageHeader_def)
qed

text \<open>
  Closing a ready session without waiting for a reply silences its pending messages, sends one
  close message, tells the application, takes the session out of the map and closes the socket, in
  that order. Of the incoming multi-block messages only one with identifier 0 is dropped.
\<close>

lemma closing_without_reply:
  assumes "session_at env view p s Ready w" and "m_socket s = Some sk" and "passive_client env"
    and "m_processCloseSession s = Some f" and "\<not> m_sessionMap_lock (w_handler w)"
  shows "\<exists>m w' r. closeSession env p False w = Inr (r, w') \<and> sm_phase (e_sm env) view m Disconnected
    \<and> w_heap w' = (w_heap w)(p \<mapsto> (closing_fields s)\<lparr>m_statemachine := m\<rparr>)
    \<and> w_trace w' = w_trace w @
        [Net (Send_Message sk (close_message env s False w))
           (e_net env (w_trace w) (Send_Message sk (close_message env s False w))),
         Client (Close_Session f p (m_sessionIdentifier s)), Net (Close_Socket sk) r]
    \<and> m_sessions (w_handler w') = std_erase (m_sessionId s) (m_sessions (w_handler w))
    \<and> w_reply w' = removeAllOfSession (m_sessionId s) (w_reply w)
    \<and> w_blocker w' = w_blocker w"
proof -
  note s = session_atD [OF assms(1)]
  from close_message_sent [OF s(1) assms(2), of env False] obtain w2 where
    sent: "send_Session_Close_Start env p False (closing p s w)
      = Inr (e_net env (w_trace w) (Send_Message sk (close_message env s False w)), w2)"
    and w2: "w_heap w2 = (w_heap w)(p \<mapsto> closing_fields s)"
      "w_trace w2 = w_trace w @ [Net (Send_Message sk (close_message env s False w))
        (e_net env (w_trace w) (Send_Message sk (close_message env s False w)))]"
      "w_handler w2 = w_handler w" "w_blocker w2 = w_blocker w"
      "w_reply w2 = removeAllOfSession (m_sessionId s) (w_reply w)" by auto
  have "session_at env view p (closing_fields s) Ready w2"
    using s w2 by (simp add: session_at_def)
  from endSession_outcome [OF this, of sk f] assms(2-5) w2(3) obtain m where
    m: "sm_phase (e_sm env) view m Disconnected"
    and e: "endSession env p w2 =
      (let w1 = handler_without (m_sessionId s)
                  (log_event (Client (Close_Session f p (m_sessionIdentifier s))) w2);
           closed = e_net env (w_trace w1) (Close_Socket sk) in
       Inr (closed, set_session p ((closing_fields s)\<lparr>m_statemachine := m\<rparr>)
              (log_event (Net (Close_Socket sk) closed) w1)))"
    by auto
  show ?thesis
    by (rule exI [of _ m])
      (use m e sent w2 in \<open>simp add: closeSession_ready [OF assms(1)] Let_def\<close>)
qed

text \<open>
  Closing with a reply expected only sends the close message and remembers it for the reply
  handler: the session stays ready and stays in the map, and the application is not told.
\<close>

lemma closing_with_reply:
  assumes "session_at env view p s Ready w" and "m_socket s = Some sk"
  shows "\<exists>w' r. closeSession env p True w = Inr (r, w') \<and> session_at env view p (closing_fields s) Ready w'
    \<and> w_trace w' = w_trace w @ [Net (Send_Message sk (close_message env s True w)) r]
    \<and> w_handler w' = w_handler w
    \<and> pending_ids (w_reply w') = add_mset (complete_message_id (m_sessionId s) (ucast (m_messageIdCounter s + 1)))
        (pending_ids (w_reply w))"
proof -
  note s = session_atD [OF assms(1)]
  have "pending_ids (removeAllOfSession sid ms) = pending_ids ms" for sid ms
    by (induction ms) (auto simp: removeAllOfSession_def)
  with close_message_sent [OF s(1) assms(2), of env True] s(2) show ?thesis
    by (auto simp: closeSession_ready [OF assms(1)] session_at_def addMessage_def
        addMessage_complete_def)
qed

section \<open>Witnesses\<close>

lemma sample_at: "session_at sample_env (\<lambda>c. c) 1 (sample_session ph) ph (sample_world ph)"
  by (simp add: session_at_def sample_world_def sample_session_def sample_phase)

lemma sample_facts:
  "m_socket (sample_session ph) = Some 5" "passive_client sample_env"
  "m_processCreateSession (sample_session ph) = Some 21"
  "m_processCloseSession (sample_session ph) = Some 22"
  "m_processStreamData (sample_session ph) = Some 23"
  "m_processRequestData (sample_session ph) = Some 24"
  "m_processError (sample_session ph) = Some 25"
  "m_sessionId (sample_session ph) = 7" "m_sessionIdentifier (sample_session ph) = []"
  "m_messageIdCounter (sample_session ph) = 0"
  "m_streamReceiver (sample_session ph) = 31" "m_standaloneReceiver (sample_session ph) = 32"
  "m_multiblockIo (sample_session ph) = new_MultiblockIO"
  "\<not> m_sessionMap_lock (w_handler (sample_world ph))" "e_net sample_env tr c"
  "w_trace (sample_world ph) = []" "w_reply (sample_world ph) = []"
  "w_heap (sample_world ph) 1 = Some (sample_session ph)"
  "m_sessions (w_handler (sample_world ph)) = [(7, 1)]"
  by (simp_all add: sample_defs passive_client_def new_MultiblockIO_def)

end
