(* ===== verification/Process_Messages.thy ===== *)
theory Process_Messages
  imports Session
begin

text \<open>
  The receiving halves of src/src/messages_processing/*.h. The pointer \<open>rawMessage\<close> gives access to
  the bytes \<open>raw\<close> of the message; every \<open>message->field\<close> is a read at the field's offset in the
  packed struct, and a read behind the message is the fault \<open>Out_Of_Bounds_Read\<close>. Nothing checks
  the size of a message against its type, nor a size field against the size of the message.
\<close>

section \<open>Fields behind the cast pointer\<close>

definition message_flags :: "byte list \<Rightarrow> fault + u8" where
  "message_flags raw = read_u8 7 raw"

definition message_id_field :: "byte list \<Rightarrow> fault + u32" where
  "message_id_field raw = read_u32 20 raw"

definition message_payloadSize :: "byte list \<Rightarrow> fault + u32" where
  "message_payloadSize raw = read_u32 28 raw"

lemmas message_field_defs = message_flags_def message_id_field_def message_payloadSize_def

section \<open>session_processing.h\<close>

text \<open>
  \<open>serverSessionId * 0x10000\<close> is a multiplication of ints, because uint16_t is promoted.
\<close>

definition complete_session_id :: "u32 \<Rightarrow> u16 \<Rightarrow> fault + u32" where
  "complete_session_id clientId serverId =
     (if 2 ^ 31 \<le> unat serverId * 0x10000 then Inl Signed_Overflow
      else Inr (clientId + word_of_nat (unat serverId * 0x10000)))"

definition process_Session_Init_Start ::
    "('sm, 'buf) env \<Rightarrow> ptr \<Rightarrow> byte list \<Rightarrow> ('sm, 'buf) world \<Rightarrow> fault + ('sm, 'buf) world" where
  "process_Session_Init_Start env p raw w =
     then_do (read_u32 32 raw) (\<lambda>clientSessionId.
     (case increaseSessionIdCounter (w_handler w) of (serverSessionId, h) \<Rightarrow>
     then_do (complete_session_id clientSessionId serverSessionId) (\<lambda>sid.
     then_do (read_u32 64036 raw) (\<lambda>identSize.
     then_do (read_bytes 36 (unat identSize) raw) (\<lambda>ident.
     then_do (addSession sid p (w\<lparr>w_handler := h\<rparr>)) (\<lambda>w1.
     then_do (connectiSession env p sid w1) (\<lambda>(connected, w2).
     then_do (makeSessionReady env p sid ident w2) (\<lambda>(ready, w3).
     then_do (message_id_field raw) (\<lambda>mid.
     then_do (send_Session_Init_Reply env p clientSessionId mid sid ident w3) (\<lambda>(sent, w4).
       Inr w4))))))))))"

definition process_Session_Init_Reply ::
    "('sm, 'buf) env \<Rightarrow> ptr \<Rightarrow> byte list \<Rightarrow> ('sm, 'buf) world \<Rightarrow> fault + ('sm, 'buf) world" where
  "process_Session_Init_Reply env p raw w =
     then_do (read_u32 36 raw) (\<lambda>completeSessionId.
     then_do (read_u32 32 raw) (\<lambda>initialId.
     then_do (read_u32 64040 raw) (\<lambda>identSize.
     then_do (read_bytes 40 (unat identSize) raw) (\<lambda>ident.
     then_do (removeSession initialId (w_handler w)) (\<lambda>(removed, h).
     then_do (addSession completeSessionId p (w\<lparr>w_handler := h\<rparr>)) (\<lambda>w1.
     then_do (makeSessionReady env p completeSessionId ident w1) (\<lambda>(ready, w2).
       Inr w2)))))))"

definition process_Session_Close_Start ::
    "('sm, 'buf) env \<Rightarrow> ptr \<Rightarrow> byte list \<Rightarrow> ('sm, 'buf) world \<Rightarrow> fault + ('sm, 'buf) world" where
  "process_Session_Close_Start env p raw w =
     then_do (message_id_field raw) (\<lambda>mid.
     then_do (send_Session_Close_Reply env p mid w) (\<lambda>(sent, w1).
     then_do (read_u32 32 raw) (\<lambda>sid.
     then_do (removeSession sid (w_handler w1)) (\<lambda>(removed, h).
     then_do (endSession env p (w1\<lparr>w_handler := h\<rparr>)) (\<lambda>(ended, w2).
       Inr w2)))))"

definition process_Session_Close_Reply ::
    "('sm, 'buf) env \<Rightarrow> ptr \<Rightarrow> byte list \<Rightarrow> ('sm, 'buf) world \<Rightarrow> fault + ('sm, 'buf) world" where
  "process_Session_Close_Reply env p raw w =
     then_do (read_u32 32 raw) (\<lambda>sid.
     then_do (removeSession sid (w_handler w)) (\<lambda>(removed, h).
     then_do (disconnectSession env p (w\<lparr>w_handler := h\<rparr>)) (\<lambda>(left, w1).
       Inr w1)))"

definition process_Session_Type ::
    "('sm, 'buf) env \<Rightarrow> ptr \<Rightarrow> CommonMessageHeader \<Rightarrow> byte list \<Rightarrow> ('sm, 'buf) world
     \<Rightarrow> fault + ('sm, 'buf) world" where
  "process_Session_Type env p h raw w =
     (case session_subTypes_of (subType h) of
        Some SESSION_INIT_START_SUBTYPE \<Rightarrow> process_Session_Init_Start env p raw w
      | Some SESSION_INIT_REPLY_SUBTYPE \<Rightarrow> process_Session_Init_Reply env p raw w
      | Some SESSION_CLOSE_START_SUBTYPE \<Rightarrow> process_Session_Close_Start env p raw w
      | Some SESSION_CLOSE_REPLY_SUBTYPE \<Rightarrow> process_Session_Close_Reply env p raw w
      | None \<Rightarrow> Inr w)"

section \<open>heartbeat_processing.h\<close>

definition process_Heartbeat_Start ::
    "('sm, 'buf) env \<Rightarrow> ptr \<Rightarrow> byte list \<Rightarrow> ('sm, 'buf) world
     \<Rightarrow> fault + bool \<times> ('sm, 'buf) world" where
  "process_Heartbeat_Start env p raw w =
     then_do (message_id_field raw) (\<lambda>mid. send_Heartbeat_Reply env p mid w)"

definition process_Heartbeat_Type ::
    "('sm, 'buf) env \<Rightarrow> ptr \<Rightarrow> CommonMessageHeader \<Rightarrow> byte list \<Rightarrow> ('sm, 'buf) world
     \<Rightarrow> fault + ('sm, 'buf) world" where
  "process_Heartbeat_Type env p h raw w =
     (case heartbeat_subTypes_of (subType h) of
        Some HEARTBEAT_START_SUBTYPE \<Rightarrow>
          then_do (process_Heartbeat_Start env p raw w) (\<lambda>(sent, w1). Inr w1)
      | Some HEARTBEAT_REPLY_SUBTYPE \<Rightarrow> Inr w
      | None \<Rightarrow> Inr w)"

section \<open>error_processing.h\<close>

definition report_error ::
    "('sm, 'buf) env \<Rightarrow> ptr \<Rightarrow> errorCodes \<Rightarrow> byte list \<Rightarrow> ('sm, 'buf) world
     \<Rightarrow> fault + ('sm, 'buf) world" where
  "report_error env p code raw w =
     then_do (read_u64 32 raw) (\<lambda>n.
     then_do (read_bytes 40 (unat n) raw) (\<lambda>text.
     then_do (get_session p w) (\<lambda>s.
       call_client env (m_processError s) (\<lambda>f. Process_Error f p (errorCodes_val code) text) w)))"

definition process_Error_Type ::
    "('sm, 'buf) env \<Rightarrow> ptr \<Rightarrow> CommonMessageHeader \<Rightarrow> byte list \<Rightarrow> ('sm, 'buf) world
     \<Rightarrow> fault + ('sm, 'buf) world" where
  "process_Error_Type env p h raw w =
     then_do (change_session p (\<lambda>s. s\<lparr>m_initState := -1\<rparr>) w) (\<lambda>w1.
       case error_subTypes_of (subType h) of
         Some ERROR_FALSE_VERSION_SUBTYPE \<Rightarrow> report_error env p FALSE_VERSION raw w1
       | Some ERROR_UNKNOWN_SESSION_SUBTYPE \<Rightarrow> report_error env p UNKNOWN_SESSION raw w1
       | Some ERROR_INVALID_MESSAGE_SUBTYPE \<Rightarrow> report_error env p INVALID_MESSAGE_SIZE raw w1
       | None \<Rightarrow> Inr w1)"

section \<open>stream_data_processing.h\<close>

text \<open>
  The callback gets a pointer to the payload and its size; the bytes it can read there are the
  data of the event.
\<close>

definition process_Data_Stream ::
    "('sm, 'buf) env \<Rightarrow> ptr \<Rightarrow> byte list \<Rightarrow> ('sm, 'buf) world \<Rightarrow> fault + ('sm, 'buf) world" where
  "process_Data_Stream env p raw w =
     then_do (get_session p w) (\<lambda>s.
     then_do (message_payloadSize raw) (\<lambda>n.
     then_do (call_client env (m_processStreamData s)
                (\<lambda>f. Stream_Data f (m_streamReceiver s) p
                       (take (unat n) (drop sizeof_Data_Stream_Header raw)) (ucast n)) w) (\<lambda>w1.
     then_do (message_flags raw) (\<lambda>fl.
       if and fl 0x1 \<noteq> 0 then
         then_do (message_id_field raw) (\<lambda>mid.
         then_do (send_Data_Stream_Reply env p mid w1) (\<lambda>(sent, w2). Inr w2))
       else Inr w1))))"

definition process_Stream_Data_Type ::
    "('sm, 'buf) env \<Rightarrow> ptr \<Rightarrow> CommonMessageHeader \<Rightarrow> byte list \<Rightarrow> ('sm, 'buf) world
     \<Rightarrow> fault + ('sm, 'buf) world" where
  "process_Stream_Data_Type env p h raw w =
     (case stream_data_subTypes_of (subType h) of
        Some DATA_STREAM_STATIC_SUBTYPE \<Rightarrow> process_Data_Stream env p raw w
      | Some DATA_STREAM_REPLY_SUBTYPE \<Rightarrow> Inr w
      | None \<Rightarrow> Inr w)"

section \<open>singleblock_data_processing.h\<close>

definition release_request ::
    "u64 \<Rightarrow> 'buf option \<Rightarrow> ('sm, 'buf) world \<Rightarrow> fault + ('sm, 'buf) world" where
  "release_request bid data w =
     then_do (releaseMessage bid data (w_blocker w)) (\<lambda>(found, b). Inr (w\<lparr>w_blocker := b\<rparr>))"

definition process_Data_SingleBlock ::
    "('sm, 'buf) env \<Rightarrow> ptr \<Rightarrow> byte list \<Rightarrow> ('sm, 'buf) world \<Rightarrow> fault + ('sm, 'buf) world" where
  "process_Data_SingleBlock env p raw w =
     then_do (message_payloadSize raw) (\<lambda>n.
     let buffer = db_new (e_db env) (db_calcBytesToBlocks (e_db env) (unat n)) in
     then_do (read_bytes sizeof_Data_SingleBlock_Header (unat n) raw) (\<lambda>payload.
     let filled = snd (db_add (e_db env) buffer payload) in
     then_do (message_flags raw) (\<lambda>fl.
     then_do
       (if and fl 0x8 \<noteq> 0 then
          then_do (read_u64 40 raw) (\<lambda>bid. release_request bid (Some filled) w)
        else
          then_do (get_session p w) (\<lambda>s.
          then_do (read_u64 32 raw) (\<lambda>mbid.
            call_client env (m_processRequestData s)
              (\<lambda>f. Request_Data f (m_standaloneReceiver s) p mbid (Some filled)) w)))
       (\<lambda>w1.
          if and fl 0x1 \<noteq> 0 then
            then_do (message_id_field raw) (\<lambda>mid.
            then_do (send_Data_SingleBlock_Reply env p mid w1) (\<lambda>(sent, w2). Inr w2))
          else Inr w1))))"

definition process_SingleBlock_Data_Type ::
    "('sm, 'buf) env \<Rightarrow> ptr \<Rightarrow> CommonMessageHeader \<Rightarrow> byte list \<Rightarrow> ('sm, 'buf) world
     \<Rightarrow> fault + ('sm, 'buf) world" where
  "process_SingleBlock_Data_Type env p h raw w =
     (case singleblock_data_subTypes_of (subType h) of
        Some DATA_SINGLE_DATA_SUBTYPE \<Rightarrow> process_Data_SingleBlock env p raw w
      | Some DATA_SINGLE_REPLY_SUBTYPE \<Rightarrow> Inr w
      | None \<Rightarrow> Inr w)"

section \<open>multiblock_data_processing.h\<close>

definition process_Data_Multiblock ::
    "('sm, 'buf) env \<Rightarrow> ptr \<Rightarrow> byte list \<Rightarrow> ('sm, 'buf) world \<Rightarrow> fault + ('sm, 'buf) world" where
  "process_Data_Multiblock env p raw w =
     then_do (read_u32 52 raw) (\<lambda>partId.
     then_do (read_u64 40 raw) (\<lambda>mbid.
     then_do (get_session p w) (\<lambda>s.
     then_do
       (if partId = 0 then
          then_do (read_u64 32 raw) (\<lambda>psize.
            Inr (snd (createIncomingBuffer (e_db env) mbid psize (m_multiblockIo s))))
        else Inr (m_multiblockIo s))
       (\<lambda>io.
          then_do (message_payloadSize raw) (\<lambda>n.
          then_do (writeIntoIncomingBuffer (e_db env) mbid (drop sizeof_Data_MultiBlock_Header raw)
                     (ucast n) io) (\<lambda>(written, io2).
            Inr (set_session p (s\<lparr>m_multiblockIo := io2\<rparr>) w)))))))"

definition process_Data_Multi_Finish ::
    "('sm, 'buf) env \<Rightarrow> ptr \<Rightarrow> byte list \<Rightarrow> ('sm, 'buf) world \<Rightarrow> fault + ('sm, 'buf) world" where
  "process_Data_Multi_Finish env p raw w =
     then_do (get_session p w) (\<lambda>s.
     then_do (read_u64 32 raw) (\<lambda>mbid.
     let buffer = getIncomingBuffer mbid (m_multiblockIo s) in
     then_do (message_flags raw) (\<lambda>fl.
     then_do
       (if and fl 0x8 \<noteq> 0 then
          then_do (read_u64 40 raw) (\<lambda>bid. release_request bid (incomingData buffer) w)
        else
          call_client env (m_processRequestData s)
            (\<lambda>f. Request_Data f (m_standaloneReceiver s) p mbid (incomingData buffer)) w)
       (change_session p
          (\<lambda>s. s\<lparr>m_multiblockIo := snd (removeMultiblockBuffer mbid (m_multiblockIo s))\<rparr>)))))"

definition process_MultiBlock_Data_Type ::
    "('sm, 'buf) env \<Rightarrow> ptr \<Rightarrow> CommonMessageHeader \<Rightarrow> byte list \<Rightarrow> ('sm, 'buf) world
     \<Rightarrow> fault + ('sm, 'buf) world" where
  "process_MultiBlock_Data_Type env p h raw w =
     (case multiblock_data_subTypes_of (subType h) of
        Some DATA_MULTI_STATIC_SUBTYPE \<Rightarrow> process_Data_Multiblock env p raw w
      | Some DATA_MULTI_FINISH_SUBTYPE \<Rightarrow> process_Data_Multi_Finish env p raw w
      | None \<Rightarrow> Inr w)"

end
