(* ===== verification/Callbacks.thy ===== *)
theory Callbacks
  imports Process_Messages
begin

text \<open>
  src/src/callbacks.h: what happens when bytes arrive at a socket. The ring buffer class is not part
  of the repository; the two calls made on it are the record \<open>ring\<close>, and \<open>ring_ok\<close> is what the code
  relies on: they give access to the first bytes of the buffered data, if there are enough. The
  result is the number of bytes the socket takes out of the buffer.
\<close>

record ring =
  getObject :: "nat \<Rightarrow> byte list option"
  getDataPointer :: "nat \<Rightarrow> byte list option"

definition ring_ok :: "ring \<Rightarrow> byte list \<Rightarrow> bool" where
  "ring_ok rb buffered \<longleftrightarrow>
     (\<forall>n. getObject rb n = (if n \<le> length buffered then Some (take n buffered) else None)) \<and>
     (\<forall>n. getDataPointer rb n = (if n \<le> length buffered then Some (take n buffered) else None))"

definition list_ring :: "byte list \<Rightarrow> ring" where
  "list_ring buffered =
     \<lparr>getObject = (\<lambda>n. if n \<le> length buffered then Some (take n buffered) else None),
      getDataPointer = (\<lambda>n. if n \<le> length buffered then Some (take n buffered) else None)\<rparr>"

lemma list_ring_ok: "ring_ok (list_ring buffered) buffered"
  by (simp add: ring_ok_def list_ring_def)

section \<open>Logging of invalid headers\<close>

definition hex_digit :: "nat \<Rightarrow> byte" where
  "hex_digit n = word_of_nat (if n < 10 then 48 + n else 87 + n)"

text \<open>\<open>std::hex\<close> prints without leading zeros, so bytes below 16 get one in front.\<close>

definition hex_byte :: "byte \<Rightarrow> byte list" where
  "hex_byte b =
     (if unat b < 16 then [48, hex_digit (unat b)]
      else [hex_digit (unat b div 16), hex_digit (unat b mod 16)])"

definition hexlify :: "byte list \<Rightarrow> byte list" where
  "hexlify bytes = concat (map hex_byte (rev bytes))"

text \<open>
  \<open>hexlify(headerContent, &header, sizeof(header))\<close>: \<open>header\<close> is a pointer here, so the printed
  object is the pointer itself.
\<close>

definition createHeaderError_solution :: "u64 \<Rightarrow> byte list" where
  "createHeaderError_solution headerAddress =
     ascii '' check header: '' @ hexlify (put_u64 headerAddress)"

section \<open>Incoming bytes\<close>

definition check_delimiter :: "CommonMessageHeader \<Rightarrow> byte list \<Rightarrow> fault + bool" where
  "check_delimiter h raw =
     (let endPosition = totalMessageSize h div 4 - 1 in
      then_do (read_u32 (4 * unat endPosition) raw) (\<lambda>end. Inr (end = MESSAGE_DELIMITER)))"

definition dispatch ::
    "('sm, 'buf) env \<Rightarrow> ptr \<Rightarrow> CommonMessageHeader \<Rightarrow> byte list \<Rightarrow> ('sm, 'buf) world
     \<Rightarrow> fault + u64 \<times> ('sm, 'buf) world" where
  "dispatch env p h raw w =
     (let taken = (\<lambda>r. then_do r (\<lambda>w1. Inr (ucast (totalMessageSize h), w1))) in
      case types_of (mtype h) of
        Some STREAM_DATA_TYPE \<Rightarrow> taken (process_Stream_Data_Type env p h raw w)
      | Some SINGLEBLOCK_DATA_TYPE \<Rightarrow> taken (process_SingleBlock_Data_Type env p h raw w)
      | Some MULTIBLOCK_DATA_TYPE \<Rightarrow> taken (process_MultiBlock_Data_Type env p h raw w)
      | Some SESSION_TYPE \<Rightarrow> taken (process_Session_Type env p h raw w)
      | Some HEARTBEAT_TYPE \<Rightarrow> taken (process_Heartbeat_Type env p h raw w)
      | Some ERROR_TYPE \<Rightarrow> taken (process_Error_Type env p h raw w)
      | Some UNDEFINED_TYPE \<Rightarrow> Inr (0, w)
      | None \<Rightarrow> Inr (0, w))"

definition processMessage ::
    "('sm, 'buf) env \<Rightarrow> ptr \<Rightarrow> ring \<Rightarrow> ('sm, 'buf) world \<Rightarrow> fault + u64 \<times> ('sm, 'buf) world" where
  "processMessage env p rb w =
     (case getObject rb sizeof_CommonMessageHeader of
        None \<Rightarrow> Inr (0, w)
      | Some object \<Rightarrow>
          then_do (decode_CommonMessageHeader object) (\<lambda>h.
          if protocolIdentifier h \<noteq> PROTOCOL_IDENTIFIER then
            then_do (closeSession env p False w) (\<lambda>(closed, w1). Inr (0, w1))
          else if version h \<noteq> 0x1 then
            then_do (send_ErrorMessage env p (errorCodes_val FALSE_VERSION) [] w) (\<lambda>(sent, w1).
              Inr (0, w1))
          else
            (case getDataPointer rb (unat (totalMessageSize h)) of
               None \<Rightarrow> Inr (0, w)
             | Some raw \<Rightarrow>
                 then_do (check_delimiter h raw) (\<lambda>match.
                 if \<not> match then
                   then_do (send_ErrorMessage env p (errorCodes_val FALSE_VERSION) [] w) (\<lambda>(sent, w1).
                     if e_ndebug env then Inr (0, w1) else Inl Assertion_Failed)
                 else
                   dispatch env p h raw
                     (if and (flags h) 0x2 \<noteq> 0
                      then w\<lparr>w_reply := snd (removeMessage (sessionId h) (ucast (messageId h)) (w_reply w))\<rparr>
                      else w)))))"

text \<open>The function the socket calls; it is registered with the session as its target.\<close>

definition processMessage_callback ::
    "('sm, 'buf) env \<Rightarrow> ptr \<Rightarrow> ring \<Rightarrow> ('sm, 'buf) world \<Rightarrow> fault + u64 \<times> ('sm, 'buf) world" where
  "processMessage_callback env target recvBuffer w = processMessage env target recvBuffer w"

definition processConnection_Callback ::
    "('sm, 'buf) env \<Rightarrow> sock \<Rightarrow> ('sm, 'buf) world \<Rightarrow> fault + ('sm, 'buf) world" where
  "processConnection_Callback env sk w =
     then_do (new_Session env sk w) (\<lambda>(p, w1). Inr (log_event (Start_Thread sk) w1))"

end
