(* ===== verification/Threads.thy ===== *)
theory Threads
  imports Callbacks
begin

text \<open>
  The timer thread of the reply handler: \<open>ReplyHandler::run\<close> of src/src/handler/reply_handler.cpp
  counts ten sleeps of 100 ms, then makes a timer step and lets the session handler send heartbeats
  to all sessions of its map.
\<close>

fun heartbeat_each ::
    "('sm, 'buf) env \<Rightarrow> (u32 \<times> ptr) list \<Rightarrow> ('sm, 'buf) world \<Rightarrow> fault + ('sm, 'buf) world" where
  "heartbeat_each env [] w = Inr w"
| "heartbeat_each env ((sid, p) # rest) w =
     then_do (sendHeartbeat env p w) (\<lambda>(sent, w1). heartbeat_each env rest w1)"

definition sendHeartBeats :: "('sm, 'buf) env \<Rightarrow> ('sm, 'buf) world \<Rightarrow> fault + ('sm, 'buf) world" where
  "sendHeartBeats env w =
     then_do (lockSessionMap (w_handler w)) (\<lambda>h.
     then_do (heartbeat_each env (m_sessions h) (w\<lparr>w_handler := h\<rparr>)) (\<lambda>w1.
       Inr (w1\<lparr>w_handler := unlockSessionMap (w_handler w1)\<rparr>)))"

text \<open>One round of the loop, after the sleep: the new counter and the new world.\<close>

definition reply_handler_round ::
    "('sm, 'buf) env \<Rightarrow> u32 \<Rightarrow> ('sm, 'buf) world \<Rightarrow> fault + u32 \<times> ('sm, 'buf) world" where
  "reply_handler_round env counter w =
     (let counter = counter + 1 in
      if counter mod 10 = 0 then
        then_do (makeTimerStep env w) (\<lambda>w1.
        then_do (sendHeartBeats env w1) (\<lambda>w2. Inr (0, w2)))
      else Inr (counter, w))"

text \<open>
  \<open>MessageBlockerHandler::run\<close> of src/src/handler/message_blocker_handler.cpp: a timer step every
  second; one round of its loop, before the sleep.
\<close>

definition blocker_handler_round ::
    "('sm, 'buf) env \<Rightarrow> ('sm, 'buf) world \<Rightarrow> fault + ('sm, 'buf) world" where
  "blocker_handler_round env w = blocker_makeTimerStep env w"

end
