(* ===== verification/Session_Controller.thy ===== *)
theory Session_Controller
  imports Threads
begin

text \<open>
  src/src/session_controller.cpp: servers and new sessions. The constructors of sockets and servers
  are not part of the repository; they are arguments (\<open>construct\<close>) that give the handle of the new object.
\<close>

section \<open>Servers\<close>

definition add_server ::
    "('sm, 'buf) env \<Rightarrow> server \<Rightarrow> ('sm, 'buf) world \<Rightarrow> fault + u32 \<times> ('sm, 'buf) world" where
  "add_server env sv w =
     (case ask_net env (Init_Server sv) w of
        (started, w1) \<Rightarrow>
          if \<not> started then Inr (0, w1)
          else
            let w2 = log_event (Start_Server_Thread sv) w1;
                newId = w_serverIdCounter w2 + 1;
                w3 = w2\<lparr>w_serverIdCounter := newId\<rparr> in
            then_do (lockServerMap (w_handler w3)) (\<lambda>h.
              Inr (newId, w3\<lparr>w_handler :=
                     unlockServerMap (h\<lparr>m_servers := std_insert newId sv (m_servers h)\<rparr>)\<rparr>)))"

definition addUnixDomainServer ::
    "('sm, 'buf) env \<Rightarrow> (byte list \<Rightarrow> byte list \<Rightarrow> server) \<Rightarrow> byte list \<Rightarrow> byte list
     \<Rightarrow> ('sm, 'buf) world \<Rightarrow> fault + u32 \<times> ('sm, 'buf) world" where
  "addUnixDomainServer env construct socketFile threadName = add_server env (construct socketFile threadName)"

definition addTcpServer ::
    "('sm, 'buf) env \<Rightarrow> (u16 \<Rightarrow> byte list \<Rightarrow> server) \<Rightarrow> u16 \<Rightarrow> byte list
     \<Rightarrow> ('sm, 'buf) world \<Rightarrow> fault + u32 \<times> ('sm, 'buf) world" where
  "addTcpServer env construct port threadName = add_server env (construct port threadName)"

definition addTlsTcpServer ::
    "('sm, 'buf) env \<Rightarrow> (u16 \<Rightarrow> byte list \<Rightarrow> byte list \<Rightarrow> byte list \<Rightarrow> server) \<Rightarrow> u16 \<Rightarrow> byte list
     \<Rightarrow> byte list \<Rightarrow> byte list \<Rightarrow> ('sm, 'buf) world \<Rightarrow> fault + u32 \<times> ('sm, 'buf) world" where
  "addTlsTcpServer env construct port certFile keyFile threadName =
     add_server env (construct port certFile keyFile threadName)"

text \<open>The early return after a failed \<open>closeServer\<close> leaves the map locked.\<close>

definition closeServer ::
    "('sm, 'buf) env \<Rightarrow> u32 \<Rightarrow> ('sm, 'buf) world \<Rightarrow> fault + bool \<times> ('sm, 'buf) world" where
  "closeServer env sid w =
     then_do (lockServerMap (w_handler w)) (\<lambda>h.
       case std_find sid (m_servers h) of
         Some sv \<Rightarrow>
           (case ask_net env (Close_Server sv) (w\<lparr>w_handler := h\<rparr>) of
              (closed, w1) \<Rightarrow>
                if \<not> closed then Inr (False, w1)
                else Inr (True, (log_event (Schedule_Server_Deletion sv) w1)
                       \<lparr>w_handler := unlockServerMap (h\<lparr>m_servers := std_erase sid (m_servers h)\<rparr>)\<rparr>))
       | None \<Rightarrow> Inr (False, w\<lparr>w_handler := unlockServerMap h\<rparr>))"

fun close_each ::
    "('sm, 'buf) env \<Rightarrow> (u32 \<times> server) list \<Rightarrow> ('sm, 'buf) world \<Rightarrow> ('sm, 'buf) world" where
  "close_each env [] w = w"
| "close_each env ((sid, sv) # rest) w = close_each env rest (snd (ask_net env (Close_Server sv) w))"

definition cloesAllServers :: "('sm, 'buf) env \<Rightarrow> ('sm, 'buf) world \<Rightarrow> fault + ('sm, 'buf) world" where
  "cloesAllServers env w =
     then_do (lockServerMap (w_handler w)) (\<lambda>h.
       let w1 = close_each env (m_servers h) (w\<lparr>w_handler := h\<rparr>) in
       Inr (w1\<lparr>w_handler := unlockServerMap (w_handler w1)\<rparr>))"

section \<open>Sessions\<close>

text \<open>
  startSession up to the loop that waits for \<open>m_initState\<close>, and from the end of that loop on. The
  thread that waits makes no step of its own while \<open>m_initState\<close> is 0.
\<close>

datatype start_result = Start_Failed | Start_Waiting ptr

definition discard_session ::
    "('sm, 'buf) env \<Rightarrow> ptr \<Rightarrow> ('sm, 'buf) world \<Rightarrow> fault + ('sm, 'buf) world" where
  "discard_session env p w =
     then_do (closeSession env p False w) (\<lambda>(closed, w1). delete_Session env p w1)"

text \<open>A session whose identifier is too long is not made; the socket is deleted.\<close>

definition startSession ::
    "('sm, 'buf) env \<Rightarrow> sock \<Rightarrow> byte list \<Rightarrow> ('sm, 'buf) world
     \<Rightarrow> fault + start_result \<times> ('sm, 'buf) world" where
  "startSession env sk ident w =
     (if 64000 < length ident then Inr (Start_Failed, log_event (Delete_Socket sk) w)
      else
        then_do (new_Session env sk w) (\<lambda>(p, w1).
        case increaseSessionIdCounter (w_handler w1) of
          (newId, h) \<Rightarrow>
            then_do (connectiSession env p (ucast newId) (w1\<lparr>w_handler := h\<rparr>)) (\<lambda>(connected, w2).
              if connected then
                then_do (addSession (ucast newId) p w2) (\<lambda>w3.
                then_do (send_Session_Init_Start env p ident w3) (\<lambda>(sent, w4).
                  Inr (Start_Waiting p, w4)))
              else
                then_do (discard_session env p w2) (\<lambda>w3. Inr (Start_Failed, w3)))))"

definition startSession_resume ::
    "('sm, 'buf) env \<Rightarrow> ptr \<Rightarrow> ('sm, 'buf) world \<Rightarrow> fault + ptr option \<times> ('sm, 'buf) world" where
  "startSession_resume env p w =
     then_do (get_session p w) (\<lambda>s.
       if m_initState s = 0 then Inl Never_Returns
       else if m_initState s = -1 then
         then_do (discard_session env p w) (\<lambda>w1. Inr (None, w1))
       else Inr (Some p, w))"

definition startUnixDomainSession ::
    "('sm, 'buf) env \<Rightarrow> (byte list \<Rightarrow> byte list \<Rightarrow> sock) \<Rightarrow> byte list \<Rightarrow> byte list \<Rightarrow> byte list
     \<Rightarrow> ('sm, 'buf) world \<Rightarrow> fault + start_result \<times> ('sm, 'buf) world" where
  "startUnixDomainSession env construct socketFile ident threadName =
     startSession env (construct socketFile threadName) ident"

definition startTcpSession ::
    "('sm, 'buf) env \<Rightarrow> (byte list \<Rightarrow> u16 \<Rightarrow> byte list \<Rightarrow> sock) \<Rightarrow> byte list \<Rightarrow> u16 \<Rightarrow> byte list
     \<Rightarrow> byte list \<Rightarrow> ('sm, 'buf) world \<Rightarrow> fault + start_result \<times> ('sm, 'buf) world" where
  "startTcpSession env construct address port ident threadName =
     startSession env (construct address port threadName) ident"

definition startTlsTcpSession ::
    "('sm, 'buf) env \<Rightarrow> (byte list \<Rightarrow> u16 \<Rightarrow> byte list \<Rightarrow> byte list \<Rightarrow> byte list \<Rightarrow> sock) \<Rightarrow> byte list
     \<Rightarrow> u16 \<Rightarrow> byte list \<Rightarrow> byte list \<Rightarrow> byte list \<Rightarrow> byte list \<Rightarrow> ('sm, 'buf) world
     \<Rightarrow> fault + start_result \<times> ('sm, 'buf) world" where
  "startTlsTcpSession env construct address port certFile keyFile ident threadName =
     startSession env (construct address port certFile keyFile threadName) ident"

section \<open>Construction and shutdown\<close>

text \<open>
  The session handler is a static object: a second controller uses the one that exists, with the
  callbacks of the first, but counts its servers from 0 again. A new one brings handlers of its own for
  pending messages and blocked requests.
\<close>

definition new_SessionController ::
    "('sm, 'buf) env \<Rightarrow> session_handler option \<Rightarrow> fn \<Rightarrow> fn \<Rightarrow> fn \<Rightarrow> ('sm, 'buf) world
     \<Rightarrow> fault + ('sm, 'buf) world" where
  "new_SessionController env existing processCreateSession processCloseSession processError w =
     (case existing of
        Some h \<Rightarrow> Inr (w\<lparr>w_handler := h, w_serverIdCounter := 0\<rparr>)
      | None \<Rightarrow>
          then_do (new_SessionHandler (e_ndebug env) processCreateSession processCloseSession processError)
            (\<lambda>h. Inr (w\<lparr>w_handler := h, w_reply := new_ReplyHandler, w_blocker := new_MessageBlockerHandler, w_serverIdCounter := 0\<rparr>)))"

text \<open>The destructor of the session handler, with those of the two handlers it owns.\<close>

definition delete_SessionHandler :: "('sm, 'buf) world \<Rightarrow> fault + ('sm, 'buf) world" where
  "delete_SessionHandler w =
     then_do (delete_MessageBlockerHandler (w_blocker w)) (\<lambda>b.
     then_do (lockServerMap (w_handler w)) (\<lambda>h1.
     let h2 = unlockServerMap (h1\<lparr>m_servers := []\<rparr>) in
     then_do (lockSessionMap h2) (\<lambda>h3.
       Inr (w\<lparr>w_blocker := b, w_reply := delete_ReplyHandler (w_reply w),
              w_handler := unlockSessionMap (h3\<lparr>m_sessions := []\<rparr>)\<rparr>))))"

definition delete_SessionController ::
    "('sm, 'buf) env \<Rightarrow> ('sm, 'buf) world \<Rightarrow> fault + ('sm, 'buf) world" where
  "delete_SessionController env w = then_do (cloesAllServers env w) delete_SessionHandler"

end
