(* ===== verification/Receiving.thy ===== *)
theory Receiving
  imports Session_Life Session_Controller
begin

text \<open>
  The receiving side against the frames of the sending side: when processMessage accepts a message,
  what it leaves alone, and what each kind of message does to the receiving session.
\<close>

section \<open>Accepting a frame\<close>

lemma read_bytes_take:
  "off + k \<le> n \<Longrightarrow> n \<le> length raw \<Longrightarrow> read_bytes off k (take n raw) = read_bytes off k raw"
  by (simp add: read_bytes_def drop_take min_def)

lemma decode_take:
  assumes "sizeof_CommonMessageHeader \<le> length raw"
  shows "decode_CommonMessageHeader (take sizeof_CommonMessageHeader raw) = decode_CommonMessageHeader raw"
  using assms
  by (simp add: decode_CommonMessageHeader_def sizeof_CommonMessageHeader_def read_u8_def read_u32_def
      read_u64_def read_word_def read_bytes_take)

lemma frame_end_position:
  assumes "frame h msg"
  shows "4 * unat (totalMessageSize h div 4 - 1) = length msg - 4"
proof -
  from assms have l: "unat (totalMessageSize h) = length msg" "4 dvd length msg" "40 \<le> length msg"
    by (simp_all add: frame_def)
  then have d: "unat (totalMessageSize h div 4) = length msg div 4"
    by (simp add: unat_div)
  then have "1 \<le> totalMessageSize h div 4" using l(3) by (simp add: word_le_nat_alt)
  then have "unat (totalMessageSize h div 4 - 1) = length msg div 4 - 1"
    by (simp add: unat_sub d)
  with l(2) show ?thesis by (simp add: right_diff_distrib')
qed

lemma frame_checks:
  assumes f: "frame h msg" and r: "ring_ok rb (msg @ rest)"
  shows "getObject rb sizeof_CommonMessageHeader = Some (take sizeof_CommonMessageHeader msg)"
    and "decode_CommonMessageHeader (take sizeof_CommonMessageHeader msg) = Inr h"
    and "getDataPointer rb (unat (totalMessageSize h)) = Some msg"
    and "check_delimiter h msg = Inr True"
proof -
  from f have l: "40 \<le> length msg" by (simp add: frame_def)
  then show "getObject rb sizeof_CommonMessageHeader = Some (take sizeof_CommonMessageHeader msg)"
    using r by (simp add: ring_ok_def sizeof_CommonMessageHeader_def)
  show "decode_CommonMessageHeader (take sizeof_CommonMessageHeader msg) = Inr h"
    using f l by (subst decode_take) (simp_all add: frame_def sizeof_CommonMessageHeader_def)
  show "getDataPointer rb (unat (totalMessageSize h)) = Some msg"
    using f r by (simp add: frame_def ring_ok_def)
  show "check_delimiter h msg = Inr True"
    using f frame_end_position [OF f] by (simp add: check_delimiter_def Let_def frame_def)
qed

text \<open>The reply handler forgets the message a reply answers, before the reply is processed.\<close>

definition settle :: "CommonMessageHeader \<Rightarrow> ('sm, 'buf) world \<Rightarrow> ('sm, 'buf) world" where
  "settle h w = (if and (flags h) 0x2 \<noteq> 0
     then w\<lparr>w_reply := snd (removeMessage (sessionId h) (ucast (messageId h)) (w_reply w))\<rparr> else w)"

lemma settle_sel [simp]:
  "w_heap (settle h w) = w_heap w" "w_trace (settle h w) = w_trace w"
  "w_handler (settle h w) = w_handler w" "w_blocker (settle h w) = w_blocker w"
  "w_next (settle h w) = w_next w" "w_rand (settle h w) = w_rand w"
  by (simp_all add: settle_def)

lemma processMessage_frame:
  assumes "frame h msg" and "ring_ok rb (msg @ rest)"
  shows "processMessage env p rb w = dispatch env p h msg (settle h w)"
  using frame_checks [OF assms] assms(1)
  by (simp add: processMessage_def frame_def settle_def)

text \<open>
  Nothing is taken from the buffer and nothing happens as long as the header or the rest of a
  message has not arrived completely.
\<close>

lemma incomplete_message_waits:
  assumes "frame h msg" and "ring_ok rb (take k msg)" and "k < length msg"
  shows "processMessage env p rb w = Inr (0, w)"
proof (cases "k < sizeof_CommonMessageHeader")
  case True
  with assms(2,3) show ?thesis by (simp add: processMessage_def ring_ok_def)
next
  case False
  then have "take sizeof_CommonMessageHeader (take k msg) = take sizeof_CommonMessageHeader msg"
    by simp
  then have o: "getObject rb sizeof_CommonMessageHeader = Some (take sizeof_CommonMessageHeader msg)"
    using assms(2,3) False by (simp add: ring_ok_def min_def)
  have "decode_CommonMessageHeader (take sizeof_CommonMessageHeader msg) = Inr h"
    using frame_checks(2) [OF assms(1) list_ring_ok] .
  moreover have "getDataPointer rb (unat (totalMessageSize h)) = None"
    using assms by (simp add: ring_ok_def frame_def)
  ultimately show ?thesis
    using o assms(1) by (simp add: processMessage_def frame_def)
qed

section \<open>Header fields behind the cast pointer\<close>

lemma header_field_reads [wire_simps]:
  "message_flags (encode_CommonMessageHeader h @ rest) = Inr (flags h)"
  "message_id_field (encode_CommonMessageHeader h @ rest) = Inr (messageId h)"
  "message_payloadSize (encode_CommonMessageHeader h @ rest) = Inr (payloadSize h)"
  by (simp_all add: message_field_defs encode_CommonMessageHeader_def read_simps)

lemma read_behind_header [wire_simps]:
  "sizeof_CommonMessageHeader \<le> off \<Longrightarrow>
     read_bytes off k (encode_CommonMessageHeader h @ rest) = read_bytes (off - sizeof_CommonMessageHeader) k rest"
  "sizeof_CommonMessageHeader \<le> off \<Longrightarrow>
     read_u32 off (encode_CommonMessageHeader h @ rest) = read_u32 (off - sizeof_CommonMessageHeader) rest"
  "sizeof_CommonMessageHeader \<le> off \<Longrightarrow>
     read_u64 off (encode_CommonMessageHeader h @ rest) = read_u64 (off - sizeof_CommonMessageHeader) rest"
  by (simp_all add: read_simps)

lemma flag_bits:
  "and (1 :: u8) 2 = 0" "and (9 :: u8) 2 = 0" "and (9 :: u8) 8 = 8" "and (9 :: u8) 1 = 1"
  "and (1 :: u8) 8 = 0" "and (8 :: u8) 2 = 0" "and (8 :: u8) 1 = 0" "and (2 :: u8) 1 = 0"
  "and (8 :: u8) 8 = 8" "and (2 :: u8) 2 = 2"
  by simp_all

section \<open>Stream messages\<close>

lemma stream_frame:
  assumes "length payload = unat n" and "length pad = padding_size (unat n)"
    and "fits_buffer sizeof_Data_Stream_Header (unat n)"
  shows "frame (stream_header sid mid reply n) (payload_message (stream_header sid mid reply n) [] payload pad)"
  by (rule payload_frame(1) [where extra = "[]" and hs = sizeof_Data_Stream_Header and n = n])
    (use assms in \<open>simp_all add: payload_message_def stream_header_def sizeof_values new_message_defs\<close>)

lemma process_Data_Stream_reads:
  assumes "w_heap w p = Some s" and "m_processStreamData s = Some f" and "passive_client env"
    and "m_socket s = Some sk" and "message_payloadSize raw = Inr n"
    and "take (unat n) (drop sizeof_Data_Stream_Header raw) = payload"
    and "message_flags raw = Inr fl" and "message_id_field raw = Inr mid"
  shows "process_Data_Stream env p raw w =
    (let w1 = log_event (Client (Stream_Data f (m_streamReceiver s) p payload (ucast n))) w in
     if and fl 0x1 \<noteq> 0
     then Inr (snd (delivered env p sk (dsr_commonHeader (stream_reply_msg (m_sessionId s) mid))
                 (encode_Data_StreamReply_Message (stream_reply_msg (m_sessionId s) mid)) w1))
     else Inr w1)"
proof -
  let ?w1 = "log_event (Client (Stream_Data f (m_streamReceiver s) p payload (ucast n))) w"
  have "w_heap ?w1 p = Some s" using assms(1) by simp
  from send_Data_Stream_Reply_delivered [OF this assms(4), of env mid] show ?thesis
    using assms by (simp add: process_Data_Stream_def call_client_passive case_prod_beta Let_def
        del: call_client_simps)
qed

lemma process_stream:
  assumes "w_heap w p = Some s" and "m_processStreamData s = Some f" and "passive_client env"
    and "m_socket s = Some sk" and "length payload = unat n"
  shows "\<exists>w' r. dispatch env p (stream_header sid mid reply n)
      (payload_message (stream_header sid mid reply n) [] payload pad) w
    = Inr (ucast (totalMessageSize (stream_header sid mid reply n)), w')
    \<and> w_trace w' = w_trace w @ Client (Stream_Data f (m_streamReceiver s) p payload (ucast n)) #
        (if reply then [Net (Send_Message sk (encode_Data_StreamReply_Message
           (stream_reply_msg (m_sessionId s) mid))) r] else [])
    \<and> w_heap w' = w_heap w"
proof -
  let ?h = "stream_header sid mid reply n"
  let ?msg = "payload_message ?h [] payload pad"
  let ?ev = "Client (Stream_Data f (m_streamReceiver s) p payload (ucast n))"
  have reads: "message_payloadSize ?msg = Inr n" "message_id_field ?msg = Inr mid"
    "message_flags ?msg = Inr (if reply then 1 else 0)"
    "read_bytes sizeof_Data_Stream_Header (unat n) ?msg = Inr payload"
    using assms(5)
    by (simp_all add: payload_message_def wire_simps sizeof_values read_simps)
      (simp_all add: stream_header_def)
  have kind: "types_of (mtype ?h) = Some STREAM_DATA_TYPE"
    "stream_data_subTypes_of (subType ?h) = Some DATA_STREAM_STATIC_SUBTYPE"
    by (simp_all add: stream_header_def new_message_defs types_of_def stream_data_subTypes_of_def)
  have "dispatch env p ?h ?msg w = then_do (process_Data_Stream env p ?msg w)
      (\<lambda>w1. Inr (ucast (totalMessageSize ?h), w1))"
    by (simp add: dispatch_def process_Stream_Data_Type_def kind)
  moreover have "process_Data_Stream env p ?msg w = (if reply
      then Inr (snd (delivered env p sk (dsr_commonHeader (stream_reply_msg (m_sessionId s) mid))
                 (encode_Data_StreamReply_Message (stream_reply_msg (m_sessionId s) mid)) (log_event ?ev w)))
      else Inr (log_event ?ev w))"
    using process_Data_Stream_reads [OF assms(1-4) reads(1) read_bytes_SomeD [OF reads(4)] reads(3,2)] by simp
  ultimately show ?thesis by simp
qed

section \<open>Single-block messages\<close>

definition filled_buffer :: "('sm, 'buf) env \<Rightarrow> byte list \<Rightarrow> 'buf" where
  "filled_buffer env payload = snd (db_add (e_db env)
     (db_new (e_db env) (db_calcBytesToBlocks (e_db env) (length payload))) payload)"

lemma filled_buffer_content:
  "databuffer_ok (e_db env) content \<Longrightarrow> content (filled_buffer env payload) = payload"
  by (simp add: filled_buffer_def databuffer_ok_def)

lemma single_frame:
  assumes "length payload = unat n" and "length pad = padding_size (unat n)" and "length pad4 = 4"
    and "fits_buffer sizeof_Data_SingleBlock_Header (unat n)"
  shows "frame (single_header sid mid bid n)
    (payload_message (single_header sid mid bid n) (single_extra mbid bid pad4) payload pad)"
  by (rule payload_frame(1) [where extra = "single_extra mbid bid pad4"
        and hs = sizeof_Data_SingleBlock_Header and n = n])
    (use assms in \<open>simp_all add: payload_message_def single_header_def single_extra_def sizeof_values
      new_message_defs\<close>)

lemma single_reads:
  assumes "length payload = unat n" and "length pad4 = 4"
  shows "message_payloadSize (payload_message (single_header sid mid bid n)
      (single_extra mbid bid pad4) payload pad) = Inr n"
    and "message_id_field (payload_message (single_header sid mid bid n)
      (single_extra mbid bid pad4) payload pad) = Inr mid"
    and "message_flags (payload_message (single_header sid mid bid n)
      (single_extra mbid bid pad4) payload pad) = Inr (if bid = 0 then 1 else 9)"
    and "read_bytes sizeof_Data_SingleBlock_Header (unat n) (payload_message (single_header sid mid bid n)
      (single_extra mbid bid pad4) payload pad) = Inr payload"
    and "read_u64 32 (payload_message (single_header sid mid bid n)
      (single_extra mbid bid pad4) payload pad) = Inr mbid"
    and "read_u64 40 (payload_message (single_header sid mid bid n)
      (single_extra mbid bid pad4) payload pad) = Inr bid"
  using assms
  by (simp_all add: payload_message_def single_extra_def wire_simps sizeof_values read_simps)
    (simp_all add: single_header_def)

lemma single_kind:
  "types_of (mtype (single_header sid mid bid n)) = Some SINGLEBLOCK_DATA_TYPE"
  "singleblock_data_subTypes_of (subType (single_header sid mid bid n)) = Some DATA_SINGLE_DATA_SUBTYPE"
  by (simp_all add: single_header_def new_message_defs types_of_def singleblock_data_subTypes_of_def)

lemma single_reply:
  assumes "w_heap w p = Some s" and "m_socket s = Some sk"
  shows "then_do (send_Data_SingleBlock_Reply env p mid w) (\<lambda>(sent, w2). Inr w2)
    = Inr (snd (delivered env p sk (dbr_commonHeader (single_reply_msg (m_sessionId s) mid))
        (encode_Data_SingleBlockReply_Message (single_reply_msg (m_sessionId s) mid)) w))"
  by (simp add: send_Data_SingleBlock_Reply_delivered [OF assms] case_prod_beta)

text \<open>A message that is not a response is given to the application, and acknowledged.\<close>

lemma process_single_request:
  assumes s: "w_heap w p = Some s" "m_socket s = Some sk" and f: "m_processRequestData s = Some f"
    and pc: "passive_client env" and l: "length payload = unat n" "length pad4 = 4"
  shows "\<exists>w' r. dispatch env p (single_header sid mid 0 n)
      (payload_message (single_header sid mid 0 n) (single_extra mbid 0 pad4) payload pad) w
    = Inr (ucast (totalMessageSize (single_header sid mid 0 n)), w')
    \<and> w_trace w' = w_trace w @ [Client (Request_Data f (m_standaloneReceiver s) p mbid
          (Some (filled_buffer env payload))),
        Net (Send_Message sk (encode_Data_SingleBlockReply_Message
          (single_reply_msg (m_sessionId s) mid))) r]
    \<and> w_heap w' = w_heap w \<and> w_blocker w' = w_blocker w
    \<and> w_rand w' = w_rand w"
proof -
  let ?ev = "Client (Request_Data f (m_standaloneReceiver s) p mbid (Some (filled_buffer env payload)))"
  have "w_heap (log_event ?ev w) p = Some s" using s by simp
  note reply = single_reply [OF this s(2), of env mid]
  show ?thesis
    using s f pc l reply
    by (simp add: dispatch_def process_SingleBlock_Data_Type_def single_kind process_Data_SingleBlock_def
        single_reads [OF l] call_client_passive Let_def filled_buffer_def del: call_client_simps)
qed

text \<open>A response releases the request it names, and is acknowledged.\<close>

lemma process_single_response:
  assumes s: "w_heap w p = Some s" "m_socket s = Some sk" and bid: "bid \<noteq> 0"
    and l: "length payload = unat n" "length pad4 = 4"
    and rel: "releaseMessage bid (Some (filled_buffer env payload)) (w_blocker w) = Inr (found, b)"
  shows "\<exists>w' r. dispatch env p (single_header sid mid bid n)
      (payload_message (single_header sid mid bid n) (single_extra mbid bid pad4) payload pad) w
    = Inr (ucast (totalMessageSize (single_header sid mid bid n)), w')
    \<and> w_trace w' = w_trace w @ [Net (Send_Message sk (encode_Data_SingleBlockReply_Message
          (single_reply_msg (m_sessionId s) mid))) r]
    \<and> w_heap w' = w_heap w \<and> w_blocker w' = b"
proof -
  have "w_heap (w\<lparr>w_blocker := b\<rparr>) p = Some s" using s by simp
  note reply = single_reply [OF this s(2), of env mid]
  show ?thesis
    using s bid reply rel l
    by (simp add: dispatch_def process_SingleBlock_Data_Type_def single_kind process_Data_SingleBlock_def
        single_reads [OF l] Let_def filled_buffer_def release_request_def)
qed

section \<open>Multi-block messages\<close>

lemma multi_frame:
  assumes "length payload = unat n" and "length pad = padding_size (unat n)"
    and "fits_buffer sizeof_Data_MultiBlock_Header (unat n)"
  shows "frame (multi_header sid mid bid n)
    (payload_message (multi_header sid mid bid n) (multi_extra psize mbid parts k) payload pad)"
  by (rule payload_frame(1) [where extra = "multi_extra psize mbid parts k"
        and hs = sizeof_Data_MultiBlock_Header and n = n])
    (use assms in \<open>simp_all add: payload_message_def multi_header_def multi_extra_def sizeof_values
      new_message_defs\<close>)

lemma multi_reads:
  fixes sid mid bid psize mbid parts k and payload pad :: "byte list"
  assumes "length payload = unat n"
  defines "msg \<equiv> payload_message (multi_header sid mid bid n) (multi_extra psize mbid parts k) payload pad"
  shows "message_payloadSize msg = Inr n" and "read_u64 32 msg = Inr psize"
    and "read_u64 40 msg = Inr mbid" and "read_u32 52 msg = Inr k"
    and "drop sizeof_Data_MultiBlock_Header msg
      = payload @ pad @ encode_CommonMessageFooter new_CommonMessageFooter"
  using assms
  by (simp_all add: payload_message_def multi_extra_def wire_simps sizeof_values read_simps)
    (simp_all add: multi_header_def)

lemma multi_kind:
  "types_of (mtype (multi_header sid mid bid n)) = Some MULTIBLOCK_DATA_TYPE"
  "multiblock_data_subTypes_of (subType (multi_header sid mid bid n)) = Some DATA_MULTI_STATIC_SUBTYPE"
  by (simp_all add: multi_header_def new_message_defs types_of_def multiblock_data_subTypes_of_def)

lemma process_Data_Multiblock_reads:
  assumes "w_heap w p = Some s" and "read_u32 52 raw = Inr k" and "read_u64 40 raw = Inr mbid"
    and "read_u64 32 raw = Inr psize" and "message_payloadSize raw = Inr n"
    and "writeIntoIncomingBuffer (e_db env) mbid (drop sizeof_Data_MultiBlock_Header raw) (ucast n)
      (if k = 0 then snd (createIncomingBuffer (e_db env) mbid psize (m_multiblockIo s))
       else m_multiblockIo s) = Inr (written, io')"
  shows "process_Data_Multiblock env p raw w = Inr (set_session p (s\<lparr>m_multiblockIo := io'\<rparr>) w)"
  using assms by (cases "k = 0") (simp_all add: process_Data_Multiblock_def)

lemma process_part:
  assumes s: "w_heap w p = Some s" and db: "databuffer_ok (e_db env) content"
    and io: "io_ok (m_multiblockIo s)" and l: "length payload = unat n"
    and bytes: "io_bytes content mbid (m_multiblockIo s) = (if k = 0 then None else Some xs)"
  shows "\<exists>io'. dispatch env p (multi_header sid mid 0 n)
      (payload_message (multi_header sid mid 0 n) (multi_extra psize mbid parts k) payload pad) w
    = Inr (ucast (totalMessageSize (multi_header sid mid 0 n)),
           set_session p (s\<lparr>m_multiblockIo := io'\<rparr>) w)
    \<and> io_ok io' \<and> m_abort io' = m_abort (m_multiblockIo s)
    \<and> io_bytes content mbid io' = Some ((if k = 0 then [] else xs) @ payload)
    \<and> (\<forall>j. j \<noteq> mbid \<longrightarrow> io_bytes content j io' = io_bytes content j (m_multiblockIo s))"
proof -
  let ?msg = "payload_message (multi_header sid mid 0 n) (multi_extra psize mbid parts k) payload pad"
  note reads = multi_reads [OF l, of sid mid 0 psize mbid parts k pad]
  define io1 where "io1 = (if k = 0
      then snd (createIncomingBuffer (e_db env) mbid psize (m_multiblockIo s)) else m_multiblockIo s)"
  have io1: "io_ok io1" "io_bytes content mbid io1 = Some (if k = 0 then [] else xs)"
    "j \<noteq> mbid \<Longrightarrow> io_bytes content j io1 = io_bytes content j (m_multiblockIo s)" for j
    using createIncomingBuffer_ok [OF db io] createIncomingBuffer_bytes(2) [OF db io] io bytes
    by (simp_all add: io1_def)
  have n: "unat (ucast n :: u64) = unat n" by (simp add: unat_ucast_up)
  have "unat (ucast n :: u64) \<le> length (drop sizeof_Data_MultiBlock_Header ?msg)"
    unfolding n reads(5) using l by simp
  from writeIntoIncomingBuffer_found [OF db io1(1,2) this] obtain io' where
    io': "writeIntoIncomingBuffer (e_db env) mbid (drop sizeof_Data_MultiBlock_Header ?msg) (ucast n) io1
        = Inr (True, io')" "io_ok io'"
      "\<forall>j. io_bytes content j io' = (if j = mbid then Some ((if k = 0 then [] else xs) @
        take (unat (ucast n :: u64)) (drop sizeof_Data_MultiBlock_Header ?msg)) else io_bytes content j io1)"
    by auto
  have "take (unat (ucast n :: u64)) (drop sizeof_Data_MultiBlock_Header ?msg) = payload"
    unfolding n reads(5) using l by simp
  moreover have "dispatch env p (multi_header sid mid 0 n) ?msg w
      = Inr (ucast (totalMessageSize (multi_header sid mid 0 n)), set_session p (s\<lparr>m_multiblockIo := io'\<rparr>) w)"
    using process_Data_Multiblock_reads [OF s reads(4,3,2,1) io'(1) [unfolded io1_def]]
    by (simp add: dispatch_def process_MultiBlock_Data_Type_def multi_kind)
  moreover have "m_abort io' = m_abort (m_multiblockIo s)"
    using multiblock_abort_flag(3) [OF io'(1)] by (simp add: io1_def multiblock_abort_flag)
  ultimately show ?thesis using io'(2,3) io1(3) by (intro exI [of _ io']) simp
qed

lemma finish_frame:
  "frame (dmf_commonHeader (multi_finish_msg sid mid mbid bid))
     (encode_Data_MultiFinish_Message (multi_finish_msg sid mid mbid bid))"
  by (rule multi_finish.encode_frame) (simp_all add: multi_finish_msg_def new_message_defs)

lemma finish_reads:
  "message_flags (encode_Data_MultiFinish_Message (multi_finish_msg sid mid mbid bid))
    = Inr (if bid = 0 then 0 else 8)"
  "read_u64 32 (encode_Data_MultiFinish_Message (multi_finish_msg sid mid mbid bid)) = Inr mbid"
  "read_u64 40 (encode_Data_MultiFinish_Message (multi_finish_msg sid mid mbid bid)) = Inr bid"
  by (simp_all add: encode_message_defs wire_simps sizeof_values read_simps multi_finish_msg_def)

lemma finish_kind:
  "types_of (mtype (dmf_commonHeader (multi_finish_msg sid mid mbid bid))) = Some MULTIBLOCK_DATA_TYPE"
  "multiblock_data_subTypes_of (subType (dmf_commonHeader (multi_finish_msg sid mid mbid bid)))
    = Some DATA_MULTI_FINISH_SUBTYPE"
  by (simp_all add: multi_finish_msg_def new_message_defs types_of_def multiblock_data_subTypes_of_def)

text \<open>
  At the end of a message its buffer goes to the application or to the request it answers, and
  leaves the map. An identifier without a buffer gives a null pointer.
\<close>

lemma process_finish_request:
  assumes s: "w_heap w p = Some s" and f: "m_processRequestData s = Some f" and pc: "passive_client env"
  shows "dispatch env p (dmf_commonHeader (multi_finish_msg sid mid mbid 0))
      (encode_Data_MultiFinish_Message (multi_finish_msg sid mid mbid 0)) w
    = Inr (ucast (totalMessageSize (dmf_commonHeader (multi_finish_msg sid mid mbid 0))),
        set_session p (s\<lparr>m_multiblockIo := snd (removeMultiblockBuffer mbid (m_multiblockIo s))\<rparr>)
          (log_event (Client (Request_Data f (m_standaloneReceiver s) p mbid
             (incomingData (getIncomingBuffer mbid (m_multiblockIo s))))) w))"
  using s f pc
  by (simp add: dispatch_def process_MultiBlock_Data_Type_def finish_kind process_Data_Multi_Finish_def
      finish_reads call_client_passive Let_def change_session_def del: call_client_simps)

lemma process_finish_response:
  assumes s: "w_heap w p = Some s" and bid: "bid \<noteq> 0"
    and rel: "releaseMessage bid (incomingData (getIncomingBuffer mbid (m_multiblockIo s))) (w_blocker w)
      = Inr (found, b)"
  shows "dispatch env p (dmf_commonHeader (multi_finish_msg sid mid mbid bid))
      (encode_Data_MultiFinish_Message (multi_finish_msg sid mid mbid bid)) w
    = Inr (ucast (totalMessageSize (dmf_commonHeader (multi_finish_msg sid mid mbid bid))),
        set_session p (s\<lparr>m_multiblockIo := snd (removeMultiblockBuffer mbid (m_multiblockIo s))\<rparr>)
          (w\<lparr>w_blocker := b\<rparr>))"
  using s bid rel
  by (simp add: dispatch_def process_MultiBlock_Data_Type_def finish_kind process_Data_Multi_Finish_def
      finish_reads release_request_def Let_def change_session_def)

lemma incoming_buffer_content:
  assumes "io_ok io" and "io_bytes content mbid io = Some xs"
  shows "\<exists>buf. incomingData (getIncomingBuffer mbid io) = Some buf \<and> content buf = xs"
  using assms(2) by (auto simp: io_bytes_def getIncomingBuffer_def split: option.splits)

section \<open>The reading loop of a socket\<close>

text \<open>
  How the result of processMessage is used: the socket drops as many bytes as it is told and asks
  again until nothing is taken. The class is not part of the repository; this loop is the documented
  use of the callback ("number of bytes, which were taken from the buffer").
\<close>

fun socket_reads ::
    "nat \<Rightarrow> ('sm, 'buf) env \<Rightarrow> ptr \<Rightarrow> byte list \<Rightarrow> ('sm, 'buf) world \<Rightarrow> fault + byte list \<times> ('sm, 'buf) world" where
  "socket_reads 0 env p buffered w = Inr (buffered, w)"
| "socket_reads (Suc k) env p buffered w =
     then_do (processMessage env p (list_ring buffered) w) (\<lambda>(taken, w1).
       if taken = 0 then Inr (buffered, w1)
       else socket_reads k env p (drop (unat taken) buffered) w1)"

lemma socket_reads_frame:
  assumes "frame h msg" and "dispatch env p h msg (settle h w) = Inr (ucast (totalMessageSize h), w1)"
  shows "socket_reads (Suc k) env p (msg @ rest) w = socket_reads k env p rest w1"
proof -
  from assms(1) have l: "unat (totalMessageSize h) = length msg" "40 \<le> length msg"
    by (simp_all add: frame_def)
  then have u: "unat (ucast (totalMessageSize h) :: u64) = length msg" by (simp add: unat_ucast_up)
  then have "ucast (totalMessageSize h) \<noteq> (0 :: u64)" using l(2) by (metis unat_0 not_numeral_le_zero)
  then show ?thesis
    using processMessage_frame [OF assms(1) list_ring_ok [of "msg @ rest"], of env p w] assms(2) u by simp
qed

lemma settle_no_reply [simp]: "and (flags h) 2 = 0 \<Longrightarrow> settle h w = w"
  by (simp add: settle_def)

text \<open>All parts of a message, one after the other.\<close>

lemma socket_reads_parts:
  assumes db: "databuffer_ok (e_db env) content"
  shows "are_parts sid psize mbid parts mid k cs ms \<Longrightarrow> w_heap w p = Some s \<Longrightarrow>
    io_ok (m_multiblockIo s) \<Longrightarrow> unat k + length cs < 2 ^ 32 \<Longrightarrow>
    \<forall>c \<in> set cs. fits_buffer sizeof_Data_MultiBlock_Header (length c) \<Longrightarrow>
    io_bytes content mbid (m_multiblockIo s) = (if k = 0 then None else Some xs) \<Longrightarrow>
    (k = 0 \<longrightarrow> cs \<noteq> [] \<and> xs = []) \<Longrightarrow>
    \<exists>io'. socket_reads (length cs + j) env p (concat ms @ rest) w
        = socket_reads j env p rest (set_session p (s\<lparr>m_multiblockIo := io'\<rparr>) w)
      \<and> io_ok io' \<and> m_abort io' = m_abort (m_multiblockIo s)
      \<and> io_bytes content mbid io' = Some (xs @ concat cs)
      \<and> (\<forall>i. i \<noteq> mbid \<longrightarrow> io_bytes content i io' = io_bytes content i (m_multiblockIo s))"
proof (induction cs arbitrary: mid k ms w s xs)
  case Nil
  have "set_session p (s\<lparr>m_multiblockIo := m_multiblockIo s\<rparr>) w = w"
    using Nil.prems(2) by (simp add: set_session_def fun_upd_idem)
  with Nil.prems show ?case by (intro exI [of _ "m_multiblockIo s"]) (auto split: if_splits)
next
  case (Cons c cs)
  from Cons.prems(1) obtain m ms' where ms: "ms = m # ms'"
    and m: "is_part sid (mid + 1) psize mbid parts k c m"
    and rest_parts: "are_parts sid psize mbid parts (mid + 1) (k + 1) cs ms'"
    by (cases ms) auto
  let ?n = "word_of_nat (length c) :: u32"
  have fit: "fits_buffer sizeof_Data_MultiBlock_Header (length c)" using Cons.prems(5) by simp
  then have n: "length c = unat ?n"
    by (simp add: unat_of_nat fits_buffer_def MESSAGE_CACHE_SIZE_def)
  from m obtain pad where pad: "length pad = padding_size (length c)"
    and mdef: "m = payload_message (multi_header sid (mid + 1) 0 ?n) (multi_extra psize mbid parts k) c pad"
    by (auto simp: is_part_def)
  have frame: "frame (multi_header sid (mid + 1) 0 ?n) m"
    unfolding mdef using n pad fit by (intro multi_frame) simp_all
  from process_part [OF Cons.prems(2) db Cons.prems(3) n Cons.prems(6), of sid "mid + 1" psize parts pad]
  obtain io1 where io1: "dispatch env p (multi_header sid (mid + 1) 0 ?n) m w
      = Inr (ucast (totalMessageSize (multi_header sid (mid + 1) 0 ?n)),
             set_session p (s\<lparr>m_multiblockIo := io1\<rparr>) w)"
    "io_ok io1" "m_abort io1 = m_abort (m_multiblockIo s)"
    "io_bytes content mbid io1 = Some ((if k = 0 then [] else xs) @ c)"
    "\<forall>i. i \<noteq> mbid \<longrightarrow> io_bytes content i io1 = io_bytes content i (m_multiblockIo s)"
    unfolding mdef by blast
  let ?s1 = "s\<lparr>m_multiblockIo := io1\<rparr>"
  let ?w1 = "set_session p ?s1 w"
  have xs: "(if k = 0 then [] else xs) @ c = xs @ c" using Cons.prems(7) by simp
  have k1: "unat (k + 1) = unat k + 1" using Cons.prems(4) by (simp add: unat_word_ariths)
  then have knz: "k + 1 \<noteq> 0" by (metis Suc_eq_plus1 nat.simps(3) unat_0)
  have "\<exists>io'. socket_reads (length cs + j) env p (concat ms' @ rest) ?w1
        = socket_reads j env p rest (set_session p (?s1\<lparr>m_multiblockIo := io'\<rparr>) ?w1)
      \<and> io_ok io' \<and> m_abort io' = m_abort (m_multiblockIo ?s1)
      \<and> io_bytes content mbid io' = Some ((xs @ c) @ concat cs)
      \<and> (\<forall>i. i \<noteq> mbid \<longrightarrow> io_bytes content i io' = io_bytes content i (m_multiblockIo ?s1))"
    by (rule Cons.IH [OF rest_parts]) (use io1 xs k1 knz Cons.prems(4,5) in simp_all)
  moreover have "and (flags (multi_header sid (mid + 1) 0 ?n)) 2 = 0"
    by (simp add: multi_header_def)
  then have "socket_reads (length (c # cs) + j) env p (concat ms @ rest) w
      = socket_reads (length cs + j) env p (concat ms' @ rest) ?w1"
    using socket_reads_frame [OF frame, where env = env and p = p and w = w and k = "length cs + j" and rest = "concat ms' @ rest"] io1(1)
    by (simp add: ms)
  ultimately show ?case using io1(3,5) by (simp add: world_norm)
qed

end
