(* ===== verification/Handshake.thy ===== *)
theory Handshake
  imports Receiving
begin

text \<open>
  The messages that open and close a session, on the receiving side, and the heartbeats.
\<close>

section \<open>Frames and reads\<close>

lemma init_start_frame:
  assumes "length (ident @ pad) = 64000"
  shows "frame (sis_commonHeader (init_start_msg sid mid ident pad))
    (encode_Session_Init_Start_Message (init_start_msg sid mid ident pad))"
  by (rule init_start.encode_frame) (use assms in \<open>simp_all add: init_start_msg_def new_message_defs\<close>)

lemma init_reply_frame:
  assumes "length (ident @ pad) = 64000" and "length pad4 = 4"
  shows "frame (sir_commonHeader (init_reply_msg sid mid csid ident pad pad4))
    (encode_Session_Init_Reply_Message (init_reply_msg sid mid csid ident pad pad4))"
  by (rule init_reply.encode_frame) (use assms in \<open>simp_all add: init_reply_msg_def new_message_defs\<close>)

lemma close_start_frame:
  assumes "length pad4 = 4"
  shows "frame (scs_commonHeader (close_start_msg sid mid reply pad4))
    (encode_Session_Close_Start_Message (close_start_msg sid mid reply pad4))"
  by (rule close_start.encode_frame) (use assms in \<open>simp_all add: close_start_msg_def new_message_defs\<close>)

lemma close_reply_frame:
  assumes "length pad4 = 4"
  shows "frame (scr_commonHeader (close_reply_msg sid mid pad4))
    (encode_Session_Close_Reply_Message (close_reply_msg sid mid pad4))"
  by (rule close_reply.encode_frame) (use assms in \<open>simp_all add: close_reply_msg_def new_message_defs\<close>)

lemma heartbeat_start_frame:
  "frame (hbs_commonHeader (heartbeat_start_msg sid mid))
    (encode_Heartbeat_Start_Message (heartbeat_start_msg sid mid))"
  by (rule heartbeat_start.encode_frame) (simp_all add: heartbeat_start_msg_def new_message_defs)

lemma heartbeat_reply_frame:
  "frame (hbr_commonHeader (heartbeat_reply_msg sid mid))
    (encode_Heartbeat_Reply_Message (heartbeat_reply_msg sid mid))"
  by (rule heartbeat_reply.encode_frame) (simp_all add: heartbeat_reply_msg_def new_message_defs)

lemma init_start_reads:
  fixes sid mid and ident pad :: "byte list"
  assumes "length (ident @ pad) = 64000"
  defines "raw \<equiv> encode_Session_Init_Start_Message (init_start_msg sid mid ident pad)"
  shows "read_u32 32 raw = Inr sid" and "read_u32 64036 raw = Inr (word_of_nat (length ident))"
    and "read_bytes 36 (length ident) raw = Inr ident" and "message_id_field raw = Inr mid"
proof -
  have raw: "raw = encode_CommonMessageHeader (sis_commonHeader (init_start_msg sid mid ident pad)) @
      put_u32 sid @ (ident @ pad) @ put_u32 (word_of_nat (length ident)) @
      encode_CommonMessageFooter new_CommonMessageFooter"
    by (simp add: raw_def encode_message_defs init_start_msg_def new_message_defs)
  show "read_u32 32 raw = Inr sid"
    by (simp add: raw wire_simps sizeof_values read_simps)
  have "read_u32 64036 raw = read_u32 64000 ((ident @ pad) @ put_u32 (word_of_nat (length ident)) @
      encode_CommonMessageFooter new_CommonMessageFooter)"
    by (simp add: raw wire_simps sizeof_values read_simps del: append_assoc)
  also have "\<dots> = Inr (word_of_nat (length ident))"
    by (subst read_skip(2)) (simp_all only: assms(1) le_refl diff_self_eq_0 read_put_head)
  finally show "read_u32 64036 raw = Inr (word_of_nat (length ident))" .
  have "read_bytes 36 (length ident) raw = read_bytes 0 (length ident) (ident @ pad @
      put_u32 (word_of_nat (length ident)) @ encode_CommonMessageFooter new_CommonMessageFooter)"
    by (simp add: raw wire_simps sizeof_values read_simps)
  then show "read_bytes 36 (length ident) raw = Inr ident" by (simp add: read_bytes_head)
  show "message_id_field raw = Inr mid"
    by (simp add: raw wire_simps) (simp add: init_start_msg_def)
qed

lemma init_reply_reads:
  fixes sid mid csid and ident pad pad4 :: "byte list"
  assumes "length (ident @ pad) = 64000"
  defines "raw \<equiv> encode_Session_Init_Reply_Message (init_reply_msg sid mid csid ident pad pad4)"
  shows "read_u32 32 raw = Inr sid" and "read_u32 36 raw = Inr csid"
    and "read_u32 64040 raw = Inr (word_of_nat (length ident))"
    and "read_bytes 40 (length ident) raw = Inr ident"
proof -
  have raw: "raw = encode_CommonMessageHeader (sir_commonHeader (init_reply_msg sid mid csid ident pad pad4)) @
      put_u32 sid @ put_u32 csid @ (ident @ pad) @ put_u32 (word_of_nat (length ident)) @ pad4 @
      encode_CommonMessageFooter new_CommonMessageFooter"
    by (simp add: raw_def encode_message_defs init_reply_msg_def new_message_defs)
  show "read_u32 32 raw = Inr sid" and "read_u32 36 raw = Inr csid"
    by (simp_all add: raw wire_simps sizeof_values read_simps)
  have "read_u32 64040 raw = read_u32 64000 ((ident @ pad) @ put_u32 (word_of_nat (length ident)) @ pad4 @
      encode_CommonMessageFooter new_CommonMessageFooter)"
    by (simp add: raw wire_simps sizeof_values read_simps del: append_assoc)
  also have "\<dots> = Inr (word_of_nat (length ident))"
    by (subst read_skip(2)) (simp_all only: assms(1) le_refl diff_self_eq_0 read_put_head)
  finally show "read_u32 64040 raw = Inr (word_of_nat (length ident))" .
  have "read_bytes 40 (length ident) raw = read_bytes 0 (length ident) (ident @ pad @
      put_u32 (word_of_nat (length ident)) @ pad4 @ encode_CommonMessageFooter new_CommonMessageFooter)"
    by (simp add: raw wire_simps sizeof_values read_simps)
  then show "read_bytes 40 (length ident) raw = Inr ident" by (simp add: read_bytes_head)
qed

lemma close_reads:
  "read_u32 32 (encode_Session_Close_Start_Message (close_start_msg sid mid reply pad4)) = Inr 0"
  "message_id_field (encode_Session_Close_Start_Message (close_start_msg sid mid reply pad4)) = Inr mid"
  "read_u32 32 (encode_Session_Close_Reply_Message (close_reply_msg sid mid pad4)) = Inr 0"
  by (simp_all add: encode_message_defs wire_simps sizeof_values read_simps close_start_msg_def
      close_reply_msg_def new_message_defs)

lemma message_kinds:
  "types_of (mtype (sis_commonHeader (init_start_msg sid mid ident pad))) = Some SESSION_TYPE"
  "session_subTypes_of (subType (sis_commonHeader (init_start_msg sid mid ident pad)))
    = Some SESSION_INIT_START_SUBTYPE"
  "types_of (mtype (sir_commonHeader (init_reply_msg sid mid csid ident pad pad4))) = Some SESSION_TYPE"
  "session_subTypes_of (subType (sir_commonHeader (init_reply_msg sid mid csid ident pad pad4)))
    = Some SESSION_INIT_REPLY_SUBTYPE"
  "types_of (mtype (scs_commonHeader (close_start_msg sid mid reply pad4))) = Some SESSION_TYPE"
  "session_subTypes_of (subType (scs_commonHeader (close_start_msg sid mid reply pad4)))
    = Some SESSION_CLOSE_START_SUBTYPE"
  "types_of (mtype (scr_commonHeader (close_reply_msg sid mid pad4))) = Some SESSION_TYPE"
  "session_subTypes_of (subType (scr_commonHeader (close_reply_msg sid mid pad4)))
    = Some SESSION_CLOSE_REPLY_SUBTYPE"
  "types_of (mtype (hbs_commonHeader (heartbeat_start_msg sid mid))) = Some HEARTBEAT_TYPE"
  "heartbeat_subTypes_of (subType (hbs_commonHeader (heartbeat_start_msg sid mid)))
    = Some HEARTBEAT_START_SUBTYPE"
  "types_of (mtype (hbr_commonHeader (heartbeat_reply_msg sid mid))) = Some HEARTBEAT_TYPE"
  "heartbeat_subTypes_of (subType (hbr_commonHeader (heartbeat_reply_msg sid mid)))
    = Some HEARTBEAT_REPLY_SUBTYPE"
  by (simp_all add: named_message_defs new_message_defs types_of_def session_subTypes_of_def
      heartbeat_subTypes_of_def)

lemma dispatch_session:
  assumes "types_of (mtype h) = Some SESSION_TYPE"
  shows "dispatch env p h raw w
    = then_do (process_Session_Type env p h raw w) (\<lambda>w1. Inr (ucast (totalMessageSize h), w1))"
  by (simp add: dispatch_def assms)

lemma reply_flags:
  "flags (sir_commonHeader (init_reply_msg sid mid csid ident pad pad4)) = 2"
  "flags (scr_commonHeader (close_reply_msg sid mid pad4)) = 2"
  "flags (hbr_commonHeader (heartbeat_reply_msg sid mid)) = 2"
  "flags (sis_commonHeader (init_start_msg sid mid ident pad)) = 1"
  "flags (scs_commonHeader (close_start_msg sid mid reply pad4)) = (if reply then 1 else 0)"
  "flags (hbs_commonHeader (heartbeat_start_msg sid mid)) = 1"
  by (simp_all add: named_message_defs new_message_defs)

section \<open>Entering the session map\<close>

definition with_callbacks :: "session_handler \<Rightarrow> ('sm, 'buf) session \<Rightarrow> ('sm, 'buf) session" where
  "with_callbacks h s = s\<lparr>m_processCreateSession := Some (handler_processCreateSession h),
     m_processCloseSession := Some (handler_processCloseSession h),
     m_processError := Some (handler_processError h)\<rparr>"

lemma with_callbacks_sel [simp]:
  "m_statemachine (with_callbacks h s) = m_statemachine s" "m_socket (with_callbacks h s) = m_socket s"
  "m_sessionId (with_callbacks h s) = m_sessionId s"
  "m_messageIdCounter (with_callbacks h s) = m_messageIdCounter s"
  "m_multiblockIo (with_callbacks h s) = m_multiblockIo s"
  "m_initState (with_callbacks h s) = m_initState s"
  "m_processCreateSession (with_callbacks h s) = Some (handler_processCreateSession h)"
  "m_processCloseSession (with_callbacks h s) = Some (handler_processCloseSession h)"
  "m_processError (with_callbacks h s) = Some (handler_processError h)"
  by (simp_all add: with_callbacks_def)

definition handler_with :: "u32 \<Rightarrow> ptr \<Rightarrow> session_handler \<Rightarrow> session_handler" where
  "handler_with sid p h = h\<lparr>m_sessions := std_insert sid p (m_sessions h)\<rparr>"

lemma handler_with_sel [simp]:
  "m_sessions (handler_with sid p h) = std_insert sid p (m_sessions h)"
  "m_sessionMap_lock (handler_with sid p h) = m_sessionMap_lock h"
  "m_sessionIdCounter (handler_with sid p h) = m_sessionIdCounter h"
  by (simp_all add: handler_with_def)

lemma addSession_registers:
  assumes "w_heap w p = Some s" and "\<not> m_sessionMap_lock (w_handler w)"
  shows "addSession sid p w = Inr (set_session p (with_callbacks (w_handler w) s)
      (w\<lparr>w_handler := handler_with sid p (w_handler w)\<rparr>))"
  using addSession_free [OF assms] by (simp add: with_callbacks_def handler_with_def world_norm)

section \<open>The side that is asked for a session\<close>

text \<open>The identifier the server makes out of the client's and its own counter.\<close>

definition joint_id :: "u32 \<Rightarrow> session_handler \<Rightarrow> u32" where
  "joint_id cid h = cid + word_of_nat (unat (m_sessionIdCounter h + 1) * 0x10000)"

lemma complete_session_id_joint:
  "unat (m_sessionIdCounter h + 1) < 0x8000 \<Longrightarrow>
     complete_session_id cid (m_sessionIdCounter h + 1) = Inr (joint_id cid h)"
  by (simp add: complete_session_id_def joint_id_def)

definition counted_handler :: "session_handler \<Rightarrow> session_handler" where
  "counted_handler h = h\<lparr>m_sessionIdCounter := m_sessionIdCounter h + 1\<rparr>"

lemma counted_handler_sel [simp]:
  "m_sessions (counted_handler h) = m_sessions h" "m_sessionMap_lock (counted_handler h) = m_sessionMap_lock h"
  "m_sessionIdCounter (counted_handler h) = m_sessionIdCounter h + 1"
  "handler_processCreateSession (counted_handler h) = handler_processCreateSession h"
  "handler_processCloseSession (counted_handler h) = handler_processCloseSession h"
  "handler_processError (counted_handler h) = handler_processError h"
  by (simp_all add: counted_handler_def)

lemma process_init_start:
  fixes sid mid and ident pad :: "byte list"
  assumes at: "session_at env view p s Disconnected w" and sk: "m_socket s = Some sk"
    and pc: "passive_client env" and free: "\<not> m_sessionMap_lock (w_handler w)"
    and len: "length (ident @ pad) = 64000"
    and small: "unat (m_sessionIdCounter (w_handler w) + 1) < 0x8000"
    and net: "e_net env (w_trace w) (Init_Connection sk)"
  defines "jid \<equiv> joint_id sid (w_handler w)"
    and "h \<equiv> sis_commonHeader (init_start_msg sid mid ident pad)"
    and "f \<equiv> handler_processCreateSession (w_handler w)"
  shows "\<exists>m rest pad4 r w'. dispatch env p h (encode_Session_Init_Start_Message (init_start_msg sid mid ident pad)) w
      = Inr (ucast (totalMessageSize h), w')
    \<and> sm_phase (e_sm env) view m Ready
    \<and> w_heap w' = (w_heap w)(p \<mapsto> (with_callbacks (w_handler w) s)\<lparr>m_statemachine := m,
        m_sessionId := jid, m_sessionIdentifier := ident, m_initState := 1\<rparr>)
    \<and> w_handler w' = handler_with jid p (counted_handler (w_handler w))
    \<and> length (ident @ rest) = 64000
    \<and> w_trace w' = w_trace w @ [Net (Init_Connection sk) True, Start_Thread sk,
        Client (Create_Session f p ident),
        Net (Send_Message sk (encode_Session_Init_Reply_Message
          (init_reply_msg sid mid jid ident rest pad4))) r]
    \<and> length pad4 = 4 \<and> w_reply w' = w_reply w"
proof -
  let ?raw = "encode_Session_Init_Start_Message (init_start_msg sid mid ident pad)"
  let ?h1 = "counted_handler (w_handler w)"
  let ?s1 = "with_callbacks (w_handler w) s"
  let ?w0 = "w\<lparr>w_handler := ?h1\<rparr>"
  let ?w1 = "set_session p ?s1 (w\<lparr>w_handler := handler_with jid p ?h1\<rparr>)"
  let ?w2 = "log_event (Start_Thread sk) (log_event (Net (Init_Connection sk) True)
      (w\<lparr>w_handler := handler_with jid p ?h1\<rparr>))"
  note reads = init_start_reads [OF len, of sid mid]
  have ident: "length ident \<le> 64000" using len by simp
  have identn: "unat (word_of_nat (length ident) :: u32) = length ident"
    using ident by (simp add: unat_of_nat)
  note s0 = session_atD [OF at]
  have add: "addSession jid p ?w0 = Inr ?w1"
  proof -
    have "w_heap ?w0 p = Some s" and "\<not> m_sessionMap_lock (w_handler ?w0)" using s0 free by simp_all
    from addSession_registers [OF this, of jid] show ?thesis by (simp add: with_callbacks_def)
  qed
  have "session_at env view p ?s1 Disconnected ?w1" using s0(2) by (simp add: session_at_def)
  from connectiSession_outcome [OF this, of sk jid] sk net obtain m1 where
    m1: "sm_phase (e_sm env) view m1 Not_Ready"
    and con: "connectiSession env p jid ?w1
      = Inr (True, set_session p (?s1\<lparr>m_statemachine := m1, m_sessionId := jid\<rparr>) ?w2)"
    by (auto simp: world_norm)
  let ?s2 = "?s1\<lparr>m_statemachine := m1, m_sessionId := jid\<rparr>"
  have "session_at env view p ?s2 Not_Ready (set_session p ?s2 ?w2)"
    using m1 by (simp add: session_at_def)
  from makeSessionReady_outcome [OF this pc, of f jid ident] obtain m where
    m: "sm_phase (e_sm env) view m Ready"
    and ready: "makeSessionReady env p jid ident (set_session p ?s2 ?w2)
      = Inr (True, set_session p (?s2\<lparr>m_statemachine := m, m_sessionId := jid,
          m_sessionIdentifier := ident, m_initState := 1\<rparr>) (log_event (Client (Create_Session f p ident)) ?w2))"
    by (auto simp: world_norm f_def)
  let ?s3 = "?s2\<lparr>m_statemachine := m, m_sessionId := jid, m_sessionIdentifier := ident, m_initState := 1\<rparr>"
  let ?w3 = "set_session p ?s3 (log_event (Client (Create_Session f p ident)) ?w2)"
  let ?rest = "identifier_rest env ident ?w3" and ?pad4 = "uninitialised env 4 ?w3"
  have "w_heap ?w3 p = Some ?s3" and "m_socket ?s3 = Some sk" using sk by simp_all
  note send = send_Session_Init_Reply_delivered [OF this ident, of env sid mid jid]
  have "process_Session_Init_Start env p ?raw w = Inr (snd (delivered env p sk
      (sir_commonHeader (init_reply_msg sid mid jid ident ?rest ?pad4))
      (encode_Session_Init_Reply_Message (init_reply_msg sid mid jid ident ?rest ?pad4)) ?w3))"
    using complete_session_id_joint [OF small, of sid] add con ready send
    by (simp add: process_Session_Init_Start_def reads identn increaseSessionIdCounter_def
        counted_handler_def [symmetric] jid_def [symmetric] case_prod_beta)
  then have "dispatch env p h ?raw w = Inr (ucast (totalMessageSize h), snd (delivered env p sk
      (sir_commonHeader (init_reply_msg sid mid jid ident ?rest ?pad4))
      (encode_Session_Init_Reply_Message (init_reply_msg sid mid jid ident ?rest ?pad4)) ?w3))"
    by (simp add: dispatch_session message_kinds process_Session_Type_def h_def)
  moreover have "?s3 = ?s1\<lparr>m_statemachine := m, m_sessionId := jid,
      m_sessionIdentifier := ident, m_initState := 1\<rparr>"
    by (rule session.equality) simp_all
  ultimately show ?thesis using m length_identifier_rest [OF ident, of env ?w3]
    by - (rule exI [of _ m], rule exI [of _ ?rest], rule exI [of _ ?pad4],
        simp add: expect_reply_def reply_flags)
qed

section \<open>The side that asks for a session\<close>

lemma handler_without_eq:
  "(w\<lparr>w_handler := (w_handler w)\<lparr>m_sessions := std_erase sid (m_sessions (w_handler w))\<rparr>\<rparr>)
     = handler_without sid w"
  by (simp add: handler_without_def)

lemma handler_without_fns [simp]:
  "handler_processCreateSession (w_handler (handler_without sid w)) = handler_processCreateSession (w_handler w)"
  "handler_processCloseSession (w_handler (handler_without sid w)) = handler_processCloseSession (w_handler w)"
  "handler_processError (w_handler (handler_without sid w)) = handler_processError (w_handler w)"
  by (simp_all add: handler_without_def)

lemma process_init_reply:
  fixes sid mid csid and ident pad pad4 :: "byte list"
  assumes at: "session_at env view p s Not_Ready w" and pc: "passive_client env"
    and free: "\<not> m_sessionMap_lock (w_handler w)"
    and len: "length (ident @ pad) = 64000" "length pad4 = 4"
  defines "h \<equiv> sir_commonHeader (init_reply_msg sid mid csid ident pad pad4)"
    and "f \<equiv> handler_processCreateSession (w_handler w)"
  shows "\<exists>m w'. dispatch env p h
      (encode_Session_Init_Reply_Message (init_reply_msg sid mid csid ident pad pad4)) w
      = Inr (ucast (totalMessageSize h), w')
    \<and> sm_phase (e_sm env) view m Ready
    \<and> w_heap w' = (w_heap w)(p \<mapsto> (with_callbacks (w_handler w) s)\<lparr>m_statemachine := m,
        m_sessionId := csid, m_sessionIdentifier := ident, m_initState := 1\<rparr>)
    \<and> m_sessions (w_handler w') = std_insert csid p (std_erase sid (m_sessions (w_handler w)))
    \<and> w_trace w' = w_trace w @ [Client (Create_Session f p ident)] \<and> w_reply w' = w_reply w"
proof -
  let ?raw = "encode_Session_Init_Reply_Message (init_reply_msg sid mid csid ident pad pad4)"
  let ?w0 = "handler_without sid w"
  let ?s1 = "with_callbacks (w_handler w) s"
  let ?w1 = "?w0\<lparr>w_handler := handler_with csid p (w_handler ?w0)\<rparr>"
  note reads = init_reply_reads [OF len(1), of sid mid csid pad4]
  have "length ident < 2 ^ 32" using len(1) by simp
  then have identn: "unat (word_of_nat (length ident) :: u32) = length ident"
    by (simp add: unat_of_nat)
  note s0 = session_atD [OF at]
  have "with_callbacks (w_handler ?w0) s = ?s1" by (simp add: with_callbacks_def)
  then have add: "addSession csid p ?w0 = Inr (set_session p ?s1 ?w1)"
    using addSession_registers [of ?w0 p s csid] s0 free by simp
  have "session_at env view p ?s1 Not_Ready (set_session p ?s1 ?w1)"
    using s0(2) by (simp add: session_at_def)
  from makeSessionReady_outcome [OF this pc, of f csid ident] obtain m where
    m: "sm_phase (e_sm env) view m Ready"
    and ready: "makeSessionReady env p csid ident (set_session p ?s1 ?w1)
      = Inr (True, set_session p (?s1\<lparr>m_statemachine := m, m_sessionId := csid,
          m_sessionIdentifier := ident, m_initState := 1\<rparr>)
          (log_event (Client (Create_Session f p ident)) ?w1))"
    by (auto simp: world_norm f_def)
  have "process_Session_Init_Reply env p ?raw w = Inr (set_session p (?s1\<lparr>m_statemachine := m,
      m_sessionId := csid, m_sessionIdentifier := ident, m_initState := 1\<rparr>)
      (log_event (Client (Create_Session f p ident)) ?w1))"
    using add ready free by (simp add: process_Session_Init_Reply_def reads identn
        removeSession_free handler_without_eq)
  then show ?thesis using m
    by (intro exI [of _ m]) (simp add: dispatch_session message_kinds process_Session_Type_def h_def)
qed

section \<open>Closing and heartbeats\<close>

lemma process_close_start:
  fixes sid mid reply pad4
  assumes at: "session_at env view p s Ready w" and sk: "m_socket s = Some sk"
    and pc: "passive_client env" and f: "m_processCloseSession s = Some f"
    and free: "\<not> m_sessionMap_lock (w_handler w)"
  defines "h \<equiv> scs_commonHeader (close_start_msg sid mid reply pad4)"
    and "answer \<equiv> encode_Session_Close_Reply_Message
          (close_reply_msg (m_sessionId s) mid (uninitialised env 4 w))"
  shows "\<exists>m r r' w'. dispatch env p h
      (encode_Session_Close_Start_Message (close_start_msg sid mid reply pad4)) w
      = Inr (ucast (totalMessageSize h), w')
    \<and> sm_phase (e_sm env) view m Disconnected
    \<and> w_heap w' = (w_heap w)(p \<mapsto> s\<lparr>m_statemachine := m\<rparr>)
    \<and> m_sessions (w_handler w') = std_erase (m_sessionId s) (std_erase 0 (m_sessions (w_handler w)))
    \<and> w_trace w' = w_trace w @ [Net (Send_Message sk answer) r,
        Client (Close_Session f p (m_sessionIdentifier s)), Net (Close_Socket sk) r']"
proof -
  note s0 = session_atD [OF at]
  let ?w1 = "snd (delivered env p sk
      (scr_commonHeader (close_reply_msg (m_sessionId s) mid (uninitialised env 4 w))) answer w)"
  let ?w2 = "handler_without 0 ?w1"
  have send: "send_Session_Close_Reply env p mid w = Inr (fst (delivered env p sk
      (scr_commonHeader (close_reply_msg (m_sessionId s) mid (uninitialised env 4 w))) answer w), ?w1)"
    unfolding answer_def prod.collapse by (rule send_Session_Close_Reply_delivered [OF s0(1) sk])
  have "session_at env view p s Ready ?w2" using s0 by (simp add: session_at_def)
  from endSession_outcome [OF this sk pc f] free obtain m where
    m: "sm_phase (e_sm env) view m Disconnected"
    and e: "endSession env p ?w2 =
      (let w1 = handler_without (m_sessionId s)
                  (log_event (Client (Close_Session f p (m_sessionIdentifier s))) ?w2);
           closed = e_net env (w_trace w1) (Close_Socket sk) in
       Inr (closed, set_session p (s\<lparr>m_statemachine := m\<rparr>) (log_event (Net (Close_Socket sk) closed) w1)))"
    by auto
  have p: "process_Session_Close_Start env p
      (encode_Session_Close_Start_Message (close_start_msg sid mid reply pad4)) w
    = then_do (endSession env p ?w2) (\<lambda>(ended, w2). Inr w2)"
    using send free by (simp add: process_Session_Close_Start_def close_reads removeSession_free
        handler_without_def)
  show ?thesis
    by (rule exI [of _ m])
      (use m e p in \<open>simp add: dispatch_session message_kinds process_Session_Type_def h_def Let_def\<close>)
qed

text \<open>
  The answer to a close message disconnects the session; the application is not told, and the
  session stays in the map, because the answer names session 0.
\<close>

lemma process_close_reply:
  fixes sid mid pad4
  assumes at: "session_at env view p s Ready w" and sk: "m_socket s = Some sk"
    and free: "\<not> m_sessionMap_lock (w_handler w)"
  defines "h \<equiv> scr_commonHeader (close_reply_msg sid mid pad4)"
  shows "\<exists>m r w'. dispatch env p h (encode_Session_Close_Reply_Message (close_reply_msg sid mid pad4)) w
      = Inr (ucast (totalMessageSize h), w')
    \<and> sm_phase (e_sm env) view m Disconnected
    \<and> w_heap w' = (w_heap w)(p \<mapsto> s\<lparr>m_statemachine := m\<rparr>)
    \<and> m_sessions (w_handler w') = std_erase 0 (m_sessions (w_handler w))
    \<and> w_trace w' = w_trace w @ [Net (Close_Socket sk) r]"
proof -
  let ?w2 = "handler_without 0 w"
  have "session_at env view p s Ready ?w2" using session_atD [OF at] by (simp add: session_at_def)
  from disconnectSession_outcome [OF this sk] obtain m where
    m: "sm_phase (e_sm env) view m Disconnected"
    and d: "disconnectSession env p ?w2 = Inr (e_net env (w_trace w) (Close_Socket sk),
      set_session p (s\<lparr>m_statemachine := m\<rparr>)
        (log_event (Net (Close_Socket sk) (e_net env (w_trace w) (Close_Socket sk))) ?w2))"
    by auto
  have p: "process_Session_Close_Reply env p
      (encode_Session_Close_Reply_Message (close_reply_msg sid mid pad4)) w
    = then_do (disconnectSession env p ?w2) (\<lambda>(left, w1). Inr w1)"
    using free by (simp add: process_Session_Close_Reply_def close_reads removeSession_free
        handler_without_eq)
  show ?thesis
    by (rule exI [of _ m])
      (use m d p in \<open>simp add: dispatch_session message_kinds process_Session_Type_def h_def\<close>)
qed

lemma heartbeat_mid:
  "message_id_field (encode_Heartbeat_Start_Message (heartbeat_start_msg sid mid)) = Inr mid"
  by (simp add: encode_message_defs wire_simps) (simp add: heartbeat_start_msg_def)

lemma process_heartbeat_start:
  fixes sid mid
  assumes "w_heap w p = Some s" and "m_socket s = Some sk"
  defines "h \<equiv> hbs_commonHeader (heartbeat_start_msg sid mid)"
    and "answer \<equiv> heartbeat_reply_msg (m_sessionId s) mid"
  shows "dispatch env p h (encode_Heartbeat_Start_Message (heartbeat_start_msg sid mid)) w
    = Inr (ucast (totalMessageSize h), snd (delivered env p sk (hbr_commonHeader answer)
        (encode_Heartbeat_Reply_Message answer) w))"
  using send_Heartbeat_Reply_delivered [OF assms(1,2), of env mid]
  by (simp add: dispatch_def message_kinds process_Heartbeat_Type_def process_Heartbeat_Start_def
      heartbeat_mid h_def answer_def case_prod_beta)

lemma process_heartbeat_reply:
  "dispatch env p (hbr_commonHeader (heartbeat_reply_msg sid mid)) raw w
    = Inr (ucast (totalMessageSize (hbr_commonHeader (heartbeat_reply_msg sid mid))), w)"
  by (simp add: dispatch_def message_kinds process_Heartbeat_Type_def)

end
