(* ===== verification/Data_Exchange.thy ===== *)
theory Data_Exchange
  imports Handshake
begin

text \<open>
  What a ready session sends for each kind of data, and how the replies settle it. The properties
  that combine both sides of a connection are in the root theory.
\<close>

section \<open>What a ready session sends\<close>

lemma session_at_ready:
  "session_at env view p s Ready w \<Longrightarrow> isInState env p SESSION_READY w = Inr True"
  using isInState_phase [of w p s env view Ready SESSION_READY] by (simp add: session_at_def)

lemma ucast_size:
  assumes "fits_buffer hs (unat (n :: u64))"
  shows "unat (ucast n :: u32) = unat n"
proof -
  have "unat n < 2 ^ 32" using assms by (simp add: fits_buffer_def MESSAGE_CACHE_SIZE_def)
  then show ?thesis by (simp add: unsigned_ucast_eq take_bit_nat_eq_self)
qed

lemma sendStreamData_sends:
  assumes "session_at env view p s Ready w" and "m_socket s = Some sk" and "unat n \<le> e_max env"
    and "unat n \<le> length data" and "fits_buffer sizeof_Data_Stream_Header (unat n)"
  shows "sendStreamData env p data n reply w = Inr (delivered env p sk
    (stream_header (m_sessionId s) (m_messageIdCounter s + 1) reply (ucast n))
    (payload_message (stream_header (m_sessionId s) (m_messageIdCounter s + 1) reply (ucast n)) []
       (take (unat n) data) (buffer_padding env w sizeof_Data_Stream_Header (unat n)))
    (counted p s w))"
  using assms send_Data_Stream_delivered [of w p s sk "ucast n" data env reply] session_atD [OF assms(1)]
  by (simp add: sendStreamData_def session_at_ready ucast_size)

lemma single_sends:
  fixes n :: u64
  assumes "w_heap w p = Some s" and "m_socket s = Some sk" and "unat n \<le> length data"
    and "fits_buffer sizeof_Data_SingleBlock_Header (unat n)"
  shows "send_Data_SingleBlock env p mbid data (ucast n) bid w = Inr (delivered env p sk
    (single_header (m_sessionId s) (m_messageIdCounter s + 1) bid (ucast n))
    (payload_message (single_header (m_sessionId s) (m_messageIdCounter s + 1) bid (ucast n))
       (single_extra mbid bid (uninitialised env 4 w)) (take (unat n) data)
       (buffer_padding env w sizeof_Data_SingleBlock_Header (unat n)))
    (counted p s w))"
  using assms send_Data_SingleBlock_delivered [of w p s sk "ucast n :: u32" data env mbid bid]
  by (simp add: ucast_size)

text \<open>The message of a single block, up to the bytes nobody initialises.\<close>

definition is_single :: "u32 \<Rightarrow> u32 \<Rightarrow> u64 \<Rightarrow> u64 \<Rightarrow> byte list \<Rightarrow> byte list \<Rightarrow> bool" where
  "is_single sid mid mbid bid payload msg \<longleftrightarrow>
     (\<exists>pad4 pad. length pad4 = 4 \<and> length pad = padding_size (length payload) \<and>
        msg = payload_message (single_header sid mid bid (word_of_nat (length payload)))
                (single_extra mbid bid pad4) payload pad)"

text \<open>A session after sending one message that asks for a reply.\<close>

definition sent_one ::
    "('sm, 'buf) env \<Rightarrow> ptr \<Rightarrow> sock \<Rightarrow> types \<Rightarrow> ('sm, 'buf) session \<Rightarrow> byte list \<Rightarrow> ('sm, 'buf) world
     \<Rightarrow> ('sm, 'buf) world" where
  "sent_one env p sk ty s msg w =
     log_event (Net (Send_Message sk msg) (e_net env (w_trace w) (Send_Message sk msg)))
       ((counted p s w)\<lparr>w_reply := addMessage (types_val ty) (m_sessionId s)
          (ucast (m_messageIdCounter s + 1)) p (w_reply w)\<rparr>)"

lemma sent_one_sel [simp]:
  "w_heap (sent_one env p sk ty s msg w)
     = (w_heap w)(p \<mapsto> s\<lparr>m_messageIdCounter := m_messageIdCounter s + 1\<rparr>)"
  "w_reply (sent_one env p sk ty s msg w) = addMessage (types_val ty) (m_sessionId s)
     (ucast (m_messageIdCounter s + 1)) p (w_reply w)"
  "w_blocker (sent_one env p sk ty s msg w) = w_blocker w"
  "w_handler (sent_one env p sk ty s msg w) = w_handler w"
  "w_trace (sent_one env p sk ty s msg w) = w_trace w
     @ [Net (Send_Message sk msg) (e_net env (w_trace w) (Send_Message sk msg))]"
  by (simp_all add: sent_one_def)

lemma single_sent_one:
  fixes n :: u64
  assumes "w_heap w p = Some s" and "m_socket s = Some sk" and "unat n \<le> length data"
    and "fits_buffer sizeof_Data_SingleBlock_Header (unat n)"
  shows "\<exists>msg. is_single (m_sessionId s) (m_messageIdCounter s + 1) mbid bid (take (unat n) data) msg
    \<and> send_Data_SingleBlock env p mbid data (ucast n) bid w
      = Inr (e_net env (w_trace w) (Send_Message sk msg),
             sent_one env p sk SINGLEBLOCK_DATA_TYPE s msg w)"
proof -
  let ?h = "single_header (m_sessionId s) (m_messageIdCounter s + 1) bid (ucast n)"
  let ?msg = "payload_message ?h (single_extra mbid bid (uninitialised env 4 w)) (take (unat n) data)
       (buffer_padding env w sizeof_Data_SingleBlock_Header (unat n))"
  have l: "length (take (unat n) data) = unat n" using assms(3) by simp
  have n: "word_of_nat (unat n) = (ucast n :: u32)" by simp
  have "is_single (m_sessionId s) (m_messageIdCounter s + 1) mbid bid (take (unat n) data) ?msg"
    unfolding is_single_def l n
    by (intro exI [of _ "uninitialised env 4 w"]
        exI [of _ "buffer_padding env w sizeof_Data_SingleBlock_Header (unat n)"]) simp
  moreover have "delivered env p sk ?h ?msg (counted p s w)
      = (e_net env (w_trace w) (Send_Message sk ?msg), sent_one env p sk SINGLEBLOCK_DATA_TYPE s ?msg w)"
    by (simp add: delivered_def sent_one_def expect_reply_def single_header_def new_message_defs)
  ultimately show ?thesis using single_sends [OF assms, of env mbid bid] by auto
qed

section \<open>Replies\<close>

lemma reply_settles:
  assumes "and (flags h) 2 \<noteq> 0" and "sessionId h = sid" and "messageId h = mid"
    and "w_reply w = addMessage ty sid (ucast mid) p ms"
  shows "pending_ids (w_reply (settle h w)) = pending_ids ms"
  using assms reply_list.add_then_remove(2) [where e = "(ty, p)"]
  by (simp add: settle_def removeMessage_def removeMessage_complete_def addMessage_def)

lemma stream_reply_frame:
  "frame (dsr_commonHeader (stream_reply_msg sid mid)) (encode_Data_StreamReply_Message (stream_reply_msg sid mid))"
  by (rule stream_reply.encode_frame) (simp_all add: stream_reply_msg_def new_message_defs)

lemma single_reply_frame:
  "frame (dbr_commonHeader (single_reply_msg sid mid))
     (encode_Data_SingleBlockReply_Message (single_reply_msg sid mid))"
  by (rule single_reply.encode_frame) (simp_all add: single_reply_msg_def new_message_defs)

lemma data_reply_header:
  "flags (dsr_commonHeader (stream_reply_msg sid mid)) = 2"
  "sessionId (dsr_commonHeader (stream_reply_msg sid mid)) = sid"
  "messageId (dsr_commonHeader (stream_reply_msg sid mid)) = mid"
  "flags (dbr_commonHeader (single_reply_msg sid mid)) = 2"
  "sessionId (dbr_commonHeader (single_reply_msg sid mid)) = sid"
  "messageId (dbr_commonHeader (single_reply_msg sid mid)) = mid"
  "sessionId (hbr_commonHeader (heartbeat_reply_msg sid mid)) = sid"
  "messageId (hbr_commonHeader (heartbeat_reply_msg sid mid)) = mid"
  by (simp_all add: named_message_defs new_message_defs)

lemma dispatch_data_reply:
  "dispatch env p (dsr_commonHeader (stream_reply_msg sid mid)) raw w
     = Inr (ucast (totalMessageSize (dsr_commonHeader (stream_reply_msg sid mid))), w)"
  "dispatch env p (dbr_commonHeader (single_reply_msg sid mid)) raw w
     = Inr (ucast (totalMessageSize (dbr_commonHeader (single_reply_msg sid mid))), w)"
  by (simp_all add: dispatch_def process_Stream_Data_Type_def process_SingleBlock_Data_Type_def
      named_message_defs new_message_defs types_of_def stream_data_subTypes_of_def
      singleblock_data_subTypes_of_def)

lemma frame_taken: "frame h msg \<Longrightarrow> ucast (totalMessageSize h) = (word_of_nat (length msg) :: u64)"
  by (metis frame_def of_nat_unat)

text \<open>A single frame in the buffer.\<close>

lemma read_frame:
  assumes "frame h msg"
  shows "processMessage env p (list_ring msg) w = dispatch env p h msg (settle h w)"
  using processMessage_frame [OF assms, of "list_ring msg" "[]"] list_ring_ok [of msg] by simp

text \<open>Reading a reply to the last message leaves nothing pending of it and changes nothing else.\<close>

lemma data_reply_read:
  assumes "w_reply w = addMessage ty sid (ucast mid) p ms"
  shows "ring_ok rb (encode_Data_StreamReply_Message (stream_reply_msg sid mid) @ rest) \<Longrightarrow>
      \<exists>w' k. processMessage env q rb w = Inr (k, w') \<and> pending_ids (w_reply w') = pending_ids ms
        \<and> w_trace w' = w_trace w \<and> w_heap w' = w_heap w"
    and "ring_ok rb (encode_Data_SingleBlockReply_Message (single_reply_msg sid mid) @ rest) \<Longrightarrow>
      \<exists>w' k. processMessage env q rb w = Inr (k, w') \<and> pending_ids (w_reply w') = pending_ids ms
        \<and> w_trace w' = w_trace w \<and> w_heap w' = w_heap w"
    and "ring_ok rb (encode_Heartbeat_Reply_Message (heartbeat_reply_msg sid mid) @ rest) \<Longrightarrow>
      \<exists>w' k. processMessage env q rb w = Inr (k, w') \<and> pending_ids (w_reply w') = pending_ids ms
        \<and> w_trace w' = w_trace w \<and> w_heap w' = w_heap w"
  using assms
  by (auto simp: processMessage_frame [OF stream_reply_frame] processMessage_frame [OF single_reply_frame]
      processMessage_frame [OF heartbeat_reply_frame] dispatch_data_reply process_heartbeat_reply
      reply_settles data_reply_header reply_flags flag_bits)

section \<open>Reading a single block\<close>

lemma is_single_frame:
  assumes "is_single sid mid mbid bid payload msg"
    and "fits_buffer sizeof_Data_SingleBlock_Header (length payload)"
  shows "frame (single_header sid mid bid (word_of_nat (length payload))) msg"
  using assms ucast_size [of sizeof_Data_SingleBlock_Header "word_of_nat (length payload)"]
  by (auto simp: is_single_def unat_of_nat fits_buffer_def MESSAGE_CACHE_SIZE_def intro!: single_frame)

lemma single_no_reply: "settle (single_header sid mid bid n) w = w"
  by (intro settle_no_reply) (simp add: single_header_def)

lemma payload_size:
  "fits_buffer hs (length payload) \<Longrightarrow> unat (word_of_nat (length payload) :: u32) = length payload"
  by (simp add: unat_of_nat fits_buffer_def MESSAGE_CACHE_SIZE_def)

lemma read_single_request:
  assumes t: "w_heap v q = Some t" "m_socket t = Some tk" "m_processRequestData t = Some f"
    and pc: "passive_client env" and msg: "is_single sid mid mbid 0 payload msg"
    and fit: "fits_buffer sizeof_Data_SingleBlock_Header (length payload)"
    and ring: "ring_ok rb (msg @ rest)"
  shows "\<exists>v1 r. processMessage env q rb v = Inr (word_of_nat (length msg), v1)
    \<and> w_trace v1 = w_trace v @ [Client (Request_Data f (m_standaloneReceiver t) q mbid
          (Some (filled_buffer env payload))),
        Net (Send_Message tk (encode_Data_SingleBlockReply_Message
          (single_reply_msg (m_sessionId t) mid))) r]
    \<and> w_heap v1 = w_heap v \<and> w_blocker v1 = w_blocker v \<and> w_rand v1 = w_rand v"
proof -
  let ?n = "word_of_nat (length payload) :: u32"
  note frame = is_single_frame [OF msg fit]
  have n: "length payload = unat ?n" using payload_size [OF fit] by simp
  from msg obtain pad4 pad where m: "length pad4 = 4" "msg = payload_message (single_header sid mid 0 ?n)
      (single_extra mbid 0 pad4) payload pad" by (auto simp: is_single_def)
  from process_single_request [OF t pc n m(1), of sid mid mbid pad] m(2)
  show ?thesis
    by (simp add: processMessage_frame [OF frame ring] single_no_reply frame_taken [OF frame])
qed

lemma read_single_response:
  assumes s: "w_heap w p = Some s" "m_socket s = Some sk" and bid: "bid \<noteq> 0"
    and msg: "is_single sid mid mbid bid payload msg"
    and fit: "fits_buffer sizeof_Data_SingleBlock_Header (length payload)"
    and ring: "ring_ok rb (msg @ rest)"
    and rel: "releaseMessage bid (Some (filled_buffer env payload)) (w_blocker w) = Inr (found, b)"
  shows "\<exists>w1 r. processMessage env p rb w = Inr (word_of_nat (length msg), w1)
    \<and> w_trace w1 = w_trace w @ [Net (Send_Message sk (encode_Data_SingleBlockReply_Message
          (single_reply_msg (m_sessionId s) mid))) r]
    \<and> w_heap w1 = w_heap w \<and> w_blocker w1 = b"
proof -
  let ?n = "word_of_nat (length payload) :: u32"
  note frame = is_single_frame [OF msg fit]
  have n: "length payload = unat ?n" using payload_size [OF fit] by simp
  from msg obtain pad4 pad where m: "length pad4 = 4" "msg = payload_message (single_header sid mid bid ?n)
      (single_extra mbid bid pad4) payload pad" by (auto simp: is_single_def)
  from process_single_response [OF s bid n m(1) rel, of sid mid mbid pad] m(2)
  show ?thesis
    by (simp add: processMessage_frame [OF frame ring] single_no_reply frame_taken [OF frame])
qed

section \<open>Messages and requests of one block\<close>

lemma fits_take:
  "unat n \<le> length data \<Longrightarrow> fits_buffer hs (unat n) \<Longrightarrow> fits_buffer hs (length (take (unat n) data))"
  by simp

lemma after_getRandId:
  assumes "getRandId env w = Inr (mbid, w0)"
  shows "w_heap w0 = w_heap w" "w_trace w0 = w_trace w" "w_reply w0 = w_reply w"
    "w_blocker w0 = w_blocker w" "w_handler w0 = w_handler w" "w_next w0 = w_next w"
  using getRandId_Some(3) [OF assms] by auto

lemma getRandId_same:
  assumes "getRandId env v = Inr (i, v0)" and "w_rand v1 = w_rand v"
  shows "\<exists>v0'. getRandId env v1 = Inr (i, v0')"
  using assms by (auto simp: getRandId_def split: option.splits)

text \<open>A request that waits when its response is released.\<close>

lemma waiting_request_released:
  fixes bid timeout and s :: ptr and h :: "'buf blocker_handler"
  assumes "blockers_ok h" and "bid \<notin> id_at h ` set (blocker_list h)"
  defines "e \<equiv> fst (blockMessage_enter bid timeout s h)"
  shows "\<exists>b b1 b2. blockMessage_wait e (snd (blockMessage_enter bid timeout s h)) = Inr b
    \<and> releaseMessage bid d b = Inr (True, b1)
    \<and> map_option blocker_cv (blocker_heap b1 e) = Some Notified
    \<and> blockMessage_resume bid b1 = Inr (d, b2)
    \<and> blocker_list b2 = blocker_list h \<and> blocker_heap b2 = blocker_heap h"
  by (simp add: e_def enter_with_entry wait_with_entry release_with_entry [OF assms(1,2)]
      resume_with_entry [OF assms(1,2)])

lemma sendNormalMessage_sends:
  fixes n :: u64
  assumes at: "session_at env view p s Ready w" and sk: "m_socket s = Some sk"
    and n: "unat n \<le> e_max env" "unat n \<le> length data"
      "fits_buffer sizeof_Data_SingleBlock_Header (unat n)"
    and rand: "getRandId env w = Inr (mbid, w0)"
  shows "\<exists>msg. is_single (m_sessionId s) (m_messageIdCounter s + 1) mbid 0 (take (unat n) data) msg
    \<and> sendNormalMessage env p data n w = Inr (e_net env (w_trace w) (Send_Message sk msg),
        sent_one env p sk SINGLEBLOCK_DATA_TYPE s msg w0)"
proof -
  have "w_heap w0 p = Some s" using session_atD [OF at] after_getRandId [OF rand] by simp
  from single_sent_one [OF this sk n(2,3), of mbid 0 env] show ?thesis
    using n(1) by (auto simp: sendNormalMessage_def session_at_ready [OF at] rand
        after_getRandId [OF rand])
qed

lemma sendRequest_sends:
  fixes n :: u64
  assumes at: "session_at env view p s Ready w" and sk: "m_socket s = Some sk"
    and n: "unat n \<le> e_max env" "unat n \<le> length data"
      "fits_buffer sizeof_Data_SingleBlock_Header (unat n)"
    and rand: "getRandId env w = Inr (mbid, w0)" and net: "\<And>tr m. e_net env tr (Send_Message sk m)"
  shows "\<exists>msg. is_single (m_sessionId s) (m_messageIdCounter s + 1) mbid 0 (take (unat n) data) msg
    \<and> sendRequest env p data n timeout w
      = Inr (Some (mbid, fst (blockMessage_enter mbid timeout p (w_blocker w))),
          (sent_one env p sk SINGLEBLOCK_DATA_TYPE s msg w0)
            \<lparr>w_blocker := snd (blockMessage_enter mbid timeout p (w_blocker w))\<rparr>)"
proof -
  have "w_heap w0 p = Some s" using session_atD [OF at] after_getRandId [OF rand] by simp
  from single_sent_one [OF this sk n(2,3), of mbid 0 env] show ?thesis
    using n(1) net by (auto simp: sendRequest_def session_at_ready [OF at] rand
        after_getRandId [OF rand] case_prod_beta)
qed

lemma sendResponse_sends:
  fixes n :: u64
  assumes at: "session_at env view p s Ready w" and sk: "m_socket s = Some sk"
    and n: "unat n < e_max env" "unat n \<le> length data"
      "fits_buffer sizeof_Data_SingleBlock_Header (unat n)"
    and rand: "getRandId env w = Inr (mbid, w0)"
  shows "\<exists>msg. is_single (m_sessionId s) (m_messageIdCounter s + 1) mbid bid (take (unat n) data) msg
    \<and> sendResponse env p data n bid w = Inr (mbid, sent_one env p sk SINGLEBLOCK_DATA_TYPE s msg w0)"
proof -
  have "w_heap w0 p = Some s" using session_atD [OF at] after_getRandId [OF rand] by simp
  from single_sent_one [OF this sk n(2,3), of mbid bid env] show ?thesis
    using n(1) by (auto simp: sendResponse_def session_at_ready [OF at] rand)
qed

section \<open>Stream data\<close>

definition is_stream :: "u32 \<Rightarrow> u32 \<Rightarrow> bool \<Rightarrow> byte list \<Rightarrow> byte list \<Rightarrow> bool" where
  "is_stream sid mid reply payload msg \<longleftrightarrow>
     (\<exists>pad. length pad = padding_size (length payload) \<and>
        msg = payload_message (stream_header sid mid reply (word_of_nat (length payload))) [] payload pad)"

lemma stream_sent_one:
  fixes n :: u64
  assumes at: "session_at env view p s Ready w" and sk: "m_socket s = Some sk"
    and n: "unat n \<le> e_max env" "unat n \<le> length data" "fits_buffer sizeof_Data_Stream_Header (unat n)"
  shows "\<exists>msg. is_stream (m_sessionId s) (m_messageIdCounter s + 1) True (take (unat n) data) msg
    \<and> sendStreamData env p data n True w
      = Inr (e_net env (w_trace w) (Send_Message sk msg), sent_one env p sk STREAM_DATA_TYPE s msg w)"
proof -
  let ?h = "stream_header (m_sessionId s) (m_messageIdCounter s + 1) True (ucast n)"
  let ?msg = "payload_message ?h [] (take (unat n) data)
       (buffer_padding env w sizeof_Data_Stream_Header (unat n))"
  have l: "length (take (unat n) data) = unat n" using n by simp
  have u: "word_of_nat (unat n) = (ucast n :: u32)" by simp
  have "is_stream (m_sessionId s) (m_messageIdCounter s + 1) True (take (unat n) data) ?msg"
    unfolding is_stream_def l u
    by (intro exI [of _ "buffer_padding env w sizeof_Data_Stream_Header (unat n)"]) simp
  moreover have "delivered env p sk ?h ?msg (counted p s w)
      = (e_net env (w_trace w) (Send_Message sk ?msg), sent_one env p sk STREAM_DATA_TYPE s ?msg w)"
    by (simp add: delivered_def sent_one_def expect_reply_def stream_header_def new_message_defs)
  ultimately show ?thesis using sendStreamData_sends [OF assms, of True] by auto
qed

lemma payload_size_up:
  assumes "fits_buffer hs (length payload)"
  shows "ucast (word_of_nat (length payload) :: u32) = (word_of_nat (length payload) :: u64)"
proof -
  have "length payload < 2 ^ 32" using assms by (simp add: fits_buffer_def MESSAGE_CACHE_SIZE_def)
  then have "unat (word_of_nat (length payload) :: u64) = length payload" by (simp add: unat_of_nat)
  moreover have "unat (ucast (word_of_nat (length payload) :: u32) :: u64) = length payload"
    using payload_size [OF assms] by (simp add: unat_ucast_up)
  ultimately show ?thesis by (simp only: word_unat_eq_iff)
qed

lemma read_stream:
  assumes t: "w_heap v q = Some t" "m_socket t = Some tk" "m_processStreamData t = Some f"
    and pc: "passive_client env" and msg: "is_stream sid mid reply payload msg"
    and fit: "fits_buffer sizeof_Data_Stream_Header (length payload)"
    and ring: "ring_ok rb (msg @ rest)"
  shows "\<exists>v1 r. processMessage env q rb v = Inr (word_of_nat (length msg), v1)
    \<and> w_trace v1 = w_trace v @ Client (Stream_Data f (m_streamReceiver t) q payload (word_of_nat (length payload))) #
        (if reply then [Net (Send_Message tk (encode_Data_StreamReply_Message
           (stream_reply_msg (m_sessionId t) mid))) r] else [])
    \<and> w_heap v1 = w_heap v"
proof -
  let ?n = "word_of_nat (length payload) :: u32"
  have n: "length payload = unat ?n" using payload_size [OF fit] by simp
  from msg obtain pad where m: "length pad = padding_size (length payload)"
      "msg = payload_message (stream_header sid mid reply ?n) [] payload pad"
    by (auto simp: is_stream_def)
  have frame: "frame (stream_header sid mid reply ?n) msg"
    unfolding m(2) by (rule stream_frame) (use n m(1) fit in simp_all)
  have "settle (stream_header sid mid reply ?n) v = v"
    by (intro settle_no_reply) (simp add: stream_header_def)
  with process_stream [OF t(1,3) pc t(2) n, of sid mid reply pad] m(2) payload_size_up [OF fit] show ?thesis
    by (simp add: processMessage_frame [OF frame ring] frame_taken [OF frame])
qed

section \<open>Messages without a callback\<close>

lemma read_stream_unset:
  assumes t: "w_heap v q = Some t" and f: "m_processStreamData t = None"
    and msg: "is_stream sid mid reply payload msg"
    and fit: "fits_buffer sizeof_Data_Stream_Header (length payload)"
  shows "processMessage env q (list_ring msg) v = Inl Uninitialised_Call"
proof -
  let ?n = "word_of_nat (length payload) :: u32"
  let ?h = "stream_header sid mid reply ?n"
  have n: "length payload = unat ?n" using payload_size [OF fit] by simp
  from msg obtain pad where m: "length pad = padding_size (length payload)"
      "msg = payload_message ?h [] payload pad" by (auto simp: is_stream_def)
  have frame: "frame ?h msg" unfolding m(2) by (rule stream_frame) (use n m(1) fit in simp_all)
  have reads: "message_payloadSize msg = Inr ?n"
    "read_bytes sizeof_Data_Stream_Header (unat ?n) msg = Inr payload"
    using n by (simp_all add: m(2) payload_message_def wire_simps sizeof_values read_simps)
      (simp_all add: stream_header_def)
  have kind: "types_of (mtype ?h) = Some STREAM_DATA_TYPE"
    "stream_data_subTypes_of (subType ?h) = Some DATA_STREAM_STATIC_SUBTYPE"
    by (simp_all add: stream_header_def new_message_defs types_of_def stream_data_subTypes_of_def)
  have "w_heap (settle ?h v) q = Some t" using t by simp
  then show ?thesis
    by (simp add: read_frame [OF frame] dispatch_def process_Stream_Data_Type_def kind
        process_Data_Stream_def reads f)
qed

lemma read_single_unset:
  assumes t: "w_heap v q = Some t" and f: "m_processRequestData t = None"
    and msg: "is_single sid mid mbid 0 payload msg"
    and fit: "fits_buffer sizeof_Data_SingleBlock_Header (length payload)"
  shows "processMessage env q (list_ring msg) v = Inl Uninitialised_Call"
proof -
  let ?n = "word_of_nat (length payload) :: u32"
  let ?h = "single_header sid mid 0 ?n"
  have n: "length payload = unat ?n" using payload_size [OF fit] by simp
  from msg obtain pad4 pad where m: "length pad4 = 4"
      "msg = payload_message ?h (single_extra mbid 0 pad4) payload pad" by (auto simp: is_single_def)
  note frame = is_single_frame [OF msg fit]
  have "w_heap (settle ?h v) q = Some t" using t by simp
  then show ?thesis
    unfolding m(2) read_frame [OF frame [unfolded m(2)]]
    by (simp add: dispatch_def process_SingleBlock_Data_Type_def single_kind
        process_Data_SingleBlock_def single_reads [OF n m(1), unfolded payload_size [OF fit]]
        payload_size [OF fit] f Let_def)
qed

end
