(* ===== verification/Long_Messages.thy ===== *)
theory Long_Messages
  imports Data_Exchange
begin

text \<open>
  Messages of several blocks, from the first part to the end mark: what is sent is read on the
  other side into one buffer that holds exactly the data.
\<close>

lemma length_chunks_bound: "0 < n \<Longrightarrow> length (chunks n xs) \<le> length xs"
proof (induction n xs rule: chunks.induct)
  case (1 n xs)
  show ?case
  proof (cases "xs = []")
    case False
    with 1 have "length (chunks n (drop n xs)) \<le> length (drop n xs)" by simp
    moreover have "length (drop n xs) < length xs" using False 1(2) by simp
    ultimately have "Suc (length (chunks n (drop n xs))) \<le> length xs" by linarith
    then show ?thesis using False 1(2) by (simp add: chunks_step)
  qed simp
qed

lemma fits_smaller:
  assumes "fits_buffer hs m" and "n \<le> m"
  shows "fits_buffer hs n"
proof (cases "n = m")
  case False
  with assms padding_mono [of n m] show ?thesis by (simp add: fits_buffer_def)
qed (use assms in simp)

text \<open>A buffer that was filled part by part.\<close>

lemma read_all_parts:
  assumes db: "databuffer_ok (e_db env) content" and t: "w_heap v q = Some t" "io_ok (m_multiblockIo t)"
    and parts: "are_parts sid psize mbid parts mid 0 (chunks m data) ms"
    and m: "0 < m" "fits_buffer sizeof_Data_MultiBlock_Header m"
    and data: "data \<noteq> []" "length data < 2 ^ 32"
    and new: "io_bytes content mbid (m_multiblockIo t) = None"
  shows "\<exists>io buf. socket_reads (length ms + j) env q (concat ms @ rest) v
      = socket_reads j env q rest (set_session q (t\<lparr>m_multiblockIo := io\<rparr>) v)
    \<and> io_ok io \<and> m_abort io = m_abort (m_multiblockIo t)
    \<and> incomingData (getIncomingBuffer mbid io) = Some buf \<and> content buf = data
    \<and> (\<forall>i. i \<noteq> mbid \<longrightarrow> io_bytes content i io = io_bytes content i (m_multiblockIo t))"
proof -
  have small: "unat (0 :: u32) + length (chunks m data) < 2 ^ 32"
    using length_chunks_bound [OF m(1), of data] data(2) by simp
  have fits: "\<forall>c \<in> set (chunks m data). fits_buffer sizeof_Data_MultiBlock_Header (length c)"
    using length_in_chunks fits_smaller [OF m(2)] by blast
  have first: "(0 :: u32) = 0 \<longrightarrow> chunks m data \<noteq> [] \<and> ([] :: byte list) = []"
    using m(1) data(1) by (simp add: chunks_step)
  have "io_bytes content mbid (m_multiblockIo t) = (if (0 :: u32) = 0 then None else Some [])"
    using new by simp
  from socket_reads_parts [OF db parts t small fits this first, of j rest]
  obtain io where io: "socket_reads (length (chunks m data) + j) env q (concat ms @ rest) v
      = socket_reads j env q rest (set_session q (t\<lparr>m_multiblockIo := io\<rparr>) v)" "io_ok io"
      "m_abort io = m_abort (m_multiblockIo t)" "io_bytes content mbid io = Some (concat (chunks m data))"
      "\<forall>i. i \<noteq> mbid \<longrightarrow> io_bytes content i io = io_bytes content i (m_multiblockIo t)" by auto
  from incoming_buffer_content [OF io(2,4)] obtain buf where
    "incomingData (getIncomingBuffer mbid io) = Some buf" "content buf = data"
    using concat_chunks [OF m(1)] by auto
  with io length_are_parts [OF parts] show ?thesis by auto
qed

lemma socket_reads_empty: "socket_reads k env q [] v = Inr ([], v)"
  by (cases k) (simp_all add: processMessage_def list_ring_def sizeof_CommonMessageHeader_def)

lemma finish_no_reply: "settle (dmf_commonHeader (multi_finish_msg sid mid mbid bid)) w = w"
  by (intro settle_no_reply) (simp add: multi_finish_msg_def)

lemma read_long_request:
  assumes db: "databuffer_ok (e_db env) content" and t: "w_heap v q = Some t" "io_ok (m_multiblockIo t)"
    and f: "m_processRequestData t = Some f" and pc: "passive_client env"
    and parts: "are_parts sid psize mbid parts mid 0 (chunks m data) ms"
    and m: "0 < m" "fits_buffer sizeof_Data_MultiBlock_Header m"
    and data: "data \<noteq> []" "length data < 2 ^ 32"
    and new: "io_bytes content mbid (m_multiblockIo t) = None"
  shows "\<exists>v1 t1 buf. socket_reads (length ms + 1) env q
        (concat (ms @ [encode_Data_MultiFinish_Message (multi_finish_msg sid mid' mbid 0)])) v = Inr ([], v1)
    \<and> w_trace v1 = w_trace v @ [Client (Request_Data f (m_standaloneReceiver t) q mbid (Some buf))]
    \<and> content buf = data \<and> w_heap v1 q = Some t1 \<and> io_ok (m_multiblockIo t1)
    \<and> m_abort (m_multiblockIo t1) = m_abort (m_multiblockIo t)
    \<and> (\<forall>i. io_bytes content i (m_multiblockIo t1) = io_bytes content i (m_multiblockIo t))
    \<and> t1 = t\<lparr>m_multiblockIo := m_multiblockIo t1\<rparr>"
proof -
  let ?fin = "multi_finish_msg sid mid' mbid 0"
  from read_all_parts [OF db t parts m data new, of 1 "encode_Data_MultiFinish_Message ?fin"]
  obtain io buf where io: "socket_reads (length ms + 1) env q
        (concat ms @ encode_Data_MultiFinish_Message ?fin) v
      = socket_reads 1 env q (encode_Data_MultiFinish_Message ?fin) (set_session q (t\<lparr>m_multiblockIo := io\<rparr>) v)"
    "io_ok io" "incomingData (getIncomingBuffer mbid io) = Some buf" "content buf = data"
    "\<forall>i. i \<noteq> mbid \<longrightarrow> io_bytes content i io = io_bytes content i (m_multiblockIo t)"
    "m_abort io = m_abort (m_multiblockIo t)" by blast
  let ?v = "set_session q (t\<lparr>m_multiblockIo := io\<rparr>) v"
  have "w_heap ?v q = Some (t\<lparr>m_multiblockIo := io\<rparr>)" and "m_processRequestData (t\<lparr>m_multiblockIo := io\<rparr>) = Some f"
    using f by simp_all
  note d = process_finish_request [OF this pc, of sid mid' mbid]
  have "socket_reads 1 env q (encode_Data_MultiFinish_Message ?fin) ?v = Inr ([],
      set_session q (t\<lparr>m_multiblockIo := snd (removeMultiblockBuffer mbid io)\<rparr>)
        (log_event (Client (Request_Data f (m_standaloneReceiver t) q mbid (Some buf))) v))"
    using socket_reads_frame [OF finish_frame [of sid mid' mbid 0], where env = env and p = q and w = ?v
        and k = 0 and rest = "[]"] d io(3) by (simp add: finish_no_reply world_norm)
  with io(1) have "socket_reads (length ms + 1) env q
      (concat (ms @ [encode_Data_MultiFinish_Message ?fin])) v = Inr ([],
      set_session q (t\<lparr>m_multiblockIo := snd (removeMultiblockBuffer mbid io)\<rparr>)
        (log_event (Client (Request_Data f (m_standaloneReceiver t) q mbid (Some buf))) v))"
    by simp
  then show ?thesis
    using io(4-6) new removeMultiblockBuffer_bytes [OF io(2)] multiblock_abort_flag(2) [of mbid io]
    by (intro exI [of _ "set_session q (t\<lparr>m_multiblockIo := snd (removeMultiblockBuffer mbid io)\<rparr>)
        (log_event (Client (Request_Data f (m_standaloneReceiver t) q mbid (Some buf))) v)"]) auto
qed

lemma read_long_response:
  assumes db: "databuffer_ok (e_db env) content" and s: "w_heap w p = Some s" "io_ok (m_multiblockIo s)"
    and bid: "bid \<noteq> 0"
    and parts: "are_parts sid psize mbid parts mid 0 (chunks m data) ms"
    and m: "0 < m" "fits_buffer sizeof_Data_MultiBlock_Header m"
    and data: "data \<noteq> []" "length data < 2 ^ 32"
    and new: "io_bytes content mbid (m_multiblockIo s) = None"
    and rel: "\<And>buf. content buf = data \<Longrightarrow> \<exists>b. releaseMessage bid (Some buf) (w_blocker w) = Inr (True, b) \<and> P buf b"
  shows "\<exists>w1 buf b. socket_reads (length ms + 1) env p
        (concat (ms @ [encode_Data_MultiFinish_Message (multi_finish_msg sid mid' mbid bid)])) w = Inr ([], w1)
    \<and> w_trace w1 = w_trace w \<and> content buf = data \<and> w_blocker w1 = b \<and> P buf b
    \<and> (\<exists>io. w_heap w1 p = Some (s\<lparr>m_multiblockIo := io\<rparr>) \<and> io_ok io
        \<and> m_abort io = m_abort (m_multiblockIo s)
        \<and> (\<forall>i. io_bytes content i io = io_bytes content i (m_multiblockIo s)))"
proof -
  let ?fin = "multi_finish_msg sid mid' mbid bid"
  from read_all_parts [OF db s parts m data new, of 1 "encode_Data_MultiFinish_Message ?fin"]
  obtain io buf where io: "socket_reads (length ms + 1) env p
        (concat ms @ encode_Data_MultiFinish_Message ?fin) w
      = socket_reads 1 env p (encode_Data_MultiFinish_Message ?fin) (set_session p (s\<lparr>m_multiblockIo := io\<rparr>) w)"
    "incomingData (getIncomingBuffer mbid io) = Some buf" "content buf = data" "io_ok io"
    "\<forall>i. i \<noteq> mbid \<longrightarrow> io_bytes content i io = io_bytes content i (m_multiblockIo s)"
    "m_abort io = m_abort (m_multiblockIo s)" by blast
  let ?w = "set_session p (s\<lparr>m_multiblockIo := io\<rparr>) w"
  from rel [OF io(3)] obtain b where b: "releaseMessage bid (Some buf) (w_blocker w) = Inr (True, b)" "P buf b"
    by blast
  have "w_heap ?w p = Some (s\<lparr>m_multiblockIo := io\<rparr>)"
    and "releaseMessage bid (incomingData (getIncomingBuffer mbid (m_multiblockIo (s\<lparr>m_multiblockIo := io\<rparr>))))
      (w_blocker ?w) = Inr (True, b)"
    using b(1) io(2) by simp_all
  note d = process_finish_response [OF this(1) bid this(2), where sid = sid and mid = mid']
  have "socket_reads 1 env p (encode_Data_MultiFinish_Message ?fin) ?w = Inr ([],
      set_session p (s\<lparr>m_multiblockIo := snd (removeMultiblockBuffer mbid io)\<rparr>) (w\<lparr>w_blocker := b\<rparr>))"
    using socket_reads_frame [OF finish_frame [of sid mid' mbid bid], where env = env and p = p and w = ?w
        and k = 0 and rest = "[]"] d by (simp add: finish_no_reply world_norm)
  with io(1,3,5,6) b(2) new removeMultiblockBuffer_bytes [OF io(4)] multiblock_abort_flag(2) [of mbid io]
  show ?thesis
    by (intro exI [of _ "set_session p (s\<lparr>m_multiblockIo := snd (removeMultiblockBuffer mbid io)\<rparr>)
        (w\<lparr>w_blocker := b\<rparr>)"] exI [of _ buf] exI [of _ b]) auto
qed

section \<open>The sample instance\<close>

lemma sample_rand:
  "getRandId sample_env (sample_world ph) = Inr (4294967298, (sample_world ph)\<lparr>w_rand := 2\<rparr>)"
proof -
  have "rand_id (e_rand sample_env) (0 + 2 * 0) = 4294967298"
    by (simp add: rand_id_def sample_env_def push_bit_eq_mult)
  with getRandId_loop_hit [of "e_rand sample_env" 0 0]
  have "getRandId_loop (e_rand sample_env) 0 = Some (4294967298, 2)" by simp
  then show ?thesis by (simp add: getRandId_def sample_world_def)
qed

lemma sample_fits:
  "fits_buffer sizeof_Data_Stream_Header 3" "fits_buffer sizeof_Data_SingleBlock_Header 3"
  "fits_buffer sizeof_Data_MultiBlock_Header 8"
  by (simp_all add: fits_buffer_def padding_size_def sizeof_values MESSAGE_CACHE_SIZE_def)

lemma sample_buffers:
  "io_ok (m_multiblockIo (sample_session ph))" "e_max sample_env = 8"
  "io_bytes (\<lambda>b. b) i (m_multiblockIo (sample_session ph)) = None"
  "\<not> m_abort (m_multiblockIo (sample_session ph))"
  "databuffer_ok (e_db sample_env) (\<lambda>b. b)" "blockers_ok (w_blocker (sample_world ph))"
  "blocker_list (w_blocker (sample_world ph)) = []"
  by (simp_all add: sample_defs io_ok_def io_bytes_def std_ordered_def std_find_def
      list_databuffer_ok blockers_ok_def)

end
