(* ===== verification/Segments.thy ===== *)
theory Segments
  imports Receiving
begin

text \<open>
  A socket hands over bytes in segments of any size. The messages of a connection are processed one
  after the other, wherever the segments are cut.
\<close>

section \<open>Messages one by one, and segments\<close>

text \<open>Headers of a kind processMessage has a case for.\<close>

definition handled :: "CommonMessageHeader \<Rightarrow> bool" where
  "handled h \<longleftrightarrow> types_of (mtype h) \<noteq> None \<and> types_of (mtype h) \<noteq> Some UNDEFINED_TYPE"

fun process_frames ::
    "('sm, 'buf) env \<Rightarrow> ptr \<Rightarrow> (CommonMessageHeader \<times> byte list) list \<Rightarrow> ('sm, 'buf) world
     \<Rightarrow> fault + ('sm, 'buf) world" where
  "process_frames env p [] w = Inr w"
| "process_frames env p ((h, msg) # fs) w =
     then_do (dispatch env p h msg (settle h w)) (\<lambda>(taken, w1). process_frames env p fs w1)"

text \<open>
  With every segment the socket appends its bytes to the buffer and lets processMessage read until
  nothing more is taken; there are never more messages in the buffer than bytes.
\<close>

fun receive ::
    "('sm, 'buf) env \<Rightarrow> ptr \<Rightarrow> byte list list \<Rightarrow> byte list \<Rightarrow> ('sm, 'buf) world
     \<Rightarrow> fault + byte list \<times> ('sm, 'buf) world" where
  "receive env p [] buffered w = Inr (buffered, w)"
| "receive env p (seg # segs) buffered w =
     then_do (socket_reads (length (buffered @ seg)) env p (buffered @ seg) w)
       (\<lambda>(rest, w1). receive env p segs rest w1)"

lemma process_frames_append:
  "process_frames env p (fs @ gs) w = then_do (process_frames env p fs w) (process_frames env p gs)"
proof (induction fs arbitrary: w)
  case (Cons f fs)
  obtain h msg where "f = (h, msg)" by (cases f)
  then show ?case by (cases "dispatch env p h msg (settle h w)") (auto simp: Cons.IH)
qed simp

lemma dispatch_taken:
  assumes "handled h" and "dispatch env p h raw w = Inr (k, w1)"
  shows "k = ucast (totalMessageSize h)"
proof -
  have "dispatch env p h raw w = Inr (k, w1) \<Longrightarrow> handled h \<Longrightarrow>
    \<exists>r. then_do r (\<lambda>w1. Inr (ucast (totalMessageSize h), w1)) = (Inr (k, w1) :: fault + u64 \<times> ('a, 'b) world)"
    by (auto simp: dispatch_def Let_def handled_def split: option.splits types.splits)
  with assms obtain r where
    "then_do r (\<lambda>w1. Inr (ucast (totalMessageSize h), w1)) = (Inr (k, w1) :: fault + u64 \<times> ('a, 'b) world)"
    by blast
  then show ?thesis by (cases r) auto
qed

section \<open>What is in the buffer\<close>

text \<open>The rest of the buffer behind complete messages: nothing, or the beginning of a message.\<close>

definition beginning :: "byte list \<Rightarrow> bool" where
  "beginning part \<longleftrightarrow> part = [] \<or> (\<exists>h msg. frame h msg \<and> length part < length msg \<and> part = take (length part) msg)"

lemma beginning_waits:
  assumes "beginning part"
  shows "socket_reads j env p part w = Inr (part, w)"
proof -
  have "processMessage env p (list_ring part) w = Inr (0, w)"
  proof (cases "part = []")
    case True
    then show ?thesis by (simp add: processMessage_def list_ring_def sizeof_CommonMessageHeader_def)
  next
    case False
    with assms obtain h msg where m: "frame h msg" "length part < length msg" "part = take (length part) msg"
      by (auto simp: beginning_def)
    then have "ring_ok (list_ring part) (take (length part) msg)" using list_ring_ok [of part] by simp
    with incomplete_message_waits [OF m(1)] m(2) show ?thesis by blast
  qed
  then show ?thesis by (cases j) simp_all
qed

lemma socket_reads_frames:
  "list_all2 frame (map fst fs) (map snd fs) \<Longrightarrow> \<forall>f \<in> set fs. handled (fst f) \<Longrightarrow> beginning part \<Longrightarrow>
   socket_reads (length fs + j) env p (concat (map snd fs) @ part) w
     = then_do (process_frames env p fs w) (\<lambda>w1. Inr (part, w1))"
proof (induction fs arbitrary: w)
  case Nil
  then show ?case by (simp add: beginning_waits)
next
  case (Cons f fs)
  obtain h msg where f: "f = (h, msg)" by (cases f)
  with Cons.prems have fr: "frame h msg" and hd: "handled h" by simp_all
  let ?rest = "concat (map snd fs) @ part"
  show ?case
  proof (cases "dispatch env p h msg (settle h w)")
    case (Inl e)
    with processMessage_frame [OF fr list_ring_ok [of "msg @ ?rest"], of env p w] show ?thesis
      by (simp add: f)
  next
    case (Inr r)
    obtain k w1 where r: "r = (k, w1)" by (cases r)
    have "dispatch env p h msg (settle h w) = Inr (ucast (totalMessageSize h), w1)"
      using dispatch_taken [OF hd] Inr r by blast
    from socket_reads_frame [OF fr this, of "length fs + j" ?rest] Inr r show ?thesis
      using Cons by (simp add: f)
  qed
qed

lemma take_concat:
  "\<exists>i part. take n (concat ms) = concat (take i ms) @ part \<and> i \<le> length ms
     \<and> (part = [] \<or> i < length ms \<and> length part < length (ms ! i) \<and> part = take (length part) (ms ! i))"
proof (induction ms arbitrary: n)
  case (Cons m ms)
  show ?case
  proof (cases "n < length m")
    case True
    then show ?thesis by (intro exI [of _ 0] exI [of _ "take n m"]) simp
  next
    case False
    from Cons.IH [of "n - length m"] obtain i part where
      "take (n - length m) (concat ms) = concat (take i ms) @ part" "i \<le> length ms"
      "part = [] \<or> i < length ms \<and> length part < length (ms ! i) \<and> part = take (length part) (ms ! i)"
      by blast
    with False show ?thesis by (intro exI [of _ "Suc i"] exI [of _ part]) simp
  qed
qed simp

lemma frames_not_empty:
  assumes "list_all2 frame hs ms"
  shows "length ms \<le> length (concat ms)"
  using assms by (induction rule: list_all2_induct) (auto simp: frame_def)

section \<open>Any segments\<close>

lemma frames_drop:
  "list_all2 frame (map fst fs) (map snd fs) \<Longrightarrow>
     list_all2 frame (map fst (take i fs)) (map snd (take i fs))
   \<and> list_all2 frame (map fst (drop i fs)) (map snd (drop i fs))"
  by (metis list_all2_takeI list_all2_dropI take_map drop_map)

lemma beginning_of_frame:
  assumes "list_all2 frame (map fst fs) (map snd fs)" and "i < length fs"
    and "length part < length (snd (fs ! i))" and "part = take (length part) (snd (fs ! i))"
  shows "beginning part"
  using list_all2_nthD [OF assms(1), of i] assms(2-4) by (auto simp: beginning_def)

lemma receive_frames:
  "buffered @ concat segs = concat (map snd fs) \<Longrightarrow> list_all2 frame (map fst fs) (map snd fs) \<Longrightarrow>
   \<forall>f \<in> set fs. handled (fst f) \<Longrightarrow>
   buffered = [] \<or> fs \<noteq> [] \<and> length buffered < length (snd (hd fs)) \<Longrightarrow>
   receive env p segs buffered w = then_do (process_frames env p fs w) (\<lambda>w1. Inr ([], w1))"
proof (induction segs arbitrary: buffered fs w)
  case Nil
  have "fs = []"
  proof (rule ccontr)
    assume "fs \<noteq> []"
    then have "0 < length fs" by simp
    moreover have "length fs \<le> length (concat (map snd fs))"
      using frames_not_empty [OF Nil.prems(2)] by (simp only: length_map)
    ultimately have "concat (map snd fs) \<noteq> []" by (metis leD length_0_conv)
    with Nil.prems(1) have "buffered \<noteq> []" by auto
    with Nil.prems(4) have "length buffered < length (snd (hd fs))" by blast
    with Nil.prems(1) \<open>fs \<noteq> []\<close> show False by (cases fs) auto
  qed
  with Nil.prems(4) show ?case by simp
next
  case (Cons seg segs)
  let ?B = "buffered @ seg"
  have all: "concat (map snd fs) = ?B @ concat segs" using Cons.prems(1) by simp
  then have B: "?B = take (length ?B) (concat (map snd fs))" by simp
  obtain i part where cut: "?B = concat (take i (map snd fs)) @ part" "i \<le> length fs"
    "part = [] \<or> i < length fs \<and> length part < length (map snd fs ! i) \<and> part = take (length part) (map snd fs ! i)"
    using take_concat [of "length ?B" "map snd fs"] B by auto
  let ?fs1 = "take i fs" and ?fs2 = "drop i fs"
  note frames = frames_drop [OF Cons.prems(2), of i]
  have parts: "?B = concat (map snd ?fs1) @ part" using cut(1) by (simp add: take_map)
  have start: "beginning part"
  proof (cases "part = []")
    case False
    with cut(3) show ?thesis by (intro beginning_of_frame [OF Cons.prems(2)]) auto
  qed (simp add: beginning_def)
  have "length ?fs1 \<le> length ?B"
    using frames_not_empty [OF conjunct1 [OF frames]] unfolding parts by simp
  then obtain j where j: "length ?B = length ?fs1 + j" using le_Suc_ex by blast
  have "\<forall>f \<in> set ?fs1. handled (fst f)" using Cons.prems(3) by (meson in_set_takeD)
  from socket_reads_frames [OF conjunct1 [OF frames] this start, of j env p w]
  have reads: "socket_reads (length ?B) env p ?B w
      = then_do (process_frames env p ?fs1 w) (\<lambda>w1. Inr (part, w1))"
    unfolding j by (subst parts)
  have "concat (map snd fs) = concat (map snd ?fs1) @ concat (map snd ?fs2)"
    by (metis append_take_drop_id concat_append map_append)
  with all parts have rest: "part @ concat segs = concat (map snd ?fs2)" by simp
  have first: "part = [] \<or> ?fs2 \<noteq> [] \<and> length part < length (snd (hd ?fs2))"
    using cut(3) by (auto simp: hd_drop_conv_nth)
  have "\<forall>f \<in> set ?fs2. handled (fst f)" using Cons.prems(3) by (meson in_set_dropD)
  note IH = Cons.IH [OF rest conjunct2 [OF frames] this first]
  have "receive env p (seg # segs) buffered w
      = then_do (process_frames env p ?fs1 w) (\<lambda>w1. receive env p segs part w1)"
    using reads by (cases "process_frames env p ?fs1 w") simp_all
  also have "\<dots> = then_do (process_frames env p ?fs1 w) (\<lambda>w1.
      then_do (process_frames env p ?fs2 w1) (\<lambda>w1. Inr ([], w1)))"
    by (simp only: IH)
  also have "\<dots> = then_do (process_frames env p (?fs1 @ ?fs2) w) (\<lambda>w1. Inr ([], w1))"
    by (simp only: process_frames_append then_do_assoc)
  finally show ?case by simp
qed

text \<open>
  C21: it does not matter how the bytes of a connection are cut into segments, in the middle of a
  header or of a payload, or several messages at once: the outcome, a fault included, is that of
  processing the messages one after the other, and nothing is left in the buffer.
\<close>

theorem segments_do_not_matter:
  assumes "concat segs = concat (map snd fs)" and "list_all2 frame (map fst fs) (map snd fs)"
    and "\<forall>f \<in> set fs. handled (fst f)"
  shows "receive env p segs [] w = then_do (process_frames env p fs w) (\<lambda>w1. Inr ([], w1))"
  using receive_frames [of "[]" segs fs] assms by simp

theorem segments_do_not_matter_witness:
  "let bs = encode_Data_MultiFinish_Message (multi_finish_msg 7 1 3 0);
       h = dmf_commonHeader (multi_finish_msg 7 1 3 0) in
   receive sample_env 1 [take 39 bs, drop 39 bs @ take 3 bs, drop 3 bs] [] (sample_world Ready)
     = then_do (process_frames sample_env 1 [(h, bs), (h, bs)] (sample_world Ready)) (\<lambda>w1. Inr ([], w1))"
proof -
  have "handled (dmf_commonHeader (multi_finish_msg 7 1 3 0))"
    by (simp add: handled_def multi_finish_msg_def new_message_defs types_of_def)
  with finish_frame [of 7 1 3 0] show ?thesis
    unfolding Let_def by (intro segments_do_not_matter) simp_all
qed

end
