(* ===== verification/Transfers.thy ===== *)
theory Transfers
  imports Long_Messages Segments
begin

text \<open>
  The transfer of data of any length: the frames that carry them, as one block or in parts with an
  end mark, the sending of these frames, and what the other side does with them when they are a
  message or a request, and when they are a response. Ordered_Delivery and Remote_Calls build on it.
\<close>

section \<open>Reading a trace\<close>

text \<open>What the application was told, and the bytes the socket \<open>sk\<close> was given and accepted.\<close>

fun callbacks :: "'buf event list \<Rightarrow> 'buf callback list" where
  "callbacks [] = []"
| "callbacks (Client cb # evs) = cb # callbacks evs"
| "callbacks (ev # evs) = callbacks evs"

lemma callbacks_append [simp]: "callbacks (evs @ evs') = callbacks evs @ callbacks evs'"
  by (induction evs rule: callbacks.induct) simp_all

fun wire :: "sock \<Rightarrow> 'buf event list \<Rightarrow> byte list" where
  "wire sk [] = []"
| "wire sk (Net (Send_Message sk' m) r # evs) = (if sk' = sk \<and> r then m else []) @ wire sk evs"
| "wire sk (ev # evs) = wire sk evs"

lemma wire_append [simp]: "wire sk (evs @ evs') = wire sk evs @ wire sk evs'"
  by (induction sk evs rule: wire.induct) simp_all

lemma wire_sent [simp]: "wire sk (sent_events sk ms) = concat ms"
  by (induction ms) simp_all

lemma callbacks_sent [simp]: "callbacks (sent_events sk ms) = []"
  by (induction ms) simp_all

text \<open>The events that were added to the trace of \<open>w\<close>.\<close>

definition news :: "('sm, 'buf) world \<Rightarrow> ('sm, 'buf) world \<Rightarrow> 'buf event list" where
  "news w w1 = drop (length (w_trace w)) (w_trace w1)"

lemma news_eq: "w_trace w1 = w_trace w @ evs \<Longrightarrow> news w w1 = evs"
  by (simp add: news_def)

section \<open>Frames\<close>

text \<open>
  The frames that carry \<open>d\<close> under the identifier \<open>mbid\<close>, as an answer to the request \<open>bid\<close> or, with
  0, as no answer; \<open>m\<close> is the size of the parts.
\<close>

definition data_frames ::
    "nat \<Rightarrow> u64 \<Rightarrow> u64 \<Rightarrow> byte list \<Rightarrow> (CommonMessageHeader \<times> byte list) list \<Rightarrow> bool" where
  "data_frames m mbid bid d fs \<longleftrightarrow>
     (\<exists>sid mid msg. is_single sid mid mbid bid d msg \<and> fits_buffer sizeof_Data_SingleBlock_Header (length d)
        \<and> fs = [(single_header sid mid bid (word_of_nat (length d)), msg)])
     \<or> (d \<noteq> [] \<and> length d < 2 ^ 32 \<and>
        (\<exists>sid mid mid' psize parts ms hs. are_parts sid psize mbid parts mid 0 (chunks m d) ms
          \<and> list_all2 frame hs ms \<and> (\<forall>h \<in> set hs. handled h)
          \<and> fs = zip hs ms @ [(dmf_commonHeader (multi_finish_msg sid mid' mbid bid),
                encode_Data_MultiFinish_Message (multi_finish_msg sid mid' mbid bid))]))"

lemma data_frames_single:
  assumes "is_single sid mid mbid bid d msg" and "fits_buffer sizeof_Data_SingleBlock_Header (length d)"
  shows "data_frames m mbid bid d [(single_header sid mid bid (word_of_nat (length d)), msg)]"
  using assms unfolding data_frames_def by blast

lemma data_frames_parts:
  assumes "are_parts sid psize mbid parts mid 0 (chunks m d) ms" and "d \<noteq> []" "length d < 2 ^ 32"
    and "list_all2 frame hs ms" and "\<forall>h \<in> set hs. handled h"
  shows "data_frames m mbid bid d (zip hs ms @ [(dmf_commonHeader (multi_finish_msg sid mid' mbid bid),
    encode_Data_MultiFinish_Message (multi_finish_msg sid mid' mbid bid))])"
  using assms unfolding data_frames_def by blast

lemma data_frames_cases:
  assumes "data_frames m mbid bid d fs"
  obtains (Single) sid mid msg where "is_single sid mid mbid bid d msg"
      "fits_buffer sizeof_Data_SingleBlock_Header (length d)"
      "fs = [(single_header sid mid bid (word_of_nat (length d)), msg)]"
  | (Parts) sid mid mid' psize parts ms hs where "d \<noteq> []" "length d < 2 ^ 32"
      "are_parts sid psize mbid parts mid 0 (chunks m d) ms" "list_all2 frame hs ms"
      "\<forall>h \<in> set hs. handled h"
      "fs = zip hs ms @ [(dmf_commonHeader (multi_finish_msg sid mid' mbid bid),
                encode_Data_MultiFinish_Message (multi_finish_msg sid mid' mbid bid))]"
      "map snd fs = ms @ [encode_Data_MultiFinish_Message (multi_finish_msg sid mid' mbid bid)]"
      "length fs = length ms + 1"
  using assms unfolding data_frames_def
proof (elim disjE exE conjE)
  fix sid mid mid' psize parts ms hs
  assume p: "d \<noteq> []" "length d < 2 ^ 32" "are_parts sid psize mbid parts mid 0 (chunks m d) ms"
      "list_all2 frame hs ms" "\<forall>h \<in> set hs. handled h"
      "fs = zip hs ms @ [(dmf_commonHeader (multi_finish_msg sid mid' mbid bid),
                encode_Data_MultiFinish_Message (multi_finish_msg sid mid' mbid bid))]"
  have "map snd fs = ms @ [encode_Data_MultiFinish_Message (multi_finish_msg sid mid' mbid bid)]"
      "length fs = length ms + 1" using p(4) by (simp_all add: p(6) list_all2_lengthD)
  with p show thesis by (rule Parts)
qed (rule Single)

lemma data_frames_ok:
  assumes "data_frames m mbid bid d fs"
  shows "list_all2 frame (map fst fs) (map snd fs)" and "\<forall>f \<in> set fs. handled (fst f)"
proof -
  have "list_all2 frame (map fst fs) (map snd fs) \<and> (\<forall>f \<in> set fs. handled (fst f))"
    using assms
  proof (cases rule: data_frames_cases)
    case (Single sid mid msg)
    have "handled (single_header sid mid bid (word_of_nat (length d)))" by (simp add: handled_def single_kind)
    with is_single_frame [OF Single(1,2)] Single(3) show ?thesis by simp
  next
    case (Parts sid mid mid' psize parts ms hs)
    have fin: "handled (dmf_commonHeader (multi_finish_msg sid mid' mbid bid))"
      by (simp add: handled_def finish_kind)
    have "map fst (zip hs ms) = hs" "map snd (zip hs ms) = ms" using Parts(4) by (simp_all add: list_all2_lengthD)
    moreover have "\<forall>f \<in> set (zip hs ms). handled (fst f)" using Parts(5) by (auto dest: set_zip_leftD)
    ultimately show ?thesis
      using Parts(4) fin finish_frame unfolding Parts(6) by (auto intro!: list_all2_appendI)
  qed
  then show "list_all2 frame (map fst fs) (map snd fs)" and "\<forall>f \<in> set fs. handled (fst f)" by simp_all
qed

lemma parts_frames:
  "are_parts sid psize mbid parts mid k cs ms \<Longrightarrow>
   \<forall>c \<in> set cs. fits_buffer sizeof_Data_MultiBlock_Header (length c) \<Longrightarrow>
   \<exists>hs. list_all2 frame hs ms \<and> (\<forall>h \<in> set hs. handled h)"
proof (induction sid psize mbid parts mid k cs ms rule: are_parts.induct)
  case (3 sid psize mbid parts mid k c cs m ms)
  let ?h = "multi_header sid (mid + 1) 0 (word_of_nat (length c))"
  from 3(2) obtain pad where m: "length pad = padding_size (length c)"
      "m = payload_message ?h (multi_extra psize mbid parts k) c pad" by (auto simp: is_part_def)
  have fit: "fits_buffer sizeof_Data_MultiBlock_Header (length c)" using 3(3) by simp
  have "frame ?h m"
    unfolding m(2) by (rule multi_frame) (use m(1) fit payload_size [OF fit] in simp_all)
  moreover have "handled ?h" by (simp add: handled_def multi_kind)
  moreover obtain hs where "list_all2 frame hs ms" "\<forall>h \<in> set hs. handled h" using 3 by auto
  ultimately show ?case by (intro exI [of _ "?h # hs"]) simp
qed auto

section \<open>Sending\<close>

text \<open>
  The sending side: its socket accepts what it is given, blocks have a size that fits into the
  buffer of a message, and \<open>rand()\<close> does not return 0 for ever.
\<close>

definition channel_ok :: "('sm, 'buf) env \<Rightarrow> sock \<Rightarrow> bool" where
  "channel_ok env sk \<longleftrightarrow> 0 < e_max env \<and> fits_buffer sizeof_Data_MultiBlock_Header (e_max env)
     \<and> (\<forall>tr m. e_net env tr (Send_Message sk m)) \<and> (\<forall>i. getRandId_loop (e_rand env) i \<noteq> None)"

lemma fits_header: "fits_buffer hs n \<Longrightarrow> hs' \<le> hs \<Longrightarrow> fits_buffer hs' n"
  by (simp add: fits_buffer_def)

lemma channel_okD:
  assumes "channel_ok env sk"
  shows "0 < e_max env" and "fits_buffer sizeof_Data_MultiBlock_Header (e_max env)"
    and "e_net env tr (Send_Message sk m)" and "\<exists>i w1. getRandId env w = Inr (i, w1)"
    and "n \<le> e_max env \<Longrightarrow> fits_buffer sizeof_Data_Stream_Header n"
    and "n \<le> e_max env \<Longrightarrow> fits_buffer sizeof_Data_SingleBlock_Header n"
proof -
  show "0 < e_max env" and f: "fits_buffer sizeof_Data_MultiBlock_Header (e_max env)"
    and "e_net env tr (Send_Message sk m)" and "\<exists>i w1. getRandId env w = Inr (i, w1)"
    using assms by (auto simp: channel_ok_def getRandId_def split: option.splits)
  show "n \<le> e_max env \<Longrightarrow> fits_buffer sizeof_Data_Stream_Header n"
    and "n \<le> e_max env \<Longrightarrow> fits_buffer sizeof_Data_SingleBlock_Header n"
    by (rule fits_header [OF fits_smaller [OF f]], assumption, simp add: sizeof_values)+
qed

lemma length_fits: "fits_buffer hs n \<Longrightarrow> unat (word_of_nat n :: u64) = n"
  by (simp add: unat_of_nat fits_buffer_def MESSAGE_CACHE_SIZE_def)

lemma advanced_other [simp]:
  "w_blocker (advanced p s k evs w) = w_blocker w" "w_rand (advanced p s k evs w) = w_rand w"
  by (simp_all add: advanced_def)

lemma sent_one_rand [simp]: "w_rand (sent_one env p sk ty s msg w) = w_rand w"
  by (simp add: sent_one_def)

lemma long_data_sent:
  assumes ch: "channel_ok env sk" and s: "w_heap w p = Some s" "m_socket s = Some sk" "\<not> m_abort (m_multiblockIo s)"
    and d: "d \<noteq> []" "length d < 2 ^ 32" and rand: "getRandId env w = Inr (mbid, w0)"
  shows "\<exists>fs w1 k. sendOutgoingData env p d (word_of_nat (length d)) bid w = Inr (mbid, w1)
    \<and> data_frames (e_max env) mbid bid d fs \<and> w_trace w1 = w_trace w @ sent_events sk (map snd fs)
    \<and> w_heap w1 p = Some (s\<lparr>m_messageIdCounter := k\<rparr>) \<and> w_blocker w1 = w_blocker w
    \<and> w_rand w1 = w_rand w0"
proof -
  let ?n = "word_of_nat (length d) :: u64"
  have n: "unat ?n = length d" using d(2) by (simp add: unat_of_nat)
  from sendOutgoingData_sends [OF channel_okD(3,1,2) [OF ch] n d(2) s rand, of bid] obtain ms where
    sent: "sendOutgoingData env p d ?n bid w = Inr (mbid, advanced p s (word_of_nat (length ms) + 1)
      (sent_events sk (ms @ [encode_Data_MultiFinish_Message (multi_finish_msg (m_sessionId s)
        (m_messageIdCounter s + word_of_nat (length ms) + 1) mbid bid)])) w0)"
    and parts: "are_parts (m_sessionId s) ?n mbid (part_count env ?n) (m_messageIdCounter s) 0
      (chunks (e_max env) d) ms" by blast
  have "\<forall>c \<in> set (chunks (e_max env) d). fits_buffer sizeof_Data_MultiBlock_Header (length c)"
    using length_in_chunks fits_smaller [OF channel_okD(2) [OF ch]] by blast
  from parts_frames [OF parts this] obtain hs where hs: "list_all2 frame hs ms" "\<forall>h \<in> set hs. handled h"
    by blast
  let ?fin = "multi_finish_msg (m_sessionId s) (m_messageIdCounter s + word_of_nat (length ms) + 1) mbid bid"
  let ?fs = "zip hs ms @ [(dmf_commonHeader ?fin, encode_Data_MultiFinish_Message ?fin)]"
  have "data_frames (e_max env) mbid bid d ?fs" by (rule data_frames_parts [OF parts d hs])
  moreover have "map snd ?fs = ms @ [encode_Data_MultiFinish_Message ?fin]"
    using hs(1) by (simp add: list_all2_lengthD)
  ultimately show ?thesis
    using sent after_getRandId [OF rand] by (intro exI [of _ ?fs]) auto
qed

section \<open>Receiving\<close>

lemma process_one_frame:
  assumes "frame h msg" and "processMessage env q (list_ring msg) v = Inr (k, v1)"
  shows "process_frames env q [(h, msg)] v = Inr v1"
  using assms processMessage_frame [OF assms(1), of "list_ring msg" "[]" env q v] list_ring_ok [of msg] by simp

lemma process_read_frames:
  assumes "list_all2 frame (map fst fs) (map snd fs)" and "\<forall>f \<in> set fs. handled (fst f)"
    and "socket_reads (length fs) env q (concat (map snd fs)) v = Inr ([], v1)"
  shows "process_frames env q fs v = Inr v1"
proof -
  have "beginning []" by (simp add: beginning_def)
  from socket_reads_frames [OF assms(1,2) this, of 0 env q v] assms(3) show ?thesis
    by (cases "process_frames env q fs v") simp_all
qed

text \<open>A session that is not in the middle of a message of several blocks.\<close>

definition between_messages :: "('buf \<Rightarrow> byte list) \<Rightarrow> 'buf multiblock_io \<Rightarrow> bool" where
  "between_messages content io \<longleftrightarrow> io_ok io \<and> (\<forall>i. io_bytes content i io = None)"

text \<open>The events of the acknowledgement of a single block; parts are not acknowledged.\<close>

definition acknowledgements :: "sock \<Rightarrow> u32 \<Rightarrow> 'buf event list \<Rightarrow> bool" where
  "acknowledgements sk sid evs \<longleftrightarrow> evs = [] \<or> (\<exists>mid r. evs = [Net (Send_Message sk
     (encode_Data_SingleBlockReply_Message (single_reply_msg sid mid))) r])"

lemma acknowledgements_simps [simp]:
  "acknowledgements sk sid []"
  "acknowledgements sk sid [Net (Send_Message sk
     (encode_Data_SingleBlockReply_Message (single_reply_msg sid mid))) r]"
  by (auto simp: acknowledgements_def)

lemma acknowledgements_callbacks: "acknowledgements sk sid evs \<Longrightarrow> callbacks evs = []"
  by (auto simp: acknowledgements_def)

text \<open>On the other side acknowledgements are frames that only settle messages.\<close>

definition ack_frames :: "(CommonMessageHeader \<times> byte list) list \<Rightarrow> bool" where
  "ack_frames fs \<longleftrightarrow> (\<forall>f \<in> set fs. \<exists>sid mid. f = (dbr_commonHeader (single_reply_msg sid mid),
     encode_Data_SingleBlockReply_Message (single_reply_msg sid mid)))"

lemma ack_frames_append [simp]: "ack_frames (fs @ gs) \<longleftrightarrow> ack_frames fs \<and> ack_frames gs"
  by (auto simp: ack_frames_def)

lemma ack_frames_Nil [simp]: "ack_frames []"
  by (simp add: ack_frames_def)

lemma acknowledgements_wire:
  assumes "acknowledgements sk sid evs"
  shows "\<exists>fs. ack_frames fs \<and> wire sk evs = concat (map snd fs)"
proof (cases "wire sk evs = []")
  case True
  then show ?thesis by (intro exI [of _ "[]"]) simp
next
  case False
  with assms obtain mid where "wire sk evs = encode_Data_SingleBlockReply_Message (single_reply_msg sid mid)"
    by (auto simp: acknowledgements_def split: if_splits)
  then show ?thesis
    by (intro exI [of _ "[(dbr_commonHeader (single_reply_msg sid mid),
        encode_Data_SingleBlockReply_Message (single_reply_msg sid mid))]"]) (auto simp: ack_frames_def)
qed

lemma ack_frames_ok:
  assumes "ack_frames fs"
  shows "list_all2 frame (map fst fs) (map snd fs)" and "\<forall>f \<in> set fs. handled (fst f)"
    and "\<exists>r. process_frames env p fs w = Inr (w\<lparr>w_reply := r\<rparr>)"
proof -
  have "handled (dbr_commonHeader (single_reply_msg sid mid))" for sid mid
    by (simp add: handled_def single_reply_msg_def new_message_defs types_of_def)
  then show "\<forall>f \<in> set fs. handled (fst f)" using assms by (auto simp: ack_frames_def)
  have "\<forall>f \<in> set fs. frame (fst f) (snd f)" using assms by (auto simp: ack_frames_def single_reply_frame)
  then show "list_all2 frame (map fst fs) (map snd fs)"
    by (simp add: list_all2_map1 list_all2_map2 list_all2_same)
  show "\<exists>r. process_frames env p fs w = Inr (w\<lparr>w_reply := r\<rparr>)"
    using assms
  proof (induction fs arbitrary: w)
    case Nil
    then show ?case by (intro exI [of _ "w_reply w"]) simp
  next
    case (Cons f fs)
    then obtain sid mid where f: "f = (dbr_commonHeader (single_reply_msg sid mid),
        encode_Data_SingleBlockReply_Message (single_reply_msg sid mid))" and fs: "ack_frames fs"
      by (auto simp: ack_frames_def)
    have "\<exists>a. settle h w = w\<lparr>w_reply := a\<rparr>" for h
      by (cases "and (flags h) 2 = 0") (auto simp: settle_def intro: exI [of _ "w_reply w"])
    then obtain a where "settle (dbr_commonHeader (single_reply_msg sid mid)) w = w\<lparr>w_reply := a\<rparr>" by blast
    with Cons.IH [OF fs, of "w\<lparr>w_reply := a\<rparr>"] show ?case by (auto simp: f dispatch_data_reply)
  qed
qed

text \<open>Frames that arrive, in any segments.\<close>

lemma receive_all:
  assumes "list_all2 frame (map fst fs) (map snd fs)" and "\<forall>f \<in> set fs. handled (fst f)"
    and "process_frames env p fs w = Inr w1" and "concat segs = concat (map snd fs)"
  shows "receive env p segs [] w = Inr ([], w1)"
  using receive_frames [of "[]" segs fs env p w] assms by simp

lemma data_received:
  assumes db: "databuffer_ok (e_db env) content" and pc: "passive_client env"
    and t: "w_heap v q = Some t" "m_socket t = Some tk" "m_processRequestData t = Some f"
    and io: "between_messages content (m_multiblockIo t)"
    and fs: "data_frames m mbid 0 d fs" and m: "0 < m" "fits_buffer sizeof_Data_MultiBlock_Header m"
  shows "\<exists>v1 buf evs io. process_frames env q fs v = Inr v1 \<and> content buf = d
    \<and> w_trace v1 = w_trace v @ Client (Request_Data f (m_standaloneReceiver t) q mbid (Some buf)) # evs
    \<and> acknowledgements tk (m_sessionId t) evs
    \<and> w_heap v1 q = Some (t\<lparr>m_multiblockIo := io\<rparr>) \<and> between_messages content io
    \<and> m_abort io = m_abort (m_multiblockIo t)"
  using fs
proof (cases rule: data_frames_cases)
  case (Single sid mid msg)
  have ring: "ring_ok (list_ring msg) (msg @ [])" using list_ring_ok [of msg] by simp
  from read_single_request [OF t pc Single(1,2) ring] obtain v1 r where
    v1: "processMessage env q (list_ring msg) v = Inr (word_of_nat (length msg), v1)"
      "w_trace v1 = w_trace v @ [Client (Request_Data f (m_standaloneReceiver t) q mbid
        (Some (filled_buffer env d))), Net (Send_Message tk (encode_Data_SingleBlockReply_Message
        (single_reply_msg (m_sessionId t) mid))) r]" "w_heap v1 = w_heap v" by auto
  have "frame (single_header sid mid 0 (word_of_nat (length d))) msg"
    using data_frames_ok(1) [OF fs] Single(3) by simp
  from process_one_frame [OF this v1(1)] have "process_frames env q fs v = Inr v1" by (simp only: Single(3))
  then show ?thesis
    using v1(2,3) t(1) io filled_buffer_content [OF db]
    by (intro exI [of _ v1] exI [of _ "filled_buffer env d"] exI [of _ "[Net (Send_Message tk
        (encode_Data_SingleBlockReply_Message (single_reply_msg (m_sessionId t) mid))) r]"]
        exI [of _ "m_multiblockIo t"]) simp
next
  case (Parts sid mid mid' psize parts ms hs)
  have io': "io_ok (m_multiblockIo t)" "io_bytes content mbid (m_multiblockIo t) = None"
    using io by (simp_all add: between_messages_def)
  from read_long_request [OF db t(1) io'(1) t(3) pc Parts(3) m Parts(1,2) io'(2), of mid']
  obtain v1 t1 buf where v1: "socket_reads (length fs) env q (concat (map snd fs)) v = Inr ([], v1)"
      "w_trace v1 = w_trace v @ [Client (Request_Data f (m_standaloneReceiver t) q mbid (Some buf))]"
      "content buf = d" "w_heap v1 q = Some t1" "io_ok (m_multiblockIo t1)"
      "\<forall>i. io_bytes content i (m_multiblockIo t1) = io_bytes content i (m_multiblockIo t)"
      "t1 = t\<lparr>m_multiblockIo := m_multiblockIo t1\<rparr>" "m_abort (m_multiblockIo t1) = m_abort (m_multiblockIo t)"
    unfolding Parts(7,8) by blast
  have "between_messages content (m_multiblockIo t1)" using v1(5,6) io by (simp add: between_messages_def)
  then show ?thesis
    using process_read_frames [OF data_frames_ok [OF fs] v1(1)] v1(2-4,7,8)
    by (intro exI [of _ v1] exI [of _ buf] exI [of _ "[]"] exI [of _ "m_multiblockIo t1"]) simp
qed

lemma response_received:
  assumes db: "databuffer_ok (e_db env) content" and bid: "bid \<noteq> 0"
    and s: "w_heap w p = Some s" "m_socket s = Some sk" and io: "between_messages content (m_multiblockIo s)"
    and fs: "data_frames m mbid bid d fs" and m: "0 < m" "fits_buffer sizeof_Data_MultiBlock_Header m"
    and rel: "\<And>buf. content buf = d \<Longrightarrow> \<exists>b. releaseMessage bid (Some buf) (w_blocker w) = Inr (True, b) \<and> P buf b"
  shows "\<exists>w1 buf evs io. process_frames env p fs w = Inr w1 \<and> content buf = d \<and> P buf (w_blocker w1)
    \<and> w_trace w1 = w_trace w @ evs \<and> acknowledgements sk (m_sessionId s) evs
    \<and> w_heap w1 p = Some (s\<lparr>m_multiblockIo := io\<rparr>) \<and> between_messages content io
    \<and> m_abort io = m_abort (m_multiblockIo s)"
  using fs
proof (cases rule: data_frames_cases)
  case (Single sid mid msg)
  have ring: "ring_ok (list_ring msg) (msg @ [])" using list_ring_ok [of msg] by simp
  from rel [OF filled_buffer_content [OF db]] obtain b where
    b: "releaseMessage bid (Some (filled_buffer env d)) (w_blocker w) = Inr (True, b)" "P (filled_buffer env d) b"
    by blast
  from read_single_response [OF s bid Single(1,2) ring b(1)] obtain w1 r where
    w1: "processMessage env p (list_ring msg) w = Inr (word_of_nat (length msg), w1)"
      "w_trace w1 = w_trace w @ [Net (Send_Message sk (encode_Data_SingleBlockReply_Message
        (single_reply_msg (m_sessionId s) mid))) r]" "w_heap w1 = w_heap w" "w_blocker w1 = b" by auto
  have "frame (single_header sid mid bid (word_of_nat (length d))) msg"
    using data_frames_ok(1) [OF fs] Single(3) by simp
  from process_one_frame [OF this w1(1)] have "process_frames env p fs w = Inr w1" by (simp only: Single(3))
  then show ?thesis
    using w1(2-4) s(1) io b(2) filled_buffer_content [OF db]
    by (intro exI [of _ w1] exI [of _ "filled_buffer env d"] exI [of _ "[Net (Send_Message sk
        (encode_Data_SingleBlockReply_Message (single_reply_msg (m_sessionId s) mid))) r]"]
        exI [of _ "m_multiblockIo s"]) simp
next
  case (Parts sid mid mid' psize parts ms hs)
  have io': "io_ok (m_multiblockIo s)" "io_bytes content mbid (m_multiblockIo s) = None"
    using io by (simp_all add: between_messages_def)
  from read_long_response [OF db s(1) io'(1) bid Parts(3) m Parts(1,2) io'(2) rel, of mid']
  obtain w1 buf b io1 where w1: "socket_reads (length fs) env p (concat (map snd fs)) w = Inr ([], w1)"
      "w_trace w1 = w_trace w" "content buf = d" "w_blocker w1 = b" "P buf b"
      "w_heap w1 p = Some (s\<lparr>m_multiblockIo := io1\<rparr>)" "io_ok io1"
      "\<forall>i. io_bytes content i io1 = io_bytes content i (m_multiblockIo s)"
      "m_abort io1 = m_abort (m_multiblockIo s)"
    unfolding Parts(7,8) by blast
  have "between_messages content io1" using w1(7,8) io by (simp add: between_messages_def)
  then show ?thesis
    using process_read_frames [OF data_frames_ok [OF fs] w1(1)] w1(2-6,9)
    by (intro exI [of _ w1] exI [of _ buf] exI [of _ "[]"] exI [of _ io1]) simp
qed

section \<open>The sample instance\<close>

lemma sample_between: "between_messages (\<lambda>b. b) (m_multiblockIo (sample_session ph))"
  by (simp add: between_messages_def sample_buffers)

lemma sample_channel: "channel_ok sample_env 5"
proof -
  have "getRandId_loop (e_rand sample_env) i \<noteq> None" for i
  proof -
    have "rand_id (e_rand sample_env) i \<noteq> 0"
    proof
      assume "rand_id (e_rand sample_env) i = 0"
      then have "unat (e_rand sample_env i) = 0" "unat (e_rand sample_env (Suc i)) = 0"
        using unat_rand_id [of "e_rand sample_env" i] by simp_all
      then have "(word_of_nat (Suc i) :: 31 word) = 0" "(word_of_nat (Suc (Suc i)) :: 31 word) = 0"
        by (simp_all add: sample_env_def unat_eq_0 del: of_nat_Suc)
      then show False by simp
    qed
    with getRandId_loop_hit [of "e_rand sample_env" i 0] show ?thesis by simp
  qed
  then show ?thesis by (simp add: channel_ok_def sample_facts sample_fits sample_buffers)
qed

end
