(* ===== verification/Remote_Calls.thy ===== *)
theory Remote_Calls
  imports Transfers
begin

text \<open>
  Requests and responses as remote calls. The server's application answers every request with a
  function \<open>f\<close> of its data; the specification is the local call of \<open>f\<close>. One remote call runs through
  both processes: sendRequest, the wait of the calling thread, the network in either direction, the
  callback of the server, sendResponse, and the return of the thread.
\<close>

section \<open>A call and its way through both processes\<close>

text \<open>
  The application of the server: for every request it was told of, it sends \<open>f\<close> of the data as the
  response, after the callback has returned.
\<close>

fun answer ::
    "('sm, 'buf) env \<Rightarrow> ptr \<Rightarrow> ('buf \<Rightarrow> byte list) \<Rightarrow> (byte list \<Rightarrow> byte list) \<Rightarrow> 'buf callback list
     \<Rightarrow> ('sm, 'buf) world \<Rightarrow> fault + ('sm, 'buf) world" where
  "answer env q content f [] v = Inr v"
| "answer env q content f (Request_Data g rc p bid (Some buf) # cbs) v =
     (let response = f (content buf) in
      then_do (sendResponse env q response (word_of_nat (length response)) bid v) (\<lambda>(rid, v1).
        answer env q content f cbs v1))"
| "answer env q content f (cb # cbs) v = answer env q content f cbs v"

text \<open>
  \<open>w\<close> and \<open>v\<close> are the worlds of client and server. Whatever a side has written to its socket arrives
  at the other side, cut into segments by \<open>split_up\<close>. The calling thread returns only if it was notified.
  It waits before the network delivers anything; what happens in the other order is shown in
  Message_Blocker_Handler. The call ends with the value of \<open>blockMessage_resume\<close>; the destructor of the lock,
  \<open>blockMessage_unlock\<close>, would then use the deleted entry.
\<close>

definition remote_call ::
    "('sm, 'buf) env \<Rightarrow> ('sm2, 'buf2) env \<Rightarrow> ('buf \<Rightarrow> byte list) \<Rightarrow> ('buf2 \<Rightarrow> byte list)
     \<Rightarrow> (byte list \<Rightarrow> byte list list) \<Rightarrow> ptr \<Rightarrow> ptr \<Rightarrow> sock \<Rightarrow> sock \<Rightarrow> (byte list \<Rightarrow> byte list) \<Rightarrow> u64
     \<Rightarrow> byte list \<Rightarrow> ('sm, 'buf) world \<Rightarrow> ('sm2, 'buf2) world
     \<Rightarrow> fault + byte list option \<times> ('sm, 'buf) world \<times> ('sm2, 'buf2) world" where
  "remote_call env env' content content' split_up p q sk tk f timeout d w v =
     then_do (sendRequest env p d (word_of_nat (length d)) timeout w) (\<lambda>(r, w1).
       case r of
         None \<Rightarrow> Inr (None, w1, v)
       | Some (bid, e) \<Rightarrow>
           then_do (blockMessage_wait e (w_blocker w1)) (\<lambda>b.
           let w2 = w1\<lparr>w_blocker := b\<rparr> in
           then_do (receive env' q (split_up (wire sk (news w w2))) [] v) (\<lambda>(rest, v1).
           then_do (answer env' q content' f (callbacks (news v v1)) v1) (\<lambda>v2.
           then_do (receive env p (split_up (wire tk (news v v2))) [] w2) (\<lambda>(rest', w3).
           if map_option blocker_cv (blocker_heap (w_blocker w3) e) \<noteq> Some Notified
           then Inl Never_Returns
           else
             then_do (blockMessage_resume bid (w_blocker w3)) (\<lambda>(buf, b').
             let w4 = w3\<lparr>w_blocker := b'\<rparr> in
             then_do (receive env' q (split_up (wire sk (news w2 w4))) [] v2) (\<lambda>(rest'', v3).
               Inr (map_option content buf, w4, v3))))))))"

fun remote_calls ::
    "('sm, 'buf) env \<Rightarrow> ('sm2, 'buf2) env \<Rightarrow> ('buf \<Rightarrow> byte list) \<Rightarrow> ('buf2 \<Rightarrow> byte list)
     \<Rightarrow> (byte list \<Rightarrow> byte list list) \<Rightarrow> ptr \<Rightarrow> ptr \<Rightarrow> sock \<Rightarrow> sock \<Rightarrow> (byte list \<Rightarrow> byte list) \<Rightarrow> u64
     \<Rightarrow> byte list list \<Rightarrow> ('sm, 'buf) world \<Rightarrow> ('sm2, 'buf2) world
     \<Rightarrow> fault + byte list option list \<times> ('sm, 'buf) world \<times> ('sm2, 'buf2) world" where
  "remote_calls env env' content content' split_up p q sk tk f timeout [] w v = Inr ([], w, v)"
| "remote_calls env env' content content' split_up p q sk tk f timeout (d # ds) w v =
     then_do (remote_call env env' content content' split_up p q sk tk f timeout d w v) (\<lambda>(r, w1, v1).
     then_do (remote_calls env env' content content' split_up p q sk tk f timeout ds w1 v1) (\<lambda>(rs, w2, v2).
       Inr (r # rs, w2, v2)))"

section \<open>The two sides\<close>

definition endpoint ::
    "('sm, 'buf) env \<Rightarrow> ('sm \<Rightarrow> chart) \<Rightarrow> ('buf \<Rightarrow> byte list) \<Rightarrow> ptr \<Rightarrow> sock \<Rightarrow> ('sm, 'buf) session
     \<Rightarrow> ('sm, 'buf) world \<Rightarrow> bool" where
  "endpoint env view content p sk s w \<longleftrightarrow> session_at env view p s Ready w \<and> m_socket s = Some sk
     \<and> \<not> m_abort (m_multiblockIo s) \<and> between_messages content (m_multiblockIo s)"

text \<open>
  Other threads of the client may be waiting for responses of their own; \<open>rand()\<close> does not draw their
  identifiers again.
\<close>

definition client_at ::
    "('sm, 'buf) env \<Rightarrow> ('sm \<Rightarrow> chart) \<Rightarrow> ('buf \<Rightarrow> byte list) \<Rightarrow> ptr \<Rightarrow> sock \<Rightarrow> ('sm, 'buf) world \<Rightarrow> bool" where
  "client_at env view content p sk w \<longleftrightarrow> (\<exists>s. endpoint env view content p sk s w)
     \<and> blockers_ok (w_blocker w)
     \<and> (\<forall>k i n. getRandId_loop (e_rand env) k = Some (i, n) \<longrightarrow>
          i \<notin> id_at (w_blocker w) ` set (blocker_list (w_blocker w)))"

definition server_at ::
    "('sm, 'buf) env \<Rightarrow> ('sm \<Rightarrow> chart) \<Rightarrow> ('buf \<Rightarrow> byte list) \<Rightarrow> ptr \<Rightarrow> sock \<Rightarrow> ('sm, 'buf) world \<Rightarrow> bool" where
  "server_at env view content q tk v \<longleftrightarrow>
     (\<exists>t. endpoint env view content q tk t v \<and> m_processRequestData t \<noteq> None)"

lemma endpoint_counter:
  assumes "endpoint env view content p sk s w" and "w_heap w1 p = Some (s\<lparr>m_messageIdCounter := k\<rparr>)"
  shows "endpoint env view content p sk (s\<lparr>m_messageIdCounter := k\<rparr>) w1"
  using assms by (simp add: endpoint_def session_at_def)

lemma endpoint_io:
  assumes "endpoint env view content p sk s w" and "w_heap w1 p = Some (s\<lparr>m_multiblockIo := io\<rparr>)"
    and "between_messages content io" and "m_abort io = m_abort (m_multiblockIo s)"
  shows "endpoint env view content p sk (s\<lparr>m_multiblockIo := io\<rparr>) w1"
  using assms by (simp add: endpoint_def session_at_def)

lemma endpoint_same: "endpoint env view content p sk s w \<Longrightarrow> w_heap w1 = w_heap w \<Longrightarrow>
    endpoint env view content p sk s w1"
  by (simp add: endpoint_def session_at_def)

lemma server_at_reply:
  assumes "server_at env view content q tk v"
  shows "server_at env view content q tk (v\<lparr>w_reply := a\<rparr>)"
proof -
  from assms obtain t where t: "endpoint env view content q tk t v" "m_processRequestData t \<noteq> None"
    by (auto simp: server_at_def)
  have "endpoint env view content q tk t (v\<lparr>w_reply := a\<rparr>)" using endpoint_same [OF t(1)] by simp
  with t(2) show ?thesis unfolding server_at_def by blast
qed

section \<open>Sending requests and responses\<close>

lemma request_sent:
  assumes ch: "channel_ok env sk" and ep: "endpoint env view content p sk s w" and d: "length d < 2 ^ 32"
    and rand: "getRandId env w = Inr (bid, w0)"
  shows "\<exists>fs w1 k. sendRequest env p d (word_of_nat (length d)) timeout w
      = Inr (Some (bid, fst (blockMessage_enter bid timeout p (w_blocker w))), w1)
    \<and> data_frames (e_max env) bid 0 d fs \<and> w_trace w1 = w_trace w @ sent_events sk (map snd fs)
    \<and> w_heap w1 p = Some (s\<lparr>m_messageIdCounter := k\<rparr>)
    \<and> w_blocker w1 = snd (blockMessage_enter bid timeout p (w_blocker w)) \<and> w_rand w1 = w_rand w0"
proof -
  let ?n = "word_of_nat (length d) :: u64"
  from ep have s: "session_at env view p s Ready w" "m_socket s = Some sk" "\<not> m_abort (m_multiblockIo s)"
    by (simp_all add: endpoint_def)
  have n: "unat ?n = length d" using d by (simp add: unat_of_nat)
  note w0 = after_getRandId [OF rand]
  show ?thesis
  proof (cases "length d \<le> e_max env")
    case True
    note fit = channel_okD(6) [OF ch True]
    from sendRequest_sends [OF s(1,2) _ _ _ rand channel_okD(3) [OF ch], of ?n d timeout] True fit obtain msg where
      msg: "is_single (m_sessionId s) (m_messageIdCounter s + 1) bid 0 d msg"
      and sent: "sendRequest env p d ?n timeout w
        = Inr (Some (bid, fst (blockMessage_enter bid timeout p (w_blocker w))),
          (sent_one env p sk SINGLEBLOCK_DATA_TYPE s msg w0)
            \<lparr>w_blocker := snd (blockMessage_enter bid timeout p (w_blocker w))\<rparr>)" by (auto simp: n)
    show ?thesis
      using sent data_frames_single [OF msg fit, of "e_max env"] w0 channel_okD(3) [OF ch]
      by (intro exI [of _ "[(single_header (m_sessionId s) (m_messageIdCounter s + 1) 0
          (word_of_nat (length d)), msg)]"]) auto
  next
    case False
    then have "d \<noteq> []" by auto
    from long_data_sent [OF ch session_atD(1) [OF s(1)] s(2,3) this d rand, of 0] obtain fs w1 k where
      "sendOutgoingData env p d ?n 0 w = Inr (bid, w1)" "data_frames (e_max env) bid 0 d fs"
      "w_trace w1 = w_trace w @ sent_events sk (map snd fs)" "w_heap w1 p = Some (s\<lparr>m_messageIdCounter := k\<rparr>)"
      "w_blocker w1 = w_blocker w" "w_rand w1 = w_rand w0" by blast
    then show ?thesis
      using False getRandId_Some(1) [OF rand]
      by (intro exI [of _ fs]) (auto simp: sendRequest_def session_at_ready [OF s(1)] n case_prod_beta)
  qed
qed

lemma session_sends_response:
  assumes ch: "channel_ok env tk" and d: "length d < 2 ^ 32"
    and t: "session_at env view q t Ready v" "m_socket t = Some tk" "\<not> m_abort (m_multiblockIo t)"
  shows "\<exists>rid fs v1 k. sendResponse env q d (word_of_nat (length d)) bid v = Inr (rid, v1)
    \<and> data_frames (e_max env) rid bid d fs \<and> w_trace v1 = w_trace v @ sent_events tk (map snd fs)
    \<and> w_heap v1 q = Some (t\<lparr>m_messageIdCounter := k\<rparr>)"
proof -
  let ?n = "word_of_nat (length d) :: u64"
  have n: "unat ?n = length d" using d by (simp add: unat_of_nat)
  from channel_okD(4) [OF ch] obtain rid v0 where rand: "getRandId env v = Inr (rid, v0)" by blast
  note v0 = after_getRandId [OF rand]
  show ?thesis
  proof (cases "length d < e_max env")
    case True
    then have fit: "fits_buffer sizeof_Data_SingleBlock_Header (length d)" using channel_okD(6) [OF ch] by simp
    from sendResponse_sends [OF t(1,2) _ _ _ rand, of ?n d bid] True fit obtain msg where
      msg: "is_single (m_sessionId t) (m_messageIdCounter t + 1) rid bid d msg"
      and sent: "sendResponse env q d ?n bid v = Inr (rid, sent_one env q tk SINGLEBLOCK_DATA_TYPE t msg v0)"
      by (auto simp: n)
    show ?thesis
      using sent data_frames_single [OF msg fit, of "e_max env"] v0 channel_okD(3) [OF ch]
      by (intro exI [of _ rid] exI [of _ "[(single_header (m_sessionId t) (m_messageIdCounter t + 1) bid
          (word_of_nat (length d)), msg)]"]) auto
  next
    case False
    then have "d \<noteq> []" using channel_okD(1) [OF ch] by auto
    from long_data_sent [OF ch session_atD(1) [OF t(1)] t(2,3) this d rand, of bid] False show ?thesis
      by (simp add: sendResponse_def session_at_ready [OF t(1)] n) blast
  qed
qed

lemma response_sent:
  assumes "channel_ok env tk" and "endpoint env view content q tk t v" and "length d < 2 ^ 32"
  shows "\<exists>rid fs v1 k. sendResponse env q d (word_of_nat (length d)) bid v = Inr (rid, v1)
    \<and> data_frames (e_max env) rid bid d fs \<and> w_trace v1 = w_trace v @ sent_events tk (map snd fs)
    \<and> w_heap v1 q = Some (t\<lparr>m_messageIdCounter := k\<rparr>)"
  by (rule session_sends_response [OF assms(1,3)]) (use assms(2) in \<open>auto simp: endpoint_def\<close>)

section \<open>One call\<close>

lemma server_answers:
  assumes ch: "channel_ok env tk" and at: "server_at env view content q tk v"
    and db: "databuffer_ok (e_db env) content" and pc: "passive_client env"
    and fs: "data_frames m bid 0 d fs" and m: "0 < m" "fits_buffer sizeof_Data_MultiBlock_Header m"
    and segs: "concat segs = concat (map snd fs)" and fd: "length (f d) < 2 ^ 32"
  shows "\<exists>v1 v2 acks gs rid. receive env q segs [] v = Inr ([], v1)
    \<and> answer env q content f (callbacks (news v v1)) v1 = Inr v2
    \<and> wire tk (news v v2) = concat (map snd (acks @ gs)) \<and> ack_frames acks
    \<and> data_frames (e_max env) rid bid (f d) gs \<and> server_at env view content q tk v2"
proof -
  from at obtain t g where ep: "endpoint env view content q tk t v" and g: "m_processRequestData t = Some g"
    by (auto simp: server_at_def)
  then have t: "w_heap v q = Some t" "m_socket t = Some tk" and io: "between_messages content (m_multiblockIo t)"
    by (simp_all add: endpoint_def session_at_def)
  from data_received [OF db pc t g io fs m] obtain v1 buf evs io1 where
    v1: "process_frames env q fs v = Inr v1" "content buf = d"
      "w_trace v1 = w_trace v @ Client (Request_Data g (m_standaloneReceiver t) q bid (Some buf)) # evs"
    and ack: "acknowledgements tk (m_sessionId t) evs"
    and io1: "w_heap v1 q = Some (t\<lparr>m_multiblockIo := io1\<rparr>)" "between_messages content io1"
      "m_abort io1 = m_abort (m_multiblockIo t)" by blast
  note received = receive_all [OF data_frames_ok [OF fs] v1(1) segs]
  note ep1 = endpoint_io [OF ep io1]
  from response_sent [OF ch ep1 fd, of bid] obtain rid gs v2 k where
    v2: "sendResponse env q (f d) (word_of_nat (length (f d))) bid v1 = Inr (rid, v2)"
      "data_frames (e_max env) rid bid (f d) gs" "w_trace v2 = w_trace v1 @ sent_events tk (map snd gs)"
      "w_heap v2 q = Some (t\<lparr>m_multiblockIo := io1, m_messageIdCounter := k\<rparr>)" by auto
  from endpoint_counter [OF ep1, of v2 k] v2(4) g have "server_at env view content q tk v2"
    by (auto simp: server_at_def)
  moreover have "answer env q content f (callbacks (news v v1)) v1 = Inr v2"
    using v2(1) by (simp add: news_eq [OF v1(3)] acknowledgements_callbacks [OF ack] v1(2))
  moreover from acknowledgements_wire [OF ack] obtain acks where
    "ack_frames acks" "wire tk evs = concat (map snd acks)" by blast
  moreover from this have "wire tk (news v v2) = concat (map snd (acks @ gs))"
    using v1(3) v2(3) news_eq [of v2 v] by simp
  ultimately show ?thesis using received v2(2) by blast
qed

text \<open>
  The acknowledgement of the request and the response arrive at the client while the calling thread
  waits; \<open>e\<close> is the entry of the thread behind the entries \<open>h\<close> of the other threads.
\<close>

lemma client_is_woken:
  assumes db: "databuffer_ok (e_db env) content" and bid: "bid \<noteq> 0"
    and ep: "endpoint env view content p sk s w" and h: "blockers_ok h" "bid \<notin> id_at h ` set (blocker_list h)"
    and e: "w_blocker w = with_entry h e" "blocker_id e = bid" "blocker_cv e = Waiting"
    and acks: "ack_frames acks" and gs: "data_frames m rid bid r gs"
    and m: "0 < m" "fits_buffer sizeof_Data_MultiBlock_Header m"
    and segs: "concat segs = concat (map snd (acks @ gs))"
  shows "\<exists>w1 buf evs s1. receive env p segs [] w = Inr ([], w1) \<and> content buf = r
    \<and> map_option blocker_cv (blocker_heap (w_blocker w1) (blocker_next h)) = Some Notified
    \<and> blockMessage_resume bid (w_blocker w1) = Inr (Some buf, h\<lparr>blocker_next := Suc (blocker_next h)\<rparr>)
    \<and> w_trace w1 = w_trace w @ evs \<and> acknowledgements sk (m_sessionId s) evs
    \<and> endpoint env view content p sk s1 w1"
proof -
  from ack_frames_ok(3) [OF acks] obtain a where a: "process_frames env p acks w = Inr (w\<lparr>w_reply := a\<rparr>)"
    by blast
  let ?w = "w\<lparr>w_reply := a\<rparr>"
  have ep': "endpoint env view content p sk s ?w" using endpoint_same [OF ep] by simp
  then have s: "w_heap ?w p = Some s" "m_socket s = Some sk" and io: "between_messages content (m_multiblockIo s)"
    by (simp_all add: endpoint_def session_at_def)
  let ?done = "\<lambda>buf. with_entry h (e\<lparr>responseData := Some buf, blocker_cv := Notified\<rparr>)"
  have "\<exists>b. releaseMessage bid (Some buf) (w_blocker ?w) = Inr (True, b) \<and> b = ?done buf" for buf
    using release_with_entry [OF h e(2)] e(1,3) by simp
  from response_received [OF db bid s io gs m this] obtain w1 buf evs io1 where
    w1: "process_frames env p gs ?w = Inr w1" "content buf = r" "w_blocker w1 = ?done buf"
      "w_trace w1 = w_trace w @ evs" "acknowledgements sk (m_sessionId s) evs"
    and io1: "w_heap w1 p = Some (s\<lparr>m_multiblockIo := io1\<rparr>)" "between_messages content io1"
      "m_abort io1 = m_abort (m_multiblockIo s)" by auto
  have "receive env p segs [] w = Inr ([], w1)"
    by (rule receive_all [OF _ _ _ segs])
      (use data_frames_ok [OF gs] ack_frames_ok(1,2) [OF acks] a w1(1) in
        \<open>auto simp: process_frames_append intro: list_all2_appendI\<close>)
  moreover have "blockMessage_resume bid (?done buf)
      = Inr (Some buf, h\<lparr>blocker_next := Suc (blocker_next h)\<rparr>)"
    using resume_with_entry [OF h, of "e\<lparr>responseData := Some buf, blocker_cv := Notified\<rparr>"] e(2) by simp
  ultimately show ?thesis
    using w1(2-5) endpoint_io [OF ep' io1]
    by (intro exI [of _ w1] exI [of _ buf] exI [of _ evs] exI [of _ "s\<lparr>m_multiblockIo := io1\<rparr>"]) simp
qed

lemma fresh_identifier:
  assumes "client_at env view content p sk w" and "getRandId env w = Inr (bid, w0)"
  shows "bid \<notin> id_at (w_blocker w) ` set (blocker_list (w_blocker w))"
  using assms by (auto simp: client_at_def getRandId_def split: option.splits)

lemma client_at_again:
  assumes "client_at env view content p sk w" and "endpoint env view content p sk s w1"
    and "w_blocker w1 = (w_blocker w)\<lparr>blocker_next := Suc (blocker_next (w_blocker w))\<rparr>"
  shows "client_at env view content p sk w1"
  using assms by (auto simp: client_at_def blockers_ok_def id_at_def less_Suc_eq)

lemma remote_call_returns:
  assumes client: "channel_ok env sk" "client_at env view content p sk w" "databuffer_ok (e_db env) content"
    and server: "channel_ok env' tk" "server_at env' view' content' q tk v" "databuffer_ok (e_db env') content'"
      "passive_client env'"
    and net: "\<And>bytes. concat (split_up bytes) = bytes"
    and d: "length d < 2 ^ 32" "length (f d) < 2 ^ 32"
  shows "\<exists>w1 v1. remote_call env env' content content' split_up p q sk tk f timeout d w v
      = Inr (Some (f d), w1, v1)
    \<and> client_at env view content p sk w1 \<and> server_at env' view' content' q tk v1
    \<and> w_blocker w1 = (w_blocker w)\<lparr>blocker_next := Suc (blocker_next (w_blocker w))\<rparr>"
proof -
  let ?h = "w_blocker w"
  from client(2) obtain s where ep: "endpoint env view content p sk s w" and h: "blockers_ok ?h"
    by (auto simp: client_at_def)
  from channel_okD(4) [OF client(1)] obtain bid w0 where rand: "getRandId env w = Inr (bid, w0)" by blast
  note bid = getRandId_Some(1) [OF rand] and fresh = fresh_identifier [OF client(2) rand]
  note max = channel_okD(1,2) [OF client(1)] and max' = channel_okD(1,2) [OF server(1)]
  let ?e = "\<lparr>blocker_session = p, blocker_id = bid, blocker_timer = timeout, blocker_cv = Before_Wait,
      responseData = None\<rparr>"
  from request_sent [OF client(1) ep d(1) rand, of timeout] obtain fs w1 k where
    w1: "sendRequest env p d (word_of_nat (length d)) timeout w = Inr (Some (bid, blocker_next ?h), w1)"
      "data_frames (e_max env) bid 0 d fs" "w_trace w1 = w_trace w @ sent_events sk (map snd fs)"
      "w_heap w1 p = Some (s\<lparr>m_messageIdCounter := k\<rparr>)" "w_blocker w1 = with_entry ?h ?e"
    by (auto simp: enter_with_entry)
  let ?w2 = "w1\<lparr>w_blocker := with_entry ?h (?e\<lparr>blocker_cv := Waiting\<rparr>)\<rparr>"
  have wait: "blockMessage_wait (blocker_next ?h) (w_blocker w1) = Inr (with_entry ?h (?e\<lparr>blocker_cv := Waiting\<rparr>))"
    by (simp only: w1(5) wait_with_entry)
  have "wire sk (news w ?w2) = concat (map snd fs)" using w1(3) news_eq [of ?w2 w] by simp
  then have there: "concat (split_up (wire sk (news w ?w2))) = concat (map snd fs)" by (simp only: net)
  from server_answers [OF server(1,2,3,4) w1(2) max there, of f, OF d(2)] obtain v1 v2 acks gs rid where
    v: "receive env' q (split_up (wire sk (news w ?w2))) [] v = Inr ([], v1)"
      "answer env' q content' f (callbacks (news v v1)) v1 = Inr v2"
      "wire tk (news v v2) = concat (map snd (acks @ gs))" "ack_frames acks"
      "data_frames (e_max env') rid bid (f d) gs" "server_at env' view' content' q tk v2" by blast
  have answered: "concat (split_up (wire tk (news v v2))) = concat (map snd (acks @ gs))" by (simp only: net v(3))
  have ep2: "endpoint env view content p sk (s\<lparr>m_messageIdCounter := k\<rparr>) ?w2"
    by (rule endpoint_counter [OF ep]) (simp add: w1(4))
  have entry: "w_blocker ?w2 = with_entry ?h (?e\<lparr>blocker_cv := Waiting\<rparr>)"
    "blocker_id (?e\<lparr>blocker_cv := Waiting\<rparr>) = bid" "blocker_cv (?e\<lparr>blocker_cv := Waiting\<rparr>) = Waiting"
    by simp_all
  from client_is_woken [OF client(3) bid ep2 h fresh entry v(4,5) max' answered]
  obtain w3 buf evs s1 where
    w3: "receive env p (split_up (wire tk (news v v2))) [] ?w2 = Inr ([], w3)" "content buf = f d"
      "map_option blocker_cv (blocker_heap (w_blocker w3) (blocker_next ?h)) = Some Notified"
      "blockMessage_resume bid (w_blocker w3) = Inr (Some buf, ?h\<lparr>blocker_next := Suc (blocker_next ?h)\<rparr>)"
      "w_trace w3 = w_trace ?w2 @ evs"
    and ack: "acknowledgements sk (m_sessionId (s\<lparr>m_messageIdCounter := k\<rparr>)) evs"
    and ep3: "endpoint env view content p sk s1 w3" by blast
  let ?w4 = "w3\<lparr>w_blocker := ?h\<lparr>blocker_next := Suc (blocker_next ?h)\<rparr>\<rparr>"
  from acknowledgements_wire [OF ack] obtain acks' where
    acks': "ack_frames acks'" "wire sk evs = concat (map snd acks')" by blast
  have "wire sk (news ?w2 ?w4) = concat (map snd acks')" using w3(5) acks'(2) news_eq [of ?w4 ?w2] by simp
  then have last: "concat (split_up (wire sk (news ?w2 ?w4))) = concat (map snd acks')" by (simp only: net)
  from ack_frames_ok(3) [OF acks'(1)] obtain a where
    "process_frames env' q acks' v2 = Inr (v2\<lparr>w_reply := a\<rparr>)" by blast
  from receive_all [OF ack_frames_ok(1,2) [OF acks'(1)] this last]
  have v3: "receive env' q (split_up (wire sk (news ?w2 ?w4))) [] v2 = Inr ([], v2\<lparr>w_reply := a\<rparr>)" .
  have "remote_call env env' content content' split_up p q sk tk f timeout d w v
      = Inr (Some (f d), ?w4, v2\<lparr>w_reply := a\<rparr>)"
    unfolding remote_call_def w1(1) then_do_Inr prod.case option.case wait Let_def v(1,2) w3(1,4)
    using w3(2,3) v3 by simp
  moreover have "client_at env view content p sk ?w4"
    by (rule client_at_again [OF client(2) endpoint_same [OF ep3]]) simp_all
  moreover have "server_at env' view' content' q tk (v2\<lparr>w_reply := a\<rparr>)"
    by (rule server_at_reply [OF v(6)])
  ultimately show ?thesis by (intro exI [of _ ?w4] exI [of _ "v2\<lparr>w_reply := a\<rparr>"]) simp
qed

section \<open>Sequences of calls\<close>

lemma sample_endpoint: "endpoint sample_env (\<lambda>c. c) (\<lambda>b. b) 1 5 (sample_session Ready) (sample_world Ready)"
  using sample_at [of Ready] sample_facts(1) sample_buffers(4) sample_between by (simp add: endpoint_def)

lemma sample_server: "server_at sample_env (\<lambda>c. c) (\<lambda>b. b) 1 5 (sample_world Ready)"
  unfolding server_at_def using sample_endpoint sample_facts(6) by blast

text \<open>
  C2: a request is a remote procedure call. Each calling thread waits before anything arrives, data and
  responses are shorter than 4 GiB, and the application of the server answers every request with \<open>f\<close>
  of its data. Then any sequence of requests, one after the other and however the network cuts the bytes in
  either direction, gives what the local calls of \<open>f\<close> give: each call is the value blockMessage has
  computed when it comes to its \<open>return\<close>. Both sides are ready for more, and the waiting threads of
  other requests are not touched. The unlocking of the deleted mutex that follows in every call is
  not part of the statement.
\<close>

theorem remote_calls_are_local_calls:
  assumes client: "channel_ok env sk" "client_at env view content p sk w" "databuffer_ok (e_db env) content"
    and server: "channel_ok env' tk" "server_at env' view' content' q tk v" "databuffer_ok (e_db env') content'"
      "passive_client env'"
    and net: "\<And>bytes. concat (split_up bytes) = bytes"
    and sizes: "\<forall>d \<in> set ds. length d < 2 ^ 32 \<and> length (f d) < 2 ^ 32"
  shows "\<exists>w1 v1. remote_calls env env' content content' split_up p q sk tk f timeout ds w v
      = Inr (map (\<lambda>d. Some (f d)) ds, w1, v1)
    \<and> client_at env view content p sk w1 \<and> server_at env' view' content' q tk v1
    \<and> blocker_list (w_blocker w1) = blocker_list (w_blocker w)
    \<and> blocker_heap (w_blocker w1) = blocker_heap (w_blocker w)"
  using client(2) server(2) sizes
proof (induction ds arbitrary: w v)
  case (Cons d ds)
  from remote_call_returns [OF client(1) Cons.prems(1) client(3) server(1) Cons.prems(2) server(3,4) net,
      of d f timeout] Cons.prems(3)
  obtain w1 v1 where first: "remote_call env env' content content' split_up p q sk tk f timeout d w v
      = Inr (Some (f d), w1, v1)" "client_at env view content p sk w1" "server_at env' view' content' q tk v1"
      "w_blocker w1 = (w_blocker w)\<lparr>blocker_next := Suc (blocker_next (w_blocker w))\<rparr>" by auto
  from Cons.IH [OF first(2,3)] Cons.prems(3) obtain w2 v2 where
    "remote_calls env env' content content' split_up p q sk tk f timeout ds w1 v1
      = Inr (map (\<lambda>d. Some (f d)) ds, w2, v2)" "client_at env view content p sk w2"
    "server_at env' view' content' q tk v2" "blocker_list (w_blocker w2) = blocker_list (w_blocker w1)"
    "blocker_heap (w_blocker w2) = blocker_heap (w_blocker w1)" by auto
  with first show ?case by (intro exI [of _ w2] exI [of _ v2]) simp
qed simp

theorem remote_calls_are_local_calls_witness:
  "\<exists>w1 v1. remote_calls sample_env sample_env (\<lambda>b. b) (\<lambda>b. b) (\<lambda>bs. [bs]) 1 1 5 5 rev 60
      [[1, 2, 3], replicate 20 7, []] (sample_world Ready) (sample_world Ready)
    = Inr ([Some [3, 2, 1], Some (replicate 20 7), Some []], w1, v1)"
proof -
  have client: "client_at sample_env (\<lambda>c. c) (\<lambda>b. b) 1 5 (sample_world Ready)"
    using sample_endpoint sample_buffers(6,7) by (auto simp: client_at_def)
  have sizes: "\<forall>d \<in> set [[1, 2, 3], replicate 20 7, []]. length d < 2 ^ 32 \<and> length (rev d :: byte list) < 2 ^ 32"
    by simp
  have net: "concat ((\<lambda>bs. [bs]) bytes) = bytes" for bytes :: "byte list" by simp
  from remote_calls_are_local_calls [OF sample_channel client sample_buffers(5) sample_channel sample_server
      sample_buffers(5) sample_facts(2) net sizes, of 60]
  show ?thesis by (simp only: list.map) auto
qed

end
