(* ===== verification/Request_Table.thy ===== *)
theory Request_Table
  imports Message_Blocker_Handler
begin

text \<open>
  The blocked requests as a table from identifiers to the state of the waiting thread and its response.
  The locale \<open>waiting_requests\<close> states what the other components rely on; the list of the blocker handler,
  with its search loops and its removal by swapping, implements it. From the contract alone it follows
  that responses may come, and threads return, in any order.
\<close>

section \<open>The contract\<close>

type_synonym ('k, 'd) requests = "'k \<Rightarrow> (cv_state \<times> 'd option) option"

text \<open>What a response changes: the data are stored, and a thread that waits is notified.\<close>

definition responded :: "'k \<Rightarrow> 'd option \<Rightarrow> ('k, 'd) requests \<Rightarrow> ('k, 'd) requests" where
  "responded k d m = (case m k of None \<Rightarrow> m | Some (c, d') \<Rightarrow> m(k \<mapsto> (notify_one c, d)))"

locale waiting_requests =
  fixes release :: "'k \<Rightarrow> 'd option \<Rightarrow> 's \<Rightarrow> fault + bool \<times> 's"
    and resume :: "'k \<Rightarrow> 's \<Rightarrow> fault + 'd option \<times> 's"
    and requests :: "'s \<Rightarrow> ('k, 'd) requests" and ok :: "'s \<Rightarrow> bool"
  assumes release_law: "ok s \<Longrightarrow> \<exists>s'. release k d s = Inr (requests s k \<noteq> None, s') \<and> ok s'
      \<and> requests s' = responded k d (requests s)"
    and resume_law: "ok s \<Longrightarrow> \<exists>s'. resume k s = Inr (Option.bind (requests s k) snd, s') \<and> ok s'
      \<and> requests s' = (requests s)(k := None)"
begin

fun release_all :: "('k \<times> 'd option) list \<Rightarrow> 's \<Rightarrow> fault + 's" where
  "release_all [] s = Inr s"
| "release_all ((k, d) # rs) s = then_do (release k d s) (\<lambda>(found, s1). release_all rs s1)"

fun resume_all :: "'k list \<Rightarrow> 's \<Rightarrow> fault + 'd option list \<times> 's" where
  "resume_all [] s = Inr ([], s)"
| "resume_all (k # ks) s =
     then_do (resume k s) (\<lambda>(d, s1). then_do (resume_all ks s1) (\<lambda>(ds, s2). Inr (d # ds, s2)))"

lemma released:
  "ok s \<Longrightarrow> distinct (map fst rs) \<Longrightarrow> \<forall>k \<in> fst ` set rs. \<exists>d. requests s k = Some (Waiting, d) \<Longrightarrow>
   \<exists>s'. release_all rs s = Inr s' \<and> ok s'
     \<and> requests s' = (\<lambda>k. case map_of rs k of None \<Rightarrow> requests s k | Some d \<Rightarrow> Some (Notified, d))"
proof (induction rs arbitrary: s)
  case Nil
  then show ?case by simp
next
  case (Cons a rs)
  obtain k d where a: "a = (k, d)" by fastforce
  from Cons.prems(3) a obtain d' where "requests s k = Some (Waiting, d')" by auto
  with release_law [OF Cons.prems(1), of k d] obtain s1 where s1: "release k d s = Inr (True, s1)" "ok s1"
    "requests s1 = (requests s)(k \<mapsto> (Notified, d))" by (auto simp: responded_def)
  have "k \<notin> fst ` set rs" using Cons.prems(2) a by simp
  then have none: "map_of rs k = None" by (simp add: map_of_eq_None_iff)
  have "\<forall>i \<in> fst ` set rs. \<exists>d. requests s1 i = Some (Waiting, d)"
  proof
    fix i assume i: "i \<in> fst ` set rs"
    with \<open>k \<notin> fst ` set rs\<close> have "requests s1 i = requests s i" by (auto simp: s1(3))
    moreover have "i \<in> fst ` set (a # rs)" using i by simp
    ultimately show "\<exists>d. requests s1 i = Some (Waiting, d)" using Cons.prems(3) by (metis (no_types, lifting))
  qed
  with Cons.IH [OF s1(2)] Cons.prems(2) a obtain s2 where "release_all rs s1 = Inr s2" "ok s2"
    "requests s2 = (\<lambda>i. case map_of rs i of None \<Rightarrow> requests s1 i | Some d \<Rightarrow> Some (Notified, d))" by auto
  with s1 a none show ?case by (intro exI [of _ s2]) (auto simp: fun_eq_iff split: option.splits)
qed

lemma resumed:
  "ok s \<Longrightarrow> distinct ks \<Longrightarrow>
   \<exists>s'. resume_all ks s = Inr (map (\<lambda>k. Option.bind (requests s k) snd) ks, s') \<and> ok s'
     \<and> requests s' = requests s |` (- set ks)"
proof (induction ks arbitrary: s)
  case Nil
  then show ?case by simp
next
  case (Cons k ks)
  from resume_law [OF Cons.prems(1), of k] obtain s1 where s1:
    "resume k s = Inr (Option.bind (requests s k) snd, s1)" "ok s1" "requests s1 = (requests s)(k := None)" by blast
  from Cons.IH [OF s1(2)] Cons.prems(2) obtain s2 where
    "resume_all ks s1 = Inr (map (\<lambda>k. Option.bind (requests s1 k) snd) ks, s2)" "ok s2"
    "requests s2 = requests s1 |` (- set ks)" by auto
  moreover have "map (\<lambda>i. Option.bind (requests s1 i) snd) ks = map (\<lambda>i. Option.bind (requests s i) snd) ks"
    using Cons.prems(2) by (auto simp: s1(3))
  ultimately show ?case using s1 by (intro exI [of _ s2]) (auto simp: restrict_map_def fun_eq_iff)
qed

text \<open>Every thread gets its own response, in whatever order they come and the threads return.\<close>

lemma responses_in_any_order:
  assumes "ok s" and "distinct (map fst rs)" and "\<forall>k \<in> fst ` set rs. \<exists>d. requests s k = Some (Waiting, d)"
    and "mset ks = mset (map fst rs)"
  shows "\<exists>s1 s2. release_all rs s = Inr s1 \<and> resume_all ks s1 = Inr (map (\<lambda>k. the (map_of rs k)) ks, s2)
    \<and> ok s2 \<and> requests s2 = requests s |` (- set ks)"
proof -
  from released [OF assms(1-3)] obtain s1 where s1: "release_all rs s = Inr s1" "ok s1"
    "requests s1 = (\<lambda>k. case map_of rs k of None \<Rightarrow> requests s k | Some d \<Rightarrow> Some (Notified, d))" by blast
  have ks: "distinct ks" "set ks = fst ` set rs"
    using assms(2,4) by (metis mset_eq_imp_distinct_iff, metis list.set_map mset_eq_setD)
  from resumed [OF s1(2) ks(1)] obtain s2 where
    s2: "resume_all ks s1 = Inr (map (\<lambda>k. Option.bind (requests s1 k) snd) ks, s2)" "ok s2"
      "requests s2 = requests s1 |` (- set ks)" by blast
  have "Option.bind (requests s1 k) snd = the (map_of rs k)" if "k \<in> set ks" for k
  proof -
    have "map_of rs k \<noteq> None" using that ks(2) by (simp add: map_of_eq_None_iff)
    then show ?thesis by (auto simp: s1(3))
  qed
  moreover have "requests s1 |` (- set ks) = requests s |` (- set ks)"
  proof
    fix k
    have "map_of rs k = None" if "k \<notin> set ks" using that ks(2) by (simp add: map_of_eq_None_iff)
    then show "(requests s1 |` (- set ks)) k = (requests s |` (- set ks)) k" by (simp add: s1(3) restrict_map_def)
  qed
  ultimately show ?thesis using s1(1) s2 by (intro exI [of _ s1] exI [of _ s2]) (simp cong: map_cong)
qed

end

section \<open>The list as a table\<close>

definition state_at :: "'buf blocker_handler \<Rightarrow> ptr \<Rightarrow> cv_state \<times> 'buf option" where
  "state_at h p = (blocker_cv (the (blocker_heap h p)), responseData (the (blocker_heap h p)))"

definition request_table :: "'buf blocker_handler \<Rightarrow> (u64, 'buf) requests" where
  "request_table h = map_of (map (\<lambda>p. (id_at h p, state_at h p)) (blocker_list h))"

text \<open>Identifiers are not used twice.\<close>

definition requests_ok :: "'buf blocker_handler \<Rightarrow> bool" where
  "requests_ok h \<longleftrightarrow> blockers_ok h \<and> distinct (map (id_at h) (blocker_list h))"

lemma request_table_None: "request_table h i = None \<longleftrightarrow> i \<notin> id_at h ` set (blocker_list h)"
  by (simp add: request_table_def map_of_eq_None_iff image_image)

lemma request_table_Some:
  assumes "requests_ok h"
  shows "request_table h i = Some x \<longleftrightarrow> (\<exists>p \<in> set (blocker_list h). id_at h p = i \<and> state_at h p = x)"
proof -
  have "distinct (map fst (map (\<lambda>p. (id_at h p, state_at h p)) (blocker_list h)))"
    using assms by (simp add: requests_ok_def comp_def)
  then show ?thesis unfolding request_table_def by (subst map_of_eq_Some_iff) auto
qed

lemma request_table_eqI:
  assumes "requests_ok h" and "\<And>i x. (\<exists>p \<in> set (blocker_list h). id_at h p = i \<and> state_at h p = x) \<longleftrightarrow> m i = Some x"
  shows "request_table h = m"
proof
  fix i
  show "request_table h i = m i"
    using request_table_Some [OF assms(1), of i] assms(2) [of i] by (cases "m i"; cases "request_table h i") auto
qed

lemma requests_ok_unique:
  "requests_ok h \<Longrightarrow> p \<in> set (blocker_list h) \<Longrightarrow> p' \<in> set (blocker_list h) \<Longrightarrow> id_at h p = id_at h p' \<Longrightarrow> p = p'"
  by (auto simp: requests_ok_def distinct_map inj_on_def)

section \<open>The operations on the table\<close>

lemma table_with_entry:
  assumes ok: "requests_ok h" and new: "request_table h (blocker_id b) = None"
  shows "requests_ok (with_entry h b)"
    and "request_table (with_entry h b) = (request_table h)(blocker_id b \<mapsto> (blocker_cv b, responseData b))"
proof -
  have b: "blockers_ok h" "blocker_next h \<notin> set (blocker_list h)"
    using ok by (auto simp: requests_ok_def blockers_ok_def)
  have at: "id_at (with_entry h b) p = (if p = blocker_next h then blocker_id b else id_at h p)"
    "state_at (with_entry h b) p = (if p = blocker_next h then (blocker_cv b, responseData b) else state_at h p)" for p
    by (simp_all add: id_at_def state_at_def)
  have ids: "map (id_at (with_entry h b)) (blocker_list h) = map (id_at h) (blocker_list h)"
    using b(2) by (auto simp: at)
  have "blockers_ok (with_entry h b)"
    using b by (auto simp: blockers_ok_def with_entry_def less_Suc_eq)
  then show ok': "requests_ok (with_entry h b)"
    using ok new unfolding requests_ok_def by (simp add: ids at request_table_None)
  show "request_table (with_entry h b) = (request_table h)(blocker_id b \<mapsto> (blocker_cv b, responseData b))"
  proof (rule request_table_eqI [OF ok'])
    fix i x
    have "(\<exists>p \<in> set (blocker_list (with_entry h b)). id_at (with_entry h b) p = i \<and> state_at (with_entry h b) p = x)
        \<longleftrightarrow> (blocker_id b = i \<and> (blocker_cv b, responseData b) = x)
          \<or> (\<exists>p \<in> set (blocker_list h). id_at h p = i \<and> state_at h p = x)"
      using b(2) by (auto simp: at)
    then show "(\<exists>p \<in> set (blocker_list (with_entry h b)). id_at (with_entry h b) p = i \<and> state_at (with_entry h b) p = x)
        \<longleftrightarrow> ((request_table h)(blocker_id b \<mapsto> (blocker_cv b, responseData b))) i = Some x"
      using new request_table_Some [OF ok, of i x] by auto
  qed
qed

lemma table_release:
  assumes ok: "requests_ok h"
  shows "\<exists>h'. releaseMessage bid d h = Inr (request_table h bid \<noteq> None, h') \<and> requests_ok h'
    \<and> request_table h' = responded bid d (request_table h)"
proof -
  have b: "blockers_ok h" using ok by (simp add: requests_ok_def)
  then show ?thesis
  proof (cases rule: blocker_release_cases [where bid = bid and data = d])
    case absent
    then have "request_table h bid = None" by (auto simp: request_table_None)
    with absent ok show ?thesis by (simp add: releaseMessage_def responded_def)
  next
    case (found i e)
    let ?p = "blocker_list h ! i" and ?e = "e\<lparr>responseData := d, blocker_cv := notify_one (blocker_cv e)\<rparr>"
    let ?h = "set_blocker ?p ?e h"
    have p: "?p \<in> set (blocker_list h)" using found(2) by simp
    have id: "id_at h ?p = bid" using found(3,4) by (simp add: id_at_def)
    have at: "id_at ?h = id_at h" "state_at ?h = (state_at h)(?p := (notify_one (blocker_cv e), d))"
      using found(3) by (auto simp: id_at_def state_at_def set_blocker_def)
    have list: "blocker_list ?h = blocker_list h" by (simp add: set_blocker_def)
    have ok': "requests_ok ?h"
      using ok blockers_ok_set [OF b p, of ?e] by (simp add: requests_ok_def at list)
    have old: "request_table h bid = Some (blocker_cv e, responseData e)"
      unfolding request_table_Some [OF ok] using p id found(3) by (auto simp: state_at_def)
    have "request_table ?h = (request_table h)(bid \<mapsto> (notify_one (blocker_cv e), d))"
    proof (rule request_table_eqI [OF ok'])
      fix j x
      show "(\<exists>q \<in> set (blocker_list ?h). id_at ?h q = j \<and> state_at ?h q = x)
          \<longleftrightarrow> ((request_table h)(bid \<mapsto> (notify_one (blocker_cv e), d))) j = Some x"
      proof (cases "j = bid")
        case True
        have "q = ?p" if "q \<in> set (blocker_list h)" "id_at h q = j" for q
          using requests_ok_unique [OF ok p that(1)] id that(2) True by simp
        then have "(\<exists>q \<in> set (blocker_list h). id_at h q = j \<and> S q = x) \<longleftrightarrow> S ?p = x" for S
          using p id True by blast
        then show ?thesis unfolding at list using True by simp
      next
        case False
        then have "(\<exists>q \<in> set (blocker_list ?h). id_at ?h q = j \<and> state_at ?h q = x)
            \<longleftrightarrow> (\<exists>q \<in> set (blocker_list h). id_at h q = j \<and> state_at h q = x)"
          unfolding at list using id by (intro bex_cong) auto
        then show ?thesis by (simp only: request_table_Some [OF ok, symmetric] fun_upd_other [OF False])
      qed
    qed
    with found(5) ok' old show ?thesis by (simp add: releaseMessage_def responded_def)
  qed
qed

lemma table_resume:
  assumes ok: "requests_ok h"
  shows "\<exists>h'. blockMessage_resume bid h = Inr (Option.bind (request_table h bid) snd, h') \<and> requests_ok h'
    \<and> request_table h' = (request_table h)(bid := None)"
proof -
  have b: "blockers_ok h" using ok by (simp add: requests_ok_def)
  then show ?thesis
  proof (cases rule: blocker_remove_cases [where bid = bid])
    case absent
    then have "request_table h bid = None" by (auto simp: request_table_None)
    with absent ok show ?thesis by (simp add: blockMessage_resume_def fun_upd_idem)
  next
    case (found i e)
    let ?p = "blocker_list h ! i"
    let ?h = "h\<lparr>blocker_list := swap_remove i (blocker_list h), blocker_heap := (blocker_heap h)(?p := None)\<rparr>"
    have d: "distinct (blocker_list h)" using b by (simp add: blockers_ok_def)
    note rest = swap_remove_set [OF d found(2)]
    have p: "?p \<in> set (blocker_list h)" using found(2) by simp
    have id: "id_at h ?p = bid" using found(3,4) by (simp add: id_at_def)
    have at: "id_at ?h q = id_at h q" "state_at ?h q = state_at h q" if "q \<noteq> ?p" for q
      using that by (simp_all add: id_at_def state_at_def)
    have "blockers_ok ?h" using b rest by (auto simp: blockers_ok_def)
    moreover have "distinct (map (id_at ?h) (swap_remove i (blocker_list h)))"
      using rest ok at by (auto simp: distinct_map inj_on_def requests_ok_def)
    ultimately have ok': "requests_ok ?h" by (simp add: requests_ok_def)
    have old: "request_table h bid = Some (blocker_cv e, responseData e)"
      unfolding request_table_Some [OF ok] using p id found(3) by (auto simp: state_at_def)
    have "request_table ?h = (request_table h)(bid := None)"
    proof (rule request_table_eqI [OF ok'])
      fix j x
      have eq: "(\<exists>q \<in> set (blocker_list ?h). id_at ?h q = j \<and> state_at ?h q = x)
          \<longleftrightarrow> (\<exists>q \<in> set (blocker_list h) - {?p}. id_at h q = j \<and> state_at h q = x)"
        using rest(1) at by auto
      show "(\<exists>q \<in> set (blocker_list ?h). id_at ?h q = j \<and> state_at ?h q = x)
          \<longleftrightarrow> ((request_table h)(bid := None)) j = Some x"
      proof (cases "j = bid")
        case True
        then have "q = ?p" if "q \<in> set (blocker_list h)" "id_at h q = j" for q
          using requests_ok_unique [OF ok p that(1)] id that(2) by simp
        then show ?thesis using eq True by auto
      next
        case False
        then show ?thesis using eq id request_table_Some [OF ok, of j x] by auto
      qed
    qed
    with found(5) ok' old show ?thesis by (simp add: blockMessage_resume_def)
  qed
qed

interpretation blocked: waiting_requests releaseMessage blockMessage_resume request_table requests_ok
  by unfold_locales (rule table_release, assumption, rule table_resume, assumption)

section \<open>The handler implements the table\<close>

text \<open>
  C10: the list of blocked requests implements a table from identifiers to waiting threads and their
  responses: a request whose identifier is new adds a row, a response stores its data in the row of its
  identifier and notifies the thread if it waits, a returning thread takes its row and gets exactly the
  data stored there, and the other rows stay; the destructor empties the table.
\<close>

theorem blocked_requests_form_a_table:
  assumes "requests_ok h"
  shows "(\<exists>h'. releaseMessage bid d h = Inr (request_table h bid \<noteq> None, h') \<and> requests_ok h'
        \<and> request_table h' = responded bid d (request_table h))
    \<and> (\<exists>h'. blockMessage_resume bid h = Inr (Option.bind (request_table h bid) snd, h') \<and> requests_ok h'
        \<and> request_table h' = (request_table h)(bid := None))
    \<and> (request_table h bid = None \<longrightarrow> (\<exists>e h1 h2. blockMessage_enter bid t s h = (e, h1) \<and> requests_ok h1
        \<and> request_table h1 = (request_table h)(bid \<mapsto> (Before_Wait, None))
        \<and> blockMessage_wait e h1 = Inr h2 \<and> requests_ok h2
        \<and> request_table h2 = (request_table h)(bid \<mapsto> (Waiting, None))))
    \<and> (\<exists>h'. delete_MessageBlockerHandler h = Inr h' \<and> requests_ok h' \<and> request_table h' = Map.empty)"
proof (intro conjI impI)
  show "\<exists>h'. releaseMessage bid d h = Inr (request_table h bid \<noteq> None, h') \<and> requests_ok h'
      \<and> request_table h' = responded bid d (request_table h)" by (rule table_release [OF assms])
  show "\<exists>h'. blockMessage_resume bid h = Inr (Option.bind (request_table h bid) snd, h') \<and> requests_ok h'
      \<and> request_table h' = (request_table h)(bid := None)" by (rule table_resume [OF assms])
next
  let ?e = "\<lambda>c. \<lparr>blocker_session = s, blocker_id = bid, blocker_timer = t, blocker_cv = c, responseData = None\<rparr>"
  assume "request_table h bid = None"
  then have row: "requests_ok (with_entry h (?e c))"
      "request_table (with_entry h (?e c)) = (request_table h)(bid \<mapsto> (c, None))" for c
    using table_with_entry [OF assms, of "?e c"] by simp_all
  have "blockMessage_wait (blocker_next h) (with_entry h (?e Before_Wait)) = Inr (with_entry h (?e Waiting))"
    by (simp add: wait_with_entry)
  with row show "\<exists>e h1 h2. blockMessage_enter bid t s h = (e, h1) \<and> requests_ok h1
        \<and> request_table h1 = (request_table h)(bid \<mapsto> (Before_Wait, None))
        \<and> blockMessage_wait e h1 = Inr h2 \<and> requests_ok h2
        \<and> request_table h2 = (request_table h)(bid \<mapsto> (Waiting, None))"
    unfolding enter_with_entry by blast
next
  from assms have "blockers_ok h" by (simp add: requests_ok_def)
  from blockers_ok_clear [OF this] obtain h' where "clearList h = Inr h'" "blockers_ok h'" "blocker_list h' = []"
    by blast
  then show "\<exists>h'. delete_MessageBlockerHandler h = Inr h' \<and> requests_ok h' \<and> request_table h' = Map.empty"
    by (simp add: delete_MessageBlockerHandler_def requests_ok_def request_table_def)
qed

lemma sample_requests_ok: "requests_ok sample_blockers"
  using sample_blockers_ok
  by (simp add: requests_ok_def) (simp add: sample_blockers_def blockMessage_enter_def id_at_def)

theorem blocked_requests_form_a_table_witness:
  "\<exists>h'. blockMessage_resume 6 sample_blockers = Inr (None, h')
    \<and> request_table h' = (request_table sample_blockers)(6 := None)"
proof -
  have "request_table sample_blockers 6 = Some (Before_Wait, None)"
    by (simp add: request_table_def sample_blockers_def blockMessage_enter_def id_at_def state_at_def)
  with blocked_requests_form_a_table [OF sample_requests_ok, of 6] show ?thesis by auto
qed

end
