(* ===== verification/Concurrent_Calls.thy ===== *)
theory Concurrent_Calls
  imports Remote_Calls Request_Table
begin

text \<open>
  Requests of several threads at once. All threads have sent their requests and wait; the server answers
  when and in the order it likes; every thread returns with the response to its own request. The client is
  seen through the table of its blocked requests, so nothing here depends on the list behind it.
\<close>

section \<open>Requests in flight\<close>

text \<open>The threads of the client, one after the other, send their requests and go to sleep.\<close>

fun ask_all ::
    "('sm, 'buf) env \<Rightarrow> ptr \<Rightarrow> u64 \<Rightarrow> byte list list \<Rightarrow> ('sm, 'buf) world
     \<Rightarrow> fault + u64 option list \<times> ('sm, 'buf) world" where
  "ask_all env p timeout [] w = Inr ([], w)"
| "ask_all env p timeout (d # ds) w =
     then_do (sendRequest env p d (word_of_nat (length d)) timeout w) (\<lambda>(r, w1).
       case r of
         None \<Rightarrow> then_do (ask_all env p timeout ds w1) (\<lambda>(ts, w2). Inr (None # ts, w2))
       | Some (bid, e) \<Rightarrow>
           then_do (blockMessage_wait e (w_blocker w1)) (\<lambda>b.
           then_do (ask_all env p timeout ds (w1\<lparr>w_blocker := b\<rparr>)) (\<lambda>(ts, w2). Inr (Some bid # ts, w2))))"

text \<open>
  The threads return; a thread that was not notified sleeps on. As in Remote_Calls a call ends with the value
  of \<open>blockMessage_resume\<close>, before \<open>blockMessage_unlock\<close>.
\<close>

fun return_all ::
    "('buf \<Rightarrow> byte list) \<Rightarrow> u64 option list \<Rightarrow> ('sm, 'buf) world
     \<Rightarrow> fault + byte list option list \<times> ('sm, 'buf) world" where
  "return_all content [] w = Inr ([], w)"
| "return_all content (None # ts) w = then_do (return_all content ts w) (\<lambda>(rs, w1). Inr (None # rs, w1))"
| "return_all content (Some bid # ts) w =
     (if map_option fst (request_table (w_blocker w) bid) \<noteq> Some Notified then Inl Never_Returns
      else
        then_do (blockMessage_resume bid (w_blocker w)) (\<lambda>(buf, b).
        then_do (return_all content ts (w\<lparr>w_blocker := b\<rparr>)) (\<lambda>(rs, w1).
          Inr (map_option content buf # rs, w1))))"

text \<open>
  The server reads what arrives; \<open>later\<close> is what its application does after its callbacks have returned,
  with the list of these callbacks.
\<close>

definition server_step ::
    "('sm, 'buf) env \<Rightarrow> ptr \<Rightarrow> ('buf callback list \<Rightarrow> ('sm, 'buf) world \<Rightarrow> fault + ('sm, 'buf) world)
     \<Rightarrow> byte list list \<Rightarrow> ('sm, 'buf) world \<Rightarrow> fault + ('sm, 'buf) world" where
  "server_step env q later segs v =
     then_do (receive env q segs [] v) (\<lambda>(rest, v1). later (callbacks (news v v1)) v1)"

definition concurrent_calls ::
    "('sm, 'buf) env \<Rightarrow> ('sm2, 'buf2) env \<Rightarrow> ('buf \<Rightarrow> byte list)
     \<Rightarrow> ('buf2 callback list \<Rightarrow> ('sm2, 'buf2) world \<Rightarrow> fault + ('sm2, 'buf2) world)
     \<Rightarrow> (byte list \<Rightarrow> byte list list) \<Rightarrow> ptr \<Rightarrow> ptr \<Rightarrow> sock \<Rightarrow> sock \<Rightarrow> u64
     \<Rightarrow> byte list list \<Rightarrow> ('sm, 'buf) world \<Rightarrow> ('sm2, 'buf2) world
     \<Rightarrow> fault + byte list option list \<times> ('sm, 'buf) world \<times> ('sm2, 'buf2) world" where
  "concurrent_calls env env' content later split_up p q sk tk timeout ds w v =
     then_do (ask_all env p timeout ds w) (\<lambda>(ts, w2).
     then_do (server_step env' q later (split_up (wire sk (news w w2))) v) (\<lambda>v2.
     then_do (receive env p (split_up (wire tk (news v v2))) [] w2) (\<lambda>(rest, w3).
     then_do (return_all content ts w3) (\<lambda>(rs, w4).
     then_do (receive env' q (split_up (wire sk (news w2 w4))) [] v2) (\<lambda>(rest', v3).
       Inr (rs, w4, v3))))))"

text \<open>The identifiers the next \<open>n\<close> requests draw.\<close>

fun draws :: "(nat \<Rightarrow> 31 word) \<Rightarrow> nat \<Rightarrow> nat \<Rightarrow> u64 list" where
  "draws rnd 0 k = []"
| "draws rnd (Suc n) k = (case getRandId_loop rnd k of None \<Rightarrow> [] | Some (i, k') \<Rightarrow> i # draws rnd n k')"

section \<open>The client asks\<close>

definition carries_request :: "nat \<Rightarrow> u64 \<times> byte list \<Rightarrow> (CommonMessageHeader \<times> byte list) list \<Rightarrow> bool" where
  "carries_request m r fs \<longleftrightarrow> data_frames m (fst r) 0 (snd r) fs"

lemma thread_waits:
  assumes "requests_ok h" and "request_table h bid = None"
  shows "\<exists>h'. blockMessage_wait (fst (blockMessage_enter bid t s h)) (snd (blockMessage_enter bid t s h)) = Inr h'
    \<and> requests_ok h' \<and> request_table h' = (request_table h)(bid \<mapsto> (Waiting, None))"
proof -
  let ?e = "\<lparr>blocker_session = s, blocker_id = bid, blocker_timer = t, blocker_cv = Waiting, responseData = None\<rparr>"
  show ?thesis
    using table_with_entry [OF assms(1), of ?e] assms(2) by (simp add: enter_with_entry wait_with_entry)
qed

lemma all_asked:
  assumes ch: "channel_ok env sk"
  shows "endpoint env view content p sk s w \<Longrightarrow> requests_ok (w_blocker w) \<Longrightarrow>
    \<forall>d \<in> set ds. length d < 2 ^ 32 \<Longrightarrow> bids = draws (e_rand env) (length ds) (w_rand w) \<Longrightarrow>
    distinct bids \<Longrightarrow> \<forall>i \<in> set bids. request_table (w_blocker w) i = None \<Longrightarrow>
    \<exists>w1 s1 fss. ask_all env p timeout ds w = Inr (map Some bids, w1) \<and> length bids = length ds \<and> 0 \<notin> set bids
      \<and> list_all2 (carries_request (e_max env)) (zip bids ds) fss
      \<and> w_trace w1 = w_trace w @ sent_events sk (map snd (concat fss))
      \<and> endpoint env view content p sk s1 w1 \<and> requests_ok (w_blocker w1)
      \<and> request_table (w_blocker w1)
          = (\<lambda>i. if i \<in> set bids then Some (Waiting, None) else request_table (w_blocker w) i)"
proof (induction ds arbitrary: w s bids)
  case Nil
  then show ?case by (intro exI [of _ w] exI [of _ s] exI [of _ "[]"]) simp
next
  case (Cons d ds)
  from channel_okD(4) [OF ch] obtain bid w0 where rand: "getRandId env w = Inr (bid, w0)" by blast
  then have bids: "bids = bid # draws (e_rand env) (length ds) (w_rand w0)"
    using Cons.prems(4) by (auto simp: getRandId_def split: option.splits)
  have d: "length d < 2 ^ 32" using Cons.prems(3) by simp
  from request_sent [OF ch Cons.prems(1) d rand, of timeout] obtain fs w1 k where
    w1: "sendRequest env p d (word_of_nat (length d)) timeout w
        = Inr (Some (bid, fst (blockMessage_enter bid timeout p (w_blocker w))), w1)"
      "data_frames (e_max env) bid 0 d fs" "w_trace w1 = w_trace w @ sent_events sk (map snd fs)"
      "w_heap w1 p = Some (s\<lparr>m_messageIdCounter := k\<rparr>)"
      "w_blocker w1 = snd (blockMessage_enter bid timeout p (w_blocker w))" "w_rand w1 = w_rand w0" by blast
  have new: "request_table (w_blocker w) bid = None" using Cons.prems(6) bids by simp
  from thread_waits [OF Cons.prems(2) new, of timeout p] obtain h where
    h: "blockMessage_wait (fst (blockMessage_enter bid timeout p (w_blocker w))) (w_blocker w1) = Inr h"
      "requests_ok h" "request_table h = (request_table (w_blocker w))(bid \<mapsto> (Waiting, None))"
    unfolding w1(5) by blast
  let ?w = "w1\<lparr>w_blocker := h\<rparr>" and ?bids = "draws (e_rand env) (length ds) (w_rand w0)"
  have "endpoint env view content p sk (s\<lparr>m_messageIdCounter := k\<rparr>) ?w"
    by (rule endpoint_counter [OF Cons.prems(1)]) (simp add: w1(4))
  moreover have "requests_ok (w_blocker ?w)" using h(2) by simp
  moreover have "\<forall>d \<in> set ds. length d < 2 ^ 32" using Cons.prems(3) by simp
  moreover have "?bids = draws (e_rand env) (length ds) (w_rand ?w)" by (simp add: w1(6))
  moreover have "distinct ?bids" and "\<forall>i \<in> set ?bids. request_table (w_blocker ?w) i = None"
    using Cons.prems(5,6) bids h(3) by auto
  ultimately obtain w2 s1 fss where
    w2: "ask_all env p timeout ds ?w = Inr (map Some ?bids, w2)" "length ?bids = length ds" "0 \<notin> set ?bids"
      "list_all2 (carries_request (e_max env)) (zip ?bids ds) fss"
      "w_trace w2 = w_trace ?w @ sent_events sk (map snd (concat fss))"
      "endpoint env view content p sk s1 w2" "requests_ok (w_blocker w2)"
      "request_table (w_blocker w2)
        = (\<lambda>i. if i \<in> set ?bids then Some (Waiting, None) else request_table (w_blocker ?w) i)"
    using Cons.IH by blast
  have "carries_request (e_max env) (bid, d) fs" using w1(2) by (simp add: carries_request_def)
  then show ?case
    using w1(1,3) h(1,3) w2 getRandId_Some(1) [OF rand]
    by (intro exI [of _ w2] exI [of _ s1] exI [of _ "fs # fss"]) (auto simp: bids fun_eq_iff)
qed

section \<open>The threads return\<close>

definition answers_to :: "('buf \<Rightarrow> byte list) \<Rightarrow> byte list \<Rightarrow> (cv_state \<times> 'buf option) option \<Rightarrow> bool" where
  "answers_to content r row \<longleftrightarrow> (\<exists>buf. row = Some (Notified, Some buf) \<and> content buf = r)"

lemma all_returned:
  "requests_ok (w_blocker w) \<Longrightarrow> distinct bids \<Longrightarrow> length rs = length bids \<Longrightarrow>
   \<forall>(i, r) \<in> set (zip bids rs). answers_to content r (request_table (w_blocker w) i) \<Longrightarrow>
   \<exists>h. return_all content (map Some bids) w = Inr (map Some rs, w\<lparr>w_blocker := h\<rparr>) \<and> requests_ok h
     \<and> request_table h = request_table (w_blocker w) |` (- set bids)"
proof (induction bids arbitrary: w rs)
  case Nil
  then show ?case by (intro exI [of _ "w_blocker w"]) simp
next
  case (Cons bid bids)
  from Cons.prems(3) obtain r rs' where rs: "rs = r # rs'" "length rs' = length bids" by (cases rs) auto
  from Cons.prems(4) obtain buf where row: "request_table (w_blocker w) bid = Some (Notified, Some buf)" "content buf = r"
    by (auto simp: rs(1) answers_to_def)
  from table_resume [OF Cons.prems(1), of bid] obtain h1 where
    h1: "blockMessage_resume bid (w_blocker w) = Inr (Some buf, h1)" "requests_ok h1"
      "request_table h1 = (request_table (w_blocker w))(bid := None)" by (auto simp: row(1))
  have "request_table h1 i = request_table (w_blocker w) i" if "i \<in> set bids" for i
    using that Cons.prems(2) by (auto simp: h1(3))
  then have "\<forall>(i, r) \<in> set (zip bids rs'). answers_to content r (request_table (w_blocker (w\<lparr>w_blocker := h1\<rparr>)) i)"
    using Cons.prems(4) by (auto simp: rs(1)) (metis (no_types, lifting) case_prodD set_zip_leftD)
  with Cons.IH [of "w\<lparr>w_blocker := h1\<rparr>" rs'] Cons.prems(2) h1(2) rs(2) obtain h where
    "return_all content (map Some bids) (w\<lparr>w_blocker := h1\<rparr>) = Inr (map Some rs', w\<lparr>w_blocker := h\<rparr>)"
    "requests_ok h" "request_table h = request_table h1 |` (- set bids)" by auto
  with row h1 show ?case
    by (intro exI [of _ h]) (auto simp: rs(1) restrict_map_def fun_eq_iff)
qed

section \<open>Responses arrive\<close>

text \<open>
  What the server sends: acknowledgements, and responses \<open>(bid, r)\<close>.
\<close>

fun incoming :: "nat \<Rightarrow> (u64 \<times> byte list) option \<Rightarrow> (CommonMessageHeader \<times> byte list) list \<Rightarrow> bool" where
  "incoming m None fs \<longleftrightarrow> ack_frames fs"
| "incoming m (Some (bid, r)) fs \<longleftrightarrow> (\<exists>rid. data_frames m rid bid r fs)"

abbreviation responses :: "'a option list \<Rightarrow> 'a list" where
  "responses items \<equiv> List.map_filter (\<lambda>x. x) items"

lemma incoming_frames:
  "list_all2 (incoming m) items gss \<Longrightarrow>
   list_all2 frame (map fst (concat gss)) (map snd (concat gss)) \<and> (\<forall>f \<in> set (concat gss). handled (fst f))"
proof (induction items gss rule: list_all2_induct)
  case (Cons item items gs gss)
  have "list_all2 frame (map fst gs) (map snd gs) \<and> (\<forall>f \<in> set gs. handled (fst f))"
  proof (cases item)
    case None
    with Cons.hyps(1) show ?thesis using ack_frames_ok(1,2) by simp
  next
    case (Some a)
    with Cons.hyps(1) obtain rid where "data_frames m rid (fst a) (snd a) gs" by (cases a) auto
    then show ?thesis using data_frames_ok by blast
  qed
  with Cons.IH show ?case by (auto intro!: list_all2_appendI)
qed simp

lemma all_responded:
  assumes db: "databuffer_ok (e_db env) content" and m: "0 < m" "fits_buffer sizeof_Data_MultiBlock_Header m"
  shows "list_all2 (incoming m) items gss \<Longrightarrow> endpoint env view content p sk s w \<Longrightarrow> requests_ok (w_blocker w) \<Longrightarrow>
    distinct (map fst (responses items)) \<Longrightarrow>
    \<forall>i \<in> fst ` set (responses items). i \<noteq> 0 \<and> request_table (w_blocker w) i = Some (Waiting, None) \<Longrightarrow>
    \<exists>w1 s1 evs acks. process_frames env p (concat gss) w = Inr w1 \<and> w_trace w1 = w_trace w @ evs
      \<and> wire sk evs = concat (map snd acks) \<and> ack_frames acks
      \<and> endpoint env view content p sk s1 w1 \<and> requests_ok (w_blocker w1)
      \<and> (\<forall>i. i \<notin> fst ` set (responses items) \<longrightarrow> request_table (w_blocker w1) i = request_table (w_blocker w) i)
      \<and> (\<forall>(i, r) \<in> set (responses items). answers_to content r (request_table (w_blocker w1) i))"
proof (induction items gss arbitrary: w s rule: list_all2_induct)
  case Nil
  then show ?case
    by (intro exI [of _ w] exI [of _ s] exI [of _ "[]"] exI [of _ "[]"]) (simp add: map_filter_simps)
next
  case (Cons item items gs gss)
  show ?case
  proof (cases item)
    case None
    with Cons.hyps(1) obtain a where a: "process_frames env p gs w = Inr (w\<lparr>w_reply := a\<rparr>)"
      using ack_frames_ok(3) by fastforce
    have "endpoint env view content p sk s (w\<lparr>w_reply := a\<rparr>)" using endpoint_same [OF Cons.prems(1)] by simp
    from Cons.IH [OF this] Cons.prems(2-4) None show ?thesis
      by (simp add: process_frames_append a map_filter_simps)
  next
    case (Some x)
    obtain bid r where x: "x = (bid, r)" by fastforce
    with Cons.hyps(1) Some obtain rid where gs: "data_frames m rid bid r gs" by auto
    from Cons.prems(1) have s: "w_heap w p = Some s" "m_socket s = Some sk"
      and io: "between_messages content (m_multiblockIo s)" by (simp_all add: endpoint_def session_at_def)
    have row: "bid \<noteq> 0" "request_table (w_blocker w) bid = Some (Waiting, None)"
      using Cons.prems(4) Some x by (simp_all add: map_filter_simps)
    let ?P = "\<lambda>buf b. requests_ok b \<and> request_table b = (request_table (w_blocker w))(bid \<mapsto> (Notified, Some buf))"
    have "\<exists>b. releaseMessage bid (Some buf) (w_blocker w) = Inr (True, b) \<and> ?P buf b" for buf
      using table_release [OF Cons.prems(2), of bid "Some buf"] row(2) by (auto simp: responded_def)
    from response_received [OF db row(1) s io gs m this] obtain w1 buf evs io1 where
      w1: "process_frames env p gs w = Inr w1" "content buf = r" "?P buf (w_blocker w1)"
        "w_trace w1 = w_trace w @ evs" "acknowledgements sk (m_sessionId s) evs"
      and io1: "w_heap w1 p = Some (s\<lparr>m_multiblockIo := io1\<rparr>)" "between_messages content io1"
        "m_abort io1 = m_abort (m_multiblockIo s)" by blast
    from acknowledgements_wire [OF w1(5)] obtain acks where acks: "ack_frames acks" "wire sk evs = concat (map snd acks)"
      by blast
    have rest: "distinct (map fst (responses items))" "bid \<notin> fst ` set (responses items)"
      using Cons.prems(3) Some x by (simp_all add: map_filter_simps)
    have "\<forall>i \<in> fst ` set (responses items). i \<noteq> 0 \<and> request_table (w_blocker w1) i = Some (Waiting, None)"
      using Cons.prems(4) Some x w1(3) rest(2) by (auto simp: map_filter_simps)
    from Cons.IH [OF endpoint_io [OF Cons.prems(1) io1] _ rest(1) this] w1(3) obtain w2 s1 evs' acks' where
      w2: "process_frames env p (concat gss) w1 = Inr w2" "w_trace w2 = w_trace w1 @ evs'"
        "wire sk evs' = concat (map snd acks')" "ack_frames acks'"
        "endpoint env view content p sk s1 w2" "requests_ok (w_blocker w2)"
      and other: "\<forall>i. i \<notin> fst ` set (responses items) \<longrightarrow> request_table (w_blocker w2) i = request_table (w_blocker w1) i"
      and own: "\<forall>(i, r) \<in> set (responses items). answers_to content r (request_table (w_blocker w2) i)" by blast
    have "answers_to content r (request_table (w_blocker w2) bid)"
      using other rest(2) w1(2,3) by (simp add: answers_to_def)
    with w1(1,3,4) w2 acks other own show ?thesis
      by (intro exI [of _ w2] exI [of _ s1] exI [of _ "evs @ evs'"] exI [of _ "acks @ acks'"])
        (simp add: process_frames_append Some x map_filter_simps)
  qed
qed

section \<open>Calls return what the server answers\<close>

text \<open>
  The contract of a server in states \<open>P\<close>: for requests \<open>reqs\<close> whose frames arrive, it sends one response to
  each, with \<open>f\<close> of its data, in some order and between acknowledgements.
\<close>

definition serves ::
    "('sm, 'buf) env \<Rightarrow> ptr \<Rightarrow> sock \<Rightarrow> ('buf callback list \<Rightarrow> ('sm, 'buf) world \<Rightarrow> fault + ('sm, 'buf) world)
     \<Rightarrow> (byte list \<Rightarrow> byte list) \<Rightarrow> nat \<Rightarrow> (('sm, 'buf) world \<Rightarrow> bool) \<Rightarrow> bool" where
  "serves env q tk later f m P \<longleftrightarrow> (\<forall>v segs reqs fss.
     P v \<longrightarrow> list_all2 (carries_request m) reqs fss \<longrightarrow> (\<forall>r \<in> set reqs. length (f (snd r)) < 2 ^ 32) \<longrightarrow>
     concat segs = concat (map snd (concat fss)) \<longrightarrow>
     (\<exists>v1 items gss. server_step env q later segs v = Inr v1 \<and> P v1
       \<and> wire tk (news v v1) = concat (map snd (concat gss)) \<and> list_all2 (incoming (e_max env)) items gss
       \<and> mset (responses items) = mset (map (\<lambda>r. (fst r, f (snd r))) reqs)))"

lemma servesD:
  assumes "serves env q tk later f m P" and "P v" and "list_all2 (carries_request m) reqs fss"
    and "\<forall>r \<in> set reqs. length (f (snd r)) < 2 ^ 32" and "concat segs = concat (map snd (concat fss))"
  shows "\<exists>v1 items gss. server_step env q later segs v = Inr v1 \<and> P v1
       \<and> wire tk (news v v1) = concat (map snd (concat gss)) \<and> list_all2 (incoming (e_max env)) items gss
       \<and> mset (responses items) = mset (map (\<lambda>r. (fst r, f (snd r))) reqs)"
  using assms unfolding serves_def by blast

lemma calls_return:
  assumes client: "channel_ok env sk" "endpoint env view content p sk s w" "requests_ok (w_blocker w)"
      "databuffer_ok (e_db env) content"
    and ids: "distinct (draws (e_rand env) (length ds) (w_rand w))"
      "\<forall>i \<in> set (draws (e_rand env) (length ds) (w_rand w)). request_table (w_blocker w) i = None"
    and server: "channel_ok env' tk" "serves env' q tk later f (e_max env) P" "P v"
      "\<And>v a. P v \<Longrightarrow> P (v\<lparr>w_reply := a\<rparr>)"
    and net: "\<And>bytes. concat (split_up bytes) = bytes"
    and sizes: "\<forall>d \<in> set ds. length d < 2 ^ 32 \<and> length (f d) < 2 ^ 32"
  shows "\<exists>w1 v1 s1. concurrent_calls env env' content later split_up p q sk tk timeout ds w v
      = Inr (map (\<lambda>d. Some (f d)) ds, w1, v1)
    \<and> endpoint env view content p sk s1 w1 \<and> requests_ok (w_blocker w1)
    \<and> request_table (w_blocker w1) = request_table (w_blocker w) \<and> P v1"
proof -
  define bids where "bids = draws (e_rand env) (length ds) (w_rand w)"
  have ds: "\<forall>d \<in> set ds. length d < 2 ^ 32" using sizes by blast
  from all_asked [OF client(1-3) ds bids_def ids [folded bids_def], of timeout] obtain w2 s2 fss where
    w2: "ask_all env p timeout ds w = Inr (map Some bids, w2)" "length bids = length ds" "0 \<notin> set bids"
      "list_all2 (carries_request (e_max env)) (zip bids ds) fss"
      "w_trace w2 = w_trace w @ sent_events sk (map snd (concat fss))"
      "endpoint env view content p sk s2 w2" "requests_ok (w_blocker w2)"
      "request_table (w_blocker w2)
        = (\<lambda>i. if i \<in> set bids then Some (Waiting, None) else request_table (w_blocker w) i)" by blast
  have there: "concat (split_up (wire sk (news w w2))) = concat (map snd (concat fss))"
    using w2(5) news_eq [of w2 w] by (simp only: net) simp
  have small: "\<forall>r \<in> set (zip bids ds). length (f (snd r)) < 2 ^ 32"
    using sizes by (metis prod.collapse set_zip_rightD)
  from servesD [OF server(2,3) w2(4) small there] obtain v2 items gss where
    v2: "server_step env' q later (split_up (wire sk (news w w2))) v = Inr v2" "P v2"
      "wire tk (news v v2) = concat (map snd (concat gss))" "list_all2 (incoming (e_max env')) items gss"
      "mset (responses items) = mset (map (\<lambda>r. (fst r, f (snd r))) (zip bids ds))" by blast
  have pairs: "map (\<lambda>r. (fst r, f (snd r))) (zip bids ds) = zip bids (map f ds)"
    by (simp add: zip_map2 case_prod_beta)
  have rows: "set (responses items) = set (zip bids (map f ds))" using v2(5) unfolding pairs by (rule mset_eq_setD)
  have "mset (map fst (responses items)) = mset bids"
    using v2(5) w2(2) unfolding pairs by (metis length_map map_fst_zip mset_map)
  then have keys: "distinct (map fst (responses items))" "fst ` set (responses items) = set bids"
    using ids(1) by (metis bids_def mset_eq_imp_distinct_iff, metis list.set_map mset_eq_setD)
  have waiting: "\<forall>i \<in> fst ` set (responses items). i \<noteq> 0 \<and> request_table (w_blocker w2) i = Some (Waiting, None)"
    unfolding keys(2) using w2(3) by (auto simp: w2(8))
  from all_responded [OF client(4) channel_okD(1,2) [OF server(1)] v2(4) w2(6,7) keys(1) waiting]
  obtain w3 s3 evs acks where
    w3: "process_frames env p (concat gss) w2 = Inr w3" "w_trace w3 = w_trace w2 @ evs"
      "wire sk evs = concat (map snd acks)" "ack_frames acks"
      "endpoint env view content p sk s3 w3" "requests_ok (w_blocker w3)"
      "\<forall>i. i \<notin> fst ` set (responses items) \<longrightarrow>
        request_table (w_blocker w3) i = request_table (w_blocker w2) i"
      "\<forall>(i, r) \<in> set (responses items). answers_to content r (request_table (w_blocker w3) i)" by blast
  note others = w3(7) [unfolded keys(2)] and answered = w3(8) [unfolded rows]
  have received: "receive env p (split_up (wire tk (news v v2))) [] w2 = Inr ([], w3)"
    by (rule receive_all [OF _ _ w3(1)]) (use incoming_frames [OF v2(4)] v2(3) net in simp_all)
  from all_returned [OF w3(6) ids(1) [folded bids_def] _ answered] w2(2) obtain h where
    h: "return_all content (map Some bids) w3 = Inr (map Some (map f ds), w3\<lparr>w_blocker := h\<rparr>)"
      "requests_ok h" "request_table h = request_table (w_blocker w3) |` (- set bids)" by auto
  let ?w4 = "w3\<lparr>w_blocker := h\<rparr>"
  have last: "concat (split_up (wire sk (news w2 ?w4))) = concat (map snd acks)"
    using w3(2,3) news_eq [of ?w4 w2] by (simp only: net) simp
  from ack_frames_ok(3) [OF w3(4)] obtain a where
    "process_frames env' q acks v2 = Inr (v2\<lparr>w_reply := a\<rparr>)" by blast
  from receive_all [OF ack_frames_ok(1,2) [OF w3(4)] this last]
  have "receive env' q (split_up (wire sk (news w2 ?w4))) [] v2 = Inr ([], v2\<lparr>w_reply := a\<rparr>)" .
  then have "concurrent_calls env env' content later split_up p q sk tk timeout ds w v
      = Inr (map (\<lambda>d. Some (f d)) ds, ?w4, v2\<lparr>w_reply := a\<rparr>)"
    unfolding concurrent_calls_def w2(1) then_do_Inr prod.case v2(1) received h(1) by (simp add: comp_def)
  moreover have "request_table h = request_table (w_blocker w)"
  proof
    fix i
    show "request_table h i = request_table (w_blocker w) i"
      using ids(2) others by (cases "i \<in> set bids") (simp_all add: h(3) w2(8) bids_def)
  qed
  moreover have "endpoint env view content p sk s3 ?w4" using endpoint_same [OF w3(5)] by simp
  ultimately show ?thesis using h(2) server(4) [OF v2(2)]
    by (intro exI [of _ ?w4] exI [of _ "v2\<lparr>w_reply := a\<rparr>"] exI [of _ s3]) simp
qed

section \<open>A server that answers later, in any order\<close>

definition asks :: "('buf \<Rightarrow> byte list) \<Rightarrow> ptr \<Rightarrow> u64 \<times> byte list \<Rightarrow> 'buf callback \<Rightarrow> bool" where
  "asks content q r cb \<longleftrightarrow>
     (\<exists>g rc buf. cb = Request_Data g rc q (fst r) (Some buf) \<and> content buf = snd r)"

lemma all_served:
  assumes db: "databuffer_ok (e_db env) content" and pc: "passive_client env"
    and m: "0 < m" "fits_buffer sizeof_Data_MultiBlock_Header m"
  shows "list_all2 (carries_request m) reqs fss \<Longrightarrow> server_at env view content q tk v \<Longrightarrow>
    \<exists>v1 evs acks. process_frames env q (concat fss) v = Inr v1 \<and> w_trace v1 = w_trace v @ evs
      \<and> list_all2 (asks content q) reqs (callbacks evs) \<and> wire tk evs = concat (map snd acks) \<and> ack_frames acks
      \<and> server_at env view content q tk v1"
proof (induction reqs fss arbitrary: v rule: list_all2_induct)
  case Nil
  then show ?case by (intro exI [of _ v] exI [of _ "[]"] exI [of _ "[]"]) simp
next
  case (Cons r reqs fs fss)
  from Cons.prems obtain t g where ep: "endpoint env view content q tk t v" and g: "m_processRequestData t = Some g"
    by (auto simp: server_at_def)
  then have t: "w_heap v q = Some t" "m_socket t = Some tk" and io: "between_messages content (m_multiblockIo t)"
    by (simp_all add: endpoint_def session_at_def)
  from data_received [OF db pc t g io Cons.hyps(1) [unfolded carries_request_def] m] obtain v1 buf evs io1 where
    v1: "process_frames env q fs v = Inr v1" "content buf = snd r"
      "w_trace v1 = w_trace v @ Client (Request_Data g (m_standaloneReceiver t) q (fst r) (Some buf)) # evs"
      "acknowledgements tk (m_sessionId t) evs"
    and io1: "w_heap v1 q = Some (t\<lparr>m_multiblockIo := io1\<rparr>)" "between_messages content io1"
      "m_abort io1 = m_abort (m_multiblockIo t)" by blast
  from endpoint_io [OF ep io1] g have "server_at env view content q tk v1" by (auto simp: server_at_def)
  from Cons.IH [OF this] obtain v2 evs' acks' where
    v2: "process_frames env q (concat fss) v1 = Inr v2" "w_trace v2 = w_trace v1 @ evs'"
      "list_all2 (asks content q) reqs (callbacks evs')" "wire tk evs' = concat (map snd acks')" "ack_frames acks'"
      "server_at env view content q tk v2" by blast
  from acknowledgements_wire [OF v1(4)] obtain acks where
    acks: "ack_frames acks" "wire tk evs = concat (map snd acks)" by blast
  let ?cb = "Request_Data g (m_standaloneReceiver t) q (fst r) (Some buf)"
  have asked: "asks content q r ?cb" using v1(2) by (simp add: asks_def)
  have "process_frames env q (concat (fs # fss)) v = Inr v2" using v1(1) v2(1) by (simp add: process_frames_append)
  moreover have "w_trace v2 = w_trace v @ (Client ?cb # evs) @ evs'" using v1(3) v2(2) by simp
  moreover have "list_all2 (asks content q) (r # reqs) (callbacks ((Client ?cb # evs) @ evs'))"
    using asked v2(3) by (simp add: acknowledgements_callbacks [OF v1(4)])
  moreover have "wire tk ((Client ?cb # evs) @ evs') = concat (map snd (acks @ acks'))"
    using acks(2) v2(4) by simp
  moreover have "ack_frames (acks @ acks')" using acks(1) v2(5) by simp
  ultimately show ?case using v2(6) by blast
qed

lemma all_answered:
  assumes ch: "channel_ok env tk"
  shows "list_all2 (asks content q) reqs cbs \<Longrightarrow> server_at env view content q tk v \<Longrightarrow>
    \<forall>r \<in> set reqs. length (f (snd r)) < 2 ^ 32 \<Longrightarrow>
    \<exists>v1 gss. answer env q content f cbs v = Inr v1
      \<and> list_all2 (\<lambda>r gs. \<exists>rid. data_frames (e_max env) rid (fst r) (f (snd r)) gs) reqs gss
      \<and> w_trace v1 = w_trace v @ sent_events tk (map snd (concat gss)) \<and> server_at env view content q tk v1"
proof (induction reqs cbs arbitrary: v rule: list_all2_induct)
  case Nil
  then show ?case by (intro exI [of _ v] exI [of _ "[]"]) simp
next
  case (Cons r reqs cb cbs)
  from Cons.hyps(1) obtain g rc buf where
    cb: "cb = Request_Data g rc q (fst r) (Some buf)" "content buf = snd r" by (auto simp: asks_def)
  from Cons.prems(1) obtain t where ep: "endpoint env view content q tk t v" and t: "m_processRequestData t \<noteq> None"
    by (auto simp: server_at_def)
  from Cons.prems(2) have "length (f (snd r)) < 2 ^ 32" by simp
  from response_sent [OF ch ep this, of "fst r"] obtain rid gs v1 k where
    v1: "sendResponse env q (f (snd r)) (word_of_nat (length (f (snd r)))) (fst r) v = Inr (rid, v1)"
      "data_frames (e_max env) rid (fst r) (f (snd r)) gs" "w_trace v1 = w_trace v @ sent_events tk (map snd gs)"
      "w_heap v1 q = Some (t\<lparr>m_messageIdCounter := k\<rparr>)" by blast
  from endpoint_counter [OF ep v1(4)] t have "server_at env view content q tk v1" by (auto simp: server_at_def)
  from Cons.IH [OF this] Cons.prems(2) obtain v2 gss where
    "answer env q content f cbs v1 = Inr v2"
    "list_all2 (\<lambda>r gs. \<exists>rid. data_frames (e_max env) rid (fst r) (f (snd r)) gs) reqs gss"
    "w_trace v2 = w_trace v1 @ sent_events tk (map snd (concat gss))" "server_at env view content q tk v2" by auto
  with v1 cb show ?case by (intro exI [of _ v2] exI [of _ "gs # gss"]) auto
qed

lemma responses_map_Some: "responses (map (\<lambda>r. Some (h r)) rs) = map h rs"
  by (induction rs) (simp_all add: map_filter_simps)

lemma requests_frames:
  assumes "list_all2 (carries_request m) reqs fss"
  shows "list_all2 frame (map fst (concat fss)) (map snd (concat fss)) \<and> (\<forall>f \<in> set (concat fss). handled (fst f))"
  using assms by (induction reqs fss rule: list_all2_induct)
    (auto simp: carries_request_def dest: data_frames_ok intro!: list_all2_appendI)

lemma later_serves:
  assumes ch: "channel_ok env tk" and db: "databuffer_ok (e_db env) content" and pc: "passive_client env"
    and m: "0 < m" "fits_buffer sizeof_Data_MultiBlock_Header m" and perm: "\<And>cbs. mset (perm cbs) = mset cbs"
  shows "serves env q tk (\<lambda>cbs. answer env q content f (perm cbs)) f m (server_at env view content q tk)"
  unfolding serves_def
proof (intro allI impI)
  fix v segs and reqs :: "(u64 \<times> byte list) list" and fss
  assume at: "server_at env view content q tk v" and fss: "list_all2 (carries_request m) reqs fss"
    and small: "\<forall>r \<in> set reqs. length (f (snd r)) < 2 ^ 32" and segs: "concat segs = concat (map snd (concat fss))"
  from all_served [OF db pc m fss at] obtain v1 evs acks where
    v1: "process_frames env q (concat fss) v = Inr v1" "w_trace v1 = w_trace v @ evs"
      "list_all2 (asks content q) reqs (callbacks evs)" "wire tk evs = concat (map snd acks)" "ack_frames acks"
      "server_at env view content q tk v1" by blast
  have received: "receive env q segs [] v = Inr ([], v1)"
    by (rule receive_all [OF _ _ v1(1) segs]) (use requests_frames [OF fss] in blast)+
  from v1(3) have "list_all2 (\<lambda>cb r. asks content q r cb) (callbacks evs) reqs" by (simp add: list_all2_conv_all_nth)
  from list_all2_reorder_left_invariance [OF this perm] obtain reqs' where
    reqs': "list_all2 (asks content q) reqs' (perm (callbacks evs))" "mset reqs' = mset reqs"
    by (auto simp: list_all2_conv_all_nth)
  then have "\<forall>r \<in> set reqs'. length (f (snd r)) < 2 ^ 32" using small by (metis mset_eq_setD)
  from all_answered [OF ch reqs'(1) v1(6) this] obtain v2 gss where
    v2: "answer env q content f (perm (callbacks evs)) v1 = Inr v2"
      "list_all2 (\<lambda>r gs. \<exists>rid. data_frames (e_max env) rid (fst r) (f (snd r)) gs) reqs' gss"
      "w_trace v2 = w_trace v1 @ sent_events tk (map snd (concat gss))" "server_at env view content q tk v2" by blast
  let ?items = "None # map (\<lambda>r. Some (fst r, f (snd r))) reqs'"
  have "list_all2 (incoming (e_max env)) ?items (acks # gss)"
    using v1(5) v2(2) by (simp add: list_all2_map1)
  moreover have "mset (responses ?items) = mset (map (\<lambda>r. (fst r, f (snd r))) reqs)"
    using reqs'(2) by (simp add: map_filter_simps(1) responses_map_Some)
  moreover have "wire tk (news v v2) = concat (map snd (concat (acks # gss)))"
    using v1(2,4) v2(3) news_eq [of v2 v] by simp
  moreover have "server_step env q (\<lambda>cbs. answer env q content f (perm cbs)) segs v = Inr v2"
    using received v2(1) by (simp add: server_step_def news_eq [OF v1(2)])
  ultimately show "\<exists>v1 items gss. server_step env q (\<lambda>cbs. answer env q content f (perm cbs)) segs v = Inr v1
       \<and> server_at env view content q tk v1
       \<and> wire tk (news v v1) = concat (map snd (concat gss)) \<and> list_all2 (incoming (e_max env)) items gss
       \<and> mset (responses items) = mset (map (\<lambda>r. (fst r, f (snd r))) reqs)"
    using v2(4) by (intro exI [of _ v2] exI [of _ ?items] exI [of _ "acks # gss"]) blast
qed

lemma sample_requests: "requests_ok (w_blocker (sample_world Ready))"
  by (simp add: sample_world_def requests_ok_def blockers_ok_def)

lemma sample_draws: "draws (e_rand sample_env) 3 0 = [4294967298, 12884901892, 21474836486]"
proof -
  have r: "rand_id (e_rand sample_env) 0 = 4294967298" "rand_id (e_rand sample_env) 2 = 12884901892"
    "rand_id (e_rand sample_env) 4 = 21474836486" by (simp_all add: rand_id_def sample_env_def)
  then have "getRandId_loop (e_rand sample_env) 0 = Some (4294967298, 2)"
    "getRandId_loop (e_rand sample_env) 2 = Some (12884901892, 4)"
    "getRandId_loop (e_rand sample_env) 4 = Some (21474836486, 6)"
    using getRandId_loop_hit [of "e_rand sample_env" 0 0] getRandId_loop_hit [of "e_rand sample_env" 2 0]
      getRandId_loop_hit [of "e_rand sample_env" 4 0] by simp_all
  then show ?thesis by (simp add: numeral_3_eq_3)
qed

lemma sample_ids:
  assumes "length ds = 3"
  shows "distinct (draws (e_rand sample_env) (length ds) (w_rand (sample_world Ready)))"
    and "request_table (w_blocker (sample_world Ready)) i = None"
proof -
  have "w_rand (sample_world Ready) = 0" by (simp add: sample_world_def)
  then show "distinct (draws (e_rand sample_env) (length ds) (w_rand (sample_world Ready)))"
    by (simp only: sample_draws assms) simp
qed (simp add: sample_world_def request_table_def)

text \<open>
  C3: requests of several threads at once. Each of them sends its data and waits; the server answers
  when it has read them all, in any order; the network cuts the bytes as it likes. Every thread returns
  with the response to its own request, \<open>f\<close> of its data; the threads that wait for other responses
  are as they were, and both sides are ready for more.
\<close>

theorem concurrent_calls_are_local_calls:
  assumes client: "channel_ok env sk" "endpoint env view content p sk s w" "requests_ok (w_blocker w)"
      "databuffer_ok (e_db env) content"
    and ids: "distinct (draws (e_rand env) (length ds) (w_rand w))"
      "\<forall>i \<in> set (draws (e_rand env) (length ds) (w_rand w)). request_table (w_blocker w) i = None"
    and server: "channel_ok env' tk" "server_at env' view' content' q tk v" "databuffer_ok (e_db env') content'"
      "passive_client env'"
    and order: "\<And>cbs. mset (perm cbs) = mset cbs"
    and net: "\<And>bytes. concat (split_up bytes) = bytes"
    and sizes: "\<forall>d \<in> set ds. length d < 2 ^ 32 \<and> length (f d) < 2 ^ 32"
  shows "\<exists>w1 v1 s1. concurrent_calls env env' content (\<lambda>cbs. answer env' q content' f (perm cbs)) split_up
        p q sk tk timeout ds w v = Inr (map (\<lambda>d. Some (f d)) ds, w1, v1)
    \<and> endpoint env view content p sk s1 w1 \<and> requests_ok (w_blocker w1)
    \<and> request_table (w_blocker w1) = request_table (w_blocker w) \<and> server_at env' view' content' q tk v1"
proof -
  from later_serves [OF server(1,3,4) channel_okD(1,2) [OF client(1)] order]
  have "serves env' q tk (\<lambda>cbs. answer env' q content' f (perm cbs)) f (e_max env)
      (server_at env' view' content' q tk)" .
  from calls_return [OF client ids server(1) this server(2) server_at_reply net sizes] show ?thesis .
qed

theorem concurrent_calls_are_local_calls_witness:
  "\<exists>w1 v1. concurrent_calls sample_env sample_env (\<lambda>b. b) (\<lambda>cbs. answer sample_env 1 (\<lambda>b. b) rev (rev cbs))
      (\<lambda>bs. [bs]) 1 1 5 5 60 [[1, 2, 3], replicate 20 7, []] (sample_world Ready) (sample_world Ready)
    = Inr ([Some [3, 2, 1], Some (replicate 20 7), Some []], w1, v1)"
proof -
  let ?ds = "[[1, 2, 3], replicate 20 7, []] :: byte list list"
  have ids: "distinct (draws (e_rand sample_env) (length ?ds) (w_rand (sample_world Ready)))"
    "\<forall>i \<in> set (draws (e_rand sample_env) (length ?ds) (w_rand (sample_world Ready))).
      request_table (w_blocker (sample_world Ready)) i = None"
    using sample_ids [of ?ds] by simp_all
  have sizes: "\<forall>d \<in> set ?ds. length d < 2 ^ 32 \<and> length (rev d) < 2 ^ 32" by simp
  have net: "concat ((\<lambda>bs. [bs]) bytes) = bytes" for bytes :: "byte list" by simp
  have order: "mset (rev cbs) = mset cbs" for cbs :: "byte list callback list" by simp
  from concurrent_calls_are_local_calls [OF sample_channel sample_endpoint sample_requests sample_buffers(5) ids
      sample_channel sample_server sample_buffers(5) sample_facts(2) order net sizes, of 60]
  show ?thesis by (simp only: list.map) auto
qed

end
