(* ===== verification/Callback_Calls.thy ===== *)
theory Callback_Calls
  imports Concurrent_Calls
begin

text \<open>
  An application that answers a request inside the callback that tells it of the request, as the tests of
  the repository do: the response is on its way before the library has acknowledged the request, or taken
  the buffer of a long request out of its map.
\<close>

section \<open>The application\<close>

text \<open>
  The client calls sendResponse from its callback. What it does when that fails does not matter below: on
  a connection that works it does not fail.
\<close>

definition answering ::
    "('sm, 'buf) env \<Rightarrow> ('buf \<Rightarrow> byte list) \<Rightarrow> (byte list \<Rightarrow> byte list) \<Rightarrow> ('sm, 'buf) env" where
  "answering env content f = env\<lparr>e_client := \<lambda>cb w.
     case cb of
       Request_Data g rc q bid (Some buf) \<Rightarrow>
         (case sendResponse env q (f (content buf)) (word_of_nat (length (f (content buf)))) bid w of
            Inr (rid, w1) \<Rightarrow> w1
          | Inl e \<Rightarrow> w)
     | _ \<Rightarrow> w\<rparr>"

lemma answering_sel [simp]:
  "e_max (answering env content f) = e_max env" "e_sm (answering env content f) = e_sm env"
  "e_db (answering env content f) = e_db env" "e_rand (answering env content f) = e_rand env"
  "e_net (answering env content f) = e_net env"
  by (simp_all add: answering_def)

lemma channel_ok_answering [simp]: "channel_ok (answering env content f) sk = channel_ok env sk"
  by (simp add: channel_ok_def)

lemma endpoint_answering [simp]:
  "endpoint (answering env content f) view = endpoint env view"
  by (simp add: fun_eq_iff endpoint_def session_at_def)

lemma answered_in_callback:
  assumes "channel_ok env tk" and "length (f (content buf)) < 2 ^ 32"
    and "session_at env view q t Ready v" and "m_socket t = Some tk" and "\<not> m_abort (m_multiblockIo t)"
  shows "\<exists>rid gs v1 k. e_client (answering env content f) (Request_Data g rc q bid (Some buf)) v = v1
    \<and> data_frames (e_max env) rid bid (f (content buf)) gs \<and> w_trace v1 = w_trace v @ sent_events tk (map snd gs)
    \<and> w_heap v1 q = Some (t\<lparr>m_messageIdCounter := k\<rparr>)"
proof -
  from session_sends_response [OF assms, of bid] obtain rid gs v1 k where
    "sendResponse env q (f (content buf)) (word_of_nat (length (f (content buf)))) bid v = Inr (rid, v1)"
    "data_frames (e_max env) rid bid (f (content buf)) gs" "w_trace v1 = w_trace v @ sent_events tk (map snd gs)"
    "w_heap v1 q = Some (t\<lparr>m_messageIdCounter := k\<rparr>)" by blast
  then show ?thesis by (intro exI [of _ rid] exI [of _ gs] exI [of _ v1] exI [of _ k]) (simp add: answering_def)
qed

section \<open>Callbacks that act\<close>

text \<open>The world goes on from where the callback has left it, here \<open>v1\<close>.\<close>

lemma single_request_acts:
  assumes t: "w_heap v q = Some t" "m_processRequestData t = Some g"
    and msg: "is_single sid mid mbid 0 d msg" "fits_buffer sizeof_Data_SingleBlock_Header (length d)"
    and acts: "e_client env (Request_Data g (m_standaloneReceiver t) q mbid (Some (filled_buffer env d)))
      (log_event (Client (Request_Data g (m_standaloneReceiver t) q mbid (Some (filled_buffer env d)))) v) = v1"
    and t1: "w_heap v1 q = Some t1" "m_socket t1 = Some tk"
  shows "\<exists>v2 evs. process_frames env q [(single_header sid mid 0 (word_of_nat (length d)), msg)] v = Inr v2
    \<and> w_trace v2 = w_trace v1 @ evs \<and> acknowledgements tk (m_sessionId t1) evs \<and> w_heap v2 = w_heap v1"
proof -
  let ?n = "word_of_nat (length d) :: u32"
  have n: "length d = unat ?n" using payload_size [OF msg(2)] by simp
  have filled: "snd (db_add (e_db env) (db_new (e_db env) (db_calcBytesToBlocks (e_db env) (unat ?n))) d)
    = filled_buffer env d" by (simp only: filled_buffer_def n [symmetric])
  from msg(1) obtain pad4 pad where m: "length pad4 = 4"
    "msg = payload_message (single_header sid mid 0 ?n) (single_extra mbid 0 pad4) d pad" by (auto simp: is_single_def)
  let ?v2 = "snd (delivered env q tk (dbr_commonHeader (single_reply_msg (m_sessionId t1) mid))
    (encode_Data_SingleBlockReply_Message (single_reply_msg (m_sessionId t1) mid)) v1)"
  have "process_frames env q [(single_header sid mid 0 ?n, msg)] v = Inr ?v2"
    using t acts single_reply [OF t1, of env mid] unfolding m(2)
    by (simp add: single_no_reply dispatch_def process_SingleBlock_Data_Type_def single_kind
        process_Data_SingleBlock_def single_reads [OF n m(1)] Let_def filled)
  moreover have "\<exists>evs. w_trace ?v2 = w_trace v1 @ evs \<and> acknowledgements tk (m_sessionId t1) evs"
    by (simp add: delivered_def expect_reply_def data_reply_header)
  moreover have "w_heap ?v2 = w_heap v1" by (simp add: delivered_def expect_reply_def)
  ultimately show ?thesis by blast
qed

lemma finish_request_acts:
  assumes t: "w_heap v q = Some t" "m_processRequestData t = Some g"
    and buf: "incomingData (getIncomingBuffer mbid (m_multiblockIo t)) = Some buf"
    and acts: "e_client env (Request_Data g (m_standaloneReceiver t) q mbid (Some buf))
      (log_event (Client (Request_Data g (m_standaloneReceiver t) q mbid (Some buf))) v) = v1"
    and t1: "w_heap v1 q = Some t1"
  shows "dispatch env q (dmf_commonHeader (multi_finish_msg sid mid mbid 0))
      (encode_Data_MultiFinish_Message (multi_finish_msg sid mid mbid 0)) v
    = Inr (ucast (totalMessageSize (dmf_commonHeader (multi_finish_msg sid mid mbid 0))),
        set_session q (t1\<lparr>m_multiblockIo := snd (removeMultiblockBuffer mbid (m_multiblockIo t1))\<rparr>) v1)"
  using t acts buf t1
  by (simp add: dispatch_def process_MultiBlock_Data_Type_def finish_kind process_Data_Multi_Finish_def
      finish_reads Let_def change_session_def)

section \<open>A request answered\<close>

lemma filled_answering [simp]: "filled_buffer (answering env content f) = filled_buffer env"
  by (simp add: fun_eq_iff filled_buffer_def)

lemma parts_then_finish:
  assumes db: "databuffer_ok (e_db env) content" and t: "w_heap v q = Some t" "m_processRequestData t = Some g"
    and io: "between_messages content (m_multiblockIo t)"
    and parts: "are_parts sid psize mbid parts mid 0 (chunks m d) ms" and d: "d \<noteq> []" "length d < 2 ^ 32"
    and m: "0 < m" "fits_buffer sizeof_Data_MultiBlock_Header m"
  shows "\<exists>io1 buf. content buf = d \<and> io_ok io1 \<and> m_abort io1 = m_abort (m_multiblockIo t)
    \<and> between_messages content (snd (removeMultiblockBuffer mbid io1))
    \<and> (\<forall>v1 t1. e_client env (Request_Data g (m_standaloneReceiver t) q mbid (Some buf))
          (log_event (Client (Request_Data g (m_standaloneReceiver t) q mbid (Some buf)))
            (set_session q (t\<lparr>m_multiblockIo := io1\<rparr>) v)) = v1 \<longrightarrow> w_heap v1 q = Some t1 \<longrightarrow>
        socket_reads (length ms + 1) env q
          (concat (ms @ [encode_Data_MultiFinish_Message (multi_finish_msg sid mid' mbid 0)])) v
        = Inr ([], set_session q (t1\<lparr>m_multiblockIo := snd (removeMultiblockBuffer mbid (m_multiblockIo t1))\<rparr>) v1))"
proof -
  let ?fin = "multi_finish_msg sid mid' mbid 0"
  from io have io': "io_ok (m_multiblockIo t)" "io_bytes content i (m_multiblockIo t) = None" for i
    by (simp_all add: between_messages_def)
  from read_all_parts [OF db t(1) io'(1) parts m d io'(2), of 1 "encode_Data_MultiFinish_Message ?fin"]
  obtain io1 buf where io1: "socket_reads (length ms + 1) env q
        (concat ms @ encode_Data_MultiFinish_Message ?fin) v
      = socket_reads 1 env q (encode_Data_MultiFinish_Message ?fin) (set_session q (t\<lparr>m_multiblockIo := io1\<rparr>) v)"
    "io_ok io1" "incomingData (getIncomingBuffer mbid io1) = Some buf" "content buf = d"
    "\<forall>i. i \<noteq> mbid \<longrightarrow> io_bytes content i io1 = io_bytes content i (m_multiblockIo t)"
    "m_abort io1 = m_abort (m_multiblockIo t)" by blast
  have left: "between_messages content (snd (removeMultiblockBuffer mbid io1))"
    using removeMultiblockBuffer_bytes [OF io1(2)] io1(5) io'(2) by (simp add: between_messages_def)
  have "socket_reads (length ms + 1) env q
      (concat (ms @ [encode_Data_MultiFinish_Message ?fin])) v
    = Inr ([], set_session q (t1\<lparr>m_multiblockIo := snd (removeMultiblockBuffer mbid (m_multiblockIo t1))\<rparr>) v1)"
    if acts: "e_client env (Request_Data g (m_standaloneReceiver t) q mbid (Some buf))
        (log_event (Client (Request_Data g (m_standaloneReceiver t) q mbid (Some buf)))
          (set_session q (t\<lparr>m_multiblockIo := io1\<rparr>) v)) = v1" and t1: "w_heap v1 q = Some t1" for v1 t1
  proof -
    let ?v = "set_session q (t\<lparr>m_multiblockIo := io1\<rparr>) v"
    have "w_heap ?v q = Some (t\<lparr>m_multiblockIo := io1\<rparr>)" "m_processRequestData (t\<lparr>m_multiblockIo := io1\<rparr>) = Some g"
      using t(2) by simp_all
    from finish_request_acts [OF this, of mbid buf env v1 t1 sid mid'] io1(3) acts t1
    have "dispatch env q (dmf_commonHeader ?fin) (encode_Data_MultiFinish_Message ?fin) ?v
      = Inr (ucast (totalMessageSize (dmf_commonHeader ?fin)),
          set_session q (t1\<lparr>m_multiblockIo := snd (removeMultiblockBuffer mbid (m_multiblockIo t1))\<rparr>) v1)" by simp
    with socket_reads_frame [OF finish_frame [of sid mid' mbid 0], where env = env and p = q and w = ?v
        and k = 0 and rest = "[]"] io1(1) show ?thesis by (simp add: finish_no_reply)
  qed
  with io1(2,4,6) left show ?thesis by blast
qed

lemma request_answered:
  assumes ch: "channel_ok env tk" and db: "databuffer_ok (e_db env) content"
    and at: "server_at env view content q tk v"
    and fs: "data_frames m mbid 0 d fs" and m: "0 < m" "fits_buffer sizeof_Data_MultiBlock_Header m"
    and fd: "length (f d) < 2 ^ 32"
  shows "\<exists>v1 evs gs acks rid. process_frames (answering env content f) q fs v = Inr v1 \<and> w_trace v1 = w_trace v @ evs
    \<and> wire tk evs = concat (map snd (gs @ acks)) \<and> data_frames (e_max env) rid mbid (f d) gs \<and> ack_frames acks
    \<and> server_at env view content q tk v1"
proof -
  let ?env = "answering env content f"
  from at obtain t g where ep: "endpoint env view content q tk t v" and g: "m_processRequestData t = Some g"
    by (auto simp: server_at_def)
  then have t: "w_heap v q = Some t" "m_socket t = Some tk" "sm_phase (e_sm env) view (m_statemachine t) Ready"
      "\<not> m_abort (m_multiblockIo t)"
    and io: "between_messages content (m_multiblockIo t)" by (simp_all add: endpoint_def session_at_def)
  have db': "databuffer_ok (e_db ?env) content" using db by simp
  let ?cb = "\<lambda>buf. Request_Data g (m_standaloneReceiver t) q mbid (Some buf)"
  show ?thesis
    using fs
  proof (cases rule: data_frames_cases)
    case (Single sid mid msg)
    let ?buf = "filled_buffer env d"
    have "session_at env view q t Ready (log_event (Client (?cb ?buf)) v)" using t by (simp add: session_at_def)
    from answered_in_callback [OF ch _ this t(2,4), of f content ?buf] fd filled_buffer_content [OF db] obtain rid gs v1 k where
      v1: "e_client ?env (?cb ?buf) (log_event (Client (?cb ?buf)) v) = v1" "data_frames (e_max env) rid mbid (f d) gs"
        "w_trace v1 = w_trace v @ [Client (?cb ?buf)] @ sent_events tk (map snd gs)"
        "w_heap v1 q = Some (t\<lparr>m_messageIdCounter := k\<rparr>)" by fastforce
    from single_request_acts [OF t(1) g Single(1,2), of ?env v1 _ tk] v1(1,4) t(2) obtain v2 evs where
      v2: "process_frames ?env q fs v = Inr v2" "w_trace v2 = w_trace v1 @ evs" "w_heap v2 = w_heap v1"
        "acknowledgements tk (m_sessionId t) evs" unfolding Single(3) by auto
    from acknowledgements_wire [OF v2(4)] obtain acks where
      acks: "ack_frames acks" "wire tk evs = concat (map snd acks)" by blast
    have "endpoint env view content q tk (t\<lparr>m_messageIdCounter := k\<rparr>) v2"
      by (rule endpoint_counter [OF ep]) (simp add: v2(3) v1(4))
    with g have "server_at env view content q tk v2" by (auto simp: server_at_def)
    moreover have "w_trace v2 = w_trace v @ (Client (?cb ?buf) # sent_events tk (map snd gs) @ evs)"
      using v1(3) v2(2) by simp
    moreover have "wire tk (Client (?cb ?buf) # sent_events tk (map snd gs) @ evs) = concat (map snd (gs @ acks))"
      using acks(2) by simp
    ultimately show ?thesis using v2(1) v1(2) acks(1) by blast
  next
    case (Parts sid mid mid' psize parts ms hs)
    from parts_then_finish [OF db' t(1) g io Parts(3,1,2) m, of mid'] obtain io1 buf where
      io1: "content buf = d" "io_ok io1" "m_abort io1 = m_abort (m_multiblockIo t)"
        "between_messages content (snd (removeMultiblockBuffer mbid io1))"
      and reads: "\<And>v1 t1. e_client ?env (?cb buf) (log_event (Client (?cb buf))
            (set_session q (t\<lparr>m_multiblockIo := io1\<rparr>) v)) = v1 \<Longrightarrow> w_heap v1 q = Some t1 \<Longrightarrow>
          socket_reads (length fs) ?env q (concat (map snd fs)) v
          = Inr ([], set_session q (t1\<lparr>m_multiblockIo := snd (removeMultiblockBuffer mbid (m_multiblockIo t1))\<rparr>) v1)"
      unfolding Parts(7,8) by blast
    let ?v = "log_event (Client (?cb buf)) (set_session q (t\<lparr>m_multiblockIo := io1\<rparr>) v)"
    have "session_at env view q (t\<lparr>m_multiblockIo := io1\<rparr>) Ready ?v" using t by (simp add: session_at_def)
    from answered_in_callback [OF ch _ this, of f content buf] fd io1(1,3) t(2,4) obtain rid gs v1 k where
      v1: "e_client ?env (?cb buf) ?v = v1" "data_frames (e_max env) rid mbid (f d) gs"
        "w_trace v1 = w_trace v @ [Client (?cb buf)] @ sent_events tk (map snd gs)"
        "w_heap v1 q = Some (t\<lparr>m_multiblockIo := io1, m_messageIdCounter := k\<rparr>)" by fastforce
    let ?v2 = "set_session q (t\<lparr>m_messageIdCounter := k, m_multiblockIo := snd (removeMultiblockBuffer mbid io1)\<rparr>) v1"
    from reads [OF v1(1,4)] process_read_frames [OF data_frames_ok [OF fs]]
    have "process_frames ?env q fs v = Inr ?v2" by simp
    moreover have "w_trace ?v2 = w_trace v @ (Client (?cb buf) # sent_events tk (map snd gs))" using v1(3) by simp
    moreover have "wire tk (Client (?cb buf) # sent_events tk (map snd gs)) = concat (map snd (gs @ []))" by simp
    moreover have "server_at env view content q tk ?v2"
      using g t(2-4) io1(3,4) multiblock_abort_flag(2) [of mbid io1]
      by (auto simp: server_at_def endpoint_def session_at_def)
    ultimately show ?thesis using v1(2) ack_frames_Nil by blast
  qed
qed

lemma all_answered_in_callbacks:
  assumes ch: "channel_ok env tk" and db: "databuffer_ok (e_db env) content"
    and m: "0 < m" "fits_buffer sizeof_Data_MultiBlock_Header m"
  shows "list_all2 (carries_request m) reqs fss \<Longrightarrow> server_at env view content q tk v \<Longrightarrow>
    \<forall>r \<in> set reqs. length (f (snd r)) < 2 ^ 32 \<Longrightarrow>
    \<exists>v1 evs items gss. process_frames (answering env content f) q (concat fss) v = Inr v1 \<and> w_trace v1 = w_trace v @ evs
      \<and> wire tk evs = concat (map snd (concat gss)) \<and> list_all2 (incoming (e_max env)) items gss
      \<and> responses items = map (\<lambda>r. (fst r, f (snd r))) reqs \<and> server_at env view content q tk v1"
proof (induction reqs fss arbitrary: v rule: list_all2_induct)
  case Nil
  then show ?case
    by (intro exI [of _ v] exI [of _ "[]"] exI [of _ "[]"] exI [of _ "[]"]) (simp add: map_filter_simps)
next
  case (Cons r reqs fs fss)
  have fr: "length (f (snd r)) < 2 ^ 32" using Cons.prems(2) by simp
  from request_answered [OF ch db Cons.prems(1) Cons.hyps(1) [unfolded carries_request_def] m, of f, OF fr]
  obtain v1 evs gs acks rid where
    v1: "process_frames (answering env content f) q fs v = Inr v1" "w_trace v1 = w_trace v @ evs"
      "wire tk evs = concat (map snd (gs @ acks))" "data_frames (e_max env) rid (fst r) (f (snd r)) gs"
      "ack_frames acks" "server_at env view content q tk v1" by blast
  from Cons.IH [OF v1(6)] Cons.prems(2) obtain v2 evs' items gss where
    v2: "process_frames (answering env content f) q (concat fss) v1 = Inr v2" "w_trace v2 = w_trace v1 @ evs'"
      "wire tk evs' = concat (map snd (concat gss))" "list_all2 (incoming (e_max env)) items gss"
      "responses items = map (\<lambda>r. (fst r, f (snd r))) reqs" "server_at env view content q tk v2" by auto
  let ?items = "Some (fst r, f (snd r)) # None # items" and ?gss = "gs # acks # gss"
  have "process_frames (answering env content f) q (concat (fs # fss)) v = Inr v2"
    using v1(1) v2(1) by (simp add: process_frames_append)
  moreover have "w_trace v2 = w_trace v @ evs @ evs'" using v1(2) v2(2) by simp
  moreover have "wire tk (evs @ evs') = concat (map snd (concat ?gss))" using v1(3) v2(3) by simp
  moreover have "list_all2 (incoming (e_max env)) ?items ?gss" using v1(4,5) v2(4) by auto
  moreover have "responses ?items = map (\<lambda>r. (fst r, f (snd r))) (r # reqs)"
    using v2(5) by (simp add: map_filter_simps)
  ultimately show ?case using v2(6) by blast
qed

lemma callbacks_serve:
  assumes ch: "channel_ok env tk" and db: "databuffer_ok (e_db env) content"
    and m: "0 < m" "fits_buffer sizeof_Data_MultiBlock_Header m"
  shows "serves (answering env content f) q tk (\<lambda>cbs. Inr) f m (server_at env view content q tk)"
  unfolding serves_def
proof (intro allI impI)
  fix v segs and reqs :: "(u64 \<times> byte list) list" and fss
  let ?env = "answering env content f"
  assume at: "server_at env view content q tk v" and fss: "list_all2 (carries_request m) reqs fss"
    and small: "\<forall>r \<in> set reqs. length (f (snd r)) < 2 ^ 32" and segs: "concat segs = concat (map snd (concat fss))"
  from all_answered_in_callbacks [OF ch db m fss at, of f, OF small] obtain v1 evs items gss where
    v1: "process_frames ?env q (concat fss) v = Inr v1" "w_trace v1 = w_trace v @ evs"
      "wire tk evs = concat (map snd (concat gss))" "list_all2 (incoming (e_max env)) items gss"
      "responses items = map (\<lambda>r. (fst r, f (snd r))) reqs" "server_at env view content q tk v1" by blast
  have "receive ?env q segs [] v = Inr ([], v1)"
    by (rule receive_all [OF _ _ v1(1) segs]) (use requests_frames [OF fss] in blast)+
  then have "server_step ?env q (\<lambda>cbs. Inr) segs v = Inr v1" by (simp add: server_step_def)
  moreover have "wire tk (news v v1) = concat (map snd (concat gss))" using v1(3) by (simp add: news_eq [OF v1(2)])
  moreover have "mset (responses items) = mset (map (\<lambda>r. (fst r, f (snd r))) reqs)" by (simp only: v1(5))
  ultimately show "\<exists>v1 items gss. server_step ?env q (\<lambda>cbs. Inr) segs v = Inr v1
       \<and> server_at env view content q tk v1
       \<and> wire tk (news v v1) = concat (map snd (concat gss)) \<and> list_all2 (incoming (e_max ?env)) items gss
       \<and> mset (responses items) = mset (map (\<lambda>r. (fst r, f (snd r))) reqs)"
    using v1(4,6) by (intro exI [of _ v1] exI [of _ items] exI [of _ gss]) simp
qed

text \<open>
  C4: the application of the server may answer inside its callback: the response is sent before the request is
  acknowledged, and, for a long request, while its buffer is still in the map of incoming messages. The
  requests of several threads still return to each of them \<open>f\<close> of its own data, and both sides are
  ready for more.
\<close>

theorem responses_from_the_callback:
  assumes client: "channel_ok env sk" "endpoint env view content p sk s w" "requests_ok (w_blocker w)"
      "databuffer_ok (e_db env) content"
    and ids: "distinct (draws (e_rand env) (length ds) (w_rand w))"
      "\<forall>i \<in> set (draws (e_rand env) (length ds) (w_rand w)). request_table (w_blocker w) i = None"
    and server: "channel_ok env' tk" "server_at env' view' content' q tk v" "databuffer_ok (e_db env') content'"
    and net: "\<And>bytes. concat (split_up bytes) = bytes"
    and sizes: "\<forall>d \<in> set ds. length d < 2 ^ 32 \<and> length (f d) < 2 ^ 32"
  shows "\<exists>w1 v1 s1. concurrent_calls env (answering env' content' f) content (\<lambda>cbs. Inr) split_up
        p q sk tk timeout ds w v = Inr (map (\<lambda>d. Some (f d)) ds, w1, v1)
    \<and> endpoint env view content p sk s1 w1 \<and> requests_ok (w_blocker w1)
    \<and> request_table (w_blocker w1) = request_table (w_blocker w) \<and> server_at env' view' content' q tk v1"
proof -
  have ch: "channel_ok (answering env' content' f) tk" using server(1) by simp
  from callbacks_serve [OF server(1,3) channel_okD(1,2) [OF client(1)]]
  have "serves (answering env' content' f) q tk (\<lambda>cbs. Inr) f (e_max env) (server_at env' view' content' q tk)" .
  from calls_return [OF client ids ch this server(2) server_at_reply net sizes] show ?thesis .
qed

theorem responses_from_the_callback_witness:
  "\<exists>w1 v1. concurrent_calls sample_env (answering sample_env (\<lambda>b. b) rev) (\<lambda>b. b) (\<lambda>cbs. Inr)
      (\<lambda>bs. [bs]) 1 1 5 5 60 [[1, 2, 3], replicate 20 7, []] (sample_world Ready) (sample_world Ready)
    = Inr ([Some [3, 2, 1], Some (replicate 20 7), Some []], w1, v1)"
proof -
  let ?ds = "[[1, 2, 3], replicate 20 7, []] :: byte list list"
  have sizes: "\<forall>d \<in> set ?ds. length d < 2 ^ 32 \<and> length (rev d) < 2 ^ 32" by simp
  have net: "concat ((\<lambda>bs. [bs]) bytes) = bytes" for bytes :: "byte list" by simp
  have ids: "distinct (draws (e_rand sample_env) (length ?ds) (w_rand (sample_world Ready)))"
    "\<forall>i \<in> set (draws (e_rand sample_env) (length ?ds) (w_rand (sample_world Ready))).
      request_table (w_blocker (sample_world Ready)) i = None"
    using sample_ids [of ?ds] by simp_all
  from responses_from_the_callback [OF sample_channel sample_endpoint sample_requests sample_buffers(5) ids
      sample_channel sample_server sample_buffers(5) net sizes, of 60]
  show ?thesis by (simp only: list.map) auto
qed

end
