(* ===== verification/Ordered_Delivery.thy ===== *)
theory Ordered_Delivery
  imports Transfers
begin

text \<open>
  A ready session as a channel: an application that sends stream data of one block and messages of less
  than 4 GiB, one after the other, and what the application on the other side is told. The specification is the
  list of the sent items; the two sides, with any network between them that keeps the order of the
  bytes, implement it.
\<close>

section \<open>The specification\<close>

datatype item =
    Stream "byte list" bool
  | Message "byte list"

text \<open>
  What an application can send when a single message carries at most \<open>m\<close> bytes. The session refuses longer
  stream data; from 4 GiB on the offsets of the parts of a message overflow.
\<close>

fun item_ok :: "nat \<Rightarrow> item \<Rightarrow> bool" where
  "item_ok m (Stream d reply) = (length d \<le> m)"
| "item_ok m (Message d) = (length d < 2 ^ 32)"

text \<open>The callback that belongs to an item, for session \<open>q\<close> with its callbacks and receivers.\<close>

fun tells ::
    "('buf \<Rightarrow> byte list) \<Rightarrow> ('sm, 'buf) session \<Rightarrow> ptr \<Rightarrow> item \<Rightarrow> 'buf callback \<Rightarrow> bool" where
  "tells content t q (Stream d reply) (Stream_Data f rc p bs n) \<longleftrightarrow>
     m_processStreamData t = Some f \<and> rc = m_streamReceiver t \<and> p = q \<and> bs = d \<and> n = word_of_nat (length d)"
| "tells content t q (Message d) (Request_Data f rc p i buf) \<longleftrightarrow>
     m_processRequestData t = Some f \<and> rc = m_standaloneReceiver t \<and> p = q \<and> map_option content buf = Some d"
| "tells content t q it cb \<longleftrightarrow> False"

section \<open>The sending application\<close>

fun send_item ::
    "('sm, 'buf) env \<Rightarrow> ptr \<Rightarrow> item \<Rightarrow> ('sm, 'buf) world \<Rightarrow> fault + bool \<times> ('sm, 'buf) world" where
  "send_item env p (Stream d reply) w = sendStreamData env p d (word_of_nat (length d)) reply w"
| "send_item env p (Message d) w = sendNormalMessage env p d (word_of_nat (length d)) w"

fun send_items ::
    "('sm, 'buf) env \<Rightarrow> ptr \<Rightarrow> item list \<Rightarrow> ('sm, 'buf) world \<Rightarrow> fault + bool \<times> ('sm, 'buf) world" where
  "send_items env p [] w = Inr (True, w)"
| "send_items env p (it # its) w =
     then_do (send_item env p it w) (\<lambda>(sent, w1).
       if sent then send_items env p its w1 else Inr (False, w1))"

text \<open>The frames that carry an item.\<close>

fun carries :: "nat \<Rightarrow> item \<Rightarrow> (CommonMessageHeader \<times> byte list) list \<Rightarrow> bool" where
  "carries m (Stream d reply) fs \<longleftrightarrow>
     (\<exists>sid mid msg. is_stream sid mid reply d msg \<and> fits_buffer sizeof_Data_Stream_Header (length d)
        \<and> fs = [(stream_header sid mid reply (word_of_nat (length d)), msg)])"
| "carries m (Message d) fs \<longleftrightarrow> (\<exists>mbid. data_frames m mbid 0 d fs)"

section \<open>Sending\<close>

definition sender_at ::
    "('sm, 'buf) env \<Rightarrow> ('sm \<Rightarrow> chart) \<Rightarrow> ptr \<Rightarrow> sock \<Rightarrow> ('sm, 'buf) world \<Rightarrow> bool" where
  "sender_at env view p sk w \<longleftrightarrow> (\<exists>s. session_at env view p s Ready w \<and> m_socket s = Some sk
     \<and> \<not> m_abort (m_multiblockIo s))"

lemma sender_at_counter:
  assumes "session_at env view p s Ready w" and "m_socket s = Some sk" and "\<not> m_abort (m_multiblockIo s)"
    and "w_heap w1 p = Some (s\<lparr>m_messageIdCounter := k\<rparr>)"
  shows "sender_at env view p sk w1"
  using assms unfolding sender_at_def session_at_def
  by (intro exI [of _ "s\<lparr>m_messageIdCounter := k\<rparr>"]) simp

text \<open>Whatever item is sent, the socket gets the frames that carry it, and the session stays ready.\<close>

lemma send_item_carries:
  assumes ok: "channel_ok env sk" and snd: "sender_at env view p sk w" and it: "item_ok (e_max env) it"
  shows "\<exists>fs w1. send_item env p it w = Inr (True, w1) \<and> carries (e_max env) it fs
    \<and> w_trace w1 = w_trace w @ sent_events sk (map snd fs) \<and> sender_at env view p sk w1"
proof -
  note ch = channel_okD [OF ok]
  from snd obtain s where s: "session_at env view p s Ready w" "m_socket s = Some sk"
    "\<not> m_abort (m_multiblockIo s)" by (auto simp: sender_at_def)
  note next_at = sender_at_counter [OF s]
  show ?thesis
  proof (cases it)
    case (Stream d reply)
    let ?n = "word_of_nat (length d) :: u64"
    let ?h = "stream_header (m_sessionId s) (m_messageIdCounter s + 1) reply (word_of_nat (length d))"
    let ?msg = "payload_message ?h [] d (buffer_padding env w sizeof_Data_Stream_Header (length d))"
    have fit: "fits_buffer sizeof_Data_Stream_Header (length d)" using it Stream ch(5) by simp
    note n = length_fits [OF fit]
    have u: "(ucast ?n :: u32) = word_of_nat (length d)" using n by (metis of_nat_unat)
    have l: "unat ?n \<le> e_max env" "unat ?n \<le> length d" "fits_buffer sizeof_Data_Stream_Header (unat ?n)"
      using it Stream fit by (simp_all add: n)
    have sent: "send_item env p it w = Inr (delivered env p sk ?h ?msg (counted p s w))"
      using sendStreamData_sends [OF s(1,2) l, of reply] unfolding u n by (simp add: Stream)
    have "is_stream (m_sessionId s) (m_messageIdCounter s + 1) reply d ?msg"
      unfolding is_stream_def by (intro exI [of _ "buffer_padding env w sizeof_Data_Stream_Header (length d)"]) simp
    then have "carries (e_max env) it [(?h, ?msg)]" using fit Stream by auto
    moreover have "fst (delivered env p sk ?h ?msg (counted p s w))" by (simp add: delivered_def ch(3))
    moreover have "w_trace (snd (delivered env p sk ?h ?msg (counted p s w)))
        = w_trace w @ sent_events sk (map snd [(?h, ?msg)])"
      by (simp add: delivered_def ch(3) expect_reply_def)
    moreover have "sender_at env view p sk (snd (delivered env p sk ?h ?msg (counted p s w)))"
      by (rule next_at) simp
    moreover obtain r w1 where "delivered env p sk ?h ?msg (counted p s w) = (r, w1)" by fastforce
    ultimately show ?thesis using sent by (intro exI [of _ "[(?h, ?msg)]"] exI [of _ w1]) simp
  next
    case (Message d)
    from ch(4) obtain mbid w0 where rand: "getRandId env w = Inr (mbid, w0)" by blast
    note w0 = after_getRandId [OF rand]
    let ?n = "word_of_nat (length d) :: u64"
    show ?thesis
    proof (cases "length d \<le> e_max env")
      case True
      have fit: "fits_buffer sizeof_Data_SingleBlock_Header (length d)" using ch(6) [OF True] .
      note n = length_fits [OF fit]
      from sendNormalMessage_sends [OF s(1,2) _ _ _ rand, of ?n d] True fit obtain msg where
        msg: "is_single (m_sessionId s) (m_messageIdCounter s + 1) mbid 0 d msg"
        and sent: "sendNormalMessage env p d ?n w = Inr (e_net env (w_trace w) (Send_Message sk msg),
          sent_one env p sk SINGLEBLOCK_DATA_TYPE s msg w0)" by (auto simp: n)
      let ?fs = "[(single_header (m_sessionId s) (m_messageIdCounter s + 1) 0 (word_of_nat (length d)), msg)]"
      have "carries (e_max env) it ?fs" unfolding Message carries.simps
        by (rule exI, rule data_frames_single [OF msg fit])
      moreover have "sender_at env view p sk (sent_one env p sk SINGLEBLOCK_DATA_TYPE s msg w0)"
        by (rule next_at) simp
      ultimately show ?thesis
        using sent w0(2) by (intro exI [of _ ?fs]) (simp add: Message ch(3))
    next
      case False
      have d: "length d < 2 ^ 32" "d \<noteq> []" using it Message False by auto
      from long_data_sent [OF ok session_atD(1) [OF s(1)] s(2,3) d(2,1) rand, of 0] obtain fs w1 k where
        sent: "sendOutgoingData env p d ?n 0 w = Inr (mbid, w1)" "data_frames (e_max env) mbid 0 d fs"
          "w_trace w1 = w_trace w @ sent_events sk (map snd fs)"
          "w_heap w1 p = Some (s\<lparr>m_messageIdCounter := k\<rparr>)" by blast
      moreover have "unat ?n = length d" using d(1) by (simp add: unat_of_nat)
      moreover have "mbid \<noteq> 0" using getRandId_Some(1) [OF rand] .
      ultimately show ?thesis
        using next_at [OF sent(4)] False
        by (intro exI [of _ fs] exI [of _ w1])
          (auto simp: Message sendNormalMessage_def session_at_ready [OF s(1)])
    qed
  qed
qed

section \<open>Receiving\<close>

text \<open>
  The receiving session \<open>t\<close>: its callbacks are set, and it is not in the middle of a message of
  several blocks.
\<close>

definition receiver_ready :: "('sm, 'buf) env \<Rightarrow> ('buf \<Rightarrow> byte list) \<Rightarrow> ('sm, 'buf) session \<Rightarrow> bool" where
  "receiver_ready env content t \<longleftrightarrow> passive_client env \<and> databuffer_ok (e_db env) content
     \<and> m_socket t \<noteq> None \<and> m_processStreamData t \<noteq> None \<and> m_processRequestData t \<noteq> None"

definition receiver_at ::
    "('buf \<Rightarrow> byte list) \<Rightarrow> ptr \<Rightarrow> ('sm, 'buf) session \<Rightarrow> ('sm, 'buf) world \<Rightarrow> bool" where
  "receiver_at content q t v \<longleftrightarrow> 
     (\<exists>io. w_heap v q = Some (t\<lparr>m_multiblockIo := io\<rparr>) \<and> between_messages content io)"

lemma carries_frames:
  "carries m it fs \<Longrightarrow> 0 < m \<Longrightarrow> list_all2 frame (map fst fs) (map snd fs) \<and> (\<forall>f \<in> set fs. handled (fst f))"
proof (induction m it fs rule: carries.induct)
  case (1 m d reply fs)
  then obtain sid mid msg where c: "is_stream sid mid reply d msg" "fits_buffer sizeof_Data_Stream_Header (length d)"
    "fs = [(stream_header sid mid reply (word_of_nat (length d)), msg)]" by auto
  have "frame (stream_header sid mid reply (word_of_nat (length d))) msg"
    using c(1,2) payload_size [OF c(2)] by (auto simp: is_stream_def intro!: stream_frame)
  moreover have "handled (stream_header sid mid reply n)" for n
    by (simp add: handled_def stream_header_def new_message_defs types_of_def)
  ultimately show ?case using c(3) by simp
next
  case (2 m d fs)
  then show ?case using data_frames_ok by fastforce
qed

lemma toldI:
  "process_frames env q fs v = Inr v1 \<Longrightarrow> receiver_at content q t v1 \<Longrightarrow> w_trace v1 = w_trace v @ evs
    \<Longrightarrow> callbacks evs = [cb] \<Longrightarrow> tells content t q it cb
    \<Longrightarrow> \<exists>v1 evs cb. process_frames env q fs v = Inr v1 \<and> receiver_at content q t v1
      \<and> w_trace v1 = w_trace v @ evs \<and> callbacks evs = [cb] \<and> tells content t q it cb"
  by blast

text \<open>The frames of an item tell the application of the item, once, and leave the session as it was.\<close>

lemma item_received:
  assumes rd: "receiver_ready env content t" and at: "receiver_at content q t v"
    and c: "carries m it fs" and m: "0 < m" "fits_buffer sizeof_Data_MultiBlock_Header m"
  shows "\<exists>v1 evs cb. process_frames env q fs v = Inr v1 \<and> receiver_at content q t v1
    \<and> w_trace v1 = w_trace v @ evs \<and> callbacks evs = [cb] \<and> tells content t q it cb"
proof -
  from rd obtain tk f g where t: "m_socket t = Some tk" "m_processStreamData t = Some f"
      "m_processRequestData t = Some g" and pc: "passive_client env" and db: "databuffer_ok (e_db env) content"
    by (auto simp: receiver_ready_def)
  from at obtain io where io: "w_heap v q = Some (t\<lparr>m_multiblockIo := io\<rparr>)" "between_messages content io"
    by (auto simp: receiver_at_def)
  let ?t = "t\<lparr>m_multiblockIo := io\<rparr>"
  note fr = carries_frames [OF c m(1)]
  have same: "receiver_at content q t v1" if "w_heap v1 = w_heap v" for v1 :: "('a, 'b) world"
    using at that by (simp add: receiver_at_def)
  show ?thesis
  proof (cases it)
    case (Stream d reply)
    with c obtain sid mid msg where s: "is_stream sid mid reply d msg"
      "fits_buffer sizeof_Data_Stream_Header (length d)"
      "fs = [(stream_header sid mid reply (word_of_nat (length d)), msg)]" by auto
    have ring: "ring_ok (list_ring msg) (msg @ [])" using list_ring_ok [of msg] by simp
    from read_stream [OF io(1) _ _ pc s(1,2) ring, of tk f] t obtain v1 r where
      v1: "processMessage env q (list_ring msg) v = Inr (word_of_nat (length msg), v1)"
        "w_trace v1 = w_trace v @ Client (Stream_Data f (m_streamReceiver t) q d (word_of_nat (length d))) #
        (if reply then [Net (Send_Message tk (encode_Data_StreamReply_Message
           (stream_reply_msg (m_sessionId t) mid))) r] else [])" "w_heap v1 = w_heap v"
      by (auto cong: if_cong)
    have "frame (stream_header sid mid reply (word_of_nat (length d))) msg" using fr s(3) by simp
    from toldI [OF process_one_frame [OF this v1(1)] same [OF v1(3)] v1(2),
        where cb = "Stream_Data f (m_streamReceiver t) q d (word_of_nat (length d))" and it = it]
    show ?thesis using t(2) by (simp add: s(3) Stream del: process_frames.simps)
  next
    case (Message d)
    with c obtain mbid where fs: "data_frames m mbid 0 d fs" by auto
    have "m_socket ?t = Some tk" "m_processRequestData ?t = Some g" "between_messages content (m_multiblockIo ?t)"
      using t io by simp_all
    from data_received [OF db pc io(1) this fs m] obtain v1 buf evs io' where
      v1: "process_frames env q fs v = Inr v1" "content buf = d"
        "w_trace v1 = w_trace v @ Client (Request_Data g (m_standaloneReceiver t) q mbid (Some buf)) # evs"
        "acknowledgements tk (m_sessionId t) evs"
        "w_heap v1 q = Some (t\<lparr>m_multiblockIo := io'\<rparr>)" "between_messages content io'" by auto
    have "receiver_at content q t v1" using v1(5,6) by (auto simp: receiver_at_def)
    from toldI [OF v1(1) this v1(3), where it = it] show ?thesis
      using v1(2) t(3) acknowledgements_callbacks [OF v1(4)] by (simp add: Message)
  qed
qed

section \<open>Sequences of items\<close>

lemma send_items_carry:
  assumes "channel_ok env sk"
  shows "sender_at env view p sk w \<Longrightarrow> \<forall>it \<in> set its. item_ok (e_max env) it \<Longrightarrow>
    \<exists>fss w1. send_items env p its w = Inr (True, w1) \<and> list_all2 (carries (e_max env)) its fss
      \<and> w_trace w1 = w_trace w @ sent_events sk (map snd (concat fss)) \<and> sender_at env view p sk w1"
proof (induction its arbitrary: w)
  case Nil
  then show ?case by simp
next
  case (Cons it its)
  from send_item_carries [OF assms Cons.prems(1), of it] Cons.prems(2) obtain fs w1 where
    first: "send_item env p it w = Inr (True, w1)" "carries (e_max env) it fs"
      "w_trace w1 = w_trace w @ sent_events sk (map snd fs)" "sender_at env view p sk w1" by auto
  from Cons.IH [OF first(4)] Cons.prems(2) obtain fss w2 where
    "send_items env p its w1 = Inr (True, w2)" "list_all2 (carries (e_max env)) its fss"
    "w_trace w2 = w_trace w1 @ sent_events sk (map snd (concat fss))" "sender_at env view p sk w2" by auto
  with first show ?case by (intro exI [of _ "fs # fss"] exI [of _ w2]) simp
qed

lemma items_received:
  assumes rd: "receiver_ready env content t" and m: "0 < m" "fits_buffer sizeof_Data_MultiBlock_Header m"
  shows "list_all2 (carries m) its fss \<Longrightarrow> receiver_at content q t v \<Longrightarrow>
    \<exists>v1 evs. process_frames env q (concat fss) v = Inr v1 \<and> receiver_at content q t v1
      \<and> w_trace v1 = w_trace v @ evs \<and> list_all2 (tells content t q) its (callbacks evs)"
proof (induction its fss arbitrary: v rule: list_all2_induct)
  case (Cons it its fs fss)
  from item_received [OF rd Cons.prems Cons.hyps(1) m] obtain v1 evs cb where
    first: "process_frames env q fs v = Inr v1" "receiver_at content q t v1" "w_trace v1 = w_trace v @ evs"
      "callbacks evs = [cb]" "tells content t q it cb" by blast
  from Cons.IH [OF first(2)] obtain v2 evs' where
    "process_frames env q (concat fss) v1 = Inr v2" "receiver_at content q t v2"
    "w_trace v2 = w_trace v1 @ evs'" "list_all2 (tells content t q) its (callbacks evs')" by blast
  with first show ?case by (intro exI [of _ v2] exI [of _ "evs @ evs'"]) (simp add: process_frames_append)
qed simp

lemma items_frames:
  "list_all2 (carries m) its fss \<Longrightarrow> 0 < m \<Longrightarrow>
   list_all2 frame (map fst (concat fss)) (map snd (concat fss)) \<and> (\<forall>f \<in> set (concat fss). handled (fst f))"
proof (induction its fss rule: list_all2_induct)
  case (Cons it its fs fss)
  with carries_frames [OF Cons.hyps(1)] show ?case by (auto intro!: list_all2_appendI)
qed simp

text \<open>
  C1: a session is an ordered and reliable channel for its application. Stream data of at most
  MAX_SINGLE_MESSAGE_SIZE bytes and messages of less than 4 GiB, any number of them, sent one after the
  other over a socket that accepts what it is given, are all accepted; however the network cuts the bytes into
  segments, the application on the other side is told exactly these data, each once, in the order
  they were sent, and the receiving session is ready for more.
\<close>

theorem session_is_an_ordered_channel:
  assumes sending: "channel_ok env sk" "sender_at env view p sk w" "\<forall>it \<in> set its. item_ok (e_max env) it"
    and receiving: "receiver_ready env' content t" "receiver_at content q t v"
  shows "\<exists>ms w1. send_items env p its w = Inr (True, w1) \<and> w_trace w1 = w_trace w @ sent_events sk ms
    \<and> (\<forall>segs. concat segs = concat ms \<longrightarrow>
        (\<exists>v1 evs. receive env' q segs [] v = Inr ([], v1) \<and> w_trace v1 = w_trace v @ evs
          \<and> list_all2 (tells content t q) its (callbacks evs) \<and> receiver_at content q t v1))"
proof -
  from send_items_carry [OF sending] obtain fss w1 where
    sent: "send_items env p its w = Inr (True, w1)" "list_all2 (carries (e_max env)) its fss"
      "w_trace w1 = w_trace w @ sent_events sk (map snd (concat fss))" by blast
  note max = channel_okD(1,2) [OF sending(1)]
  from items_received [OF receiving(1) max sent(2) receiving(2)] obtain v1 evs where
    got: "process_frames env' q (concat fss) v = Inr v1" "receiver_at content q t v1"
      "w_trace v1 = w_trace v @ evs" "list_all2 (tells content t q) its (callbacks evs)" by blast
  note frames = items_frames [OF sent(2) max(1)]
  have "receive env' q segs [] v = Inr ([], v1)" if "concat segs = concat (map snd (concat fss))" for segs
    using receive_frames [of "[]" segs "concat fss" env' q v] frames got(1) that by simp
  with sent(1,3) got(2-4) show ?thesis by blast
qed

theorem session_is_an_ordered_channel_witness:
  "\<exists>ms w1 v1 evs. send_items sample_env 1 [Stream [1, 2, 3] True, Message (replicate 20 7), Message []]
      (sample_world Ready) = Inr (True, w1)
    \<and> receive sample_env 1 [concat ms] [] (sample_world Ready) = Inr ([], v1)
    \<and> list_all2 (tells (\<lambda>b. b) (sample_session Ready) 1)
        [Stream [1, 2, 3] True, Message (replicate 20 7), Message []] (callbacks evs)"
proof -
  let ?its = "[Stream [1, 2, 3] True, Message (replicate 20 7), Message []]"
  have 1: "sender_at sample_env (\<lambda>c. c) 1 5 (sample_world Ready)"
    unfolding sender_at_def using sample_at [of Ready] sample_facts(1) sample_buffers(4) by blast
  have 2: "\<forall>it \<in> set ?its. item_ok (e_max sample_env) it" by (simp add: sample_buffers)
  have 3: "receiver_ready sample_env (\<lambda>b. b) (sample_session Ready)"
    by (simp add: receiver_ready_def sample_facts sample_buffers)
  have 4: "receiver_at (\<lambda>b. b) 1 (sample_session Ready) (sample_world Ready)"
    unfolding receiver_at_def using sample_between [of Ready]
    by (intro exI [of _ "m_multiblockIo (sample_session Ready)"] conjI) (simp_all add: sample_facts del: One_nat_def)
  obtain ms w1 where "send_items sample_env 1 ?its (sample_world Ready) = Inr (True, w1)"
    and all: "\<And>segs. concat segs = concat ms \<Longrightarrow> \<exists>v1 evs. receive sample_env 1 segs [] (sample_world Ready)
        = Inr ([], v1) \<and> list_all2 (tells (\<lambda>b. b) (sample_session Ready) 1) ?its (callbacks evs)"
    using session_is_an_ordered_channel [OF sample_channel 1 2 3 4] by (elim exE conjE) blast
  moreover have "concat [concat ms] = concat ms" by simp
  ultimately show ?thesis by blast
qed

end
