(* ===== verification/Reply_Timer.thy ===== *)
theory Reply_Timer
  imports Reply_Handler
begin

text \<open>
  The timer of the reply handler against the other threads. \<open>makeTimerStep\<close> of
  src/src/handler/reply_handler.cpp holds the spin lock while it counts, releases it when it has found
  an expired entry, and keeps a pointer into the vector: other threads add and remove messages before
  the entry is removed, and again before it is reported. Here the vector is its memory: the elements,
  the slots behind them, and a number for the allocation, which changes when \<open>push_back\<close> moves the
  elements and a pointer into the old memory dangles.
\<close>

section \<open>The vector in memory\<close>

record reply_vector =
  v_items :: "message_time list"
  v_spare :: "message_time list"
  v_block :: nat

text \<open>The constructor reserves 10 slots; \<open>slots\<close> is what they hold.\<close>

definition v_new :: "message_time list \<Rightarrow> reply_vector" where
  "v_new slots = \<lparr>v_items = new_ReplyHandler, v_spare = take 10 slots, v_block = 0\<rparr>"

definition v_memory :: "reply_vector \<Rightarrow> message_time list" where
  "v_memory v = v_items v @ v_spare v"

text \<open>\<open>fresh\<close> are the slots a new allocation has behind the elements.\<close>

definition v_push :: "message_time list \<Rightarrow> message_time \<Rightarrow> reply_vector \<Rightarrow> reply_vector" where
  "v_push fresh m v =
     (case v_spare v of
        [] \<Rightarrow> \<lparr>v_items = v_items v @ [m], v_spare = fresh, v_block = Suc (v_block v)\<rparr>
      | slot # slots \<Rightarrow> v\<lparr>v_items := v_items v @ [m], v_spare := slots\<rparr>)"

definition v_addMessage ::
    "message_time list \<Rightarrow> u8 \<Rightarrow> u64 \<Rightarrow> ptr \<Rightarrow> reply_vector \<Rightarrow> reply_vector" where
  "v_addMessage fresh ty cid p v =
     v_push fresh \<lparr>completeMessageId = cid, timer = 0, messageType = ty, message_session = p,
       ignoreResult = False\<rparr> v"

definition v_removeMessage :: "u64 \<Rightarrow> reply_vector \<Rightarrow> bool \<times> reply_vector" where
  "v_removeMessage cid v =
     (case find_first (\<lambda>m. completeMessageId m = cid) (v_items v) of
        None \<Rightarrow> (False, v)
      | Some i \<Rightarrow>
          (True,
           if 1 < length (v_items v)
           then v\<lparr>v_items := butlast (swap_last i (v_items v)),
                  v_spare := last (swap_last i (v_items v)) # v_spare v\<rparr>
           else v\<lparr>v_items := [], v_spare := v_items v @ v_spare v\<rparr>))"

section \<open>The steps of the timer\<close>

text \<open>
  Under the lock: count, and keep the pointer to the expired entry, which is an allocation with a
  position. Without the lock: \<open>removeMessage(temp->completeMessageId)\<close>, and then the reads of \<open>*temp\<close>
  for the report.
\<close>

type_synonym slot_pointer = "nat \<times> nat"

definition timer_count :: "reply_vector \<Rightarrow> slot_pointer option \<times> reply_vector" where
  "timer_count v =
     (case timer_scan (v_items v) of
        (ms, r) \<Rightarrow> (map_option (\<lambda>i. (v_block v, i)) r, v\<lparr>v_items := ms\<rparr>))"

definition timer_read :: "slot_pointer \<Rightarrow> reply_vector \<Rightarrow> fault + message_time" where
  "timer_read temp v =
     (if fst temp = v_block v then Inr (v_memory v ! snd temp) else Inl Use_After_Free)"

definition timer_remove :: "slot_pointer \<Rightarrow> reply_vector \<Rightarrow> fault + reply_vector" where
  "timer_remove temp v =
     then_do (timer_read temp v) (\<lambda>m. Inr (snd (v_removeMessage (completeMessageId m) v)))"

section \<open>Without interruption\<close>

lemma v_removeMessage_items:
  "fst (v_removeMessage cid v) = fst (removeMessageFromList cid (v_items v))"
  "v_items (snd (v_removeMessage cid v)) = snd (removeMessageFromList cid (v_items v))"
  "v_block (snd (v_removeMessage cid v)) = v_block v"
  by (auto simp: v_removeMessage_def removeMessageFromList_def swap_remove_def split: option.splits)

lemma v_push_items: "v_items (v_push fresh m v) = v_items v @ [m]"
  by (simp add: v_push_def split: list.splits)

lemma v_removeMessage_memory:
  "v_memory (snd (v_removeMessage cid v)) = removal_memory cid (v_items v) @ v_spare v"
proof (cases "find_first (\<lambda>m. completeMessageId m = cid) (v_items v)")
  case None
  then show ?thesis by (simp add: v_removeMessage_def removal_memory_def v_memory_def)
next
  case (Some i)
  show ?thesis
  proof (cases "1 < length (v_items v)")
    case True
    then have "swap_last i (v_items v) \<noteq> []" using length_swap_last [of i "v_items v"] by force
    then show ?thesis
      using Some True append_butlast_last_id [of "swap_last i (v_items v)"]
      by (simp add: v_removeMessage_def removal_memory_def v_memory_def)
  qed (use Some in \<open>simp add: v_removeMessage_def removal_memory_def v_memory_def\<close>)
qed

lemma length_removal_memory: "length (removal_memory cid ms) = length ms"
  by (simp add: removal_memory_def split: option.splits)

text \<open>
  The three steps run one after the other are the step of the reply handler: the atomic step is
  what happens when no other thread comes in between.
\<close>

lemma uninterrupted_timer_step:
  "case timer_count v of
     (None, v1) \<Rightarrow> timer_step (v_items v) = (v_items v1, None)
   | (Some temp, v1) \<Rightarrow> \<exists>v2 m. timer_remove temp v1 = Inr v2 \<and> timer_read temp v2 = Inr m
       \<and> timer_step (v_items v) = (v_items v2, Some m)"
proof -
  obtain ms r where sc: "timer_scan (v_items v) = (ms, r)" by fastforce
  show ?thesis
  proof (cases r)
    case None
    then show ?thesis by (simp add: timer_count_def timer_step_def sc)
  next
    case (Some i)
    have i: "i < length ms"
      using timer_scan_Some [of "v_items v" ms i] timer_scan_length [of "v_items v"] sc Some by simp
    let ?v1 = "v\<lparr>v_items := ms\<rparr>" and ?cid = "completeMessageId (ms ! i)"
    let ?v2 = "snd (v_removeMessage ?cid ?v1)"
    have "timer_read (v_block v, i) ?v1 = Inr (ms ! i)"
      using i by (simp add: timer_read_def v_memory_def nth_append)
    then have "timer_remove (v_block v, i) ?v1 = Inr ?v2" by (simp add: timer_remove_def)
    moreover have "timer_read (v_block v, i) ?v2 = Inr (removal_memory ?cid ms ! i)"
      using i by (simp add: timer_read_def v_removeMessage_items v_removeMessage_memory
          length_removal_memory nth_append)
    ultimately show ?thesis
      by (simp add: timer_count_def timer_step_def sc Some v_removeMessage_items)
  qed
qed

section \<open>A send at the last moment\<close>

text \<open>
  A message that is added between the unlocking and the removal leaves the pointer valid as long as the
  vector has a free slot; otherwise the elements move and the timer reads freed memory.
\<close>

lemma send_in_between:
  assumes "i < length (v_items v)"
  shows "timer_read (v_block v, i) (v_addMessage fresh ty cid p v)
    = (if v_spare v = [] then Inl Use_After_Free else Inr (v_items v ! i))"
  using assms by (cases "v_spare v") (simp_all add: timer_read_def v_addMessage_def v_push_def
      v_memory_def nth_append)

text \<open>The reserved slots are enough for the first 10 messages; the 11th moves the vector.\<close>

lemma reserved_slots_suffice:
  "length ms \<le> length (v_spare v) \<Longrightarrow> v_block (fold (v_push fresh) ms v) = v_block v
    \<and> length (v_spare (fold (v_push fresh) ms v)) = length (v_spare v) - length ms"
proof (induction ms arbitrary: v)
  case (Cons m ms)
  then obtain slot slots where "v_spare v = slot # slots" by (cases "v_spare v") auto
  with Cons show ?case by (simp add: v_push_def)
qed simp

lemma eleventh_message_moves_the_vector:
  assumes "length slots = 10" and "length ms = 10"
  shows "v_block (fold (v_push fresh) ms (v_new slots)) = 0"
    and "v_block (v_push fresh m (fold (v_push fresh) ms (v_new slots))) = 1"
  using reserved_slots_suffice [of ms "v_new slots" fresh] assms
  by (simp_all add: v_new_def v_push_def)

section \<open>A reply at the last moment\<close>

lemma pending_ids_map: "pending_ids ms = mset (map completeMessageId ms)"
  by (simp add: pending_ids_def)

lemma timer_scan_at:
  "\<forall>x \<in> set xs. timer x + 1 < m_timeoutValue \<Longrightarrow> m_timeoutValue \<le> timer a + 1 \<Longrightarrow>
   timer_scan (xs @ a # zs)
     = (map (\<lambda>m. m\<lparr>timer := timer m + 1\<rparr>) xs @ a\<lparr>timer := timer a + 1\<rparr> # zs, Some (length xs))"
  by (induction xs) (simp_all add: Let_def)

lemma swap_last_at: "swap_last (length xs) (xs @ a # ys @ [b]) = xs @ b # ys @ [a]"
proof -
  have "(xs @ a # ys @ [b])[length xs := b] = xs @ b # ys @ [b]" by (simp add: list_update_append)
  moreover have "(xs @ b # ys @ [b])[length (xs @ a # ys @ [b]) - 1 := a] = xs @ b # ys @ [a]"
    using list_update_length [of "xs @ b # ys" b "[]" a] by simp
  ultimately show ?thesis by (simp add: swap_last_def)
qed

lemma v_removeMessage_at:
  assumes "v_items v = xs @ a # ys @ [b]" and "distinct (map completeMessageId (v_items v))"
  shows "v_removeMessage (completeMessageId a) v
    = (True, v\<lparr>v_items := xs @ b # ys, v_spare := a # v_spare v\<rparr>)"
proof -
  have "completeMessageId a \<notin> completeMessageId ` set xs" using assms by simp
  then have "find_first (\<lambda>m. completeMessageId m = completeMessageId a) (xs @ a # ys @ [b]) = Some (length xs)"
    by (intro find_first_unique) (auto simp: nth_append image_iff, metis nth_mem)
  moreover have "butlast (xs @ b # ys @ [a]) = xs @ b # ys" and "last (xs @ b # ys @ [a]) = a"
    by (simp_all add: butlast_append)
  ultimately show ?thesis by (simp add: v_removeMessage_def assms(1) swap_last_at)
qed

text \<open>
  C29: when the reply to an expired message arrives after the timer has counted and released the lock,
  but before the timer removes the message, the pointer of the timer has come to point to the last
  message of the list: that message is removed, although its time is not over, and with it the
  chance to notice its reply or its loss.
\<close>

theorem late_reply_drops_another_message:
  assumes items: "v_items v = xs @ a # ys @ [b]" and ids: "distinct (map completeMessageId (v_items v))"
    and young: "\<forall>x \<in> set xs. timer x + 1 < m_timeoutValue" "timer b + 1 < m_timeoutValue"
    and expired: "m_timeoutValue \<le> timer a + 1"
  shows "\<exists>temp v1 v2 v3. timer_count v = (Some temp, v1)
    \<and> v_removeMessage (completeMessageId a) v1 = (True, v2)
    \<and> timer_remove temp v2 = Inr v3
    \<and> pending_ids (v_items v2) = pending_ids (v_items v) - {#completeMessageId a#}
    \<and> pending_ids (v_items v3) = pending_ids (v_items v2) - {#completeMessageId b#}
    \<and> b \<in> set (v_items v2) \<and> completeMessageId b \<notin># pending_ids (v_items v3)"
proof -
  let ?inc = "\<lambda>m. m\<lparr>timer := timer m + 1\<rparr>"
  let ?v1 = "v\<lparr>v_items := map ?inc xs @ ?inc a # ys @ [b]\<rparr>"
  let ?v2 = "?v1\<lparr>v_items := map ?inc xs @ b # ys, v_spare := ?inc a # v_spare v\<rparr>"
  have count: "timer_count v = (Some (v_block v, length xs), ?v1)"
    using timer_scan_at [OF young(1) expired, of "ys @ [b]"] by (simp add: timer_count_def items)
  have ids1: "map completeMessageId (v_items ?v1) = map completeMessageId (v_items v)"
    by (simp add: items comp_def)
  then have "distinct (map completeMessageId (v_items ?v1))" using ids by simp
  from v_removeMessage_at [OF _ this, of "map ?inc xs" "?inc a" ys b]
  have reply: "v_removeMessage (completeMessageId a) ?v1 = (True, ?v2)" by simp
  have remove: "timer_remove (v_block v, length xs) ?v2
      = Inr (snd (v_removeMessage (completeMessageId b) ?v2))"
    by (simp add: timer_remove_def timer_read_def v_memory_def nth_append)
  have "pending_ids (v_items ?v1) = pending_ids (v_items v)"
    by (simp only: pending_ids_map ids1)
  then have p2: "pending_ids (v_items ?v2) = pending_ids (v_items v) - {#completeMessageId a#}"
    using v_removeMessage_items(2) [of "completeMessageId a" ?v1] reply
      removeMessageFromList_pending(2) [of "completeMessageId a" "v_items ?v1"] by simp
  have p3: "pending_ids (v_items (snd (v_removeMessage (completeMessageId b) ?v2)))
      = pending_ids (v_items ?v2) - {#completeMessageId b#}"
    by (simp only: v_removeMessage_items removeMessageFromList_pending)
  have "distinct (map completeMessageId (v_items ?v2))"
    using ids by (auto simp: items comp_def)
  then have "count (pending_ids (v_items ?v2)) (completeMessageId b) = 1"
    by (simp only: pending_ids_map distinct_count_atmost_1) simp
  then have "completeMessageId b \<notin># pending_ids (v_items (snd (v_removeMessage (completeMessageId b) ?v2)))"
    unfolding p3 by (simp only: not_in_iff count_diff count_single) simp
  with count reply remove p2 p3 show ?thesis by force
qed

theorem late_reply_drops_another_message_witness:
  "\<exists>v1 v2 v3 temp. timer_count \<lparr>v_items = [sample_entry 11 1, sample_entry 12 0], v_spare = [], v_block = 0\<rparr>
      = (Some temp, v1)
    \<and> v_removeMessage 11 v1 = (True, v2) \<and> timer_remove temp v2 = Inr v3
    \<and> 12 \<notin># pending_ids (v_items v3)"
  using late_reply_drops_another_message [of "\<lparr>v_items = [sample_entry 11 1, sample_entry 12 0],
      v_spare = [], v_block = 0\<rparr>" "[]" "sample_entry 11 1" "[]" "sample_entry 12 0"]
  by (simp add: sample_entry_def m_timeoutValue_def) blast

end
