(* ===== verification/Traffic.thy ===== *)
theory Traffic
  imports Data_Exchange
begin

text \<open>
  Data traffic as a step relation: the sending operations of all sessions, the processing of every
  incoming message of this protocol that is not a session message, whatever its other bytes are, the timer
  steps and the heartbeats, in any order. Along all of it the machine keeps quiet: only frames are sent and no
  session is opened or closed. The application may react to a callback with more traffic of this
  kind (\<open>quiet_client\<close>).
\<close>

definition quiet_client :: "('sm, 'buf) env \<Rightarrow> bool" where
  "quiet_client env \<longleftrightarrow> (\<forall>cb w. calm w (e_client env cb w))"

lemma passive_quiet: "passive_client env \<Longrightarrow> quiet_client env"
  by (simp add: passive_client_def quiet_client_def)

section \<open>Rules\<close>

lemma ensures_any: "(\<And>x. r = Inr x \<Longrightarrow> ensures P (k x)) \<Longrightarrow> ensures P (then_do r k)"
  by (cases r) auto

lemma ensures_if:
  "(c \<Longrightarrow> ensures P a) \<Longrightarrow> (\<not> c \<Longrightarrow> ensures P b) \<Longrightarrow> ensures P (if c then a else b)"
  by simp

lemma ensures_step:
  assumes "ensures (calm w0) r" and "\<And>w. calm w0 w \<Longrightarrow> ensures P (k w)"
  shows "ensures P (then_do r k)"
  by (rule ensures_then_do [OF assms(1)]) (rule assms(2))

lemma ensures_sent:
  assumes "calm_step w0 r" and "\<And>x w. calm w0 w \<Longrightarrow> ensures P (k x w)"
  shows "ensures P (then_do r (\<lambda>(x, w). k x w))"
  using assms by (cases r) (auto simp: calm_step_def)

lemma calm_callback:
  assumes "quiet_client env" and "calm w0 w" and "\<And>g. quiet_event (Client (mk g))"
  shows "ensures (calm w0) (call_client env f mk w)"
proof (cases f)
  case (Some g)
  have "calm w0 (log_event (Client (mk g)) w)" using assms by (intro calm_log)
  moreover have "calm (log_event (Client (mk g)) w) (e_client env (mk g) (log_event (Client (mk g)) w))"
    using assms(1) by (simp add: quiet_client_def)
  ultimately show ?thesis using Some calm_trans by auto
qed simp

lemma quiet_callbacks [simp]:
  "quiet_event (Client (Stream_Data f r p bs n))" "quiet_event (Client (Request_Data f r p i b))"
  "quiet_event (Client (Process_Error f p c bs))"
  by (simp_all add: quiet_event_def)

lemma calm_set_same:
  assumes "calm w0 w" and "w_heap w p = Some s"
    and "m_statemachine (f s) = m_statemachine s" "m_socket (f s) = m_socket s"
  shows "calm w0 (set_session p (f s) w)"
  using assms by (rule calm_set_session)

section \<open>Incoming messages\<close>

lemma process_Stream_Data_Type_calm:
  assumes "quiet_client env" and "calm w0 w"
  shows "ensures (calm w0) (process_Stream_Data_Type env p h raw w)"
proof -
  have "ensures (calm w0) (process_Data_Stream env p raw w)"
    unfolding process_Data_Stream_def
    by (intro ensures_sent ensures_step ensures_if ensures_any calm_callback send_Data_Stream_Reply_calm
        assms quiet_callbacks) (simp_all add: assms)
  with assms(2) show ?thesis
    by (simp add: process_Stream_Data_Type_def split: option.splits stream_data_subTypes.splits)
qed

lemma release_request_calm:
  assumes "calm w0 w"
  shows "ensures (calm w0) (release_request bid data w)"
  using assms unfolding release_request_def by (auto intro!: ensures_any calm_blocker)

lemma process_SingleBlock_Data_Type_calm:
  assumes "quiet_client env" and "calm w0 w"
  shows "ensures (calm w0) (process_SingleBlock_Data_Type env p h raw w)"
proof -
  have "ensures (calm w0) (process_Data_SingleBlock env p raw w)"
    unfolding process_Data_SingleBlock_def Let_def
    by (intro ensures_sent ensures_step ensures_if ensures_any calm_callback release_request_calm
        send_Data_SingleBlock_Reply_calm assms quiet_callbacks) (simp_all add: assms)
  with assms(2) show ?thesis
    by (simp add: process_SingleBlock_Data_Type_def split: option.splits singleblock_data_subTypes.splits)
qed

lemma process_MultiBlock_Data_Type_calm:
  assumes "quiet_client env" and "calm w0 w"
  shows "ensures (calm w0) (process_MultiBlock_Data_Type env p h raw w)"
proof -
  have "ensures (calm w0) (process_Data_Multiblock env p raw w)"
    unfolding process_Data_Multiblock_def
    by (intro ensures_any) (auto simp: get_session_eq_Inr intro!: calm_set_session [OF assms(2)])
  moreover have "ensures (calm w0) (process_Data_Multi_Finish env p raw w)"
    unfolding process_Data_Multi_Finish_def Let_def
    by (intro ensures_step ensures_if ensures_any calm_callback release_request_calm calm_change
        assms quiet_callbacks) (simp_all add: assms)
  ultimately show ?thesis using assms(2)
    by (simp add: process_MultiBlock_Data_Type_def split: option.splits multiblock_data_subTypes.splits)
qed

lemma process_Heartbeat_Type_calm:
  assumes "calm w0 w"
  shows "ensures (calm w0) (process_Heartbeat_Type env p h raw w)"
proof -
  have "ensures (calm w0) (then_do (process_Heartbeat_Start env p raw w) (\<lambda>(sent, w1). Inr w1))"
    unfolding process_Heartbeat_Start_def then_do_assoc
    by (intro ensures_sent ensures_any send_Heartbeat_Reply_calm assms) (simp_all add: assms)
  with assms show ?thesis
    by (simp add: process_Heartbeat_Type_def split: option.splits heartbeat_subTypes.splits)
qed

lemma process_Error_Type_calm:
  assumes "quiet_client env" and "calm w0 w"
  shows "ensures (calm w0) (process_Error_Type env p h raw w)"
proof -
  have report: "ensures (calm w0) (report_error env p code raw w1)" if "calm w0 w1" for code w1
    unfolding report_error_def
    by (intro ensures_any calm_callback assms(1) that quiet_callbacks)
  show ?thesis
    unfolding process_Error_Type_def
    by (rule ensures_step, rule calm_change [OF assms(2)])
      (auto simp: report split: option.splits error_subTypes.splits)
qed

text \<open>A message of any kind but a session message, whatever its bytes are.\<close>

lemma dispatch_calm:
  assumes "quiet_client env" and "calm w0 w" and "types_of (mtype h) \<noteq> Some SESSION_TYPE"
  shows "calm_step w0 (dispatch env p h raw w)"
proof -
  have taken: "calm_step w0 (then_do r (\<lambda>w1. Inr (n, w1)))" if "ensures (calm w0) r" for r and n :: u64
    using that by (auto simp: calm_step_def then_do_def ensures_def split: sum.splits)
  show ?thesis
    using assms by (auto simp: dispatch_def Let_def intro!: taken process_Stream_Data_Type_calm
        process_SingleBlock_Data_Type_calm process_MultiBlock_Data_Type_calm
        process_Heartbeat_Type_calm process_Error_Type_calm split: option.splits types.splits)
qed

text \<open>
  What processMessage sees of the header in the buffer: a message of this protocol that is no session
  message. A message with another protocol identifier makes the session close itself (Life_Cycle covers it).
\<close>

definition ordinary_message :: "ring \<Rightarrow> bool" where
  "ordinary_message rb \<longleftrightarrow> (case getObject rb sizeof_CommonMessageHeader of
       None \<Rightarrow> True
     | Some object \<Rightarrow> (case decode_CommonMessageHeader object of
           Inl e \<Rightarrow> True
         | Inr h \<Rightarrow> protocolIdentifier h = PROTOCOL_IDENTIFIER \<and> types_of (mtype h) \<noteq> Some SESSION_TYPE))"

lemma processMessage_calm:
  assumes quiet: "quiet_client env" and c: "calm w0 w" and rb: "ordinary_message rb"
  shows "calm_step w0 (processMessage env p rb w)"
proof (cases "getObject rb sizeof_CommonMessageHeader")
  case None
  then show ?thesis using c by (simp add: processMessage_def)
next
  case (Some object)
  have err: "calm_step w0 (then_do (send_ErrorMessage env p code [] w) (\<lambda>(sent, w1). Inr (0 :: u64, w1)))"
    and aborted: "calm_step w0 (then_do (send_ErrorMessage env p code [] w) (\<lambda>(sent, w1).
      if e_ndebug env then Inr (0 :: u64, w1) else Inl Assertion_Failed))" for code
    by (rule calm_bind [OF send_ErrorMessage_calm [OF c]]; simp add: calm_step_def)+
  show ?thesis
    unfolding processMessage_def Some option.case
  proof (rule calm_then_do)
    fix h assume h: "decode_CommonMessageHeader object = Inr h"
    with rb Some have "protocolIdentifier h = PROTOCOL_IDENTIFIER" "types_of (mtype h) \<noteq> Some SESSION_TYPE"
      by (simp_all add: ordinary_message_def)
    then show "calm_step w0 (if protocolIdentifier h \<noteq> PROTOCOL_IDENTIFIER then
            then_do (closeSession env p False w) (\<lambda>(closed, w1). Inr (0, w1))
          else if version h \<noteq> 0x1 then
            then_do (send_ErrorMessage env p (errorCodes_val FALSE_VERSION) [] w) (\<lambda>(sent, w1).
              Inr (0, w1))
          else
            (case getDataPointer rb (unat (totalMessageSize h)) of
               None \<Rightarrow> Inr (0, w)
             | Some raw \<Rightarrow>
                 then_do (check_delimiter h raw) (\<lambda>match.
                 if \<not> match then
                   then_do (send_ErrorMessage env p (errorCodes_val FALSE_VERSION) [] w) (\<lambda>(sent, w1).
                     if e_ndebug env then Inr (0, w1) else Inl Assertion_Failed)
                 else
                   dispatch env p h raw
                     (if and (flags h) 0x2 \<noteq> 0
                      then w\<lparr>w_reply := snd (removeMessage (sessionId h) (ucast (messageId h)) (w_reply w))\<rparr>
                      else w))))"
      using c dispatch_calm [OF quiet c] dispatch_calm [OF quiet calm_reply [OF c]]
      by (auto intro!: calm_then_do [of "check_delimiter h _"] err aborted split: option.splits)
  qed
qed

section \<open>Timers and heartbeats\<close>

lemma makeTimerStep_calm:
  assumes "quiet_client env" and "calm w0 w"
  shows "ensures (calm w0) (makeTimerStep env w)"
proof -
  have "ensures (calm w0) (then_do (get_session q w1) (\<lambda>s. call_client env (m_processError s) (mk s)
      (set_session q (s\<lparr>m_initState := -1\<rparr>) w1)))"
    if "calm w0 w1" and "\<And>s g. quiet_event (Client (mk s g))" for q w1 mk
  proof (rule ensures_any)
    fix s assume "get_session q w1 = Inr s"
    then have "calm w0 (set_session q (s\<lparr>m_initState := -1\<rparr>) w1)"
      using that(1) by (intro calm_set_session) (simp_all add: get_session_eq_Inr)
    then show "ensures (calm w0) (call_client env (m_processError s) (mk s)
        (set_session q (s\<lparr>m_initState := -1\<rparr>) w1))"
      by (intro calm_callback assms(1) that(2))
  qed
  with assms(2) show ?thesis
    by (auto simp: makeTimerStep_def Let_def calm_reply split: prod.splits option.splits)
qed

lemma blocker_timer_body_calm:
  assumes "quiet_client env" and "calm w0 w"
  shows "ensures (calm w0) (blocker_timer_body env i w)"
proof -
  have "calm w0 (w\<lparr>w_blocker := b\<rparr>)" for b using assms(2) by (rule calm_blocker)
  then show ?thesis
    unfolding blocker_timer_body_def Let_def
    by (auto intro!: ensures_any calm_callback assms(1))
qed

lemma blocker_timer_loop_calm:
  "quiet_client env \<Longrightarrow> calm w0 w \<Longrightarrow> ensures (calm w0) (blocker_timer_loop n env i w)"
proof (induction n arbitrary: i w)
  case (Suc n)
  then show ?case by (auto intro: ensures_step blocker_timer_body_calm)
qed simp

lemma heartbeat_each_calm:
  "calm w0 w \<Longrightarrow> ensures (calm w0) (heartbeat_each env ps w)"
proof (induction ps arbitrary: w)
  case (Cons sp ps)
  obtain sid p where "sp = (sid, p)" by (cases sp)
  then show ?case
    using ensures_sent [OF sendHeartbeat_calm [OF Cons.prems, of env p], of "calm w0" "\<lambda>_. heartbeat_each env ps"]
      Cons.IH by simp
qed simp

lemma calm_locked:
  assumes "calm (w\<lparr>w_handler := h\<rparr>) w2"
  shows "calm w (w2\<lparr>w_handler := w_handler w\<rparr>)"
  using assms by (simp add: calm_def)

lemma sendHeartBeats_calm:
  assumes "calm w0 w"
  shows "ensures (calm w0) (sendHeartBeats env w)"
proof (rule ensuresI)
  fix w' assume w': "sendHeartBeats env w = Inr w'"
  let ?h = "(w_handler w)\<lparr>m_sessionMap_lock := True\<rparr>"
  from w' have free: "\<not> m_sessionMap_lock (w_handler w)"
    by (auto simp: sendHeartBeats_def lockSessionMap_def split: if_splits)
  from w' obtain w1 where w1: "heartbeat_each env (m_sessions ?h) (w\<lparr>w_handler := ?h\<rparr>) = Inr w1"
    and eq: "w' = w1\<lparr>w_handler := unlockSessionMap (w_handler w1)\<rparr>"
    using free by (auto simp: sendHeartBeats_def lockSessionMap_def)
  have c: "calm (w\<lparr>w_handler := ?h\<rparr>) w1"
    using ensuresD [OF heartbeat_each_calm [OF calm_refl] w1] .
  then have "w_handler w1 = ?h" by (simp add: calm_def)
  then have "unlockSessionMap (w_handler w1) = w_handler w"
    using free by (cases "w_handler w") (simp add: unlockSessionMap_def)
  with eq calm_locked [OF c] have "calm w w'" by simp
  with assms show "calm w0 w'" by (rule calm_trans)
qed

section \<open>Heartbeats reach every ready session\<close>

definition beats :: "('sm, 'buf) session \<Rightarrow> sock \<Rightarrow> 'buf event \<Rightarrow> bool" where
  "beats s sk ev \<longleftrightarrow> (\<exists>r. ev = Net (Send_Message sk (encode_Heartbeat_Start_Message
     (heartbeat_start_msg (m_sessionId s) (m_messageIdCounter s + 1)))) r)"

lemma sendHeartbeat_outcome:
  assumes "session_at env view p s ph w" and "m_socket s = Some sk"
  shows "\<exists>r w1. sendHeartbeat env p w = Inr (r, w1)
    \<and> (\<forall>q. q \<noteq> p \<longrightarrow> w_heap w1 q = w_heap w q)
    \<and> (if ph = Ready then \<exists>ev. w_trace w1 = w_trace w @ [ev] \<and> beats s sk ev else w1 = w)"
proof -
  note s = session_atD [OF assms(1)]
  have "isInState env p SESSION_READY w = Inr (ph = Ready)" using isInState_phase [OF s] by simp
  then show ?thesis
    using send_Heartbeat_Start_delivered [OF s(1) assms(2), of env] s(1) assms(2)
    by (auto simp: sendHeartbeat_def delivered_def beats_def)
qed

lemma heartbeat_each_beats:
  "distinct (map snd ps) \<Longrightarrow>
   (\<And>i p. (i, p) \<in> set ps \<Longrightarrow> session_at env view p (sess p) (ph p) w \<and> m_socket (sess p) = Some (sk p)) \<Longrightarrow>
   \<exists>w1 evs. heartbeat_each env ps w = Inr w1 \<and> w_trace w1 = w_trace w @ evs
     \<and> list_all2 (\<lambda>(i, p) ev. beats (sess p) (sk p) ev) (filter (\<lambda>(i, p). ph p = Ready) ps) evs"
proof (induction ps arbitrary: w)
  case (Cons ip ps)
  obtain i p where ip: "ip = (i, p)" by (cases ip)
  have "session_at env view p (sess p) (ph p) w" and "m_socket (sess p) = Some (sk p)"
    using Cons.prems(2) [of i p] ip by simp_all
  from sendHeartbeat_outcome [OF this] obtain r w1 where
    w1: "sendHeartbeat env p w = Inr (r, w1)" "\<forall>q. q \<noteq> p \<longrightarrow> w_heap w1 q = w_heap w q"
      "if ph p = Ready then \<exists>ev. w_trace w1 = w_trace w @ [ev] \<and> beats (sess p) (sk p) ev else w1 = w"
    by blast
  have "session_at env view q (sess q) (ph q) w1 \<and> m_socket (sess q) = Some (sk q)"
    if "(j, q) \<in> set ps" for j q
  proof -
    have "q \<noteq> p" using that Cons.prems(1) ip by force
    then show ?thesis using Cons.prems(2) [of j q] that w1(2) by (simp add: session_at_def)
  qed
  with Cons.IH [of w1] Cons.prems(1) obtain w2 evs where
    "heartbeat_each env ps w1 = Inr w2" "w_trace w2 = w_trace w1 @ evs"
    "list_all2 (\<lambda>(i, p) ev. beats (sess p) (sk p) ev) (filter (\<lambda>(i, p). ph p = Ready) ps) evs" by auto
  with w1(1,3) show ?case
    by (cases "ph p = Ready") (auto simp: ip intro: exI [of _ "_ # evs"])
qed simp

text \<open>
  C18: one round of heartbeats sends exactly one heartbeat on the socket of every ready session of the
  map, in the order of the map, and none on the others; the map is unlocked and unchanged afterwards.
\<close>

theorem heartbeats_reach_every_ready_session:
  assumes free: "\<not> m_sessionMap_lock (w_handler w)"
    and once: "distinct (map snd (m_sessions (w_handler w)))"
    and live: "\<forall>(i, p) \<in> set (m_sessions (w_handler w)).
      session_at env view p (sess p) (ph p) w \<and> m_socket (sess p) = Some (sk p)"
  shows "\<exists>w1 evs. sendHeartBeats env w = Inr w1 \<and> w_trace w1 = w_trace w @ evs
    \<and> list_all2 (\<lambda>(i, p) ev. beats (sess p) (sk p) ev)
        (filter (\<lambda>(i, p). ph p = Ready) (m_sessions (w_handler w))) evs
    \<and> w_handler w1 = w_handler w"
proof -
  let ?w = "w\<lparr>w_handler := (w_handler w)\<lparr>m_sessionMap_lock := True\<rparr>\<rparr>"
  have "\<exists>w1 evs. heartbeat_each env (m_sessions (w_handler w)) ?w = Inr w1 \<and> w_trace w1 = w_trace ?w @ evs
      \<and> list_all2 (\<lambda>(i, p) ev. beats (sess p) (sk p) ev)
          (filter (\<lambda>(i, p). ph p = Ready) (m_sessions (w_handler w))) evs"
    by (rule heartbeat_each_beats [OF once]) (use live in \<open>auto simp: session_at_def\<close>)
  then obtain w1 evs where each: "heartbeat_each env (m_sessions (w_handler w)) ?w = Inr w1"
    "w_trace w1 = w_trace w @ evs" "list_all2 (\<lambda>(i, p) ev. beats (sess p) (sk p) ev)
        (filter (\<lambda>(i, p). ph p = Ready) (m_sessions (w_handler w))) evs" by auto
  then have "sendHeartBeats env w = Inr (w1\<lparr>w_handler := unlockSessionMap (w_handler w1)\<rparr>)"
    using free by (simp add: sendHeartBeats_def lockSessionMap_def)
  moreover have "w_handler (w1\<lparr>w_handler := unlockSessionMap (w_handler w1)\<rparr>) = w_handler w"
    using ensuresD [OF sendHeartBeats_calm [OF calm_refl] calculation] by (simp add: calm_def)
  ultimately show ?thesis
    using each(2,3)
    by (intro exI [of _ "w1\<lparr>w_handler := unlockSessionMap (w_handler w1)\<rparr>"] exI [of _ evs]) simp
qed

theorem heartbeats_reach_every_ready_session_witness:
  "\<exists>w1 ev. sendHeartBeats sample_env (sample_world Ready) = Inr w1 \<and> w_trace w1 = [ev]
    \<and> beats (sample_session Ready) 5 ev"
  using heartbeats_reach_every_ready_session [of "sample_world Ready" sample_env "\<lambda>c. c"
      "\<lambda>p. sample_session Ready" "\<lambda>p. Ready" "\<lambda>p. 5"] sample_at [of Ready] sample_facts(14) [of Ready]
  by (auto simp: sample_facts list_all2_Cons1 simp del: One_nat_def)

section \<open>Sequences of steps\<close>

inductive traffic :: "('sm, 'buf) env \<Rightarrow> ('sm, 'buf) world \<Rightarrow> ('sm, 'buf) world \<Rightarrow> bool"
  for env w0 where
  idle: "traffic env w0 w0"
| stream: "traffic env w0 w \<Longrightarrow> sendStreamData env p data n reply w = Inr (r, w') \<Longrightarrow> traffic env w0 w'"
| message: "traffic env w0 w \<Longrightarrow> sendNormalMessage env p data n w = Inr (r, w') \<Longrightarrow> traffic env w0 w'"
| request: "traffic env w0 w \<Longrightarrow> sendRequest env p data n timeout w = Inr (e, w') \<Longrightarrow> traffic env w0 w'"
| response: "traffic env w0 w \<Longrightarrow> sendResponse env p data n bid w = Inr (i, w') \<Longrightarrow> traffic env w0 w'"
| waits: "traffic env w0 w \<Longrightarrow> blockMessage_wait e (w_blocker w) = Inr b \<Longrightarrow> traffic env w0 (w\<lparr>w_blocker := b\<rparr>)"
| resumes: "traffic env w0 w \<Longrightarrow> blockMessage_resume bid (w_blocker w) = Inr (d, b) \<Longrightarrow>
    traffic env w0 (w\<lparr>w_blocker := b\<rparr>)"
| incoming: "traffic env w0 w \<Longrightarrow> ordinary_message rb \<Longrightarrow> processMessage env p rb w = Inr (k, w') \<Longrightarrow>
    traffic env w0 w'"
| reply_timer: "traffic env w0 w \<Longrightarrow> makeTimerStep env w = Inr w' \<Longrightarrow> traffic env w0 w'"
| blocker_timer: "traffic env w0 w \<Longrightarrow> blocker_makeTimerStep env w = Inr w' \<Longrightarrow> traffic env w0 w'"
| heartbeats: "traffic env w0 w \<Longrightarrow> sendHeartBeats env w = Inr w' \<Longrightarrow> traffic env w0 w'"

lemma calm_stepD: "calm_step w0 r \<Longrightarrow> r = Inr (x, w') \<Longrightarrow> calm w0 w'"
  by (simp add: calm_step_def)

lemma traffic_calm: "traffic env w0 w \<Longrightarrow> quiet_client env \<Longrightarrow> calm w0 w"
proof (induction rule: traffic.induct)
  case (blocker_timer w w')
  then show ?case using blocker_timer_loop_calm ensuresD unfolding blocker_makeTimerStep_def by metis
qed (auto intro: calm_blocker calm_stepD [OF sendStreamData_calm] calm_stepD [OF sendNormalMessage_calm]
    calm_stepD [OF sendRequest_calm] calm_stepD [OF sendResponse_calm] calm_stepD [OF processMessage_calm]
    ensuresD [OF makeTimerStep_calm] ensuresD [OF sendHeartBeats_calm])

text \<open>
  C7: whatever is sent, received and timed out, in any order and with any bytes in the messages that
  have the identifier of this protocol and are not session messages: only complete frames are given to the sockets, the application is told
  neither of a new nor of a closed session, every session keeps its phase and its socket, and the
  maps of sessions and servers stay as they are.
\<close>

theorem traffic_is_quiet:
  assumes "traffic env w w'" and "quiet_client env"
  shows "(\<exists>evs. w_trace w' = w_trace w @ evs
      \<and> (\<forall>sk bs r. Net (Send_Message sk bs) r \<in> set evs \<longrightarrow> (\<exists>h. frame h bs))
      \<and> (\<forall>f p ident. Client (Create_Session f p ident) \<notin> set evs \<and> Client (Close_Session f p ident) \<notin> set evs))
    \<and> (\<forall>p. map_option (\<lambda>s. (m_statemachine s, m_socket s)) (w_heap w' p)
        = map_option (\<lambda>s. (m_statemachine s, m_socket s)) (w_heap w p))
    \<and> w_handler w' = w_handler w"
proof -
  from traffic_calm [OF assms] obtain evs where evs: "w_trace w' = w_trace w @ evs"
      "\<forall>ev \<in> set evs. quiet_event ev"
    and rest: "\<forall>p. map_option (\<lambda>s. (m_statemachine s, m_socket s)) (w_heap w' p)
        = map_option (\<lambda>s. (m_statemachine s, m_socket s)) (w_heap w p)" "w_handler w' = w_handler w"
    by (auto simp: calm_def)
  from evs(2) have "\<forall>sk bs r. Net (Send_Message sk bs) r \<in> set evs \<longrightarrow> (\<exists>h. frame h bs)"
    and "\<forall>f p ident. Client (Create_Session f p ident) \<notin> set evs \<and> Client (Close_Session f p ident) \<notin> set evs"
    by (fastforce simp: quiet_event_def)+
  with evs(1) rest show ?thesis by blast
qed

theorem traffic_is_quiet_witness:
  "\<exists>w'. sendStreamData sample_env 1 [1, 2, 3] 3 True (sample_world Ready) = Inr (True, w')
    \<and> w_trace w' \<noteq> [] \<and> w_handler w' = w_handler (sample_world Ready)"
proof -
  have at: "w_heap (sample_world Ready) 1 = Some (sample_session Ready)" by (rule sample_facts)
  have ready: "isInState sample_env 1 SESSION_READY (sample_world Ready) = Inr True"
    using isInState_phase [OF at, of sample_env "\<lambda>c. c" Ready] sample_phase
    by (simp add: sample_session_def)
  have "fits_buffer sizeof_Data_Stream_Header 3"
    by (simp add: fits_buffer_def padding_size_def sizeof_values MESSAGE_CACHE_SIZE_def)
  with send_Data_Stream_delivered [OF at sample_facts(1), of 3 "[1, 2, 3]" sample_env True]
  obtain w' where w': "sendStreamData sample_env 1 [1, 2, 3] 3 True (sample_world Ready) = Inr (True, w')"
      "w_trace w' \<noteq> []"
    using ready by (auto simp: sendStreamData_def delivered_def sample_facts simp del: One_nat_def)
      (simp add: sample_env_def)
  have "traffic sample_env (sample_world Ready) w'" by (rule traffic.stream [OF traffic.idle w'(1)])
  from traffic_is_quiet [OF this passive_quiet [OF sample_facts(2)]] w' show ?thesis by blast
qed

end
