(* ===== verification/Life_Cycle.thy ===== *)
theory Life_Cycle
  imports Traffic
begin

text \<open>
  The life of a whole process: everything the application, the sockets and the threads of the
  library can make happen, in any order and with any incoming bytes, as the reachable worlds of a
  step relation. The invariant \<open>world_ok\<close> holds in all of them.
\<close>

section \<open>The invariant\<close>

fun is_opening :: "ptr \<Rightarrow> 'buf event \<Rightarrow> bool" where
  "is_opening p (Client (Create_Session f q ident)) = (q = p)"
| "is_opening p ev = False"

fun is_closing :: "ptr \<Rightarrow> 'buf event \<Rightarrow> bool" where
  "is_closing p (Client (Close_Session f q ident)) = (q = p)"
| "is_closing p ev = False"

definition opened :: "ptr \<Rightarrow> 'buf event list \<Rightarrow> nat" where
  "opened p tr = length (filter (is_opening p) tr)"

definition closed :: "ptr \<Rightarrow> 'buf event list \<Rightarrow> nat" where
  "closed p tr = length (filter (is_closing p) tr)"

text \<open>
  \<open>phase_ok\<close>: a session is in a phase of its chart, and a ready one has been opened more often than
  it has been closed.
\<close>

definition phase_ok ::
    "('sm, 'buf) env \<Rightarrow> ('sm \<Rightarrow> chart) \<Rightarrow> 'buf event list \<Rightarrow> ptr \<Rightarrow> 'sm \<Rightarrow> bool" where
  "phase_ok env view tr p m \<longleftrightarrow>
     (\<exists>ph. sm_phase (e_sm env) view m ph \<and> (ph = Ready \<longrightarrow> closed p tr < opened p tr))"

definition world_ok :: "('sm, 'buf) env \<Rightarrow> ('sm \<Rightarrow> chart) \<Rightarrow> ('sm, 'buf) world \<Rightarrow> bool" where
  "world_ok env view w \<longleftrightarrow>
     (\<forall>p s. w_heap w p = Some s \<longrightarrow> phase_ok env view (w_trace w) p (m_statemachine s)) \<and>
     (\<forall>p. closed p (w_trace w) \<le> opened p (w_trace w)) \<and>
     std_ordered (m_sessions (w_handler w)) \<and> std_ordered (m_servers (w_handler w)) \<and>
     \<not> m_sessionMap_lock (w_handler w)"

lemma opened_append [simp]: "opened p (tr @ tr') = opened p tr + opened p tr'"
  and closed_append [simp]: "closed p (tr @ tr') = closed p tr + closed p tr'"
  by (simp_all add: opened_def closed_def)

lemma counts_single [simp]:
  "opened p [ev] = (if is_opening p ev then 1 else 0)" "closed p [ev] = (if is_closing p ev then 1 else 0)"
  "opened p [] = 0" "closed p [] = 0"
  by (simp_all add: opened_def closed_def)

fun_cases is_openingE: "is_opening p ev"
fun_cases is_closingE: "is_closing p ev"

lemma quiet_counts:
  assumes "\<forall>ev \<in> set evs. quiet_event ev"
  shows "opened p evs = 0" and "closed p evs = 0"
proof -
  have "\<not> is_opening p ev" "\<not> is_closing p ev" if "quiet_event ev" for ev :: "'a event"
    using that by (auto simp: quiet_event_def elim!: is_openingE is_closingE)
  then show "opened p evs = 0" and "closed p evs = 0"
    using assms by (auto simp: opened_def closed_def filter_empty_conv)
qed

section \<open>Rules\<close>

lemma world_okI:
  assumes "\<And>p s. w_heap w p = Some s \<Longrightarrow> phase_ok env view (w_trace w) p (m_statemachine s)"
    and "\<And>p. closed p (w_trace w) \<le> opened p (w_trace w)"
    and "std_ordered (m_sessions (w_handler w))" "std_ordered (m_servers (w_handler w))"
    and "\<not> m_sessionMap_lock (w_handler w)"
  shows "world_ok env view w"
  using assms by (simp add: world_ok_def)

lemma world_okD:
  assumes "world_ok env view w"
  shows "w_heap w p = Some s \<Longrightarrow> phase_ok env view (w_trace w) p (m_statemachine s)"
    and "closed p (w_trace w) \<le> opened p (w_trace w)"
    and "std_ordered (m_sessions (w_handler w))" "std_ordered (m_servers (w_handler w))"
    and "\<not> m_sessionMap_lock (w_handler w)"
  using assms by (simp_all add: world_ok_def)

lemma ok_calm:
  assumes ok: "world_ok env view w" and c: "calm w w'"
  shows "world_ok env view w'"
proof -
  from c obtain evs where evs: "w_trace w' = w_trace w @ evs" "\<forall>ev \<in> set evs. quiet_event ev"
    by (auto simp: calm_def)
  note counts = quiet_counts [OF evs(2)]
  show ?thesis
  proof (rule world_okI)
    fix p s assume s: "w_heap w' p = Some s"
    from c have "map_option (\<lambda>s. (m_statemachine s, m_socket s)) (w_heap w p)
        = map_option (\<lambda>s. (m_statemachine s, m_socket s)) (w_heap w' p)" by (simp add: calm_def)
    with s obtain s0 where "w_heap w p = Some s0" "m_statemachine s0 = m_statemachine s" by auto
    with world_okD(1) [OF ok] show "phase_ok env view (w_trace w') p (m_statemachine s)"
      by (fastforce simp: phase_ok_def evs(1) counts)
  qed (use world_okD(2-5) [OF ok] c in \<open>simp_all add: calm_def evs(1) counts\<close>)
qed

lemma ok_set_session:
  assumes "world_ok env view w" and "phase_ok env view (w_trace w) p (m_statemachine s)"
  shows "world_ok env view (set_session p s w)"
  using assms by (auto simp: world_ok_def)

lemma ok_handler:
  assumes "world_ok env view w" and "std_ordered (m_sessions h)" "std_ordered (m_servers h)"
    and "\<not> m_sessionMap_lock h"
  shows "world_ok env view (w\<lparr>w_handler := h\<rparr>)"
  using assms by (simp add: world_ok_def)

lemma phase_ok_log:
  assumes "phase_ok env view tr p m" and "\<not> is_closing p ev"
  shows "phase_ok env view (tr @ [ev]) p m"
  using assms by (auto simp: phase_ok_def)

text \<open>Events other than the end of a session keep the invariant.\<close>

lemma ok_log:
  assumes "world_ok env view w" and "\<And>p. \<not> is_closing p ev"
  shows "world_ok env view (log_event ev w)"
  by (rule world_okI) (use world_okD [OF assms(1)] assms(2) in \<open>auto intro: phase_ok_log le_SucI\<close>)

lemma ok_ask_net:
  assumes "world_ok env view w"
  shows "world_ok env view (snd (ask_net env' c w))"
  using ok_log [OF assms, of "Net c (e_net env' (w_trace w) c)"] by simp

text \<open>The end of a session is reported for a session that has been opened and is not ready any more.\<close>

lemma ok_log_closing:
  assumes ok: "world_ok env view w" and open_now: "closed p (w_trace w) < opened p (w_trace w)"
    and s: "w_heap w p = Some s" "sm_phase (e_sm env) view (m_statemachine s) ph" "ph \<noteq> Ready"
  shows "world_ok env view (log_event (Client (Close_Session f p ident)) w)"
proof (rule world_okI)
  fix q t assume t: "w_heap (log_event (Client (Close_Session f p ident)) w) q = Some t"
  show "phase_ok env view (w_trace (log_event (Client (Close_Session f p ident)) w)) q (m_statemachine t)"
  proof (cases "q = p")
    case True
    with s t show ?thesis by (auto simp: phase_ok_def)
  next
    case False
    then show ?thesis using world_okD(1) [OF ok, of q t] t by (auto simp: phase_ok_def)
  qed
next
  fix q
  show "closed q (w_trace (log_event (Client (Close_Session f p ident)) w))
      \<le> opened q (w_trace (log_event (Client (Close_Session f p ident)) w))"
    using world_okD(2) [OF ok, of q] open_now by auto
qed (use world_okD(3-5) [OF ok] in simp_all)

section \<open>Opening and closing keep the invariant\<close>

abbreviation keeps :: "('sm, 'buf) env \<Rightarrow> ('sm \<Rightarrow> chart) \<Rightarrow> fault + 'a \<times> ('sm, 'buf) world \<Rightarrow> bool" where
  "keeps env view r \<equiv> ensures (\<lambda>(x, w). world_ok env view w) r"

lemma keeps_bind:
  assumes "keeps env view r" and "\<And>x w. world_ok env view w \<Longrightarrow> ensures Q (k x w)"
  shows "ensures Q (then_do r (\<lambda>(x, w). k x w))"
  using assms by (cases r) auto

lemma ok_bind:
  assumes "ensures (world_ok env view) r" and "\<And>w. world_ok env view w \<Longrightarrow> ensures Q (k w)"
  shows "ensures Q (then_do r k)"
  using assms by (cases r) auto

lemma keeps_calm: "world_ok env view w \<Longrightarrow> calm_step w r \<Longrightarrow> keeps env view r"
  by (cases r) (auto simp: calm_step_def intro: ok_calm)

lemma ok_ensures_calm:
  "world_ok env view w \<Longrightarrow> ensures (calm w) r \<Longrightarrow> ensures (world_ok env view) r"
  by (cases r) (auto intro: ok_calm)

lemma change_session_ok:
  assumes "world_ok env view w" and "\<And>s. m_statemachine (f s) = m_statemachine s"
  shows "ensures (world_ok env view) (change_session p f w)"
  using assms by (auto simp: change_session_def get_session_def intro!: ok_set_session
      dest: world_okD(1) split: option.splits)

lemma addSession_ok:
  assumes ok: "world_ok env view w"
  shows "ensures (world_ok env view) (addSession sid p w)"
proof (rule ensuresI)
  fix w' assume w': "addSession sid p w = Inr w'"
  then obtain s where s: "w_heap w p = Some s" by (auto simp: addSession_def get_session_def split: option.splits)
  let ?h = "w_handler w"
  let ?s = "s\<lparr>m_processCreateSession := Some (handler_processCreateSession ?h),
      m_processCloseSession := Some (handler_processCloseSession ?h),
      m_processError := Some (handler_processError ?h)\<rparr>"
  have "world_ok env view (set_session p ?s w)"
    using world_okD(1) [OF ok s] by (intro ok_set_session [OF ok]) simp
  then show "world_ok env view w'"
    using w' s world_okD(3-5) [OF ok]
    by (auto simp: addSession_def Let_def lockSessionMap_def unlockSessionMap_def std_ordered_insert
        intro!: ok_handler)
qed

lemma removeSession_ok:
  assumes ok: "world_ok env view w" and "removeSession sid (w_handler w) = Inr (removed, h)"
  shows "world_ok env view (w\<lparr>w_handler := h\<rparr>)"
  using assms(2) world_okD(3-5) [OF ok]
  by (auto simp: removeSession_def lockSessionMap_def unlockSessionMap_def std_ordered_erase
      intro!: ok_handler [OF ok] split: if_splits)

lemma removing_ok:
  assumes "world_ok env view w"
    and "\<And>removed h. world_ok env view (w\<lparr>w_handler := h\<rparr>) \<Longrightarrow> ensures Q (k removed h)"
  shows "ensures Q (then_do (removeSession sid (w_handler w)) (\<lambda>(removed, h). k removed h))"
proof (cases "removeSession sid (w_handler w)")
  case (Inr r)
  then show ?thesis using assms removeSession_ok [OF assms(1)] by (cases r) simp
qed simp

lemma counter_ok:
  assumes "world_ok env view w" and "increaseSessionIdCounter (w_handler w) = (i, h)"
  shows "world_ok env view (w\<lparr>w_handler := h\<rparr>)"
  using assms world_okD(3-5) [OF assms(1)]
  by (auto simp: increaseSessionIdCounter_def intro!: ok_handler)

text \<open>Every transition but \<open>START_SESSION\<close> keeps the invariant by itself.\<close>

lemma goToNextState_cases:
  assumes "w_heap w p = Some s" and "sm_phase (e_sm env) view (m_statemachine s) ph"
    and "required = None \<or> required = Some (phase_item ph')"
  obtains (taken) m ph1 where "phase_next ph t = Some ph1" "required = None \<or> ph' = ph"
      "goToNextState env p t required w = Inr (True, set_session p (s\<lparr>m_statemachine := m\<rparr>) w)"
      "sm_phase (e_sm env) view m ph1"
    | (refused) m where
      "goToNextState env p t required w = Inr (False, set_session p (s\<lparr>m_statemachine := m\<rparr>) w)"
      "sm_phase (e_sm env) view m ph"
proof (cases "required = None \<or> ph' = ph")
  case True
  with assms(3) have r: "required = None \<or> required = Some (phase_item ph)" by auto
  show thesis
  proof (cases "phase_next ph t")
    case None
    from sm_phase_refuse [OF assms(2) None] sm_phase_refuse_same [OF assms(2) None] r assms(1) refused show thesis
      by (auto simp: goToNextState_def)
  next
    case (Some ph1)
    from goToNextState_step [OF assms(1,2) Some r] taken [OF Some True] show thesis by blast
  qed
next
  case False
  with assms(3) have "\<exists>ph'. ph' \<noteq> ph \<and> required = Some (phase_item ph')" by auto
  with goToNextState_refuse [OF assms(1,2), of t required] refused show thesis by blast
qed

lemma phase_okI:
  "sm_phase (e_sm env) view m ph \<Longrightarrow> ph \<noteq> Ready \<or> closed p tr < opened p tr \<Longrightarrow> phase_ok env view tr p m"
  by (auto simp: phase_ok_def)

lemma ok_phaseE:
  assumes "world_ok env view w" and "w_heap w p = Some s"
  obtains ph where "sm_phase (e_sm env) view (m_statemachine s) ph"
    and "ph = Ready \<Longrightarrow> closed p (w_trace w) < opened p (w_trace w)"
  using world_okD(1) [OF assms] by (auto simp: phase_ok_def)

lemma goToNextState_ok:
  assumes ok: "world_ok env view w" and t: "t \<noteq> START_SESSION"
  shows "keeps env view (goToNextState env p t None w)"
proof (cases "w_heap w p")
  case (Some s)
  from ok Some obtain ph where ph: "sm_phase (e_sm env) view (m_statemachine s) ph"
    "ph = Ready \<Longrightarrow> closed p (w_trace w) < opened p (w_trace w)" by (rule ok_phaseE) blast
  show ?thesis
  proof (cases rule: goToNextState_cases [OF Some ph(1) disjI1 [OF refl], where t = t and ph' = ph, case_names taken refused])
    case (taken m ph1)
    have "ph1 \<noteq> Ready" using taken(1) t by (cases ph; cases t) auto
    then have "world_ok env view (set_session p (s\<lparr>m_statemachine := m\<rparr>) w)"
      using taken(4) by (intro ok_set_session [OF ok]) (simp add: phase_okI)
    with taken(3) show ?thesis by simp
  next
    case (refused m)
    have "world_ok env view (set_session p (s\<lparr>m_statemachine := m\<rparr>) w)"
      using refused(2) ph(2) by (intro ok_set_session [OF ok]) (auto simp: phase_ok_def)
    with refused(1) show ?thesis by simp
  qed
qed (simp add: goToNextState_def get_session_None)

lemma disconnectSession_ok:
  assumes "world_ok env view w"
  shows "keeps env view (disconnectSession env p w)"
proof -
  have "keeps env view (then_do (get_session p w1) (\<lambda>s. case m_socket s of
      None \<Rightarrow> Inr (False, w1) | Some sk \<Rightarrow> Inr (ask_net env (Close_Socket sk) w1)))"
    if "world_ok env view w1" for w1
    using that ok_ask_net [OF that, of env]
    by (intro ensures_any) (auto simp: ask_net_def split: option.splits)
  then show ?thesis
    unfolding disconnectSession_def
    by (intro keeps_bind [OF goToNextState_ok [OF assms]]) (auto intro: ensures_if)
qed

lemma ok_asked:
  assumes "world_ok env view w" and "\<And>r w1. world_ok env view w1 \<Longrightarrow> ensures Q (k r w1)"
  shows "ensures Q (case ask_net env' c w of (r, w1) \<Rightarrow> k r w1)"
  using ok_ask_net [OF assms(1), of env' c] assms(2) by (simp add: case_prod_beta)

lemma ensures_option:
  assumes "x = None \<Longrightarrow> ensures Q a" and "\<And>y. x = Some y \<Longrightarrow> ensures Q (f y)"
  shows "ensures Q (case x of None \<Rightarrow> a | Some y \<Rightarrow> f y)"
  using assms by (cases x) simp_all

lemma connectiSession_ok:
  assumes ok: "world_ok env view w"
  shows "keeps env view (connectiSession env p sid w)"
proof -
  have failed: "keeps env view (then_do (change_session p (\<lambda>s. s\<lparr>m_initState := -1\<rparr>) w1)
      (\<lambda>w. Inr (False, w)))" if "world_ok env view w1" for w1
    by (rule ok_bind [OF change_session_ok [OF that]]) simp_all
  have entered: "keeps env view (then_do (change_session p (\<lambda>s. s\<lparr>m_sessionId := sid\<rparr>) w1)
      (\<lambda>w3. Inr (True, log_event (Start_Thread sk) w3)))" if "world_ok env view w1" for w1 sk
    by (rule ok_bind [OF change_session_ok [OF that]]) (simp_all add: ok_log)
  show ?thesis
    unfolding connectiSession_def Let_def
    by (intro ensures_any ensures_if ensures_option ok_asked [OF ok] keeps_bind [OF goToNextState_ok]
        failed entered) (simp_all add: ok)
qed

text \<open>The session becomes ready first, and the application is told at once.\<close>

lemma makeSessionReady_ok:
  assumes ok: "world_ok env view w" and quiet: "quiet_client env"
  shows "keeps env view (makeSessionReady env p sid ident w)"
proof (cases "w_heap w p")
  case (Some s)
  from ok Some obtain ph where ph: "sm_phase (e_sm env) view (m_statemachine s) ph"
    "ph = Ready \<Longrightarrow> closed p (w_trace w) < opened p (w_trace w)" by (rule ok_phaseE) blast
  have req: "Some SESSION_NOT_READY = None \<or> Some SESSION_NOT_READY = Some (phase_item Not_Ready)" by simp
  show ?thesis
  proof (cases rule: goToNextState_cases [OF Some ph(1) req, of START_SESSION, case_names taken refused])
    case (taken m ph1)
    let ?s = "s\<lparr>m_statemachine := m, m_sessionId := sid, m_sessionIdentifier := ident\<rparr>"
    have told: "world_ok env view (log_event (Client (Create_Session f p ident)) (set_session p ?s w))" for f
    proof -
      let ?w = "log_event (Client (Create_Session f p ident)) w"
      have w: "world_ok env view ?w" by (rule ok_log [OF ok]) simp
      have "closed p (w_trace ?w) < opened p (w_trace ?w)"
        using world_okD(2) [OF ok, of p] by (simp add: le_imp_less_Suc)
      then have "world_ok env view (set_session p ?s ?w)"
        using taken(4) by (intro ok_set_session [OF w] phase_okI [where ph = ph1]) simp_all
      then show ?thesis by (simp add: world_norm)
    qed
    have "world_ok env view w3" if "call_client env (m_processCreateSession s)
        (\<lambda>f. Create_Session f p ident) (set_session p ?s w) = Inr w3" for w3
      using that told quiet
      by (auto simp: call_client_def quiet_client_def intro: ok_calm split: option.splits)
    then have "keeps env view (then_do (call_client env (m_processCreateSession s)
        (\<lambda>f. Create_Session f p ident) (set_session p ?s w)) (\<lambda>w3.
        then_do (change_session p (\<lambda>s. s\<lparr>m_initState := 1\<rparr>) w3) (\<lambda>w4. Inr (True, w4))))"
      by (intro ok_bind [OF ensuresI] ok_bind [OF change_session_ok]) simp_all
    then show ?thesis
      using taken(3) by (simp add: makeSessionReady_def change_session_def world_norm)
  next
    case (refused m)
    have "world_ok env view (set_session p (s\<lparr>m_statemachine := m\<rparr>) w)"
      using refused(2) ph(2) by (intro ok_set_session [OF ok]) (auto simp: phase_ok_def)
    then have "keeps env view (then_do (change_session p (\<lambda>s. s\<lparr>m_initState := -1\<rparr>)
        (set_session p (s\<lparr>m_statemachine := m\<rparr>) w)) (\<lambda>w2. Inr (False, w2)))"
      by (intro ok_bind [OF change_session_ok]) simp_all
    then show ?thesis using refused(1) by (simp add: makeSessionReady_def)
  qed
qed (simp add: makeSessionReady_def goToNextState_def get_session_None)

text \<open>\<open>STOP_SESSION\<close> is only taken in the ready phase, so the session has been opened.\<close>

lemma endSession_ok:
  assumes ok: "world_ok env view w" and quiet: "quiet_client env"
  shows "keeps env view (endSession env p w)"
proof (cases "w_heap w p")
  case (Some s)
  from ok Some obtain ph where ph: "sm_phase (e_sm env) view (m_statemachine s) ph"
    "ph = Ready \<Longrightarrow> closed p (w_trace w) < opened p (w_trace w)" by (rule ok_phaseE) blast
  show ?thesis
  proof (cases rule: goToNextState_cases [OF Some ph(1) disjI1 [OF refl], where t = STOP_SESSION
        and ph' = ph, case_names taken refused])
    case (taken m ph1)
    let ?w = "set_session p (s\<lparr>m_statemachine := m\<rparr>) w"
    have ready: "ph = Ready" "ph1 \<noteq> Ready" using taken(1) by (cases ph; auto)+
    have w: "world_ok env view ?w"
      using taken(4) ready by (intro ok_set_session [OF ok]) (simp add: phase_okI)
    have "world_ok env view (log_event (Client (Close_Session f p (m_sessionIdentifier s))) ?w)" for f
      using ph(2) ready taken(4) by (intro ok_log_closing [OF w, where s = "s\<lparr>m_statemachine := m\<rparr>" and ph = ph1]) simp_all
    then have told: "ensures (world_ok env view) (call_client env (m_processCloseSession s)
        (\<lambda>f. Close_Session f p (m_sessionIdentifier s)) ?w)"
      using quiet by (auto simp: call_client_def quiet_client_def intro: ok_calm split: option.splits)
    have "keeps env view (then_do (call_client env (m_processCloseSession s)
        (\<lambda>f. Close_Session f p (m_sessionIdentifier s)) ?w) (\<lambda>w2.
        then_do (get_session p w2) (\<lambda>s2.
        then_do (removeSession (m_sessionId s2) (w_handler w2)) (\<lambda>(removed, h).
          disconnectSession env p (w2\<lparr>w_handler := h\<rparr>)))))"
      by (intro ok_bind [OF told] ensures_any removing_ok disconnectSession_ok)
    then show ?thesis using taken(3) by (simp add: endSession_def)
  next
    case (refused m)
    have "world_ok env view (set_session p (s\<lparr>m_statemachine := m\<rparr>) w)"
      using refused(2) ph(2) by (intro ok_set_session [OF ok]) (auto simp: phase_ok_def)
    with refused(1) show ?thesis by (simp add: endSession_def)
  qed
qed (simp add: endSession_def goToNextState_def get_session_None)

lemma closeSession_ok:
  assumes ok: "world_ok env view w" and quiet: "quiet_client env"
  shows "keeps env view (closeSession env p re w)"
proof -
  have reply: "world_ok env view (w\<lparr>w_reply := r\<rparr>)" for r
    by (rule ok_calm [OF ok calm_reply [OF calm_refl]])
  have send: "keeps env view (send_Session_Close_Start env p re w1)" if "world_ok env view w1" for re w1
    by (rule keeps_calm [OF that send_Session_Close_Start_calm [OF calm_refl]])
  show ?thesis
    unfolding closeSession_def Let_def
    by (intro ensures_any ensures_if ok_bind [OF change_session_ok [OF reply]] send
        keeps_bind [OF send] endSession_ok quiet) (simp_all add: ok)
qed

lemma delete_Session_ok:
  assumes ok: "world_ok env view w" and quiet: "quiet_client env"
  shows "ensures (world_ok env view) (delete_Session env p w)"
proof -
  have gone: "world_ok env view (w2\<lparr>w_heap := (w_heap w2)(p := None)\<rparr>)" if "world_ok env view w2" for w2
    using that by (auto simp: world_ok_def)
  have freed: "world_ok env view (log_event (Schedule_Deletion sk) (set_session p (s\<lparr>m_socket := None\<rparr>) w2))"
    if "world_ok env view w2" "get_session p w2 = Inr s" for w2 s sk
    using that world_okD(1) [OF that(1), of p s]
    by (intro ok_log ok_set_session) (simp_all add: get_session_eq_Inr)
  have cleared: "ensures (world_ok env view) (then_do (get_session p w2) (\<lambda>s2.
      Inr ((case m_socket s2 of None \<Rightarrow> w2
          | Some sk \<Rightarrow> log_event (Schedule_Deletion sk) (set_session p (s2\<lparr>m_socket := None\<rparr>) w2))
        \<lparr>w_heap := (w_heap (case m_socket s2 of None \<Rightarrow> w2
          | Some sk \<Rightarrow> log_event (Schedule_Deletion sk) (set_session p (s2\<lparr>m_socket := None\<rparr>) w2)))(p := None)\<rparr>)))"
    if "world_ok env view w2" for w2
    using that by (auto intro!: ensures_any gone freed simp del: heap_set_session world_log_event
        split: option.splits)
  show ?thesis
    unfolding delete_Session_def Let_def
    by (rule ok_bind [OF change_session_ok [OF ok]], simp, rule ensures_any, erule removing_ok,
        rule keeps_bind, erule closeSession_ok [OF _ quiet], erule cleared)
qed

lemma discard_session_ok:
  assumes "world_ok env view w" and "quiet_client env"
  shows "ensures (world_ok env view) (discard_session env p w)"
  unfolding discard_session_def
  by (rule keeps_bind [OF closeSession_ok [OF assms]]) (rule delete_Session_ok [OF _ assms(2)])

lemma new_Session_ok:
  assumes ok: "world_ok env view w" and sm: "sm_refines (e_sm env) view" and asserts: "\<not> e_ndebug env"
  shows "keeps env view (new_Session env sk w)"
proof -
  from initStatemachine_chart [OF sm] sm obtain m where m:
    "initStatemachine (e_sm env) False (sm_new (e_sm env)) = Inr m" "sm_phase (e_sm env) view m Disconnected"
    by (auto simp: sm_phase_def)
  have w: "world_ok env view (set_session q (new_session_fields m sk) w)" for q
    using m(2) by (intro ok_set_session [OF ok] phase_okI [where ph = Disconnected]) (simp_all add: new_session_fields_def)
  have "world_ok env view (w1\<lparr>w_next := n\<rparr>)" if "world_ok env view w1" for w1 n
    using that by (simp add: world_ok_def)
  then show ?thesis using m(1) asserts w by (simp add: new_Session_def)
qed

section \<open>Incoming messages keep the invariant\<close>

lemma keeps_then:
  "keeps env view r \<Longrightarrow> ensures (world_ok env view) (then_do r (\<lambda>(x, w). Inr w))"
  by (cases r) auto

lemma counting_ok:
  assumes "world_ok env view w"
    and "\<And>i h. world_ok env view (w\<lparr>w_handler := h\<rparr>) \<Longrightarrow> ensures Q (k i h)"
  shows "ensures Q (case increaseSessionIdCounter (w_handler w) of (i, h) \<Rightarrow> k i h)"
  using assms(2) counter_ok [OF assms(1)] by (cases "increaseSessionIdCounter (w_handler w)") simp

lemma process_Session_Type_ok:
  assumes ok: "world_ok env view w" and quiet: "quiet_client env"
  shows "ensures (world_ok env view) (process_Session_Type env p h raw w)"
proof -
  have sent: "keeps env view (send_Session_Init_Reply env p sid mid csid ident w1)"
    and answered: "keeps env view (send_Session_Close_Reply env p mid w1)"
    if "world_ok env view w1" for sid mid csid ident w1
    by (rule keeps_calm [OF that], rule send_Session_Init_Reply_calm, rule calm_refl)
      (rule keeps_calm [OF that], rule send_Session_Close_Reply_calm, rule calm_refl)
  have "ensures (world_ok env view) (process_Session_Init_Start env p raw w)"
    unfolding process_Session_Init_Start_def
    by (rule ensures_any, rule counting_ok [OF ok], rule ensures_any, rule ensures_any, rule ensures_any,
        rule ok_bind, erule addSession_ok,
        rule keeps_bind, erule connectiSession_ok, rule keeps_bind, erule makeSessionReady_ok [OF _ quiet],
        rule ensures_any, rule keeps_then, erule sent)
  moreover have "ensures (world_ok env view) (process_Session_Init_Reply env p raw w)"
    unfolding process_Session_Init_Reply_def
    by (rule ensures_any, rule ensures_any, rule ensures_any, rule ensures_any, rule removing_ok [OF ok], rule ok_bind, erule addSession_ok,
        rule keeps_then, erule makeSessionReady_ok [OF _ quiet])
  moreover have "ensures (world_ok env view) (process_Session_Close_Start env p raw w)"
    unfolding process_Session_Close_Start_def
    by (rule ensures_any, rule keeps_bind, rule answered [OF ok], rule ensures_any, erule removing_ok,
        rule keeps_then, erule endSession_ok [OF _ quiet])
  moreover have "ensures (world_ok env view) (process_Session_Close_Reply env p raw w)"
    unfolding process_Session_Close_Reply_def
    by (rule ensures_any, rule removing_ok [OF ok], rule keeps_then, erule disconnectSession_ok)
  ultimately show ?thesis
    using ok by (simp add: process_Session_Type_def split: option.splits session_subTypes.splits)
qed

lemma dispatch_ok:
  assumes ok: "world_ok env view w" and quiet: "quiet_client env"
  shows "keeps env view (dispatch env p h raw w)"
proof (cases "types_of (mtype h) = Some SESSION_TYPE")
  case True
  with process_Session_Type_ok [OF ok quiet, of p h raw] show ?thesis
    by (cases "process_Session_Type env p h raw w") (simp_all add: dispatch_def Let_def)
next
  case False
  with keeps_calm [OF ok dispatch_calm [OF quiet calm_refl]] show ?thesis by blast
qed

lemma processMessage_ok:
  assumes ok: "world_ok env view w" and quiet: "quiet_client env"
  shows "keeps env view (processMessage env p rb w)"
proof -
  have err: "keeps env view (send_ErrorMessage env p code bs w)" for code bs
    by (rule keeps_calm [OF ok]) (rule send_ErrorMessage_calm, rule calm_refl)
  have reply: "world_ok env view (w\<lparr>w_reply := r\<rparr>)" for r
    by (rule ok_calm [OF ok calm_reply [OF calm_refl]])
  have disp: "keeps env view (dispatch env p h raw (if c then w\<lparr>w_reply := r\<rparr> else w))" for h raw c r
    by (rule dispatch_ok [OF _ quiet]) (simp add: ok reply)
  show ?thesis
    unfolding processMessage_def
    by (intro ensures_option ensures_any ensures_if keeps_bind [OF closeSession_ok [OF ok quiet]]
        keeps_bind [OF err] disp) (simp_all add: ok)
qed

section \<open>The controller keeps the invariant\<close>

lemma startSession_ok:
  assumes ok: "world_ok env view w" and quiet: "quiet_client env" and sm: "sm_refines (e_sm env) view"
    and asserts: "\<not> e_ndebug env"
  shows "keeps env view (startSession env sk ident w)"
proof -
  have started: "keeps env view (then_do (addSession sid p w2) (\<lambda>w3.
      then_do (send_Session_Init_Start env p ident w3) (\<lambda>(sent, w4). Inr (Start_Waiting p, w4))))"
    if "world_ok env view w2" for sid p w2
    by (rule ok_bind, rule addSession_ok [OF that], rule keeps_bind, erule keeps_calm,
        rule send_Session_Init_Start_calm, rule calm_refl) simp
  have failed: "keeps env view (then_do (discard_session env p w2) (\<lambda>w3. Inr (Start_Failed, w3)))"
    if "world_ok env view w2" for p w2
    by (rule ok_bind, rule discard_session_ok [OF that quiet]) simp
  have connects: "keeps env view (case increaseSessionIdCounter (w_handler w1) of (newId, h) \<Rightarrow>
      then_do (connectiSession env p (ucast newId) (w1\<lparr>w_handler := h\<rparr>)) (\<lambda>(connected, w2).
        if connected then then_do (addSession (ucast newId) p w2) (\<lambda>w3.
          then_do (send_Session_Init_Start env p ident w3) (\<lambda>(sent, w4). Inr (Start_Waiting p, w4)))
        else then_do (discard_session env p w2) (\<lambda>w3. Inr (Start_Failed, w3))))"
    if w1: "world_ok env view w1" for p w1
    by (rule counting_ok [OF w1], rule keeps_bind, erule connectiSession_ok, rule ensures_if,
        erule started, erule failed)
  show ?thesis
    unfolding startSession_def
    by (rule ensures_if, simp add: ok ok_log, rule keeps_bind, rule new_Session_ok [OF ok sm asserts], erule connects)
qed

lemma startSession_resume_ok:
  assumes ok: "world_ok env view w" and quiet: "quiet_client env"
  shows "keeps env view (startSession_resume env p w)"
  unfolding startSession_resume_def
  by (intro ensures_any ensures_if ok_bind [OF discard_session_ok [OF ok quiet]]) (simp_all add: ok)

lemma processConnection_Callback_ok:
  assumes "world_ok env view w" and "sm_refines (e_sm env) view" and "\<not> e_ndebug env"
  shows "ensures (world_ok env view) (processConnection_Callback env sk w)"
  unfolding processConnection_Callback_def
  by (rule keeps_bind, rule new_Session_ok [OF assms]) (simp add: ok_log)

lemma add_server_ok:
  assumes ok: "world_ok env view w"
  shows "keeps env view (add_server env sv w)"
proof -
  have counted: "world_ok env view (w1\<lparr>w_serverIdCounter := n\<rparr>)" if "world_ok env view w1" for w1 n
    using that by (simp add: world_ok_def)
  have added: "keeps env view (then_do (lockServerMap (w_handler w3)) (\<lambda>h.
      Inr (i, w3\<lparr>w_handler := unlockServerMap (h\<lparr>m_servers := std_insert i sv (m_servers h)\<rparr>)\<rparr>)))"
    if "world_ok env view w3" for w3 and i :: u32
    using world_okD(3-5) [OF that]
    by (auto simp: lockServerMap_def unlockServerMap_def std_ordered_insert intro!: ok_handler [OF that])
  show ?thesis
    unfolding add_server_def Let_def
    by (rule ok_asked [OF ok], rule ensures_if) (simp, rule added, rule counted, simp add: ok_log)
qed

lemma closeServer_ok:
  assumes ok: "world_ok env view w"
  shows "keeps env view (closeServer env sid w)"
proof (rule ensuresI)
  fix r assume r: "closeServer env sid w = Inr r"
  let ?h = "(w_handler w)\<lparr>m_serverMap_lock := True\<rparr>"
  note h = world_okD(3-5) [OF ok]
  have locked: "world_ok env view (w\<lparr>w_handler := ?h\<rparr>)" using h by (intro ok_handler [OF ok]) simp_all
  have "world_ok env view (log_event (Net c b) (w\<lparr>w_handler := ?h\<rparr>))" for c b
    by (rule ok_log [OF locked]) simp
  moreover have "world_ok env view ((log_event (Schedule_Server_Deletion sv)
        (log_event (Net c b) (w\<lparr>w_handler := ?h\<rparr>)))
      \<lparr>w_handler := unlockServerMap (?h\<lparr>m_servers := std_erase sid (m_servers ?h)\<rparr>)\<rparr>)" for sv c b
    using h by (intro ok_handler ok_log locked) (simp_all add: unlockServerMap_def std_ordered_erase)
  moreover have "world_ok env view (w\<lparr>w_handler := unlockServerMap ?h\<rparr>)"
    using h by (intro ok_handler [OF ok]) (simp_all add: unlockServerMap_def)
  ultimately show "case r of (x, w) \<Rightarrow> world_ok env view w"
    using r by (auto simp: closeServer_def lockServerMap_def ask_net_def simp del: world_log_event
        split: if_splits option.splits)
qed

lemma close_each_ok: "world_ok env view w \<Longrightarrow> world_ok env view (close_each env' ss w)"
proof (induction ss arbitrary: w)
  case (Cons isv ss)
  then show ?case by (cases isv) (simp add: ok_log)
qed simp

lemma delete_SessionController_ok:
  assumes ok: "world_ok env view w"
  shows "ensures (world_ok env view) (delete_SessionController env w)"
proof -
  have handler: "ensures (world_ok env view) (delete_SessionHandler w1)" if w1: "world_ok env view w1" for w1
    using w1 by (auto simp: delete_SessionHandler_def Let_def lockServerMap_def unlockServerMap_def
        lockSessionMap_def unlockSessionMap_def world_ok_def intro!: ensures_any split: if_splits)
  have all: "ensures (world_ok env view) (cloesAllServers env w)"
    unfolding cloesAllServers_def Let_def
  proof (rule ensures_any)
    fix h assume "lockServerMap (w_handler w) = Inr h"
    then have h: "h = (w_handler w)\<lparr>m_serverMap_lock := True\<rparr>" by (simp add: lockServerMap_def split: if_splits)
    have "world_ok env view (close_each env (m_servers h) (w\<lparr>w_handler := h\<rparr>))"
      unfolding h using world_okD(3-5) [OF ok] by (intro close_each_ok ok_handler [OF ok]) simp_all
    from ok_handler [OF this] world_okD(3-5) [OF this]
    show "ensures (world_ok env view) (Inr ((close_each env (m_servers h) (w\<lparr>w_handler := h\<rparr>))
      \<lparr>w_handler := unlockServerMap (w_handler (close_each env (m_servers h) (w\<lparr>w_handler := h\<rparr>)))\<rparr>))"
      by (simp add: unlockServerMap_def)
  qed
  show ?thesis
    unfolding delete_SessionController_def by (rule ok_bind [OF all]) (rule handler)
qed

section \<open>Reachable worlds\<close>

text \<open>
  A process begins with its first controller. Then the application starts and closes sessions, sets
  callbacks, opens and closes servers, creates and deletes controllers; servers announce
  connections; sockets hand over whatever bytes arrive; and \<open>traffic\<close> goes on. After the controller has
  been deleted, with the session handler, the process needs a new one before anything else.
\<close>

inductive life :: "('sm, 'buf) env \<Rightarrow> ('sm, 'buf) world \<Rightarrow> bool" for env where
  begins: "new_SessionController env None f g h w0 = Inr w \<Longrightarrow> w_heap w0 = Map.empty \<Longrightarrow> w_trace w0 = []
    \<Longrightarrow> life env w"
| goes_on: "life env w \<Longrightarrow> traffic env w w' \<Longrightarrow> life env w'"
| bytes: "life env w \<Longrightarrow> processMessage_callback env p rb w = Inr (k, w') \<Longrightarrow> life env w'"
| connection: "life env w \<Longrightarrow> processConnection_Callback env sk w = Inr w' \<Longrightarrow> life env w'"
| starts: "life env w \<Longrightarrow> startSession env sk ident w = Inr (r, w') \<Longrightarrow> life env w'"
| started: "life env w \<Longrightarrow> startSession_resume env p w = Inr (q, w') \<Longrightarrow> life env w'"
| closes: "life env w \<Longrightarrow> closeSession env p re w = Inr (b, w') \<Longrightarrow> life env w'"
| deletes: "life env w \<Longrightarrow> delete_Session env p w = Inr w' \<Longrightarrow> life env w'"
| stream_callback: "life env w \<Longrightarrow> setStreamCallback p rc f w = Inr w' \<Longrightarrow> life env w'"
| request_callback: "life env w \<Longrightarrow> setRequestCallback p rc f w = Inr w' \<Longrightarrow> life env w'"
| error_callback: "life env w \<Longrightarrow> setErrorCallback p f w = Inr w' \<Longrightarrow> life env w'"
| new_server: "life env w \<Longrightarrow> add_server env sv w = Inr (i, w') \<Longrightarrow> life env w'"
| closed_server: "life env w \<Longrightarrow> closeServer env i w = Inr (b, w') \<Longrightarrow> life env w'"
| controller: "life env w \<Longrightarrow> new_SessionController env (Some (w_handler w)) f g h w = Inr w' \<Longrightarrow> life env w'"
| restarts: "life env w \<Longrightarrow> delete_SessionController env w = Inr w1
    \<Longrightarrow> new_SessionController env None f g h w1 = Inr w' \<Longrightarrow> life env w'"

lemma first_controller_ok:
  assumes "new_SessionController env None f g h w0 = Inr w" and "world_ok env view w0"
  shows "world_ok env view w"
  using assms by (auto simp: new_SessionController_def new_SessionHandler_def world_ok_def split: if_splits)

lemma begins_ok:
  assumes "new_SessionController env None f g h w0 = Inr w" and "w_heap w0 = Map.empty" "w_trace w0 = []"
  shows "world_ok env view w"
  using assms by (auto simp: new_SessionController_def new_SessionHandler_def world_ok_def split: if_splits)

lemma life_ok:
  assumes "life env w" and quiet: "quiet_client env" and sm: "sm_refines (e_sm env) view"
    and asserts: "\<not> e_ndebug env"
  shows "world_ok env view w"
  using assms(1)
proof (induction rule: life.induct)
  case (begins f g h w0 w)
  then show ?case by (rule begins_ok)
next
  case (goes_on w w')
  then show ?case using traffic_calm quiet ok_calm by blast
next
  case (bytes w p rb k w')
  then show ?case
    using ensuresD [OF processMessage_ok [OF bytes.IH quiet]] by (auto simp: processMessage_callback_def)
next
  case (starts w sk ident r w')
  then show ?case using ensuresD [OF startSession_ok [OF starts.IH quiet sm asserts]] by auto
next
  case (started w p q w')
  then show ?case using ensuresD [OF startSession_resume_ok [OF started.IH quiet]] by auto
next
  case (closes w p re b w')
  then show ?case using ensuresD [OF closeSession_ok [OF closes.IH quiet]] by auto
next
  case (restarts w w1 f g h w')
  have "world_ok env view w1"
    by (rule ensuresD [OF delete_SessionController_ok [OF restarts.IH] restarts.hyps(2)])
  with restarts.hyps(3) show ?case by (rule first_controller_ok)
next
  case (controller w f g h w')
  then show ?case by (auto simp: new_SessionController_def world_ok_def)
next
  case (new_server w sv i w')
  then show ?case using ensuresD [OF add_server_ok [OF new_server.IH]] by auto
next
  case (closed_server w i b w')
  then show ?case using ensuresD [OF closeServer_ok [OF closed_server.IH]] by auto
next
  case (stream_callback w p rc f w')
  show ?case
    by (rule ensuresD [OF change_session_ok [OF stream_callback.IH] stream_callback.hyps(2) [unfolded setStreamCallback_def]]) simp
next
  case (request_callback w p rc f w')
  show ?case
    by (rule ensuresD [OF change_session_ok [OF request_callback.IH] request_callback.hyps(2) [unfolded setRequestCallback_def]]) simp
next
  case (error_callback w p f w')
  show ?case
    by (rule ensuresD [OF change_session_ok [OF error_callback.IH] error_callback.hyps(2) [unfolded setErrorCallback_def]]) simp
qed (auto intro: ensuresD [OF processConnection_Callback_ok [OF _ sm asserts]]
    ensuresD [OF delete_Session_ok [OF _ quiet]])

text \<open>
  C8: in every world a process can reach, whatever bytes its peers send: every session is in one of
  the phases of its state machine; the application is never told more often that a session has
  closed than that it has been opened, and a ready session has been opened once more at least than
  closed; the maps of sessions and servers are ordered by their keys, without duplicates; and the
  lock of the session map is free, so no operation waits for it for ever.
\<close>

theorem reachable_worlds_are_well_formed:
  assumes "life env w" and "quiet_client env" and "sm_refines (e_sm env) view" and "\<not> e_ndebug env"
  shows "(\<forall>p s. w_heap w p = Some s \<longrightarrow> (\<exists>ph. sm_phase (e_sm env) view (m_statemachine s) ph
      \<and> (ph = Ready \<longrightarrow> closed p (w_trace w) < opened p (w_trace w))))
    \<and> (\<forall>p. closed p (w_trace w) \<le> opened p (w_trace w))
    \<and> std_ordered (m_sessions (w_handler w)) \<and> std_ordered (m_servers (w_handler w))
    \<and> \<not> m_sessionMap_lock (w_handler w)"
  using life_ok [OF assms] unfolding world_ok_def phase_ok_def by blast

theorem reachable_worlds_are_well_formed_witness:
  "\<exists>w s. processConnection_Callback sample_env 5 (sample_world Ready\<lparr>w_heap := Map.empty, w_reply := [],
      w_blocker := new_MessageBlockerHandler, w_handler := sample_handler\<lparr>m_sessions := [], m_sessionIdCounter := 0\<rparr>\<rparr>) = Inr w
    \<and> w_heap w 2 = Some s \<and> (\<exists>ph. sm_phase (e_sm sample_env) (\<lambda>c. c) (m_statemachine s) ph)
    \<and> \<not> m_sessionMap_lock (w_handler w)"
proof -
  let ?w0 = "sample_world Ready\<lparr>w_heap := Map.empty\<rparr>"
  let ?w = "sample_world Ready\<lparr>w_heap := Map.empty, w_reply := [], w_blocker := new_MessageBlockerHandler,
      w_handler := sample_handler\<lparr>m_sessions := [], m_sessionIdCounter := 0\<rparr>\<rparr>"
  have sm: "sm_refines (e_sm sample_env) (\<lambda>c. c)" by (simp add: sample_env_def chart_api_refines)
  have asserts: "\<not> e_ndebug sample_env" by (simp add: sample_env_def)
  have "new_SessionController sample_env None 21 22 25 ?w0 = Inr ?w"
    by (simp add: new_SessionController_def new_ReplyHandler_def new_SessionHandler_def asserted_sizes_def sizeof_values
        sample_world_def sample_handler_def)
  then have l: "life sample_env ?w" by (rule life.begins) (simp_all add: sample_world_def)
  obtain m where m: "initStatemachine (e_sm sample_env) False (sm_new (e_sm sample_env)) = Inr m"
    using initStatemachine_chart [OF sm] by blast
  then have c: "processConnection_Callback sample_env 5 ?w = Inr (log_event (Start_Thread 5)
      ((set_session 2 (new_session_fields m 5) ?w)\<lparr>w_next := 3\<rparr>))"
    using asserts by (simp add: processConnection_Callback_def new_Session_def sample_world_def numeral_eq_Suc)
  let ?v = "log_event (Start_Thread 5) ((set_session 2 (new_session_fields m 5) ?w)\<lparr>w_next := 3\<rparr>)"
  have "w_heap ?v 2 = Some (new_session_fields m 5)" by simp
  with reachable_worlds_are_well_formed
    [OF life.connection [OF l c] passive_quiet [OF sample_facts(2)] sm asserts] c
  show ?thesis by blast
qed

end
