(* ===== verification/Opening_Closing.thy ===== *)
theory Opening_Closing
  imports Data_Exchange
begin

text \<open>
  Sessions from their construction to the init message, and the composition of the close messages
  of both sides.
\<close>

section \<open>New sessions\<close>

lemma new_Session_disconnected:
  assumes "sm_refines (e_sm env) view" and "\<not> e_ndebug env"
  shows "\<exists>m w1. new_Session env sk w = Inr (w_next w, w1)
    \<and> session_at env view (w_next w) (new_session_fields m sk) Disconnected w1
    \<and> w_trace w1 = w_trace w \<and> w_handler w1 = w_handler w \<and> w_reply w1 = w_reply w
    \<and> w_heap w1 = (w_heap w)(w_next w \<mapsto> new_session_fields m sk)"
  using initStatemachine_chart [OF assms(1)] assms
  by (auto simp: new_Session_def session_at_def sm_phase_def new_session_fields_def)

lemma new_session_fields_sel [simp]:
  "m_statemachine (new_session_fields m sk) = m" "m_socket (new_session_fields m sk) = Some sk"
  "m_messageIdCounter (new_session_fields m sk) = 0" "m_initState (new_session_fields m sk) = 0"
  "m_multiblockIo (new_session_fields m sk) = new_MultiblockIO"
  by (simp_all add: new_session_fields_def)

text \<open>The identifier a client gives a session before the server has answered.\<close>

definition client_id :: "session_handler \<Rightarrow> u32" where
  "client_id h = ucast (m_sessionIdCounter h + 1)"

lemma startSession_starts:
  assumes sm: "sm_refines (e_sm env) view" "\<not> e_ndebug env" and free: "\<not> m_sessionMap_lock (w_handler w)"
    and len: "length ident \<le> 64000" and net: "\<forall>tr. e_net env tr (Init_Connection sk)"
  shows "\<exists>s pad r w1. startSession env sk ident w = Inr (Start_Waiting (w_next w), w1)
    \<and> session_at env view (w_next w) s Not_Ready w1 \<and> m_socket s = Some sk
    \<and> m_sessionId s = client_id (w_handler w) \<and> length (ident @ pad) = 64000
    \<and> w_handler w1 = handler_with (client_id (w_handler w)) (w_next w) (counted_handler (w_handler w))
    \<and> w_trace w1 = w_trace w @ [Net (Init_Connection sk) True, Start_Thread sk,
        Net (Send_Message sk (encode_Session_Init_Start_Message
          (init_start_msg (client_id (w_handler w)) 1 ident pad))) r]"
proof -
  let ?p = "w_next w" and ?cid = "client_id (w_handler w)" and ?h = "counted_handler (w_handler w)"
  from new_Session_disconnected [OF sm, of sk w] obtain m0 w0 where
    new: "new_Session env sk w = Inr (?p, w0)"
    and at0: "session_at env view ?p (new_session_fields m0 sk) Disconnected w0"
    and w0: "w_trace w0 = w_trace w" "w_handler w0 = w_handler w" by blast
  let ?s0 = "new_session_fields m0 sk" and ?w0 = "w0\<lparr>w_handler := ?h\<rparr>"
  have "session_at env view ?p ?s0 Disconnected ?w0" using at0 by (simp add: session_at_def)
  from connectiSession_outcome [OF this, of sk ?cid] net obtain m1 where
    m1: "sm_phase (e_sm env) view m1 Not_Ready"
    and con: "connectiSession env ?p ?cid ?w0 = Inr (True,
      set_session ?p (?s0\<lparr>m_statemachine := m1, m_sessionId := ?cid\<rparr>)
        (log_event (Start_Thread sk) (log_event (Net (Init_Connection sk) True) ?w0)))"
    by auto
  let ?s1 = "?s0\<lparr>m_statemachine := m1, m_sessionId := ?cid\<rparr>"
  let ?w1 = "log_event (Start_Thread sk) (log_event (Net (Init_Connection sk) True) ?w0)"
  let ?s2 = "with_callbacks ?h ?s1"
  let ?w2 = "set_session ?p ?s2 (?w1\<lparr>w_handler := handler_with ?cid ?p ?h\<rparr>)"
  have add: "addSession ?cid ?p (set_session ?p ?s1 ?w1) = Inr ?w2"
    using addSession_registers [of "set_session ?p ?s1 ?w1" ?p ?s1 ?cid] free
    by (simp add: world_norm)
  have "w_heap ?w2 ?p = Some ?s2" and "m_socket ?s2 = Some sk" by simp_all
  note send = send_Session_Init_Start_delivered [OF this len, of env]
  let ?pad = "identifier_rest env ident ?w2"
  let ?msg = "init_start_msg ?cid 1 ident ?pad"
  let ?w3 = "snd (delivered env ?p sk (sis_commonHeader ?msg) (encode_Session_Init_Start_Message ?msg)
      (counted ?p ?s2 ?w2))"
  have "startSession env sk ident w = Inr (Start_Waiting ?p, ?w3)"
    using len con add send
    by (simp add: startSession_def new w0 increaseSessionIdCounter_def counted_handler_def [symmetric]
        client_id_def [symmetric] case_prod_beta)
  moreover have "session_at env view ?p (?s2\<lparr>m_messageIdCounter := 1\<rparr>) Not_Ready ?w3"
    using m1 by (simp add: session_at_def)
  ultimately show ?thesis using length_identifier_rest [OF len, of env ?w2] w0
    by (intro exI [of _ "?s2\<lparr>m_messageIdCounter := 1\<rparr>"] exI [of _ ?pad]) auto
qed

section \<open>The close messages\<close>

lemma close_reply_settles:
  "m_sessions (w_handler (settle h w)) = m_sessions (w_handler w)" by simp

lemma read_close_start:
  assumes at: "session_at env view q t Ready v" and tk: "m_socket t = Some tk" and pc: "passive_client env"
    and g: "m_processCloseSession t = Some g" and free: "\<not> m_sessionMap_lock (w_handler v)"
    and msg: "msg = encode_Session_Close_Start_Message (close_start_msg sid mid reply pad4)" "length pad4 = 4"
  shows "\<exists>m pad v1 r r'. processMessage env q (list_ring msg) v = Inr (word_of_nat (length msg), v1)
    \<and> session_at env view q (t\<lparr>m_statemachine := m\<rparr>) Disconnected v1 \<and> length pad = 4
    \<and> m_sessions (w_handler v1) = std_erase (m_sessionId t) (std_erase 0 (m_sessions (w_handler v)))
    \<and> w_trace v1 = w_trace v @ [Net (Send_Message tk (encode_Session_Close_Reply_Message
          (close_reply_msg (m_sessionId t) mid pad))) r,
        Client (Close_Session g q (m_sessionIdentifier t)), Net (Close_Socket tk) r']"
proof -
  note frame = close_start_frame [OF msg(2), of sid mid reply]
  have "settle (scs_commonHeader (close_start_msg sid mid reply pad4)) v = v"
    by (intro settle_no_reply) (simp add: reply_flags)
  then have "processMessage env q (list_ring msg) v
      = dispatch env q (scs_commonHeader (close_start_msg sid mid reply pad4)) msg v"
    using read_frame [OF frame, of env q v] msg(1) by simp
  with process_close_start [OF at tk pc g free, of sid mid reply pad4] msg(1) frame_taken [OF frame]
  obtain m r r' v1 where "processMessage env q (list_ring msg) v = Inr (word_of_nat (length msg), v1)"
    "sm_phase (e_sm env) view m Disconnected" "w_heap v1 = (w_heap v)(q \<mapsto> t\<lparr>m_statemachine := m\<rparr>)"
    "m_sessions (w_handler v1) = std_erase (m_sessionId t) (std_erase 0 (m_sessions (w_handler v)))"
    "w_trace v1 = w_trace v @ [Net (Send_Message tk (encode_Session_Close_Reply_Message
          (close_reply_msg (m_sessionId t) mid (uninitialised env 4 v)))) r,
        Client (Close_Session g q (m_sessionIdentifier t)), Net (Close_Socket tk) r']" by auto
  then show ?thesis
    by (intro exI [of _ m] exI [of _ "uninitialised env 4 v"]) (auto simp: session_at_def)
qed

lemma read_close_reply:
  assumes at: "session_at env view p s Ready w" and sk: "m_socket s = Some sk"
    and free: "\<not> m_sessionMap_lock (w_handler w)" and pad: "length pad4 = 4"
    and msg: "msg = encode_Session_Close_Reply_Message (close_reply_msg sid mid pad4)"
  shows "\<exists>m w1 r. processMessage env p (list_ring msg) w = Inr (word_of_nat (length msg), w1)
    \<and> session_at env view p (s\<lparr>m_statemachine := m\<rparr>) Disconnected w1
    \<and> m_sessions (w_handler w1) = std_erase 0 (m_sessions (w_handler w))
    \<and> w_trace w1 = w_trace w @ [Net (Close_Socket sk) r]"
proof -
  note frame = close_reply_frame [OF pad, of sid mid]
  let ?w = "settle (scr_commonHeader (close_reply_msg sid mid pad4)) w"
  have "session_at env view p s Ready ?w" and "\<not> m_sessionMap_lock (w_handler ?w)"
    using at free by (simp_all add: session_at_def)
  from process_close_reply [OF this(1) sk this(2), of sid mid pad4] read_frame [OF frame, of env p w]
    frame_taken [OF frame] show ?thesis
    by (fastforce simp: msg session_at_def)
qed

end
