(* ===== verification/Robustness.thy ===== *)
theory Robustness
  imports Opening_Closing
begin

text \<open>
  Messages and events the protocol does not expect: what is rejected, what is ignored, and where
  the code runs into a fault.
\<close>

section \<open>Sizes that do not fit\<close>

lemma decode_fields:
  assumes "decode_CommonMessageHeader raw = Inr h"
  shows "message_payloadSize raw = Inr (payloadSize h)" and "message_flags raw = Inr (flags h)"
    and "message_id_field raw = Inr (messageId h)"
  using assms by (auto simp: decode_CommonMessageHeader_def message_field_defs then_do_eq_Inr_iff)

lemma frame_decode: "frame h raw \<Longrightarrow> decode_CommonMessageHeader raw = Inr h"
  by (simp add: frame_def)

lemma read_bytes_short: "length raw < off + n \<Longrightarrow> read_bytes off n raw = Inl Out_Of_Bounds_Read"
  by (simp add: read_bytes_def)

text \<open>
  C33: the payload size of a stream or single-block message is not compared with the size of the message.
  For a complete and well framed message that claims more payload than it has, whatever the state of the
  session is: a single-block message is copied into the data buffer from behind its end; with a stream
  message the application is given a pointer and the claimed size, and fewer bytes are there.
\<close>

theorem claimed_size_is_not_checked:
  assumes f: "frame h raw" and rb: "ring_ok rb (raw @ rest)" and s: "w_heap w p = Some s"
  shows "(types_of (mtype h) = Some SINGLEBLOCK_DATA_TYPE
        \<and> singleblock_data_subTypes_of (subType h) = Some DATA_SINGLE_DATA_SUBTYPE
        \<and> length raw < sizeof_Data_SingleBlock_Header + unat (payloadSize h)
      \<longrightarrow> processMessage env p rb w = Inl Out_Of_Bounds_Read)
    \<and> (passive_client env \<and> m_processStreamData s = Some g \<and> m_socket s = Some sk
        \<and> types_of (mtype h) = Some STREAM_DATA_TYPE
        \<and> stream_data_subTypes_of (subType h) = Some DATA_STREAM_STATIC_SUBTYPE
        \<and> length raw < sizeof_Data_Stream_Header + unat (payloadSize h)
      \<longrightarrow> (\<exists>w1 bs evs. processMessage env p rb w = Inr (word_of_nat (length raw), w1)
          \<and> w_trace w1 = w_trace w @ Client (Stream_Data g (m_streamReceiver s) p bs (ucast (payloadSize h))) # evs
          \<and> length bs < unat (payloadSize h)))"
proof (intro conjI impI)
  note fields = decode_fields [OF frame_decode [OF f]]
  have live: "w_heap (settle h w) p = Some s" using s by simp
  show "processMessage env p rb w = Inl Out_Of_Bounds_Read"
    if "types_of (mtype h) = Some SINGLEBLOCK_DATA_TYPE
        \<and> singleblock_data_subTypes_of (subType h) = Some DATA_SINGLE_DATA_SUBTYPE
        \<and> length raw < sizeof_Data_SingleBlock_Header + unat (payloadSize h)"
    using that fields(1) live unfolding processMessage_frame [OF f rb]
    by (auto simp: dispatch_def process_SingleBlock_Data_Type_def process_Data_SingleBlock_def
        read_bytes_short Let_def)
  let ?bs = "take (unat (payloadSize h)) (drop sizeof_Data_Stream_Header raw)"
  assume kind: "passive_client env \<and> m_processStreamData s = Some g \<and> m_socket s = Some sk
      \<and> types_of (mtype h) = Some STREAM_DATA_TYPE
      \<and> stream_data_subTypes_of (subType h) = Some DATA_STREAM_STATIC_SUBTYPE
      \<and> length raw < sizeof_Data_Stream_Header + unat (payloadSize h)"
  have "40 \<le> length raw" using f by (simp add: frame_def)
  moreover from kind have "length raw < sizeof_Data_Stream_Header + unat (payloadSize h)" by blast
  ultimately have "length raw - sizeof_Data_Stream_Header < unat (payloadSize h)"
    unfolding sizeof_values by arith
  then have "length ?bs < unat (payloadSize h)" by simp
  moreover obtain w1 evs where "process_Data_Stream env p raw (settle h w) = Inr w1"
    "w_trace w1 = w_trace w @ Client (Stream_Data g (m_streamReceiver s) p ?bs (ucast (payloadSize h))) # evs"
    using process_Data_Stream_reads [OF live _ _ _ fields(1) refl fields(2,3), of g env sk] kind
    by (cases "and (flags h) 1 = 0") (auto simp: Let_def)
  ultimately show "\<exists>w1 bs evs. processMessage env p rb w = Inr (word_of_nat (length raw), w1)
      \<and> w_trace w1 = w_trace w @ Client (Stream_Data g (m_streamReceiver s) p bs (ucast (payloadSize h))) # evs
      \<and> length bs < unat (payloadSize h)"
    unfolding processMessage_frame [OF f rb] using kind frame_taken [OF f]
    by (intro exI [of _ w1] exI [of _ ?bs] exI [of _ evs]) (simp add: dispatch_def process_Stream_Data_Type_def)
qed

text \<open>A stream message and a single-block message that have no payload and claim 100 bytes.\<close>

definition sample_liar :: CommonMessageHeader where
  "sample_liar = (stream_header 7 1 False 0)\<lparr>payloadSize := 100\<rparr>"

definition sample_single_liar :: CommonMessageHeader where
  "sample_single_liar = (single_header 7 1 0 0)\<lparr>payloadSize := 100\<rparr>"

lemma sample_liar_frame: "frame sample_liar (payload_message sample_liar [] [] [])"
  by (rule payload_frame(1) [where extra = "[]" and payload = "[]" and pad = "[]"
        and hs = sizeof_Data_Stream_Header and n = 0])
    (simp_all add: payload_message_def sample_liar_def stream_header_def new_message_defs sizeof_values
      padding_size_def fits_buffer_def MESSAGE_CACHE_SIZE_def)

lemma sample_single_liar_frame:
  "frame sample_single_liar (payload_message sample_single_liar (single_extra 3 0 [0, 0, 0, 0]) [] [])"
  by (rule payload_frame(1) [where extra = "single_extra 3 0 [0, 0, 0, 0]" and payload = "[]" and pad = "[]"
        and hs = sizeof_Data_SingleBlock_Header and n = 0])
    (simp_all add: payload_message_def sample_single_liar_def single_header_def single_extra_def new_message_defs
      sizeof_values padding_size_def fits_buffer_def MESSAGE_CACHE_SIZE_def)

theorem claimed_size_is_not_checked_witness:
  "processMessage sample_env 1 (list_ring (payload_message sample_single_liar (single_extra 3 0 [0, 0, 0, 0]) [] [] @ []))
      (sample_world Ready) = Inl Out_Of_Bounds_Read
    \<and> (\<exists>w1 bs evs n. processMessage sample_env 1 (list_ring (payload_message sample_liar [] [] [] @ []))
        (sample_world Ready) = Inr (n, w1)
      \<and> w_trace w1 = w_trace (sample_world Ready) @ Client (Stream_Data 23 31 1 bs 100) # evs \<and> length bs < 100)"
proof (intro conjI)
  have "types_of (mtype sample_single_liar) = Some SINGLEBLOCK_DATA_TYPE
      \<and> singleblock_data_subTypes_of (subType sample_single_liar) = Some DATA_SINGLE_DATA_SUBTYPE
      \<and> length (payload_message sample_single_liar (single_extra 3 0 [0, 0, 0, 0]) [] [])
        < sizeof_Data_SingleBlock_Header + unat (payloadSize sample_single_liar)"
    by (simp add: sample_single_liar_def single_header_def single_extra_def new_message_defs types_of_def
        singleblock_data_subTypes_of_def payload_message_def sizeof_values)
  with claimed_size_is_not_checked [OF sample_single_liar_frame list_ring_ok sample_facts(18), of sample_env]
  show "processMessage sample_env 1 (list_ring (payload_message sample_single_liar (single_extra 3 0 [0, 0, 0, 0]) [] [] @ []))
      (sample_world Ready) = Inl Out_Of_Bounds_Read" by blast
next
  have size: "payloadSize sample_liar = 100" by (simp add: sample_liar_def)
  have "passive_client sample_env \<and> m_processStreamData (sample_session Ready) = Some 23
      \<and> m_socket (sample_session Ready) = Some 5 \<and> types_of (mtype sample_liar) = Some STREAM_DATA_TYPE
      \<and> stream_data_subTypes_of (subType sample_liar) = Some DATA_STREAM_STATIC_SUBTYPE
      \<and> length (payload_message sample_liar [] [] []) < sizeof_Data_Stream_Header + unat (payloadSize sample_liar)"
    by (simp add: sample_facts) (simp add: sample_liar_def stream_header_def new_message_defs types_of_def
        stream_data_subTypes_of_def payload_message_def sizeof_values sample_session_def)
  with claimed_size_is_not_checked [OF sample_liar_frame list_ring_ok sample_facts(18), where env = sample_env
      and g = 23 and sk = 5]
  obtain w1 bs evs where
    "processMessage sample_env 1 (list_ring (payload_message sample_liar [] [] [] @ [])) (sample_world Ready)
      = Inr (word_of_nat (length (payload_message sample_liar [] [] [])), w1)"
    "w_trace w1 = w_trace (sample_world Ready) @ Client (Stream_Data 23 (m_streamReceiver (sample_session Ready)) 1 bs
      (ucast (payloadSize sample_liar))) # evs" "length bs < unat (payloadSize sample_liar)" by blast
  moreover have "m_streamReceiver (sample_session Ready) = 31" by (simp add: sample_session_def)
  ultimately show "\<exists>w1 bs evs n. processMessage sample_env 1 (list_ring (payload_message sample_liar [] [] [] @ []))
        (sample_world Ready) = Inr (n, w1)
      \<and> w_trace w1 = w_trace (sample_world Ready) @ Client (Stream_Data 23 31 1 bs 100) # evs \<and> length bs < 100"
    unfolding size by (intro exI [of _ w1] exI [of _ bs] exI [of _ evs]) simp
qed

text \<open>The builders with payload overflow their buffer exactly if the message does not fit.\<close>

lemma send_Data_Stream_overflow:
  assumes "w_heap w p = Some s" and "unat n \<le> length data"
    and "\<not> fits_buffer sizeof_Data_Stream_Header (unat n)"
  shows "send_Data_Stream env p data n reply w = Inl Buffer_Overflow"
  using assms
  by (simp add: send_Data_Stream_def get_sessionId_live count_live Let_def message_buffer_overflow
      wire_simps sizeof_values)

lemma send_Data_SingleBlock_overflow:
  assumes "w_heap w p = Some s" and "unat n \<le> length data"
    and "\<not> fits_buffer sizeof_Data_SingleBlock_Header (unat n)"
  shows "send_Data_SingleBlock env p mbid data n bid w = Inl Buffer_Overflow"
  using assms
  by (simp add: send_Data_SingleBlock_def get_sessionId_live count_live Let_def message_buffer_overflow
      new_message_defs wire_simps sizeof_values)

lemma send_Data_Multi_Static_overflow:
  assumes "w_heap w p = Some s" and "unat n \<le> length data"
    and "\<not> fits_buffer sizeof_Data_MultiBlock_Header (unat n)"
  shows "send_Data_Multi_Static env p ts mbid parts k data n bid w = Inl Buffer_Overflow"
  using assms
  by (simp add: send_Data_Multi_Static_def get_sessionId_live count_live Let_def message_buffer_overflow
      new_message_defs wire_simps sizeof_values)

lemma default_fits:
  "n \<le> DEFAULT_MAX_SINGLE_MESSAGE_SIZE \<Longrightarrow> hs \<le> 56 \<Longrightarrow> fits_buffer hs n"
  using padding_size_bound [of n]
  by (simp add: fits_buffer_def DEFAULT_MAX_SINGLE_MESSAGE_SIZE_def MESSAGE_CACHE_SIZE_def
      sizeof_CommonMessageFooter_def)

text \<open>
  C20: the builders of stream, single-block and multi-block messages write behind their buffer exactly
  if header, payload, padding and footer are more than MESSAGE_CACHE_SIZE; with the default
  MAX_SINGLE_MESSAGE_SIZE no payload the session accepts is that large.
\<close>

theorem message_buffers_are_large_enough:
  assumes s: "w_heap w p = Some s" "m_socket s = Some sk" and n: "unat n \<le> length data"
  shows "(send_Data_Stream env p data n reply w = Inl Buffer_Overflow
      \<longleftrightarrow> \<not> fits_buffer sizeof_Data_Stream_Header (unat n))
    \<and> (send_Data_SingleBlock env p mbid data n bid w = Inl Buffer_Overflow
      \<longleftrightarrow> \<not> fits_buffer sizeof_Data_SingleBlock_Header (unat n))
    \<and> (send_Data_Multi_Static env p ts mbid parts k data n bid w = Inl Buffer_Overflow
      \<longleftrightarrow> \<not> fits_buffer sizeof_Data_MultiBlock_Header (unat n))
    \<and> (unat n \<le> DEFAULT_MAX_SINGLE_MESSAGE_SIZE \<longrightarrow> fits_buffer sizeof_Data_Stream_Header (unat n)
      \<and> fits_buffer sizeof_Data_SingleBlock_Header (unat n)
      \<and> fits_buffer sizeof_Data_MultiBlock_Header (unat n))"
proof (intro conjI)
  show "send_Data_Stream env p data n reply w = Inl Buffer_Overflow
      \<longleftrightarrow> \<not> fits_buffer sizeof_Data_Stream_Header (unat n)"
    using send_Data_Stream_overflow [OF s(1) n] send_Data_Stream_delivered [OF s n] by fastforce
  show "send_Data_SingleBlock env p mbid data n bid w = Inl Buffer_Overflow
      \<longleftrightarrow> \<not> fits_buffer sizeof_Data_SingleBlock_Header (unat n)"
    using send_Data_SingleBlock_overflow [OF s(1) n] send_Data_SingleBlock_delivered [OF s n] by fastforce
  show "send_Data_Multi_Static env p ts mbid parts k data n bid w = Inl Buffer_Overflow
      \<longleftrightarrow> \<not> fits_buffer sizeof_Data_MultiBlock_Header (unat n)"
    using send_Data_Multi_Static_overflow [OF s(1) n] send_Data_Multi_Static_delivered [OF s n] by fastforce
qed (simp add: default_fits sizeof_values)

theorem message_buffers_are_large_enough_witness:
  "send_Data_Stream sample_env 1 (replicate 10 0) 10 False (sample_world Ready) \<noteq> Inl Buffer_Overflow"
  using message_buffers_are_large_enough [OF sample_facts(18,1), of 10 "replicate 10 0" sample_env False]
  by (simp add: fits_buffer_def padding_size_def sizeof_values MESSAGE_CACHE_SIZE_def)

section \<open>Data before the session exists\<close>

text \<open>
  C34: the callbacks of a session are set when it is registered. A peer that sends data on a new
  connection without an init message makes the server call a function pointer that was never set.
\<close>

theorem data_before_init_calls_unset_pointer:
  assumes sm: "sm_refines (e_sm env) view" "\<not> e_ndebug env"
    and msg: "is_stream sid mid reply payload msg \<and> fits_buffer sizeof_Data_Stream_Header (length payload)
      \<or> is_single sid mid mbid 0 payload msg \<and> fits_buffer sizeof_Data_SingleBlock_Header (length payload)"
  shows "\<exists>v1. processConnection_Callback env tk v = Inr v1
    \<and> processMessage_callback env (w_next v) (list_ring msg) v1 = Inl Uninitialised_Call"
proof -
  from new_Session_disconnected [OF sm, of tk v] obtain m v0 where
    new: "new_Session env tk v = Inr (w_next v, v0)" "w_heap v0 (w_next v) = Some (new_session_fields m tk)"
    by auto
  let ?v1 = "log_event (Start_Thread tk) v0"
  have unset: "m_processStreamData (new_session_fields m tk) = None"
    "m_processRequestData (new_session_fields m tk) = None" by (simp_all add: new_session_fields_def)
  have "processMessage env (w_next v) (list_ring msg) ?v1 = Inl Uninitialised_Call"
    using msg
  proof (elim disjE conjE)
    assume m: "is_stream sid mid reply payload msg" and fit: "fits_buffer sizeof_Data_Stream_Header (length payload)"
    show ?thesis by (rule read_stream_unset [OF _ unset(1) m fit]) (simp add: new(2))
  next
    assume m: "is_single sid mid mbid 0 payload msg"
      and fit: "fits_buffer sizeof_Data_SingleBlock_Header (length payload)"
    show ?thesis by (rule read_single_unset [OF _ unset(2) m fit]) (simp add: new(2))
  qed
  with new(1) show ?thesis
    by (simp add: processConnection_Callback_def processMessage_callback_def)
qed

theorem data_before_init_calls_unset_pointer_witness:
  "\<exists>v1 msg. processConnection_Callback sample_env 9 (sample_world Ready) = Inr v1
    \<and> processMessage_callback sample_env 2 (list_ring msg) v1 = Inl Uninitialised_Call"
proof -
  have sm: "sm_refines (e_sm sample_env) (\<lambda>c. c)" "\<not> e_ndebug sample_env"
    using sample_phase [of Ready] by (simp_all add: sm_phase_def) (simp add: sample_env_def)
  let ?msg = "payload_message (stream_header 7 1 False 0) [] [] []"
  have "is_stream 7 1 False [] ?msg" and "fits_buffer sizeof_Data_Stream_Header (length ([] :: byte list))"
    by (simp_all add: is_stream_def padding_size_def fits_buffer_def sizeof_values MESSAGE_CACHE_SIZE_def)
  with data_before_init_calls_unset_pointer [OF sm, of 7 1 False "[]" ?msg 0 9 "sample_world Ready"]
  show ?thesis by (auto simp: sample_world_def)
qed

section \<open>Messages that are not accepted\<close>

lemma error_sent:
  assumes "w_heap w p = Some s" and "m_socket s = Some sk"
  shows "\<exists>bs r w1. send_ErrorMessage env p (errorCodes_val FALSE_VERSION) [] w = Inr (r, w1)
    \<and> w_trace w1 = w_trace w @ [Net (Send_Message sk bs) r]
    \<and> w_heap w1 = (w_heap w)(p \<mapsto> s\<lparr>m_messageIdCounter := m_messageIdCounter s + 1\<rparr>)"
  using assms
  by (auto simp: send_ErrorMessage_def error_message_size_def strncpy_bytes_def memcpy_start_def send_rules
      delivered_def)

text \<open>
  C35: a message of another protocol version is answered with an error message, but it is not taken
  out of the buffer: when the socket asks again, the same message is answered again. A message whose
  end mark is missing is treated in the same way without assertions; with assertions it aborts the
  program.
\<close>

theorem rejected_message_stays_in_the_buffer:
  assumes s: "w_heap w p = Some s" "m_socket s = Some sk"
    and h: "getObject rb sizeof_CommonMessageHeader = Some obj" "decode_CommonMessageHeader obj = Inr h"
      "protocolIdentifier h = PROTOCOL_IDENTIFIER"
    and bad: "version h \<noteq> 0x1 \<or> version h = 0x1 \<and> getDataPointer rb (unat (totalMessageSize h)) = Some raw
        \<and> check_delimiter h raw = Inr False"
  shows "(if version h = 0x1 \<and> \<not> e_ndebug env then processMessage env p rb w = Inl Assertion_Failed
     else \<exists>w1 w2 bs bs' r r'. processMessage env p rb w = Inr (0, w1)
       \<and> w_trace w1 = w_trace w @ [Net (Send_Message sk bs) r]
       \<and> processMessage env p rb w1 = Inr (0, w2)
       \<and> w_trace w2 = w_trace w1 @ [Net (Send_Message sk bs') r'])"
proof -
  have answer: "processMessage env p rb v = then_do (send_ErrorMessage env p (errorCodes_val FALSE_VERSION) [] v)
      (\<lambda>(sent, w1). if version h \<noteq> 0x1 \<or> e_ndebug env then Inr (0, w1) else Inl Assertion_Failed)" for v
    using h bad by (auto simp: processMessage_def)
  from error_sent [OF s, of env] obtain bs r w1 where
    one: "send_ErrorMessage env p (errorCodes_val FALSE_VERSION) [] w = Inr (r, w1)"
      "w_trace w1 = w_trace w @ [Net (Send_Message sk bs) r]"
      "w_heap w1 = (w_heap w)(p \<mapsto> s\<lparr>m_messageIdCounter := m_messageIdCounter s + 1\<rparr>)" by blast
  have "w_heap w1 p = Some (s\<lparr>m_messageIdCounter := m_messageIdCounter s + 1\<rparr>)"
    and "m_socket (s\<lparr>m_messageIdCounter := m_messageIdCounter s + 1\<rparr>) = Some sk"
    using one(3) s(2) by simp_all
  from error_sent [OF this, of env] obtain bs' r' w2 where
    two: "send_ErrorMessage env p (errorCodes_val FALSE_VERSION) [] w1 = Inr (r', w2)"
      "w_trace w2 = w_trace w1 @ [Net (Send_Message sk bs') r']" by blast
  show ?thesis unfolding answer one(1) using answer [of w1] one(2) two by auto
qed

definition sample_stranger :: CommonMessageHeader where
  "sample_stranger = (stream_header 7 1 False 0)\<lparr>version := 2\<rparr>"

theorem rejected_message_stays_in_the_buffer_witness:
  "\<exists>w1 bs r. processMessage sample_env 1 (list_ring (encode_CommonMessageHeader sample_stranger))
      (sample_world Ready) = Inr (0, w1) \<and> w_trace w1 = [Net (Send_Message 5 bs) r]"
proof -
  let ?rb = "list_ring (encode_CommonMessageHeader sample_stranger)"
  have "getObject ?rb sizeof_CommonMessageHeader = Some (encode_CommonMessageHeader sample_stranger)"
    by (simp add: list_ring_def)
  moreover have "decode_CommonMessageHeader (encode_CommonMessageHeader sample_stranger) = Inr sample_stranger"
    using decode_encode_header_append [of sample_stranger "[]"] by simp
  moreover have "protocolIdentifier sample_stranger = PROTOCOL_IDENTIFIER" "version sample_stranger = 2"
    by (simp_all add: sample_stranger_def stream_header_def new_message_defs new_CommonMessageHeader_def)
  ultimately show ?thesis
    using rejected_message_stays_in_the_buffer [OF sample_facts(18,1), of ?rb _ sample_stranger "[]" sample_env]
    by (simp add: sample_facts del: One_nat_def) blast
qed

text \<open>
  C36: the server makes the identifier of a session with a multiplication of ints. From its 32768th
  session on, the init message of a client makes this multiplication overflow.
\<close>

theorem session_ids_overflow:
  assumes at: "w_heap w p = Some s" and len: "length (ident @ pad) = 64000"
    and many: "0x8000 \<le> unat (m_sessionIdCounter (w_handler w) + 1)"
  shows "processMessage env p (list_ring (encode_Session_Init_Start_Message
      (init_start_msg sid mid ident pad))) w = Inl Signed_Overflow"
proof -
  let ?h = "sis_commonHeader (init_start_msg sid mid ident pad)"
  have "settle ?h w = w" by (intro settle_no_reply) (simp add: reply_flags)
  then show ?thesis
    using many by (simp add: read_frame [OF init_start_frame [OF len]] dispatch_session message_kinds
        process_Session_Type_def process_Session_Init_Start_def init_start_reads [OF len]
        increaseSessionIdCounter_def complete_session_id_def)
qed

definition sample_busy :: "(chart, byte list) world" where
  "sample_busy = (sample_world Disconnected)\<lparr>w_handler := sample_handler\<lparr>m_sessionIdCounter := 0x7FFF\<rparr>\<rparr>"

theorem session_ids_overflow_witness:
  "processMessage sample_env 1 (list_ring (encode_Session_Init_Start_Message
      (init_start_msg 3 1 [] (replicate 64000 0)))) sample_busy = Inl Signed_Overflow"
  by (rule session_ids_overflow [where s = "sample_session Disconnected"])
    (simp_all add: sample_busy_def sample_world_def)

text \<open>
  C37: the end mark of a message nobody has begun is delivered: the application is called with the
  null pointer in place of a buffer.
\<close>

theorem unknown_finish_delivers_null:
  assumes s: "w_heap w p = Some s" and f: "m_processRequestData s = Some f" and pc: "passive_client env"
    and unknown: "std_find mbid (m_incomingBuffer (m_multiblockIo s)) = None"
  shows "\<exists>w1. processMessage env p (list_ring (encode_Data_MultiFinish_Message
        (multi_finish_msg sid mid mbid 0))) w = Inr (word_of_nat sizeof_Data_MultiFinish_Message, w1)
    \<and> w_trace w1 = w_trace w @ [Client (Request_Data f (m_standaloneReceiver s) p mbid None)]"
proof -
  have "incomingData (getIncomingBuffer mbid (m_multiblockIo s)) = None"
    using unknown by (simp add: getIncomingBuffer_def empty_MultiblockBuffer_def)
  moreover have "settle (dmf_commonHeader (multi_finish_msg sid mid mbid 0)) w = w"
    by (intro settle_no_reply) (simp add: multi_finish_msg_def)
  moreover have "length (encode_Data_MultiFinish_Message (multi_finish_msg sid mid mbid 0))
      = sizeof_Data_MultiFinish_Message" by (simp add: encode_message_defs wire_simps sizeof_values)
  ultimately show ?thesis
    using process_finish_request [OF s f pc, of sid mid mbid]
    by (simp add: read_frame [OF finish_frame] frame_taken [OF finish_frame])
qed

theorem unknown_finish_delivers_null_witness:
  "\<exists>w1 k. processMessage sample_env 1 (list_ring (encode_Data_MultiFinish_Message
        (multi_finish_msg 7 1 99 0))) (sample_world Ready) = Inr (k, w1)
    \<and> w_trace w1 = [Client (Request_Data 24 32 1 99 None)]"
  using unknown_finish_delivers_null [OF sample_facts(18,6,2), where ph1 = Ready and mbid = 99 and sid = 7 and mid = 1]
  by (auto simp: sample_facts new_MultiblockIO_def std_find_def simp del: One_nat_def)

end
