(* ===== verification/Controller_Life.thy ===== *)
theory Controller_Life
  imports Opening_Closing
begin

text \<open>
  Servers and failed session starts: what the controller leaves behind on each path.
\<close>

section \<open>Servers\<close>

lemma unlock_lock_servers:
  "\<not> m_serverMap_lock h \<Longrightarrow>
     unlockServerMap (h\<lparr>m_serverMap_lock := True, m_servers := ss\<rparr>) = h\<lparr>m_servers := ss\<rparr>"
  by (cases h) (simp add: unlockServerMap_def)

lemma locked_again: "h\<lparr>m_serverMap_lock := True, m_serverMap_lock := False\<rparr> = h\<lparr>m_serverMap_lock := False\<rparr>"
  by simp

text \<open>
  C24: a server that starts is stored under a new identifier, and closing it under this identifier
  stops it and restores the map; the lock is free again after both.
\<close>

theorem server_round_trip:
  assumes free: "\<not> m_serverMap_lock (w_handler w)" and ok: "std_ordered (m_servers (w_handler w))"
    and new: "std_find (w_serverIdCounter w + 1) (m_servers (w_handler w)) = None"
    and net: "\<forall>tr. e_net env tr (Init_Server sv) \<and> e_net env tr (Close_Server sv)"
  shows "\<exists>w1 w2. add_server env sv w = Inr (w_serverIdCounter w + 1, w1)
    \<and> std_find (w_serverIdCounter w + 1) (m_servers (w_handler w1)) = Some sv
    \<and> closeServer env (w_serverIdCounter w + 1) w1 = Inr (True, w2)
    \<and> w_trace w2 = w_trace w @ [Net (Init_Server sv) True, Start_Server_Thread sv,
        Net (Close_Server sv) True, Schedule_Server_Deletion sv]
    \<and> (\<forall>i. std_find i (m_servers (w_handler w2)) = std_find i (m_servers (w_handler w)))
    \<and> \<not> m_serverMap_lock (w_handler w2)"
proof -
  let ?id = "w_serverIdCounter w + 1" and ?h = "w_handler w"
  let ?h1 = "?h\<lparr>m_servers := std_insert ?id sv (m_servers ?h)\<rparr>"
  let ?w1 = "(log_event (Start_Server_Thread sv) (log_event (Net (Init_Server sv) True) w))
      \<lparr>w_serverIdCounter := ?id, w_handler := ?h1\<rparr>"
  have add: "add_server env sv w = Inr (?id, ?w1)"
    using free net unlock_lock_servers [OF free]
    by (simp add: add_server_def ask_net_def lockServerMap_def Let_def)
  have find: "std_find ?id (m_servers ?h1) = Some sv" using ok new by (simp add: stdmap.find_put)
  let ?h2 = "?h1\<lparr>m_servers := std_erase ?id (m_servers ?h1)\<rparr>"
  have "\<not> m_serverMap_lock ?h1" using free by simp
  from unlock_lock_servers [OF this, of "std_erase ?id (m_servers ?h1)"]
  have close: "closeServer env ?id ?w1 = Inr (True, (log_event (Schedule_Server_Deletion sv)
      (log_event (Net (Close_Server sv) True) ?w1))\<lparr>w_handler := ?h2\<rparr>)"
    using free net find
    by (simp add: closeServer_def ask_net_def lockServerMap_def log_event_def)
  have "std_find i (m_servers ?h2) = std_find i (m_servers ?h)" for i
    using ok new by (simp add: stdmap.find_put stdmap.find_erase stdmap.ok_put)
  with add find close free show ?thesis by simp
qed

text \<open>
  C38: when closing a server fails, closeServer returns with the map of servers still locked: every
  later use of the map, and the destructor of the controller, waits for ever.
\<close>

theorem failed_close_leaves_map_locked:
  assumes free: "\<not> m_serverMap_lock (w_handler w)" and sv: "std_find i (m_servers (w_handler w)) = Some sv"
    and fails: "\<not> e_net env (w_trace w) (Close_Server sv)"
  shows "\<exists>w1. closeServer env i w = Inr (False, w1)
    \<and> (\<forall>j. closeServer env j w1 = Inl Never_Returns)
    \<and> cloesAllServers env w1 = Inl Never_Returns
    \<and> delete_SessionController env w1 = Inl Never_Returns"
proof -
  have "closeServer env i w = Inr (False, log_event (Net (Close_Server sv) False)
      (w\<lparr>w_handler := (w_handler w)\<lparr>m_serverMap_lock := True\<rparr>\<rparr>))"
    using assms by (simp add: closeServer_def lockServerMap_def ask_net_def)
  then show ?thesis
    by (simp add: closeServer_def cloesAllServers_def delete_SessionController_def lockServerMap_def)
qed

text \<open>
  C40: a second controller counts its servers from 0 again, on the map of the first: its first server
  runs and gets the identifier 1, but the map keeps the first server of the first controller under it.
\<close>

theorem second_controller_hides_server:
  assumes free: "\<not> m_serverMap_lock h" and ok: "std_ordered (m_servers h)"
    and old: "std_find 1 (m_servers h) = Some sv0" and net: "\<forall>tr. e_net env tr (Init_Server sv)"
  shows "\<exists>w1 w2. new_SessionController env (Some h) f g e w = Inr w1 \<and> add_server env sv w1 = Inr (1, w2)
    \<and> std_find 1 (m_servers (w_handler w2)) = Some sv0
    \<and> w_trace w2 = w_trace w @ [Net (Init_Server sv) True, Start_Server_Thread sv]"
  using assms unlock_lock_servers [OF free]
  by (simp add: new_SessionController_def add_server_def ask_net_def lockServerMap_def Let_def stdmap.find_put)

section \<open>Sessions that do not come about\<close>

lemma closeSession_not_ready:
  assumes "session_at env view p s ph w" and "ph \<noteq> Ready"
  shows "closeSession env p reply w = Inr (False, w)"
  using isInState_phase [OF session_atD [OF assms(1)], of SESSION_READY] assms(2)
  by (simp add: closeSession_def)

lemma discard_session_not_ready:
  assumes at: "session_at env view p s ph w" and ph: "ph \<noteq> Ready" and sk: "m_socket s = Some sk"
    and free: "\<not> m_sessionMap_lock (w_handler w)"
  shows "\<exists>w1. discard_session env p w = Inr w1 \<and> w_heap w1 = (w_heap w)(p := None)
    \<and> w_trace w1 = w_trace w @ [Schedule_Deletion sk] \<and> w_reply w1 = w_reply w
    \<and> m_sessions (w_handler w1) = std_erase (m_sessionId s) (m_sessions (w_handler w))"
proof -
  note s = session_atD [OF at]
  let ?s = "s\<lparr>m_initState := -1\<rparr>"
  let ?w1 = "set_session p ?s (handler_without (m_sessionId s) w)"
  have "session_at env view p ?s ph ?w1" using s by (simp add: session_at_def)
  note closed = closeSession_not_ready [OF this ph]
  have "delete_Session env p w = then_do (closeSession env p False ?w1) (\<lambda>(closed, w2).
      then_do (get_session p w2) (\<lambda>s2.
       let w3 = (case m_socket s2 of
                   None \<Rightarrow> w2
                 | Some sk \<Rightarrow> log_event (Schedule_Deletion sk) (set_session p (s2\<lparr>m_socket := None\<rparr>) w2)) in
       Inr (w3\<lparr>w_heap := (w_heap w3)(p := None)\<rparr>)))"
    using s free by (simp add: delete_Session_def change_session_live removeSession_free
        handler_without_def world_norm)
  with closed closeSession_not_ready [OF at ph] sk show ?thesis
    by (simp add: discard_session_def Let_def)
qed

text \<open>
  C25: a session whose socket does not connect does not come about: startSession fails, the session is
  deleted, its socket is handed over for deletion, and no other session is touched.
\<close>

theorem refused_session_is_deleted:
  assumes sm: "sm_refines (e_sm env) view" "\<not> e_ndebug env" and free: "\<not> m_sessionMap_lock (w_handler w)"
    and len: "length ident \<le> 64000" and fails: "\<not> e_net env (w_trace w) (Init_Connection sk)"
    and fresh: "w_heap w (w_next w) = None"
  shows "\<exists>w1. startSession env sk ident w = Inr (Start_Failed, w1)
    \<and> w_heap w1 = w_heap w \<and> w_reply w1 = w_reply w
    \<and> w_trace w1 = w_trace w @ [Net (Init_Connection sk) False, Schedule_Deletion sk]
    \<and> m_sessions (w_handler w1) = std_erase 0 (m_sessions (w_handler w))"
proof -
  let ?p = "w_next w" and ?cid = "client_id (w_handler w)" and ?h = "counted_handler (w_handler w)"
  from new_Session_disconnected [OF sm, of sk w] obtain m0 w0 where
    new: "new_Session env sk w = Inr (?p, w0)"
    and at0: "session_at env view ?p (new_session_fields m0 sk) Disconnected w0"
    and w0: "w_trace w0 = w_trace w" "w_handler w0 = w_handler w" "w_reply w0 = w_reply w"
      "w_heap w0 = (w_heap w)(?p \<mapsto> new_session_fields m0 sk)" by blast
  let ?s0 = "new_session_fields m0 sk" and ?w0 = "w0\<lparr>w_handler := ?h\<rparr>"
  have "session_at env view ?p ?s0 Disconnected ?w0" using at0 by (simp add: session_at_def)
  from connectiSession_outcome [OF this, of sk ?cid] fails w0(1)
  have con: "connectiSession env ?p ?cid ?w0 = Inr (False, set_session ?p (?s0\<lparr>m_initState := -1\<rparr>)
      (log_event (Net (Init_Connection sk) False) ?w0))" by auto
  let ?w1 = "set_session ?p (?s0\<lparr>m_initState := -1\<rparr>) (log_event (Net (Init_Connection sk) False) ?w0)"
  have "session_at env view ?p (?s0\<lparr>m_initState := -1\<rparr>) Disconnected ?w1"
    using at0 by (simp add: session_at_def)
  from discard_session_not_ready [OF this, of sk] free obtain w2 where
    "discard_session env ?p ?w1 = Inr w2" "w_heap w2 = (w_heap ?w1)(?p := None)"
    "w_trace w2 = w_trace ?w1 @ [Schedule_Deletion sk]" "w_reply w2 = w_reply ?w1"
    "m_sessions (w_handler w2) = std_erase 0 (m_sessions (w_handler ?w1))"
    by (auto simp: new_session_fields_def)
  with new con len w0 fresh show ?thesis
    by (simp add: startSession_def increaseSessionIdCounter_def counted_handler_def [symmetric]
        client_id_def [symmetric] fun_upd_idem)
qed

text \<open>
  C39: a session that failed during the handshake is deleted by startSession, but the init message it
  sent stays in the list of pending messages and still points to it: the timer step in which this
  message expires uses the deleted session.
\<close>

theorem failed_start_leaves_dangling_entry:
  assumes at: "session_at env view p s Not_Ready w" and sk: "m_socket s = Some sk"
    and failed: "m_initState s = -1" and free: "\<not> m_sessionMap_lock (w_handler w)"
    and entry: "w_reply w = [e]" "message_session e = p" "\<not> ignoreResult e" "1 \<le> timer e"
  shows "\<exists>w1. startSession_resume env p w = Inr (None, w1) \<and> w_heap w1 p = None
    \<and> makeTimerStep env w1 = Inl Use_After_Free"
proof -
  from discard_session_not_ready [OF at _ sk free] obtain w1 where
    w1: "discard_session env p w = Inr w1" "w_heap w1 = (w_heap w)(p := None)" "w_reply w1 = [e]"
    using entry(1) by auto
  have "startSession_resume env p w = Inr (None, w1)"
    using session_atD(1) [OF at] failed w1(1) by (simp add: startSession_resume_def)
  moreover have "makeTimerStep env w1 = Inl Use_After_Free"
    using w1(2,3) entry(2-4)
    by (simp add: makeTimerStep_def timer_step_def m_timeoutValue_def removal_memory_def Let_def
        get_session_def)
  ultimately show ?thesis using w1(2) by simp
qed

section \<open>Witnesses\<close>

definition sample_server_world :: "(chart, byte list) world" where
  "sample_server_world = (sample_world Ready)\<lparr>w_handler := sample_handler\<lparr>m_servers := [(4, 8)]\<rparr>\<rparr>"

definition refusing_env :: "(chart, byte list) env" where
  "refusing_env = sample_env\<lparr>e_net := (\<lambda>tr c. False)\<rparr>"

lemma sample_sm: "sm_refines (e_sm sample_env) (\<lambda>c. c)" "\<not> e_ndebug sample_env"
  using sample_phase [of Ready] by (simp_all add: sm_phase_def) (simp add: sample_env_def)

theorem server_round_trip_witness:
  "\<exists>w1 w2. add_server sample_env 3 (sample_world Ready) = Inr (1, w1)
    \<and> closeServer sample_env 1 w1 = Inr (True, w2)"
  using server_round_trip [of "sample_world Ready" sample_env 3]
  by (auto simp: sample_defs std_ordered_def std_find_def)

theorem failed_close_leaves_map_locked_witness:
  "\<exists>w1. closeServer refusing_env 4 sample_server_world = Inr (False, w1)
    \<and> delete_SessionController refusing_env w1 = Inl Never_Returns"
  using failed_close_leaves_map_locked [of sample_server_world 4 8 refusing_env]
  by (auto simp: sample_server_world_def refusing_env_def sample_handler_def std_find_def)

theorem refused_session_is_deleted_witness:
  "\<exists>w1. startSession refusing_env 9 [65] (sample_world Ready) = Inr (Start_Failed, w1)
    \<and> w_heap w1 = w_heap (sample_world Ready)"
  using refused_session_is_deleted [of refusing_env "\<lambda>c. c" "sample_world Ready" "[65]" 9] sample_sm
    sample_facts(14)
  by (auto simp: refusing_env_def sample_world_def)

theorem failed_start_leaves_dangling_entry_witness:
  "\<exists>w w1. startSession_resume sample_env 1 w = Inr (None, w1)
    \<and> makeTimerStep sample_env w1 = Inl Use_After_Free"
proof -
  let ?s = "(sample_session Not_Ready)\<lparr>m_initState := -1\<rparr>"
  let ?w = "(set_session 1 ?s (sample_world Not_Ready))\<lparr>w_reply := [sample_entry 0 1]\<rparr>"
  have "session_at sample_env (\<lambda>c. c) 1 ?s Not_Ready ?w"
    using session_atD(2) [OF sample_at [of Not_Ready]] by (simp add: session_at_def)
  from failed_start_leaves_dangling_entry [OF this, of 5 "sample_entry 0 1"] sample_facts(1,14)
  show ?thesis by (auto simp: sample_entry_def)
qed

theorem second_controller_hides_server_witness:
  "\<exists>w1 w2. new_SessionController sample_env (Some (sample_handler\<lparr>m_servers := [(1, 3)]\<rparr>)) 21 22 25
      (sample_world Ready) = Inr w1 \<and> add_server sample_env 4 w1 = Inr (1, w2)
    \<and> std_find 1 (m_servers (w_handler w2)) = Some 3"
proof -
  have "\<not> m_serverMap_lock (sample_handler\<lparr>m_servers := [(1, 3)]\<rparr>)"
    "std_ordered (m_servers (sample_handler\<lparr>m_servers := [(1, 3)]\<rparr>))"
    "std_find 1 (m_servers (sample_handler\<lparr>m_servers := [(1, 3)]\<rparr>)) = Some 3"
    "\<forall>tr. e_net sample_env tr (Init_Server 4)"
    by (simp_all add: sample_handler_def sample_env_def std_ordered_Cons)
  from second_controller_hides_server [OF this] show ?thesis by blast
qed

end
