(* ===== verification/Spec2Isabelle.thy ===== *)
theory Spec2Isabelle
  imports Callback_Calls Ordered_Delivery Reply_Timer Life_Cycle Robustness Controller_Life
begin

text \<open>
  libKitsunemimiSakuraNetwork is a session layer on top of sockets. Two processes connect, agree on a
  session id with an init message and its reply, exchange stream data, one-way messages and requests
  that block the calling thread until the response arrives, send heartbeats, and close the session.
  Messages that ask for a reply are kept in a list with a timer; payloads larger than one block are
  cut into parts and collected on the other side.

  \<^bold>\<open>How the program is modelled.\<close> All state is the record \<open>world\<close> (theory Session_State): the sessions
  in a heap (\<open>Session*\<close> is an address), the reply handler's list, the blocker handler with a heap of its
  own, the session handler with its maps and spin locks, the position in the sequence of \<open>rand()\<close>, and
  the trace of all calls that leave the library. An operation is a function of the world into
  \<open>fault + result\<close>: \<open>Inl\<close> says which undefined or fatal behaviour of C++ the code runs into (use after
  free, read or write out of bounds, a call through an uninitialised pointer, a failed assertion,
  signed overflow, division by zero, a null pointer, a spin or wait that never ends), \<open>Inr\<close> is a
  return with the new world. Machine integers are words of their width. Where a thread blocks, an
  operation is split into the steps between which other threads run (\<open>sendRequest\<close> with \<open>blockMessage_wait\<close> and
  \<open>blockMessage_resume\<close>; \<open>startSession\<close> with \<open>startSession_resume\<close>; in Reply_Timer the timer, which gives
  up its lock). Between these steps other threads may run; inside one step they do not, so the sends of
  several threads over one session come one after the other.

  \<^bold>\<open>Parameters.\<close> Code that is not in the repository is the record \<open>env\<close>: the class Statemachine
  (hypothesis \<open>sm_refines\<close>: it acts like a hierarchical state chart; \<open>chart_api\<close> is an instance), the
  data buffer (\<open>databuffer_ok\<close>; instance \<open>list_databuffer\<close>), sockets and servers (each call has an
  arbitrary answer \<open>e_net\<close> that may depend on the whole trace), the ring buffer (\<open>ring_ok\<close>; instance
  \<open>list_ring\<close>), \<open>rand()\<close>, uninitialised memory, and the application: a callback may change the world in
  any way. \<open>passive_client\<close> and \<open>quiet_client\<close> say that callbacks change nothing, or only cause
  traffic; theorems that need one of them state it. \<open>e_max\<close> is MAX_SINGLE_MESSAGE_SIZE, which a build may
  set, \<open>e_ndebug\<close> says whether assertions are compiled out. Sample_Instance gives the concrete instance
  on which the witnesses are evaluated.

  The bytes behind a data pointer are the bytes of the message: a copy that the library makes from behind
  the end of a message is a fault, a pointer that is only handed to the application is not.

  \<^bold>\<open>Theories that model code.\<close>
  \<^item> Prelude, Containers: faults and their sequencing, little-endian reads and writes, std::map as an
    ordered association list (locale \<open>dictionary\<close>), the swap-with-last removal of the vectors.
  \<^item> Message_Definitions: src/src/message_definitions.h, every enum, every packed struct with its
    constructor and its memory image. Framing: the locale \<open>wire_message\<close>, interpreted for every message
    of fixed size, and the rules for the messages with payload: each is a \<open>frame\<close>.
  \<^item> Statemachine: the state machine and \<open>initStatemachine\<close> of src/src/session.cpp. Session_State: the
    objects of the headers in src/include and src/src.
  \<^item> Reply_Handler, Message_Blocker_Handler, Session_Handler: the files of src/src/handler, each with its
    contract (locales \<open>pending_messages\<close> and \<open>dictionary\<close>) or its reachable states.
  \<^item> Session_Core, Session: src/src/session.cpp. Send_Messages, Process_Messages: the sending and the
    receiving functions of src/src/messages_processing. Multiblock_IO: src/src/multiblock_io.cpp with the
    locales \<open>reassembly\<close> and \<open>databuffer\<close>.
  \<^item> Callbacks: src/src/callbacks.h. Threads: the loops of the two handler threads. Session_Controller:
    src/src/session_controller.cpp.

  \<^bold>\<open>Theories of properties.\<close>
  \<^item> Session_Life: what each operation of a session does in each phase; sending is \<open>calm\<close>.
  \<^item> Receiving, Handshake, Data_Exchange, Long_Messages, Opening_Closing: what processMessage does with
    each frame the builders send, message by message. This theory composes them: every message that is
    sent is read by the other side, and its answer is read by the sender.
  \<^item> Segments: it does not matter how the bytes of a connection are cut into reads. Transfers: data of
    any length as frames, and what becomes of them on the other side.
  \<^item> Ordered_Delivery: a session as a channel; the specification is the list of what the application
    sends (\<open>item\<close>, \<open>send_items\<close>), and what the other application is told is exactly that list
    (\<open>tells\<close>). Remote_Calls: a session as a remote procedure call; the specification is the local
    call of the function with which the other application answers. Both compose all operations that
    take part, in both processes, with a network that keeps the order of the bytes.
  \<^item> Request_Table: the list of blocked requests is a table from identifiers to waiting threads (locale
    \<open>waiting_requests\<close>, with responses and returns in any order). Concurrent_Calls: several threads wait
    at once and the server answers in any order; \<open>serves\<close> is the contract between the two sides.
    Callback_Calls: the server answers inside its callback. In all of these, and in the round trip of one
    request below, a thread waits before its response arrives, and what a request returns is the value that
    blockMessage has computed before \<open>blockMessage_unlock\<close> touches the mutex of the deleted entry. The other order
    and that use after free are properties of Message_Blocker_Handler, as is the invariant of the list of
    blocked requests under all its operations, the timer included.
  \<^item> Reply_Timer: the timer of the reply handler in the steps between which it does not hold its
    lock; without interruption they are the atomic step of Reply_Handler.
  \<^item> Traffic and Life_Cycle: step relations for all data traffic and for the whole life of a process,
    with any incoming bytes, and the invariants of their reachable worlds.
  \<^item> Robustness, Controller_Life: messages and failures the protocol does not expect, with the faults
    the code runs into.

  \<^bold>\<open>Loops, bounds and fuel.\<close> The timer loop of the blocker handler goes through a list that only
  becomes shorter; its position grows in every round, so \<open>blocker_timer_loop\<close> gets one round more than
  the list is long. \<open>getRandId\<close> draws pairs of random numbers until one is not zero: a partial function,
  proved to return exactly if there is such a pair. \<open>outgoing_loop\<close> ends because the rest shrinks; with
  block size 0 it would never end, but there the number of parts is a division by zero already.
  \<open>socket_reads\<close>, the use a socket makes of processMessage, gets as fuel at least the number of
  buffered messages; every message taken is at least 40 bytes long.

  \<^bold>\<open>Not modelled.\<close> Logging and the texts of error containers (no result depends on them; only what
  \<open>createHeaderError\<close> prints is); thread creation inside the classes Thread, AbstractSocket and
  AbstractServer, which are not in the repository; interleavings inside an operation that holds a spin
  lock, which the lock excludes; waiting times (\<open>usleep\<close>); the heap of the data buffers, which are values, so
  that \<open>delete_MultiblockIO\<close> lists what it deletes and \<open>delete_Session\<close> drops it with the session; the float
  of a timer is the number of ticks. Tests and build files have no behaviour of the library.
\<close>

section \<open>Both sides of a connection\<close>

text \<open>
  C13: stream data that fit into one message reach the application on the other side unchanged, with
  their size, and exactly once; the reply the other side sends takes the message off the sender's list of pending
  messages, and nothing else happens.
\<close>

theorem stream_data_round_trip:
  fixes n :: u64
  assumes at: "session_at env view p s Ready w" and sk: "m_socket s = Some sk"
    and n: "unat n \<le> e_max env" "unat n \<le> length data" "fits_buffer sizeof_Data_Stream_Header (unat n)"
    and t: "w_heap v q = Some t" "m_socket t = Some tk" "m_processStreamData t = Some f"
    and pc: "passive_client env'" and same: "m_sessionId t = m_sessionId s"
  shows "\<exists>msg answer r r' w1 v1. sendStreamData env p data n True w = Inr (r, w1)
    \<and> w_trace w1 = w_trace w @ [Net (Send_Message sk msg) r]
    \<and> processMessage env' q (list_ring (msg @ rest)) v = Inr (word_of_nat (length msg), v1)
    \<and> w_trace v1 = w_trace v @ [Client (Stream_Data f (m_streamReceiver t) q (take (unat n) data) n),
        Net (Send_Message tk answer) r']
    \<and> (\<exists>k w2. processMessage env p (list_ring (answer @ rest')) w1 = Inr (k, w2)
        \<and> pending_ids (w_reply w2) = pending_ids (w_reply w)
        \<and> w_trace w2 = w_trace w1 \<and> w_heap w2 = w_heap w1)"
proof -
  let ?mid = "m_messageIdCounter s + 1" and ?payload = "take (unat n) data"
  from stream_sent_one [OF at sk n] obtain msg where
    msg: "is_stream (m_sessionId s) ?mid True ?payload msg"
    and sent: "sendStreamData env p data n True w
      = Inr (e_net env (w_trace w) (Send_Message sk msg), sent_one env p sk STREAM_DATA_TYPE s msg w)"
    by blast
  from read_stream [OF t pc msg fits_take [OF n(2,3)] list_ring_ok, of rest] same
  obtain v1 r' where v1: "processMessage env' q (list_ring (msg @ rest)) v = Inr (word_of_nat (length msg), v1)"
    "w_trace v1 = w_trace v @ [Client (Stream_Data f (m_streamReceiver t) q ?payload n),
      Net (Send_Message tk (encode_Data_StreamReply_Message (stream_reply_msg (m_sessionId s) ?mid))) r']"
    using n(2) by (auto simp: min_absorb2)
  from data_reply_read(1) [OF sent_one_sel(2) list_ring_ok, where q = p and rest = rest']
  obtain w2 k where "processMessage env p (list_ring (encode_Data_StreamReply_Message
        (stream_reply_msg (m_sessionId s) ?mid) @ rest')) (sent_one env p sk STREAM_DATA_TYPE s msg w)
      = Inr (k, w2)" "pending_ids (w_reply w2) = pending_ids (w_reply w)"
    "w_trace w2 = w_trace (sent_one env p sk STREAM_DATA_TYPE s msg w)"
    "w_heap w2 = w_heap (sent_one env p sk STREAM_DATA_TYPE s msg w)" by blast
  with sent v1 show ?thesis
    by (intro exI [of _ msg] exI [of _ "encode_Data_StreamReply_Message (stream_reply_msg (m_sessionId s) ?mid)"])
      auto
qed

text \<open>
  A message that fits into one block reaches the application on the other side as one request
  with the identifier the sender drew and a buffer that holds exactly the data; the reply takes the
  message off the sender's list of pending messages.
\<close>

lemma normal_message_round_trip:
  fixes n :: u64
  assumes at: "session_at env view p s Ready w" and sk: "m_socket s = Some sk"
    and n: "unat n \<le> e_max env" "unat n \<le> length data"
      "fits_buffer sizeof_Data_SingleBlock_Header (unat n)"
    and rand: "getRandId env w = Inr (mbid, w0)"
    and t: "w_heap v q = Some t" "m_socket t = Some tk" "m_processRequestData t = Some f"
    and pc: "passive_client env'" and db: "databuffer_ok (e_db env') content"
    and same: "m_sessionId t = m_sessionId s"
  shows "\<exists>msg answer buf r r' w1 v1. sendNormalMessage env p data n w = Inr (r, w1)
    \<and> w_trace w1 = w_trace w @ [Net (Send_Message sk msg) r]
    \<and> processMessage env' q (list_ring (msg @ rest)) v = Inr (word_of_nat (length msg), v1)
    \<and> w_trace v1 = w_trace v @ [Client (Request_Data f (m_standaloneReceiver t) q mbid (Some buf)),
        Net (Send_Message tk answer) r']
    \<and> content buf = take (unat n) data
    \<and> (\<exists>k w2. processMessage env p (list_ring (answer @ rest')) w1 = Inr (k, w2)
        \<and> pending_ids (w_reply w2) = pending_ids (w_reply w) \<and> w_trace w2 = w_trace w1)"
proof -
  let ?mid = "m_messageIdCounter s + 1" and ?payload = "take (unat n) data"
  let ?answer = "encode_Data_SingleBlockReply_Message (single_reply_msg (m_sessionId s) ?mid)"
  note w0 = after_getRandId [OF rand]
  from sendNormalMessage_sends [OF at sk n rand] obtain msg where
    msg: "is_single (m_sessionId s) ?mid mbid 0 ?payload msg"
    and sent: "sendNormalMessage env p data n w = Inr (e_net env (w_trace w) (Send_Message sk msg),
        sent_one env p sk SINGLEBLOCK_DATA_TYPE s msg w0)" by blast
  from read_single_request [OF t pc msg fits_take [OF n(2,3)] list_ring_ok, of rest] same
  obtain v1 r' where v1: "processMessage env' q (list_ring (msg @ rest)) v = Inr (word_of_nat (length msg), v1)"
    "w_trace v1 = w_trace v @ [Client (Request_Data f (m_standaloneReceiver t) q mbid
        (Some (filled_buffer env' ?payload))), Net (Send_Message tk ?answer) r']" by auto
  from data_reply_read(2) [OF sent_one_sel(2) list_ring_ok, where q = p and rest = rest']
  obtain w2 k where "processMessage env p (list_ring (?answer @ rest'))
      (sent_one env p sk SINGLEBLOCK_DATA_TYPE s msg w0) = Inr (k, w2)"
    "pending_ids (w_reply w2) = pending_ids (w_reply w0)"
    "w_trace w2 = w_trace (sent_one env p sk SINGLEBLOCK_DATA_TYPE s msg w0)" by blast
  with sent v1 w0 filled_buffer_content [OF db] show ?thesis
    by (intro exI [of _ msg] exI [of _ ?answer] exI [of _ "filled_buffer env' ?payload"]) auto
qed

text \<open>
  C5: a request of one block reaches the application on the other side with the identifier of the
  request. When the application answers with a response of one block under this identifier, and the
  requesting thread is waiting, it is woken and returns a buffer that holds exactly the response; no
  other waiting request is touched.
\<close>

theorem request_response_round_trip:
  fixes n n' :: u64
  assumes at: "session_at env view p s Ready w" and sk: "m_socket s = Some sk"
    and n: "unat n \<le> e_max env" "unat n \<le> length data"
      "fits_buffer sizeof_Data_SingleBlock_Header (unat n)"
    and rand: "getRandId env w = Inr (bid, w0)" and net: "\<forall>tr m. e_net env tr (Send_Message sk m)"
    and blockers: "blockers_ok (w_blocker w)" "bid \<notin> id_at (w_blocker w) ` set (blocker_list (w_blocker w))"
    and db: "databuffer_ok (e_db env) content"
    and at': "session_at env' view' q t Ready v" and tk: "m_socket t = Some tk"
    and f: "m_processRequestData t = Some f" and pc: "passive_client env'"
    and db': "databuffer_ok (e_db env') content'"
    and n': "unat n' < e_max env'" "unat n' \<le> length data'"
      "fits_buffer sizeof_Data_SingleBlock_Header (unat n')"
    and rand': "getRandId env' v = Inr (rid, v0)"
  shows "\<exists>msg e r w1 buf r' v1. sendRequest env p data n timeout w = Inr (Some (bid, e), w1)
    \<and> w_trace w1 = w_trace w @ [Net (Send_Message sk msg) r]
    \<and> processMessage env' q (list_ring (msg @ rest)) v = Inr (word_of_nat (length msg), v1)
    \<and> Client (Request_Data f (m_standaloneReceiver t) q bid (Some buf)) \<in> set (w_trace v1)
    \<and> content' buf = take (unat n) data
    \<and> (\<exists>v2 msg' r'' b k w2 buf' b2. sendResponse env' q data' n' bid v1 = Inr (rid, v2)
        \<and> w_trace v2 = w_trace v1 @ [Net (Send_Message tk msg') r'']
        \<and> blockMessage_wait e (w_blocker w1) = Inr b
        \<and> processMessage env p (list_ring (msg' @ rest')) (w1\<lparr>w_blocker := b\<rparr>) = Inr (k, w2)
        \<and> map_option blocker_cv (blocker_heap (w_blocker w2) e) = Some Notified
        \<and> blockMessage_resume bid (w_blocker w2) = Inr (Some buf', b2)
        \<and> content buf' = take (unat n') data'
        \<and> blocker_list b2 = blocker_list (w_blocker w) \<and> blocker_heap b2 = blocker_heap (w_blocker w))"
proof -
  let ?mid = "m_messageIdCounter s + 1" and ?mid' = "m_messageIdCounter t + 1"
  let ?data = "take (unat n) data" and ?data' = "take (unat n') data'"
  let ?enter = "blockMessage_enter bid timeout p (w_blocker w)"
  note w0 = after_getRandId [OF rand]
  have bid: "bid \<noteq> 0" using getRandId_Some(1) [OF rand] .
  from sendRequest_sends [OF at sk n rand net [rule_format], of timeout] obtain msg where
    msg: "is_single (m_sessionId s) ?mid bid 0 ?data msg"
    and sent: "sendRequest env p data n timeout w = Inr (Some (bid, fst ?enter),
      (sent_one env p sk SINGLEBLOCK_DATA_TYPE s msg w0)\<lparr>w_blocker := snd ?enter\<rparr>)" by blast
  note t = session_atD(1) [OF at'] tk f
  from read_single_request [OF t pc msg fits_take [OF n(2,3)] list_ring_ok, of rest] obtain v1 r' where
    v1: "processMessage env' q (list_ring (msg @ rest)) v = Inr (word_of_nat (length msg), v1)"
      "w_trace v1 = w_trace v @ [Client (Request_Data f (m_standaloneReceiver t) q bid
        (Some (filled_buffer env' ?data))), Net (Send_Message tk
        (encode_Data_SingleBlockReply_Message (single_reply_msg (m_sessionId t) ?mid))) r']"
      "w_heap v1 = w_heap v" "w_rand v1 = w_rand v" by blast
  from getRandId_same [OF rand' v1(4)] obtain v0' where rand1: "getRandId env' v1 = Inr (rid, v0')" by blast
  have "session_at env' view' q t Ready v1" using at' v1(3) by (simp add: session_at_def)
  from sendResponse_sends [OF this tk n' rand1] obtain msg' where
    msg': "is_single (m_sessionId t) ?mid' rid bid ?data' msg'"
    and resp: "sendResponse env' q data' n' bid v1
      = Inr (rid, sent_one env' q tk SINGLEBLOCK_DATA_TYPE t msg' v0')" by blast
  from waiting_request_released [OF blockers, of timeout p "Some (filled_buffer env ?data')"]
  obtain b b1 b2 where b: "blockMessage_wait (fst ?enter) (snd ?enter) = Inr b"
      "releaseMessage bid (Some (filled_buffer env ?data')) b = Inr (True, b1)"
      "map_option blocker_cv (blocker_heap b1 (fst ?enter)) = Some Notified"
      "blockMessage_resume bid b1 = Inr (Some (filled_buffer env ?data'), b2)"
      "blocker_list b2 = blocker_list (w_blocker w)" "blocker_heap b2 = blocker_heap (w_blocker w)" by blast
  obtain w1 where w1: "sendRequest env p data n timeout w = Inr (Some (bid, fst ?enter), w1)"
      "w_trace w1 = w_trace w @ [Net (Send_Message sk msg) (e_net env (w_trace w) (Send_Message sk msg))]"
      "w_blocker w1 = snd ?enter" "w_heap w1 p = Some (s\<lparr>m_messageIdCounter := ?mid\<rparr>)"
    using sent w0(2) by simp
  have "w_heap (w1\<lparr>w_blocker := b\<rparr>) p = Some (s\<lparr>m_messageIdCounter := ?mid\<rparr>)"
    and "m_socket (s\<lparr>m_messageIdCounter := ?mid\<rparr>) = Some sk"
    and "releaseMessage bid (Some (filled_buffer env ?data')) (w_blocker (w1\<lparr>w_blocker := b\<rparr>))
      = Inr (True, b1)"
    using w1(4) sk b(2) by simp_all
  from read_single_response [OF this(1,2) bid msg' fits_take [OF n'(2,3)] list_ring_ok this(3), of rest']
  obtain w2 where w2: "processMessage env p (list_ring (msg' @ rest')) (w1\<lparr>w_blocker := b\<rparr>)
      = Inr (word_of_nat (length msg'), w2)" "w_blocker w2 = b1" by blast
  obtain v2 r'' where v2: "sendResponse env' q data' n' bid v1 = Inr (rid, v2)"
      "w_trace v2 = w_trace v1 @ [Net (Send_Message tk msg') r'']"
    using resp after_getRandId(2) [OF rand1] by simp
  have "Client (Request_Data f (m_standaloneReceiver t) q bid (Some (filled_buffer env' ?data)))
      \<in> set (w_trace v1)" using v1(2) by simp
  with w1 w2 v1(1) v2 b filled_buffer_content [OF db] filled_buffer_content [OF db'] show ?thesis
    by metis
qed

text \<open>
  A message that is longer than one block is cut into parts and an end mark; read in this order
  on the other side, it reaches the application there as one request with a buffer that holds
  exactly the data, and no other message that is being received is touched.
\<close>

lemma long_message_arrives:
  assumes at: "session_at env view p s Ready w" and sk: "m_socket s = Some sk"
    and net: "\<forall>tr m. e_net env tr (Send_Message sk m)" and run: "\<not> m_abort (m_multiblockIo s)"
    and max: "0 < e_max env" "fits_buffer sizeof_Data_MultiBlock_Header (e_max env)"
    and n: "unat n = length data" "e_max env < length data" "length data < 2 ^ 32"
    and rand: "getRandId env w = Inr (mbid, w0)"
    and t: "w_heap v q = Some t" "m_processRequestData t = Some f" "io_ok (m_multiblockIo t)"
    and pc: "passive_client env'" and db: "databuffer_ok (e_db env') content"
    and new: "io_bytes content mbid (m_multiblockIo t) = None"
  shows "\<exists>ms w1 v1 t1 buf. sendNormalMessage env p data n w = Inr (True, w1)
    \<and> w_trace w1 = w_trace w @ sent_events sk ms
    \<and> length ms = (length data + e_max env - 1) div e_max env + 1
    \<and> socket_reads (length ms) env' q (concat ms) v = Inr ([], v1)
    \<and> w_trace v1 = w_trace v @ [Client (Request_Data f (m_standaloneReceiver t) q mbid (Some buf))]
    \<and> content buf = data \<and> w_heap v1 q = Some t1
    \<and> (\<forall>i. io_bytes content i (m_multiblockIo t1) = io_bytes content i (m_multiblockIo t))"
proof -
  note s = session_atD [OF at]
  from sendOutgoingData_sends [OF net [rule_format] max n(1,3) s(1) sk run rand, of 0] obtain ms where
    sent: "sendOutgoingData env p data n 0 w = Inr (mbid, advanced p s (word_of_nat (length ms) + 1)
      (sent_events sk (ms @ [encode_Data_MultiFinish_Message (multi_finish_msg (m_sessionId s)
        (m_messageIdCounter s + word_of_nat (length ms) + 1) mbid 0)])) w0)"
    and parts: "are_parts (m_sessionId s) n mbid (part_count env n) (m_messageIdCounter s) 0
      (chunks (e_max env) data) ms" by blast
  let ?ms = "ms @ [encode_Data_MultiFinish_Message (multi_finish_msg (m_sessionId s)
        (m_messageIdCounter s + word_of_nat (length ms) + 1) mbid 0)]"
  have "mbid \<noteq> 0" using getRandId_Some(1) [OF rand] .
  then obtain w1 where w1: "sendNormalMessage env p data n w = Inr (True, w1)"
      "w_trace w1 = w_trace w @ sent_events sk ?ms"
    using n(1,2) sent after_getRandId(2) [OF rand]
    by (simp add: sendNormalMessage_def session_at_ready [OF at])
  have "data \<noteq> []" using n(2) by auto
  from read_long_request [OF db t(1,3,2) pc parts max this n(3) new] obtain v1 t1 buf where
    "socket_reads (length ms + 1) env' q (concat ?ms) v = Inr ([], v1)"
    "w_trace v1 = w_trace v @ [Client (Request_Data f (m_standaloneReceiver t) q mbid (Some buf))]"
    "content buf = data" "w_heap v1 q = Some t1"
    "\<forall>i. io_bytes content i (m_multiblockIo t1) = io_bytes content i (m_multiblockIo t)" by blast
  moreover have "length ?ms = (length data + e_max env - 1) div e_max env + 1"
    using length_are_parts [OF parts] length_chunks [OF max(1), of data] by simp
  moreover have "length ms + 1 = length ?ms" by simp
  ultimately show ?thesis using w1 by metis
qed

text \<open>
  A response that does not fit below one block arrives in parts as well; at its end mark the
  waiting request is woken, and it returns a buffer that holds exactly the response.
\<close>

lemma long_response_wakes_the_request:
  assumes at: "session_at env view p s Ready v" and sk: "m_socket s = Some sk"
    and net: "\<forall>tr m. e_net env tr (Send_Message sk m)" and run: "\<not> m_abort (m_multiblockIo s)"
    and max: "0 < e_max env" "fits_buffer sizeof_Data_MultiBlock_Header (e_max env)"
    and n: "unat n = length data" "e_max env \<le> length data" "length data < 2 ^ 32"
    and rand: "getRandId env v = Inr (rid, v0)" and bid: "bid \<noteq> 0"
    and blockers: "blockers_ok h" "bid \<notin> id_at h ` set (blocker_list h)"
    and waiting: "blockMessage_enter bid timeout q h = (e, h1)" "blockMessage_wait e h1 = Inr (w_blocker w)"
    and t: "w_heap w q = Some t" "io_ok (m_multiblockIo t)"
    and db: "databuffer_ok (e_db env') content"
    and new: "io_bytes content rid (m_multiblockIo t) = None"
  shows "\<exists>ms v1 w1 buf b2. sendResponse env p data n bid v = Inr (rid, v1)
    \<and> w_trace v1 = w_trace v @ sent_events sk ms
    \<and> socket_reads (length ms) env' q (concat ms) w = Inr ([], w1)
    \<and> map_option blocker_cv (blocker_heap (w_blocker w1) e) = Some Notified
    \<and> blockMessage_resume bid (w_blocker w1) = Inr (Some buf, b2) \<and> content buf = data
    \<and> blocker_list b2 = blocker_list h \<and> blocker_heap b2 = blocker_heap h"
proof -
  note s = session_atD [OF at]
  from sendOutgoingData_sends [OF net [rule_format] max n(1,3) s(1) sk run rand, of bid] obtain ms where
    sent: "sendOutgoingData env p data n bid v = Inr (rid, advanced p s (word_of_nat (length ms) + 1)
      (sent_events sk (ms @ [encode_Data_MultiFinish_Message (multi_finish_msg (m_sessionId s)
        (m_messageIdCounter s + word_of_nat (length ms) + 1) rid bid)])) v0)"
    and parts: "are_parts (m_sessionId s) n rid (part_count env n) (m_messageIdCounter s) 0
      (chunks (e_max env) data) ms" by blast
  let ?ms = "ms @ [encode_Data_MultiFinish_Message (multi_finish_msg (m_sessionId s)
        (m_messageIdCounter s + word_of_nat (length ms) + 1) rid bid)]"
  obtain v1 where v1: "sendResponse env p data n bid v = Inr (rid, v1)"
      "w_trace v1 = w_trace v @ sent_events sk ?ms"
    using n(1,2) sent after_getRandId(2) [OF rand]
    by (simp add: sendResponse_def session_at_ready [OF at])
  have rel: "\<exists>b. releaseMessage bid (Some buf) (w_blocker w) = Inr (True, b)
      \<and> (\<exists>b2. map_option blocker_cv (blocker_heap b e) = Some Notified
        \<and> blockMessage_resume bid b = Inr (Some buf, b2)
        \<and> blocker_list b2 = blocker_list h \<and> blocker_heap b2 = blocker_heap h)" for buf
    using waiting_request_released [OF blockers, of timeout q "Some buf"] waiting by auto
  have "data \<noteq> []" using n(2) max(1) by auto
  from read_long_response [OF db t bid parts max this n(3) new rel] obtain w1 buf b where
    "socket_reads (length ms + 1) env' q (concat ?ms) w = Inr ([], w1)" "content buf = data"
    "w_blocker w1 = b" "\<exists>b2. map_option blocker_cv (blocker_heap b e) = Some Notified
        \<and> blockMessage_resume bid b = Inr (Some buf, b2)
        \<and> blocker_list b2 = blocker_list h \<and> blocker_heap b2 = blocker_heap h" by blast
  moreover have "length ms + 1 = length ?ms" by simp
  ultimately show ?thesis using v1 by metis
qed

text \<open>
  C19: a heartbeat is answered without a word to the application, and the answer takes it off the
  sender's list of pending messages.
\<close>

theorem heartbeat_round_trip:
  assumes at: "session_at env view p s Ready w" and sk: "m_socket s = Some sk"
    and t: "w_heap v q = Some t" "m_socket t = Some tk" and same: "m_sessionId t = m_sessionId s"
  shows "\<exists>msg answer r r' w1 v1 k w2. sendHeartbeat env p w = Inr (r, w1)
    \<and> w_trace w1 = w_trace w @ [Net (Send_Message sk msg) r]
    \<and> processMessage env' q (list_ring msg) v = Inr (word_of_nat (length msg), v1)
    \<and> w_trace v1 = w_trace v @ [Net (Send_Message tk answer) r'] \<and> w_heap v1 = w_heap v
    \<and> processMessage env p (list_ring answer) w1 = Inr (k, w2)
    \<and> pending_ids (w_reply w2) = pending_ids (w_reply w)
    \<and> w_trace w2 = w_trace w1 \<and> w_heap w2 = w_heap w1"
proof -
  note s = session_atD [OF at]
  let ?mid = "m_messageIdCounter s + 1"
  let ?m = "heartbeat_start_msg (m_sessionId s) ?mid" and ?a = "heartbeat_reply_msg (m_sessionId s) ?mid"
  let ?msg = "encode_Heartbeat_Start_Message ?m" and ?answer = "encode_Heartbeat_Reply_Message ?a"
  let ?sent = "delivered env p sk (hbs_commonHeader ?m) ?msg (counted p s w)"
  have sent: "sendHeartbeat env p w = Inr ?sent"
    using send_Heartbeat_Start_delivered [OF s(1) sk, of env] s(1) sk session_at_ready [OF at]
    by (simp add: sendHeartbeat_def)
  have "settle (hbs_commonHeader ?m) v = v" by (intro settle_no_reply) (simp add: reply_flags)
  then have v1: "processMessage env' q (list_ring ?msg) v = Inr (word_of_nat (length ?msg),
      snd (delivered env' q tk (hbr_commonHeader ?a) ?answer v))"
    using process_heartbeat_start [OF t, of env' "m_sessionId s" ?mid] same
    by (simp add: read_frame [OF heartbeat_start_frame] frame_taken [OF heartbeat_start_frame])
  have "w_reply (snd ?sent) = addMessage (types_val HEARTBEAT_TYPE) (m_sessionId s) (ucast ?mid) p (w_reply w)"
    by (simp add: expect_reply_def heartbeat_start_msg_def new_message_defs new_CommonMessageHeader_def)
  from data_reply_read(3) [OF this, of "list_ring ?answer" "[]" env p] obtain w2 k where
    "processMessage env p (list_ring ?answer) (snd ?sent) = Inr (k, w2)"
    "pending_ids (w_reply w2) = pending_ids (w_reply w)" "w_trace w2 = w_trace (snd ?sent)"
    "w_heap w2 = w_heap (snd ?sent)" using list_ring_ok [of ?answer] by auto
  with sent v1 show ?thesis
    by (intro exI [of _ ?msg] exI [of _ ?answer]) (auto simp: delivered_def [of env p sk "hbs_commonHeader ?m"])
qed

section \<open>Opening and closing a session\<close>

text \<open>
  C6: the handshake. A client that starts a session sends an init message; the server's new session
  for the connection becomes ready, tells its application once and answers; with the answer the
  client's session becomes ready, tells its application once, and startSession returns it. Both
  sessions then have the same identifiers, and each is in the map of its side under it.
\<close>

theorem handshake_makes_both_sides_ready:
  assumes client: "sm_refines (e_sm env) view" "\<not> e_ndebug env" "\<not> m_sessionMap_lock (w_handler w)"
      "length ident \<le> 64000" "\<forall>tr. e_net env tr (Init_Connection sk)" "passive_client env"
    and server: "sm_refines (e_sm env') view'" "\<not> e_ndebug env'" "\<not> m_sessionMap_lock (w_handler v)"
      "\<forall>tr. e_net env' tr (Init_Connection tk)" "passive_client env'"
      "unat (m_sessionIdCounter (w_handler v) + 1) < 0x8000"
  shows "\<exists>w1 msg r v1 v2 answer r' w2 s t.
      startSession env sk ident w = Inr (Start_Waiting (w_next w), w1)
    \<and> w_trace w1 = w_trace w @ [Net (Init_Connection sk) True, Start_Thread sk, Net (Send_Message sk msg) r]
    \<and> processConnection_Callback env' tk v = Inr v1
    \<and> processMessage env' (w_next v) (list_ring msg) v1 = Inr (word_of_nat (length msg), v2)
    \<and> w_trace v2 = w_trace v @ [Start_Thread tk, Net (Init_Connection tk) True, Start_Thread tk,
        Client (Create_Session (handler_processCreateSession (w_handler v)) (w_next v) ident),
        Net (Send_Message tk answer) r']
    \<and> processMessage env (w_next w) (list_ring answer) w1 = Inr (word_of_nat (length answer), w2)
    \<and> w_trace w2 = w_trace w1
        @ [Client (Create_Session (handler_processCreateSession (w_handler w)) (w_next w) ident)]
    \<and> startSession_resume env (w_next w) w2 = Inr (Some (w_next w), w2)
    \<and> session_at env view (w_next w) s Ready w2 \<and> session_at env' view' (w_next v) t Ready v2
    \<and> m_sessionId s = m_sessionId t \<and> m_sessionIdentifier s = ident \<and> m_sessionIdentifier t = ident
    \<and> m_sessions (w_handler v2) = std_insert (m_sessionId t) (w_next v) (m_sessions (w_handler v))
    \<and> m_sessions (w_handler w2) = std_insert (m_sessionId s) (w_next w)
        (std_erase (client_id (w_handler w)) (std_insert (client_id (w_handler w)) (w_next w)
          (m_sessions (w_handler w))))"
proof -
  let ?p = "w_next w" and ?q = "w_next v" and ?cid = "client_id (w_handler w)"
  let ?jid = "joint_id ?cid (w_handler v)"
  from startSession_starts [OF client(1-5)] obtain s0 pad r w1 where
    start: "startSession env sk ident w = Inr (Start_Waiting ?p, w1)"
    and s0: "session_at env view ?p s0 Not_Ready w1" and len: "length (ident @ pad) = 64000"
    and h1: "w_handler w1 = handler_with ?cid ?p (counted_handler (w_handler w))"
    and tr1: "w_trace w1 = w_trace w @ [Net (Init_Connection sk) True, Start_Thread sk, Net (Send_Message sk
        (encode_Session_Init_Start_Message (init_start_msg ?cid 1 ident pad))) r]" by blast
  from new_Session_disconnected [OF server(1,2), of tk v] obtain m0 v0 where
    new: "new_Session env' tk v = Inr (?q, v0)" "w_trace v0 = w_trace v" "w_handler v0 = w_handler v"
    and t0: "session_at env' view' ?q (new_session_fields m0 tk) Disconnected v0" by blast
  let ?v1 = "log_event (Start_Thread tk) v0"
  have "session_at env' view' ?q (new_session_fields m0 tk) Disconnected ?v1"
    using t0 by (simp add: session_at_def)
  from process_init_start [OF this _ server(5) _ len, of tk ?cid 1] server(3,4,6) new
  obtain m rest pad4 r' v2 where v2: "dispatch env' ?q (sis_commonHeader (init_start_msg ?cid 1 ident pad))
        (encode_Session_Init_Start_Message (init_start_msg ?cid 1 ident pad)) ?v1
      = Inr (ucast (totalMessageSize (sis_commonHeader (init_start_msg ?cid 1 ident pad))), v2)"
    "sm_phase (e_sm env') view' m Ready"
    "w_heap v2 ?q = Some ((with_callbacks (w_handler v) (new_session_fields m0 tk))\<lparr>m_statemachine := m,
        m_sessionId := ?jid, m_sessionIdentifier := ident, m_initState := 1\<rparr>)"
    "m_sessions (w_handler v2) = std_insert ?jid ?q (m_sessions (w_handler v))"
    "length (ident @ rest) = 64000" "length pad4 = 4"
    "w_trace v2 = w_trace v @ [Start_Thread tk, Net (Init_Connection tk) True, Start_Thread tk,
        Client (Create_Session (handler_processCreateSession (w_handler v)) ?q ident),
        Net (Send_Message tk (encode_Session_Init_Reply_Message
          (init_reply_msg ?cid 1 ?jid ident rest pad4))) r']" by auto
  let ?answer = "init_reply_msg ?cid 1 ?jid ident rest pad4"
  let ?w1 = "settle (sir_commonHeader ?answer) w1"
  have "session_at env view ?p s0 Not_Ready ?w1" and "\<not> m_sessionMap_lock (w_handler ?w1)"
    using s0 h1 client(3) by (simp_all add: session_at_def)
  from process_init_reply [OF this(1) client(6) this(2) v2(5,6), of ?cid 1 ?jid] h1 obtain m' w2 where
    w2: "dispatch env ?p (sir_commonHeader ?answer) (encode_Session_Init_Reply_Message ?answer) ?w1
      = Inr (ucast (totalMessageSize (sir_commonHeader ?answer)), w2)" "sm_phase (e_sm env) view m' Ready"
    "w_heap w2 ?p = Some ((with_callbacks (w_handler w1) s0)\<lparr>m_statemachine := m',
        m_sessionId := ?jid, m_sessionIdentifier := ident, m_initState := 1\<rparr>)"
    "m_sessions (w_handler w2) = std_insert ?jid ?p (std_erase ?cid (std_insert ?cid ?p (m_sessions (w_handler w))))"
    "w_trace w2 = w_trace w1 @ [Client (Create_Session (handler_processCreateSession (w_handler w)) ?p ident)]"
    by (auto simp: handler_with_def)
  let ?msg = "init_start_msg ?cid 1 ident pad"
  have conn: "processConnection_Callback env' tk v = Inr ?v1"
    using new(1) by (simp add: processConnection_Callback_def)
  have "settle (sis_commonHeader ?msg) ?v1 = ?v1" by (intro settle_no_reply) (simp add: reply_flags)
  with v2(1) read_frame [OF init_start_frame [OF len], of env' ?q ?cid 1 ?v1]
  have serve: "processMessage env' ?q (list_ring (encode_Session_Init_Start_Message ?msg)) ?v1
      = Inr (word_of_nat (length (encode_Session_Init_Start_Message ?msg)), v2)"
    by (simp add: frame_taken [OF init_start_frame [OF len]])
  from w2(1) read_frame [OF init_reply_frame [OF v2(5,6)], of env ?p ?cid 1 ?jid w1]
  have answer: "processMessage env ?p (list_ring (encode_Session_Init_Reply_Message ?answer)) w1
      = Inr (word_of_nat (length (encode_Session_Init_Reply_Message ?answer)), w2)"
    by (simp add: frame_taken [OF init_reply_frame [OF v2(5,6)]])
  have resume: "startSession_resume env ?p w2 = Inr (Some ?p, w2)"
    using w2(3) by (simp add: startSession_resume_def)
  from w2(2,3) obtain s where "session_at env view ?p s Ready w2" "m_sessionId s = ?jid"
      "m_sessionIdentifier s = ident" by (simp add: session_at_def)
  moreover from v2(2,3) obtain t where "session_at env' view' ?q t Ready v2" "m_sessionId t = ?jid"
      "m_sessionIdentifier t = ident" by (simp add: session_at_def)
  ultimately show ?thesis using start tr1 conn serve v2(4,7) answer w2(4,5) resume by metis
qed

text \<open>
  C12: closing a session without asking for a reply ends it on both sides; what happens when a reply is
  asked for is stated below. The closing side sends one message, tells its application, takes the session out of its map and closes the socket; the other side answers and
  does the same. Both sessions are disconnected afterwards and can send nothing any more.
\<close>

theorem close_ends_both_sides:
  assumes one: "session_at env view p s Ready w" "m_socket s = Some sk" "passive_client env"
      "m_processCloseSession s = Some f" "\<not> m_sessionMap_lock (w_handler w)"
    and other: "session_at env' view' q t Ready v" "m_socket t = Some tk" "passive_client env'"
      "m_processCloseSession t = Some g" "\<not> m_sessionMap_lock (w_handler v)"
  shows "\<exists>msg sent r w1 s1 v1 t1 answer r1 r2. closeSession env p False w = Inr (r, w1)
    \<and> w_trace w1 = w_trace w @ [Net (Send_Message sk msg) sent,
        Client (Close_Session f p (m_sessionIdentifier s)), Net (Close_Socket sk) r]
    \<and> m_sessions (w_handler w1) = std_erase (m_sessionId s) (m_sessions (w_handler w))
    \<and> session_at env view p s1 Disconnected w1
    \<and> processMessage env' q (list_ring msg) v = Inr (word_of_nat (length msg), v1)
    \<and> w_trace v1 = w_trace v @ [Net (Send_Message tk answer) r1,
        Client (Close_Session g q (m_sessionIdentifier t)), Net (Close_Socket tk) r2]
    \<and> m_sessions (w_handler v1) = std_erase (m_sessionId t) (std_erase 0 (m_sessions (w_handler v)))
    \<and> session_at env' view' q t1 Disconnected v1"
proof -
  obtain m w1 r where w1: "closeSession env p False w = Inr (r, w1)"
    "session_at env view p ((closing_fields s)\<lparr>m_statemachine := m\<rparr>) Disconnected w1"
    "w_trace w1 = w_trace w @ [Net (Send_Message sk (close_message env s False w))
        (e_net env (w_trace w) (Send_Message sk (close_message env s False w))),
      Client (Close_Session f p (m_sessionIdentifier s)), Net (Close_Socket sk) r]"
    "m_sessions (w_handler w1) = std_erase (m_sessionId s) (m_sessions (w_handler w))"
    using closing_without_reply [OF one] by (auto simp: session_at_def)
  have "close_message env s False w = encode_Session_Close_Start_Message (close_start_msg (m_sessionId s)
      (m_messageIdCounter s + 1) False (uninitialised env 4 w))" by (simp add: close_message_def)
  from read_close_start [OF other this] w1 show ?thesis by (simp only: length_uninitialised) blast
qed

text \<open>
  C27: closing with a reply expected ends the other side in the same way, and its answer disconnects
  the closing side; but the application of the closing side is never told, and its session stays in
  the map, because the answer names session 0.
\<close>

theorem close_with_reply_is_not_reported:
  assumes one: "session_at env view p s Ready w" "m_socket s = Some sk"
      "\<not> m_sessionMap_lock (w_handler w)"
    and other: "session_at env' view' q t Ready v" "m_socket t = Some tk" "passive_client env'"
      "m_processCloseSession t = Some g" "\<not> m_sessionMap_lock (w_handler v)"
  shows "\<exists>msg r w1 v1 t1 answer r1 r2 w2 s2 r3. closeSession env p True w = Inr (r, w1)
    \<and> w_trace w1 = w_trace w @ [Net (Send_Message sk msg) r]
    \<and> processMessage env' q (list_ring msg) v = Inr (word_of_nat (length msg), v1)
    \<and> w_trace v1 = w_trace v @ [Net (Send_Message tk answer) r1,
        Client (Close_Session g q (m_sessionIdentifier t)), Net (Close_Socket tk) r2]
    \<and> session_at env' view' q t1 Disconnected v1
    \<and> processMessage env p (list_ring answer) w1 = Inr (word_of_nat (length answer), w2)
    \<and> w_trace w2 = w_trace w1 @ [Net (Close_Socket sk) r3]
    \<and> session_at env view p s2 Disconnected w2
    \<and> m_sessions (w_handler w2) = std_erase 0 (m_sessions (w_handler w))"
proof -
  from closing_with_reply [OF one(1,2)] obtain w1 r where
    w1: "closeSession env p True w = Inr (r, w1)" "session_at env view p (closing_fields s) Ready w1"
      "w_trace w1 = w_trace w @ [Net (Send_Message sk (close_message env s True w)) r]"
      "w_handler w1 = w_handler w" by blast
  have "close_message env s True w = encode_Session_Close_Start_Message (close_start_msg (m_sessionId s)
      (m_messageIdCounter s + 1) True (uninitialised env 4 w))" by (simp add: close_message_def)
  from read_close_start [OF other this length_uninitialised] obtain m pad v1 r1 r2 where
    v1: "processMessage env' q (list_ring (close_message env s True w)) v
        = Inr (word_of_nat (length (close_message env s True w)), v1)"
      "session_at env' view' q (t\<lparr>m_statemachine := m\<rparr>) Disconnected v1" "length pad = 4"
      "w_trace v1 = w_trace v @ [Net (Send_Message tk (encode_Session_Close_Reply_Message
          (close_reply_msg (m_sessionId t) (m_messageIdCounter s + 1) pad))) r1,
        Client (Close_Session g q (m_sessionIdentifier t)), Net (Close_Socket tk) r2]" by blast
  have "m_socket (closing_fields s) = Some sk" and "\<not> m_sessionMap_lock (w_handler w1)"
    using one w1(4) by simp_all
  from read_close_reply [OF w1(2) this v1(3) refl, of "m_sessionId t" "m_messageIdCounter s + 1"]
  show ?thesis using w1 v1 by metis
qed

section \<open>Witnesses\<close>

theorem stream_data_round_trip_witness:
  "\<exists>msg v1 answer r. processMessage sample_env 1 (list_ring msg) (sample_world Ready)
      = Inr (word_of_nat (length msg), v1)
    \<and> w_trace v1 = [Client (Stream_Data 23 31 1 [1, 2, 3] 3), Net (Send_Message 5 answer) r]"
  using stream_data_round_trip [OF sample_at [of Ready] sample_facts(1), of 3 "[1, 2, 3, 4]"
      "sample_world Ready" 1 "sample_session Ready" 5 23 sample_env "[]" "[]"]
  by (simp add: sample_facts sample_fits sample_buffers del: One_nat_def) blast

theorem request_response_round_trip_witness:
  "\<exists>w1 e b w2 b2 k msg. sendRequest sample_env 1 [1, 2, 3, 4] 3 60 (sample_world Ready)
      = Inr (Some (4294967298, e), w1)
    \<and> blockMessage_wait e (w_blocker w1) = Inr b
    \<and> processMessage sample_env 1 (list_ring msg) (w1\<lparr>w_blocker := b\<rparr>) = Inr (k, w2)
    \<and> blockMessage_resume 4294967298 (w_blocker w2) = Inr (Some [9, 8, 7], b2)"
  using request_response_round_trip [OF sample_at [of Ready] sample_facts(1) _ _ _ sample_rand
      _ sample_buffers(6) _ sample_buffers(5) sample_at [of Ready] sample_facts(1,6,2) sample_buffers(5)
      _ _ _ sample_rand, of 3 "[1, 2, 3, 4]" 3 "[9, 8, 7]" 60 "[]" "[]"]
  by (simp add: sample_facts sample_fits sample_buffers del: One_nat_def) blast

theorem heartbeat_round_trip_witness:
  "\<exists>r w1 w2 k answer. sendHeartbeat sample_env 1 (sample_world Ready) = Inr (r, w1)
    \<and> processMessage sample_env 1 (list_ring answer) w1 = Inr (k, w2) \<and> pending_ids (w_reply w2) = {#}"
proof -
  have "m_sessionId (sample_session Ready) = m_sessionId (sample_session Ready)" by simp
  from heartbeat_round_trip [OF sample_at [of Ready] sample_facts(1,18,1) this, of sample_env]
  show ?thesis by (simp add: sample_facts) blast
qed

theorem handshake_makes_both_sides_ready_witness:
  "\<exists>w1 w2 msg answer v1 v2. startSession sample_env 9 [65, 66] (sample_world Ready) = Inr (Start_Waiting 2, w1)
    \<and> processConnection_Callback sample_env 11 (sample_world Ready) = Inr v1
    \<and> processMessage sample_env 2 (list_ring msg) v1 = Inr (word_of_nat (length msg), v2)
    \<and> processMessage sample_env 2 (list_ring answer) w1 = Inr (word_of_nat (length answer), w2)
    \<and> startSession_resume sample_env 2 w2 = Inr (Some 2, w2)"
proof -
  have two: "w_next (sample_world Ready) = 2" by (simp add: sample_world_def)
  have few: "unat (m_sessionIdCounter (w_handler (sample_world Ready)) + 1) < 0x8000"
    by (simp add: sample_world_def sample_handler_def)
  have len: "length ([65, 66] :: byte list) \<le> 64000" by simp
  have net: "\<forall>tr. e_net sample_env tr (Init_Connection sk)" for sk by (simp add: sample_facts)
  from handshake_makes_both_sides_ready [OF sample_sm sample_facts(14) [of Ready] len net [of 9]
      sample_facts(2) sample_sm sample_facts(14) [of Ready] net [of 11] sample_facts(2) few]
  show ?thesis unfolding two by blast
qed

theorem close_ends_both_sides_witness:
  "\<exists>w1 r msg v1. closeSession sample_env 1 False (sample_world Ready) = Inr (r, w1)
    \<and> processMessage sample_env 1 (list_ring msg) (sample_world Ready) = Inr (word_of_nat (length msg), v1)
    \<and> m_sessions (w_handler w1) = [] \<and> m_sessions (w_handler v1) = []"
  using close_ends_both_sides [OF sample_at [of Ready] sample_facts(1,2,4,14)
      sample_at [of Ready] sample_facts(1,2,4,14)]
  by (simp add: sample_facts) blast

theorem close_with_reply_is_not_reported_witness:
  "\<exists>w1 w2 r answer. closeSession sample_env 1 True (sample_world Ready) = Inr (r, w1)
    \<and> processMessage sample_env 1 (list_ring answer) w1 = Inr (word_of_nat (length answer), w2)
    \<and> m_sessions (w_handler w2) = [(7, 1)]"
  using close_with_reply_is_not_reported [OF sample_at [of Ready] sample_facts(1,14)
      sample_at [of Ready] sample_facts(1,2,4,14)]
  by (simp add: sample_facts) blast

end
